(* ===== verification/Prelude.thy ===== *)
theory Prelude
  imports Complex_Main "HOL-Library.AList" "HOL-Library.Char_ord"
begin

text \<open>
  The vocabulary of the Python 2 sources: values, dictionaries, exceptions and the built-in
  operations on strings and numbers that the modelled code calls. A Python 2 \<open>str\<close> is a
  sequence of bytes, so it is a \<^typ>\<open>string\<close> (a list of 8-bit characters). A \<open>dict\<close> is an
  association list. A function that can raise returns a \<open>res\<close>: \<open>Inl\<close> holds the exception,
  \<open>Inr\<close> the returned value.
\<close>

section \<open>Collections of facts\<close>

named_theorems res_simps \<open>rewriting of exception-passing code\<close>
named_theorems dict_simps \<open>lookups in updated dictionaries\<close>

section \<open>Values and exceptions\<close>

text \<open>
  \<open>Diverges\<close> is the value of a call that does not return, \<open>Abort\<close> that of a call that ends the
  process (\<open>os.abort\<close>, \<open>sys.exit\<close>).
\<close>

datatype pyerr = KeyError string | TypeError | ValueError | IndexError | AssertionError
  | ZeroDivisionError | Exception string | Abort | Diverges

type_synonym 'a res = "pyerr + 'a"

datatype pyval = VNone | VBool bool | VInt int | VFloat rat | VStr string
  | VList "pyval list" | VDict "(string \<times> pyval) list"

type_synonym pydict = "(string \<times> pyval) list"

definition rbind :: "'a res \<Rightarrow> ('a \<Rightarrow> 'b res) \<Rightarrow> 'b res" where
  "rbind r f = (case r of Inl e \<Rightarrow> Inl e | Inr v \<Rightarrow> f v)"

definition assert_that :: "bool \<Rightarrow> 'a res \<Rightarrow> 'a res" where
  "assert_that b r = (if b then r else Inl AssertionError)"

lemma rbind_Inr [simp]: "rbind (Inr v) f = f v"
  by (simp add: rbind_def)

lemma rbind_Inl [simp]: "rbind (Inl e) f = Inl e"
  by (simp add: rbind_def)

lemma rbind_eq_Inr [res_simps]: "rbind r f = Inr y \<longleftrightarrow> (\<exists>v. r = Inr v \<and> f v = Inr y)"
  by (auto simp: rbind_def split: sum.splits)

lemma rbind_eq_Inl [res_simps]:
  "rbind r f = Inl e \<longleftrightarrow> r = Inl e \<or> (\<exists>v. r = Inr v \<and> f v = Inl e)"
  by (auto simp: rbind_def split: sum.splits)

lemma rbind_assoc: "rbind (rbind r f) g = rbind r (\<lambda>v. rbind (f v) g)"
  by (auto simp: rbind_def split: sum.splits)

lemma rbind_cong [fundef_cong]:
  "r = r' \<Longrightarrow> (\<And>v. r' = Inr v \<Longrightarrow> f v = g v) \<Longrightarrow> rbind r f = rbind r' g"
  by (auto simp: rbind_def split: sum.splits)

lemma assert_that_simps [simp]: "assert_that True r = r" "assert_that False r = Inl AssertionError"
  by (simp_all add: assert_that_def)

lemma assert_that_eq_Inr [res_simps]: "assert_that b r = Inr y \<longleftrightarrow> b \<and> r = Inr y"
  by (simp add: assert_that_def)

lemma case_option_Inl_eq_Inr [res_simps]:
  "(case x of None \<Rightarrow> Inl e | Some y \<Rightarrow> f y) = Inr z \<longleftrightarrow> (\<exists>y. x = Some y \<and> f y = Inr z)"
  by (cases x) simp_all

lemma if_Inl_eq_Inr [res_simps]:
  "(if b then Inl e else r) = Inr y \<longleftrightarrow> \<not> b \<and> r = Inr y"
  "(if b then r else Inl e) = Inr y \<longleftrightarrow> b \<and> r = Inr y"
  by auto

lemma case_VStr_eq_Inr [res_simps]:
  "(case v of VStr s \<Rightarrow> f s | _ \<Rightarrow> Inl e) = Inr y \<longleftrightarrow> (\<exists>s. v = VStr s \<and> f s = Inr y)"
  by (cases v) simp_all

lemma case_VDict_eq_Inr [res_simps]:
  "(case v of VDict d \<Rightarrow> f d | _ \<Rightarrow> Inl e) = Inr y \<longleftrightarrow> (\<exists>d. v = VDict d \<and> f d = Inr y)"
  by (cases v) simp_all

text \<open>
  A function that may also return nothing (a lookup, or a check that rejects) yields an option:
  \<open>obind\<close> stops at the first \<open>None\<close>, \<open>require\<close> is an early \<open>return False\<close> or \<open>return None\<close>.
\<close>

definition obind :: "'a option res \<Rightarrow> ('a \<Rightarrow> 'b option res) \<Rightarrow> 'b option res" where
  "obind r f = rbind r (\<lambda>v. case v of None \<Rightarrow> Inr None | Some x \<Rightarrow> f x)"

definition require :: "bool \<Rightarrow> 'a option res \<Rightarrow> 'a option res" where
  "require b r = (if b then r else Inr None)"

lemma obind_simps [simp]:
  "obind (Inr None) f = Inr None" "obind (Inr (Some x)) f = f x" "obind (Inl e) f = Inl e"
  by (simp_all add: obind_def)

lemma require_simps [simp]: "require True r = r" "require False r = Inr None"
  by (simp_all add: require_def)

lemma obind_eq_Some [res_simps]:
  "obind r f = Inr (Some y) \<longleftrightarrow> (\<exists>x. r = Inr (Some x) \<and> f x = Inr (Some y))"
  by (auto simp: obind_def rbind_def split: sum.splits option.splits)

lemma require_eq_Some [res_simps]: "require b r = Inr (Some y) \<longleftrightarrow> b \<and> r = Inr (Some y)"
  by (simp add: require_def)

fun rfold :: "('s \<Rightarrow> 'a \<Rightarrow> 's res) \<Rightarrow> 's \<Rightarrow> 'a list \<Rightarrow> 's res" where
  "rfold f s [] = Inr s"
| "rfold f s (x # xs) = rbind (f s x) (\<lambda>s'. rfold f s' xs)"

fun rmap :: "('a \<Rightarrow> 'b res) \<Rightarrow> 'a list \<Rightarrow> 'b list res" where
  "rmap f [] = Inr []"
| "rmap f (x # xs) = rbind (f x) (\<lambda>y. rbind (rmap f xs) (\<lambda>ys. Inr (y # ys)))"

lemma rfold_append: "rfold f s (xs @ ys) = rbind (rfold f s xs) (\<lambda>s'. rfold f s' ys)"
  by (induction xs arbitrary: s) (simp_all add: rbind_assoc)

lemma rmap_length: "rmap f xs = Inr ys \<Longrightarrow> length ys = length xs"
  by (induction xs arbitrary: ys) (auto simp: res_simps)

lemma rmap_Inr_map: "(\<And>x. x \<in> set xs \<Longrightarrow> f x = Inr (g x)) \<Longrightarrow> rmap f xs = Inr (map g xs)"
  by (induction xs) auto

text \<open>
  What holds of a result if the call returns. The rules \<open>post_intros\<close> follow the structure of a
  program, and leave the intermediate results as assumptions.
\<close>

definition post :: "('a \<Rightarrow> bool) \<Rightarrow> 'a res \<Rightarrow> bool" where
  "post P r \<longleftrightarrow> (\<forall>x. r = Inr x \<longrightarrow> P x)"

lemma postD: "post P r \<Longrightarrow> r = Inr x \<Longrightarrow> P x"
  by (simp add: post_def)

lemma postI: "(\<And>x. r = Inr x \<Longrightarrow> P x) \<Longrightarrow> post P r"
  by (simp add: post_def)

lemma post_Inl [simp]: "post P (Inl e)"
  by (simp add: post_def)

lemma post_Inr [simp]: "post P (Inr x) \<longleftrightarrow> P x"
  by (simp add: post_def)

lemma post_rbind: "(\<And>v. r = Inr v \<Longrightarrow> post P (f v)) \<Longrightarrow> post P (rbind r f)"
  by (auto simp: post_def res_simps)

lemma post_assert_that: "(b \<Longrightarrow> post P r) \<Longrightarrow> post P (assert_that b r)"
  by (auto simp: post_def res_simps)

lemma post_if: "(b \<Longrightarrow> post P r) \<Longrightarrow> (\<not> b \<Longrightarrow> post P s) \<Longrightarrow> post P (if b then r else s)"
  by simp

lemma post_case_option:
  "(x = None \<Longrightarrow> post P r) \<Longrightarrow> (\<And>y. x = Some y \<Longrightarrow> post P (f y)) \<Longrightarrow> post P (case x of None \<Rightarrow> r | Some y \<Rightarrow> f y)"
  by (cases x) simp_all

lemma post_case_prod: "(\<And>a b. x = (a, b) \<Longrightarrow> post P (f a b)) \<Longrightarrow> post P (case x of (a, b) \<Rightarrow> f a b)"
  by (cases x) simp

lemma post_rfold:
  assumes "P s" and "\<And>s x s'. P s \<Longrightarrow> x \<in> set xs \<Longrightarrow> f s x = Inr s' \<Longrightarrow> P s'"
  shows "post P (rfold f s xs)"
  using assms
proof (induction xs arbitrary: s)
  case (Cons x xs)
  have "post P (rfold f s' xs)" if "f s x = Inr s'" for s'
    by (rule Cons.IH) (use Cons.prems that in \<open>auto\<close>)
  then show ?case
    by (simp add: post_rbind)
qed simp

lemmas post_intros = post_Inl post_rbind post_assert_that post_if post_case_option post_case_prod

section \<open>Truth, equality and order of values\<close>

fun truth :: "pyval \<Rightarrow> bool" where
  "truth VNone = False"
| "truth (VBool b) = b"
| "truth (VInt i) = (i \<noteq> 0)"
| "truth (VFloat r) = (r \<noteq> 0)"
| "truth (VStr s) = (s \<noteq> [])"
| "truth (VList l) = (l \<noteq> [])"
| "truth (VDict d) = (d \<noteq> [])"

fun num_of :: "pyval \<Rightarrow> rat option" where
  "num_of (VBool b) = Some (if b then 1 else 0)"
| "num_of (VInt i) = Some (of_int i)"
| "num_of (VFloat r) = Some r"
| "num_of _ = None"

text \<open>\<open>==\<close>: numbers (booleans included) by value, everything else by structure.\<close>

definition py_eq :: "pyval \<Rightarrow> pyval \<Rightarrow> bool" where
  "py_eq a b = (case (num_of a, num_of b) of (Some x, Some y) \<Rightarrow> x = y | _ \<Rightarrow> a = b)"

text \<open>
  \<open><\<close> of Python 2: \<open>None\<close> is below every number, a number is below every value of another type,
  and values of distinct types are ordered by the name of the type (\<open>dict\<close>, \<open>list\<close>, \<open>str\<close>).
  It never raises. Two strings compare by their bytes. The modelled code compares no two lists
  and no two dictionaries.
\<close>

fun type_rank :: "pyval \<Rightarrow> nat" where
  "type_rank VNone = 0"
| "type_rank (VBool b) = 1"
| "type_rank (VInt i) = 1"
| "type_rank (VFloat r) = 1"
| "type_rank (VDict d) = 2"
| "type_rank (VList l) = 3"
| "type_rank (VStr s) = 4"

fun str_lt :: "string \<Rightarrow> string \<Rightarrow> bool" where
  "str_lt _ [] = False"
| "str_lt [] (_ # _) = True"
| "str_lt (a # as) (b # bs) = (if a = b then str_lt as bs else (of_char a :: nat) < of_char b)"

definition py_lt :: "pyval \<Rightarrow> pyval \<Rightarrow> bool" where
  "py_lt a b = (case (num_of a, num_of b) of
       (Some x, Some y) \<Rightarrow> x < y
     | _ \<Rightarrow> (case (a, b) of
         (VStr s, VStr t) \<Rightarrow> str_lt s t
       | _ \<Rightarrow> type_rank a < type_rank b))"

lemma py_eq_simps [simp]:
  "py_eq (VStr s) v \<longleftrightarrow> v = VStr s"
  "py_eq v (VStr s) \<longleftrightarrow> v = VStr s"
  "py_eq VNone v \<longleftrightarrow> v = VNone"
  "py_eq v VNone \<longleftrightarrow> v = VNone"
  "py_eq (VInt i) (VInt j) \<longleftrightarrow> i = j"
  "py_eq (VBool a) (VBool b) \<longleftrightarrow> a = b"
  by (cases v; auto simp: py_eq_def split: option.splits)+

lemma py_lt_simps [simp]:
  "py_lt (VInt i) (VInt j) \<longleftrightarrow> i < j"
  "py_lt VNone (VInt j)" "\<not> py_lt (VInt j) VNone"
  "py_lt (VStr s) (VStr t) \<longleftrightarrow> str_lt s t"
  "py_lt (VInt j) (VStr t)" "\<not> py_lt (VStr t) (VInt j)"
  "\<not> py_lt v VNone"
  by (cases v; simp add: py_lt_def split: option.splits)+

text \<open>Arithmetic on values: a value that is not a number raises \<open>TypeError\<close>.\<close>

fun py_int :: "pyval \<Rightarrow> int option" where
  "py_int (VInt i) = Some i"
| "py_int (VBool b) = Some (if b then 1 else 0)"
| "py_int _ = None"

definition py_arith :: "(int \<Rightarrow> int \<Rightarrow> int) \<Rightarrow> (rat \<Rightarrow> rat \<Rightarrow> rat) \<Rightarrow> pyval \<Rightarrow> pyval \<Rightarrow> pyval res" where
  "py_arith f g a b = (case (py_int a, py_int b) of
       (Some i, Some j) \<Rightarrow> Inr (VInt (f i j))
     | _ \<Rightarrow> (case (num_of a, num_of b) of
         (Some x, Some y) \<Rightarrow> Inr (VFloat (g x y))
       | _ \<Rightarrow> Inl TypeError))"

lemma py_arith_int [simp]: "py_arith f g (VInt i) (VInt j) = Inr (VInt (f i j))"
  by (simp add: py_arith_def)

section \<open>Dictionaries\<close>

definition has_key :: "pydict \<Rightarrow> string \<Rightarrow> bool" where
  "has_key d k = (map_of d k \<noteq> None)"

text \<open>\<open>d[k]\<close>, \<open>d.get(k, v)\<close>, \<open>d[k] = v\<close>, \<open>del d[k]\<close> and \<open>d.update(e)\<close>.\<close>

definition getitem :: "pydict \<Rightarrow> string \<Rightarrow> pyval res" where
  "getitem d k = (case map_of d k of None \<Rightarrow> Inl (KeyError k) | Some v \<Rightarrow> Inr v)"

definition dget :: "pydict \<Rightarrow> string \<Rightarrow> pyval \<Rightarrow> pyval" where
  "dget d k v = (case map_of d k of None \<Rightarrow> v | Some w \<Rightarrow> w)"

definition dset :: "pydict \<Rightarrow> string \<Rightarrow> pyval \<Rightarrow> pydict" where
  "dset d k v = AList.update k v d"

definition delitem :: "pydict \<Rightarrow> string \<Rightarrow> pydict res" where
  "delitem d k = (if has_key d k then Inr (AList.delete k d) else Inl (KeyError k))"

text \<open>A sequence of \<open>del\<close> statements.\<close>

fun delitems :: "pydict \<Rightarrow> string list \<Rightarrow> pydict res" where
  "delitems d [] = Inr d"
| "delitems d (k # ks) = rbind (delitem d k) (\<lambda>d. delitems d ks)"

definition dupdate :: "pydict \<Rightarrow> pydict \<Rightarrow> pydict" where
  "dupdate d e = foldl (\<lambda>acc kv. dset acc (fst kv) (snd kv)) d e"

definition dkeys :: "pydict \<Rightarrow> string list" where
  "dkeys d = map fst d"

lemma map_of_dset [simp, dict_simps]: "map_of (dset d k v) = (map_of d)(k \<mapsto> v)"
  by (simp add: dset_def update_conv')

lemma getitem_dset [simp]:
  "getitem (dset d k v) k' = (if k' = k then Inr v else getitem d k')"
  by (simp add: getitem_def)

lemma dget_dset [simp]: "dget (dset d k v) k' w = (if k' = k then v else dget d k' w)"
  by (simp add: dget_def)

lemma has_key_dset [simp]: "has_key (dset d k v) k' \<longleftrightarrow> k' = k \<or> has_key d k'"
  by (simp add: has_key_def)

lemma getitem_eq_Inr [dict_simps]: "getitem d k = Inr v \<longleftrightarrow> map_of d k = Some v"
  by (simp add: getitem_def split: option.splits)

lemma has_key_iff [dict_simps]: "has_key d k \<longleftrightarrow> (\<exists>v. map_of d k = Some v)"
  by (simp add: has_key_def)

lemma dset_distinct: "distinct (map fst d) \<Longrightarrow> distinct (map fst (dset d k v))"
  by (simp add: dset_def distinct_update)

lemma delitem_map_of: "delitem d k = Inr d' \<Longrightarrow> map_of d' = (map_of d)(k := None)"
  by (auto simp: delitem_def delete_conv' split: if_splits)

lemma map_of_delitems: "delitems d ks = Inr d' \<Longrightarrow> map_of d' = (\<lambda>k. if k \<in> set ks then None else map_of d k)"
  by (induction ks arbitrary: d) (auto simp: res_simps fun_eq_iff dest!: delitem_map_of)

lemma map_of_dupdate:
  "distinct (map fst e) \<Longrightarrow> map_of (dupdate d e) = map_of d ++ map_of e"
proof (induction e arbitrary: d)
  case (Cons kv e)
  have "dupdate d (kv # e) = dupdate (dset d (fst kv) (snd kv)) e"
    by (simp add: dupdate_def)
  moreover have "map_of e (fst kv) = None"
    using Cons.prems by (simp add: map_of_eq_None_iff)
  ultimately show ?case
    using Cons.IH [of "dset d (fst kv) (snd kv)"] Cons.prems
    by (auto simp: fun_eq_iff map_add_def split: option.splits)
qed (simp add: dupdate_def)

text \<open>
  The interface of a key-value store, as the clients of a dictionary use it: what a lookup
  returns after an assignment. \<open>assign_all\<close> is the loop that assigns a list of fields in turn.
\<close>

locale kv_store =
  fixes lookup :: "'d \<Rightarrow> 'k \<Rightarrow> 'v option"
    and assign :: "'d \<Rightarrow> 'k \<Rightarrow> 'v \<Rightarrow> 'd"
  assumes lookup_assign: "lookup (assign d k v) k' = (if k' = k then Some v else lookup d k')"
begin

lemma lookup_assign_list:
  "lookup (foldl (\<lambda>acc k. assign acc k (g k)) d ks) k' = (if k' \<in> set ks then Some (g k') else lookup d k')"
  by (induction ks arbitrary: d) (simp_all add: lookup_assign)

lemma lookup_assign_twice:
  "lookup (assign (assign d k v) k w) k' = lookup (assign d k w) k'"
  by (simp add: lookup_assign)

lemma lookup_assign_swap:
  "k \<noteq> l \<Longrightarrow> lookup (assign (assign d k v) l w) k' = lookup (assign (assign d l w) k v) k'"
  by (simp add: lookup_assign)

end

interpretation dict: kv_store "map_of :: pydict \<Rightarrow> string \<Rightarrow> pyval option" dset
  by unfold_locales simp

end
