(* ===== verification/PyString.thy ===== *)
theory PyString
  imports Prelude
begin

text \<open>
  The string library of Python 2 as far as the sources use it: \<open>hexlify\<close> and \<open>unhexlify\<close>,
  \<open>lower\<close> and \<open>upper\<close>, \<open>index\<close>, \<open>split\<close>, \<open>int(s, base)\<close> and \<open>str(n)\<close>; and the generic facts
  on positional numerals that the base-40, base-32 and base-16 codecs share.
\<close>

section \<open>Positional numerals\<close>

text \<open>\<open>horner b ds\<close> is the value of the digit list \<open>ds\<close>, most significant digit first.\<close>

definition horner :: "nat \<Rightarrow> nat list \<Rightarrow> nat" where
  "horner b ds = foldl (\<lambda>acc d. acc * b + d) 0 ds"

function digits_of :: "nat \<Rightarrow> nat \<Rightarrow> nat list" where
  "digits_of b n = (if n = 0 \<or> b < 2 then [] else digits_of b (n div b) @ [n mod b])"
  by pat_completeness auto
termination by (relation "measure snd") auto

declare digits_of.simps [simp del]

lemma horner_Nil [simp]: "horner b [] = 0"
  by (simp add: horner_def)

lemma horner_snoc [simp]: "horner b (ds @ [d]) = horner b ds * b + d"
  by (simp add: horner_def)

lemma horner_append: "horner b (xs @ ys) = horner b xs * b ^ length ys + horner b ys"
proof (induction ys rule: rev_induct)
  case (snoc y ys)
  then show ?case
    by (simp only: append.assoc [symmetric] horner_snoc length_append_singleton power_Suc)
      (simp add: algebra_simps)
qed simp

lemma horner_Cons: "horner b (d # ds) = d * b ^ length ds + horner b ds"
  using horner_append [of b "[d]" ds] horner_snoc [of b "[]" d] by simp

lemma horner_replicate_0 [simp]: "horner b (replicate n 0 @ ds) = horner b ds"
  by (induction n) (simp_all add: horner_Cons)

lemma horner_less: "(\<forall>d \<in> set ds. d < b) \<Longrightarrow> horner b ds < b ^ length ds"
proof (induction ds rule: rev_induct)
  case (snoc d ds)
  then have d: "d < b" and le: "horner b ds < b ^ length ds"
    by auto
  have "horner b ds * b + d < (horner b ds + 1) * b"
    using d by simp
  also have "\<dots> \<le> b ^ length ds * b"
    using le by (intro mult_le_mono1) simp
  finally show ?case
    by (simp add: mult.commute)
qed simp

lemma digits_of_0 [simp]: "digits_of b 0 = []"
  by (simp add: digits_of.simps)

lemma digits_of_step: "2 \<le> b \<Longrightarrow> 0 < n \<Longrightarrow> digits_of b n = digits_of b (n div b) @ [n mod b]"
  by (simp add: digits_of.simps)

lemma digits_of_bound: "d \<in> set (digits_of b n) \<Longrightarrow> d < b"
proof (induction b n rule: digits_of.induct)
  case (1 b n)
  then show ?case
    by (cases "n = 0 \<or> b < 2") (auto simp: digits_of.simps [of b n])
qed

lemma horner_digits_of: "2 \<le> b \<Longrightarrow> horner b (digits_of b n) = n"
proof (induction b n rule: digits_of.induct)
  case (1 b n)
  then show ?case
    by (cases "n = 0") (simp_all add: digits_of_step)
qed

lemma horner_dropWhile [simp]: "horner b (dropWhile (\<lambda>d. d = 0) ds) = horner b ds"
  by (induction ds) (simp_all add: horner_Cons)

lemma horner_eq_0: "0 < b \<Longrightarrow> horner b ds = 0 \<longleftrightarrow> (\<forall>d \<in> set ds. d = 0)"
  by (induction ds) (auto simp: horner_Cons)

lemma dropWhile_snoc_0:
  "d \<noteq> 0 \<or> (\<exists>x \<in> set ds. x \<noteq> 0) \<Longrightarrow>
    dropWhile (\<lambda>d. d = (0::nat)) (ds @ [d]) = dropWhile (\<lambda>d. d = 0) ds @ [d]"
  by (induction ds) auto

lemma digits_of_horner:
  assumes "2 \<le> b"
  shows "(\<forall>d \<in> set ds. d < b) \<Longrightarrow> digits_of b (horner b ds) = dropWhile (\<lambda>d. d = 0) ds"
proof (induction ds rule: rev_induct)
  case (snoc d ds)
  then have IH: "digits_of b (horner b ds) = dropWhile (\<lambda>d. d = 0) ds" and d: "d < b"
    by auto
  show ?case
  proof (cases "horner b (ds @ [d]) = 0")
    case True
    with assms have "\<forall>x \<in> set (ds @ [d]). x = 0"
      using horner_eq_0 [of b "ds @ [d]"] by simp
    then have "dropWhile (\<lambda>d. d = 0) (ds @ [d]) = []"
      by (simp only: dropWhile_eq_Nil_conv)
    with True show ?thesis
      by (simp only: digits_of_0)
  next
    case False
    with assms have "d \<noteq> 0 \<or> (\<exists>x \<in> set ds. x \<noteq> 0)"
      using horner_eq_0 [of b "ds @ [d]"] by auto
    then have "dropWhile (\<lambda>d. d = 0) (ds @ [d]) = dropWhile (\<lambda>d. d = 0) ds @ [d]"
      by (rule dropWhile_snoc_0)
    moreover have "digits_of b (horner b ds * b + d) = digits_of b (horner b ds) @ [d]"
      using False assms d by (simp add: digits_of_step)
    ultimately show ?thesis
      using IH by simp
  qed
qed simp

lemma digits_of_head:
  assumes "2 \<le> b" and "0 < n"
  shows "digits_of b n \<noteq> [] \<and> hd (digits_of b n) \<noteq> 0"
proof -
  have "dropWhile (\<lambda>d. d = 0) (digits_of b n) = digits_of b n"
    using digits_of_horner [OF assms(1), of "digits_of b n"] digits_of_bound [of _ b n]
    by (metis horner_digits_of [OF assms(1)])
  moreover have "digits_of b n \<noteq> []"
    using assms by (simp add: digits_of_step)
  ultimately show ?thesis
    by (metis (full_types) hd_dropWhile)
qed

section \<open>Hexadecimal strings\<close>

definition HEX_LOWER :: string where
  "HEX_LOWER = ''0123456789abcdef''"

definition hexdig :: "nat \<Rightarrow> char" where
  "hexdig n = HEX_LOWER ! n"

definition hexval :: "char \<Rightarrow> nat option" where
  "hexval c = (let n = of_char c in
     if 48 \<le> n \<and> n \<le> 57 then Some (n - 48)
     else if 97 \<le> n \<and> n \<le> 102 then Some (n - 87)
     else if 65 \<le> n \<and> n \<le> 70 then Some (n - 55)
     else None)"

definition hexlify :: "string \<Rightarrow> string" where
  "hexlify s = concat (map (\<lambda>c. [hexdig (of_char c div 16), hexdig (of_char c mod 16)]) s)"

fun unhexlify :: "string \<Rightarrow> string res" where
  "unhexlify [] = Inr []"
| "unhexlify [c] = Inl TypeError"
| "unhexlify (c # d # s) = (case (hexval c, hexval d) of
     (Some h, Some l) \<Rightarrow> rbind (unhexlify s) (\<lambda>r. Inr (char_of (h * 16 + l) # r))
   | _ \<Rightarrow> Inl TypeError)"

lemma length_hexlify [simp]: "length (hexlify s) = 2 * length s"
  by (induction s) (auto simp: hexlify_def)

lemma hexlify_Nil [simp]: "hexlify [] = []"
  by (simp add: hexlify_def)

lemma hexlify_eq_Nil [simp]: "hexlify s = [] \<longleftrightarrow> s = []"
  by (cases s) (simp_all add: hexlify_def)

lemma hexlify_Cons:
  "hexlify (c # s) = hexdig (of_char c div 16) # hexdig (of_char c mod 16) # hexlify s"
  by (simp add: hexlify_def)

lemma hexlify_append: "hexlify (s @ t) = hexlify s @ hexlify t"
  by (simp add: hexlify_def)

lemma hexval_hexdig [simp]: "n < 16 \<Longrightarrow> hexval (hexdig n) = Some n"
proof -
  have "\<forall>n \<in> set [0..<16]. hexval (hexdig n) = Some n"
    by code_simp
  then show "n < 16 \<Longrightarrow> hexval (hexdig n) = Some n"
    by simp
qed

lemma of_char_less [simp]: "(of_char c :: nat) < 256"
  using mod_less_divisor [of 256 "of_char c :: nat"] by (simp only: of_char_mod_256)

lemma hexval_less: "hexval c = Some n \<Longrightarrow> n < 16"
  by (auto simp: hexval_def Let_def split: if_splits)

lemma unhexlify_hexlify [simp]: "unhexlify (hexlify s) = Inr s"
proof (induction s)
  case (Cons c s)
  have "(of_char c :: nat) div 16 < 16"
    using of_char_less [of c] by linarith
  moreover have "(of_char c :: nat) div 16 * 16 + of_char c mod 16 = of_char c"
    by simp
  ultimately show ?case
    using Cons by (simp add: hexlify_Cons)
qed simp

lemma hexlify_inject [simp]: "hexlify s = hexlify t \<longleftrightarrow> s = t"
  by (metis Inr_inject unhexlify_hexlify)

lemma unhexlify_length: "unhexlify s = Inr t \<Longrightarrow> length s = 2 * length t"
  by (induction s arbitrary: t rule: unhexlify.induct) (auto simp: res_simps split: option.splits)

lemma unhexlify_append:
  "even (length s) \<Longrightarrow> unhexlify (s @ t) = rbind (unhexlify s) (\<lambda>a. rbind (unhexlify t) (\<lambda>b. Inr (a @ b)))"
proof (induction s rule: unhexlify.induct)
  case (3 c d s)
  then show ?case
    by (simp add: rbind_assoc split: option.split)
next
  case 1
  show ?case by (cases "unhexlify t") simp_all
qed simp_all

text \<open>A digit string that \<open>unhexlify\<close> accepts: its hexadecimal value is the base-256 value of the bytes.\<close>

definition hexnum :: "string \<Rightarrow> nat" where
  "hexnum s = horner 16 (map (the \<circ> hexval) s)"

definition bytenum :: "string \<Rightarrow> nat" where
  "bytenum s = horner 256 (map of_char s)"

lemma bytenum_Nil [simp]: "bytenum [] = 0"
  by (simp add: bytenum_def)

lemma bytenum_append: "bytenum (s @ t) = bytenum s * 256 ^ length t + bytenum t"
  by (simp add: bytenum_def horner_append)

lemma bytenum_less: "bytenum s < 256 ^ length s"
  using horner_less [of "map of_char s" 256] by (auto simp: bytenum_def)

lemma hexnum_hexlify: "hexnum (hexlify s) = bytenum s"
proof (induction s)
  case (Cons c s)
  have c: "(of_char c :: nat) div 16 < 16"
    using of_char_less [of c] by linarith
  have "hexnum (hexlify (c # s)) =
      (of_char c div 16) * 16 ^ (2 * length s + 1) + (of_char c mod 16) * 16 ^ (2 * length s) + bytenum s"
    using Cons c by (simp add: hexnum_def hexlify_Cons horner_Cons)
  also have "\<dots> = (of_char c div 16 * 16 + of_char c mod 16) * 16 ^ (2 * length s) + bytenum s"
    by (simp only: distrib_right power_add power_one_right mult.assoc mult.commute [of 16])
  also have "\<dots> = of_char c * 16 ^ (2 * length s) + bytenum s"
    by (simp only: div_mult_mod_eq)
  also have "\<dots> = bytenum (c # s)"
    by (simp add: bytenum_def horner_Cons power_mult)
  finally show ?case .
qed (simp add: hexnum_def)

section \<open>Searching and splitting\<close>

text \<open>\<open>s.index(c)\<close> raises \<open>ValueError\<close> when the character does not occur.\<close>

fun find_char :: "char \<Rightarrow> string \<Rightarrow> nat option" where
  "find_char c [] = None"
| "find_char c (d # s) = (if c = d then Some 0 else map_option Suc (find_char c s))"

definition str_index :: "string \<Rightarrow> char \<Rightarrow> nat res" where
  "str_index s c = (case find_char c s of None \<Rightarrow> Inl ValueError | Some i \<Rightarrow> Inr i)"

lemma find_char_Some: "find_char c s = Some i \<Longrightarrow> i < length s \<and> s ! i = c"
  by (induction s arbitrary: i) (auto split: if_splits)

lemma find_char_None: "find_char c s = None \<longleftrightarrow> c \<notin> set s"
  by (induction s) auto

lemma find_char_nth: "distinct s \<Longrightarrow> i < length s \<Longrightarrow> find_char (s ! i) s = Some i"
proof (induction s arbitrary: i)
  case (Cons d s)
  then show ?case
    by (cases i) auto
qed simp

definition tolower :: "char \<Rightarrow> char" where
  "tolower c = (if 65 \<le> (of_char c :: nat) \<and> (of_char c :: nat) \<le> 90 then char_of (of_char c + 32 :: nat) else c)"

definition str_lower :: "string \<Rightarrow> string" where
  "str_lower s = map tolower s"

definition toupper :: "char \<Rightarrow> char" where
  "toupper c = (if 97 \<le> (of_char c :: nat) \<and> (of_char c :: nat) \<le> 122 then char_of (of_char c - 32 :: nat) else c)"

definition str_upper :: "string \<Rightarrow> string" where
  "str_upper s = map toupper s"

text \<open>\<open>s.split(c)\<close> with a one-character separator: always at least one piece.\<close>

fun split_on :: "char \<Rightarrow> string \<Rightarrow> string list" where
  "split_on c [] = [[]]"
| "split_on c (d # s) = (if c = d then [] # split_on c s
     else (case split_on c s of [] \<Rightarrow> [[d]] | w # ws \<Rightarrow> (d # w) # ws))"

fun join_with :: "string \<Rightarrow> string list \<Rightarrow> string" where
  "join_with sep [] = []"
| "join_with sep [w] = w"
| "join_with sep (w # v # ws) = w @ sep @ join_with sep (v # ws)"

lemma split_on_not_Nil [simp]: "split_on c s \<noteq> []"
  by (cases s) (auto split: list.splits)

lemma join_split [simp]: "join_with [c] (split_on c s) = s"
proof (induction s)
  case (Cons d s)
  obtain w ws where w: "split_on c s = w # ws"
    by (metis list.exhaust split_on_not_Nil)
  with Cons show ?case
    by (cases ws) auto
qed simp

lemma split_on_no_sep: "\<forall>w \<in> set (split_on c s). c \<notin> set w"
  by (induction s) (auto split: list.splits)

lemma split_on_none: "c \<notin> set s \<Longrightarrow> split_on c s = [s]"
  by (induction s) auto

lemma split_on_join:
  "c \<notin> set w \<Longrightarrow> split_on c (w @ c # s) = w # split_on c s"
  by (induction w) auto

lemma length_split_on: "length (split_on c s) = Suc (length (filter ((=) c) s))"
proof (induction s)
  case (Cons d s)
  then show ?case
    by (cases "split_on c s") auto
qed simp

section \<open>Regular expressions of one character class\<close>

text \<open>
  \<open>re.match('^[...]*$', s)\<close>, with \<open>+\<close> and with \<open>{n}\<close>: the \<open>$\<close> of Python also matches just
  before a final newline.
\<close>

definition match_all :: "(char \<Rightarrow> bool) \<Rightarrow> string \<Rightarrow> bool" where
  "match_all ok s = (list_all ok s \<or> (s \<noteq> [] \<and> last s = CHR ''\<newline>'' \<and> list_all ok (butlast s)))"

definition match_some :: "(char \<Rightarrow> bool) \<Rightarrow> string \<Rightarrow> bool" where
  "match_some ok s = ((s \<noteq> [] \<and> list_all ok s) \<or>
     (1 < length s \<and> last s = CHR ''\<newline>'' \<and> list_all ok (butlast s)))"

definition match_n :: "nat \<Rightarrow> (char \<Rightarrow> bool) \<Rightarrow> string \<Rightarrow> bool" where
  "match_n n ok s = ((length s = n \<and> list_all ok s) \<or>
     (length s = Suc n \<and> last s = CHR ''\<newline>'' \<and> list_all ok (butlast s)))"

lemma match_all_list_all [simp]: "list_all ok s \<Longrightarrow> match_all ok s"
  by (simp add: match_all_def)

text \<open>Indexing \<open>s[i]\<close> raises \<open>IndexError\<close> out of range.\<close>

definition str_at :: "string \<Rightarrow> nat \<Rightarrow> char res" where
  "str_at s i = (if i < length s then Inr (s ! i) else Inl IndexError)"

section \<open>Lower-case hexadecimal\<close>

lemma lower_hexdig: "d < 16 \<Longrightarrow> tolower (hexdig d) = hexdig d"
proof -
  have "\<forall>d \<in> set [0..<16]. tolower (hexdig d) = hexdig d"
    by code_simp
  then show "d < 16 \<Longrightarrow> tolower (hexdig d) = hexdig d"
    by simp
qed

lemma tolower_hexchars: "\<forall>c \<in> set ''0123456789abcdefABCDEF''. tolower c = hexdig (the (hexval c))"
  by (simp add: tolower_def hexval_def hexdig_def HEX_LOWER_def char_of_def bit_Suc_0_iff)
lemma tolower_hexval:
  assumes "hexval c = Some n"
  shows "tolower c = hexdig n"
proof -
  have chars: "map char_of ([48..<58] @ [97..<103] @ [65..<71 :: nat]) = ''0123456789abcdefABCDEF''"
    by (simp add: upt_rec char_of_def bit_Suc_0_iff)
  have "of_char c \<in> set ([48..<58] @ [97..<103] @ [65..<71 :: nat])"
    using assms unfolding hexval_def Let_def set_append set_upt by (auto split: if_splits)
  then have "char_of (of_char c :: nat) \<in> set (map char_of ([48..<58] @ [97..<103] @ [65..<71 :: nat]))"
    unfolding set_map by (rule imageI)
  then have "c \<in> set ''0123456789abcdefABCDEF''"
    unfolding chars by simp
  with tolower_hexchars assms show ?thesis
    by fastforce
qed

text \<open>The digits of a hexadecimal string, and the string of lower-case digits.\<close>

definition hexdigits :: "string \<Rightarrow> nat list" where
  "hexdigits s = map (\<lambda>c. the (hexval c)) s"

lemma hexdigits_less: "\<forall>c \<in> set s. hexval c \<noteq> None \<Longrightarrow> \<forall>d \<in> set (hexdigits s). d < 16"
  using hexval_less by (fastforce simp: hexdigits_def)

lemma lower_hexdigits: "\<forall>c \<in> set s. hexval c \<noteq> None \<Longrightarrow> str_lower s = map hexdig (hexdigits s)"
  using tolower_hexval by (fastforce simp: hexdigits_def str_lower_def)

lemma hexdigits_map_hexdig: "\<forall>d \<in> set ds. d < 16 \<Longrightarrow> hexdigits (map hexdig ds) = ds"
  by (simp add: hexdigits_def map_idI)

lemma unhexlify_digits:
  "\<forall>d \<in> set ds. d < 16 \<Longrightarrow> even (length ds) \<Longrightarrow>
    \<exists>b. unhexlify (map hexdig ds) = Inr b \<and> hexlify b = map hexdig ds \<and> bytenum b = horner 16 ds"
proof (induction ds rule: induct_list012)
  case (3 d e ds)
  then obtain b where b: "unhexlify (map hexdig ds) = Inr b" "hexlify b = map hexdig ds"
    "bytenum b = horner 16 ds"
    by auto
  have de: "d < 16" "e < 16"
    using 3 by auto
  then have small: "d * 16 + e < 256"
    by simp
  then have "of_char (char_of (d * 16 + e) :: char) = d * 16 + e"
    by simp
  moreover have "length ds = 2 * length b"
    using unhexlify_length [OF b(1)] by simp
  moreover have "(16::nat) ^ (length b * 2) = 256 ^ length b"
    by (simp add: power_mult mult.commute [of "length b"])
  ultimately show ?case
    using b de by (auto simp: hexlify_Cons bytenum_def horner_Cons algebra_simps)
qed (simp_all add: bytenum_def)

lemma length_digits_of: "2 \<le> b \<Longrightarrow> n < b ^ k \<Longrightarrow> length (digits_of b n) \<le> k"
proof (induction k arbitrary: n)
  case (Suc k)
  show ?case
  proof (cases "n = 0")
    case False
    have "n div b < b ^ k"
      using Suc.prems by (simp add: div_less_iff_less_mult mult.commute)
    with False Suc show ?thesis
      by (simp add: digits_of_step)
  qed simp
qed simp

section \<open>Decimal numerals\<close>

text \<open>\<open>str(n)\<close> and \<open>'{}'.format(n)\<close>; \<open>int(s)\<close> of an optional sign and decimal digits (surrounding
  white space is not modelled).\<close>

definition str_of_nat :: "nat \<Rightarrow> string" where
  "str_of_nat n = (if n = 0 then ''0'' else map hexdig (digits_of 10 n))"

definition str_of_int :: "int \<Rightarrow> string" where
  "str_of_int i = (if i < 0 then CHR ''-'' # str_of_nat (nat (- i)) else str_of_nat (nat i))"

definition decval :: "char \<Rightarrow> nat option" where
  "decval c = (let n = of_char c in if 48 \<le> n \<and> n \<le> 57 then Some (n - 48) else None)"

definition nat_of_str :: "string \<Rightarrow> nat option" where
  "nat_of_str s = (if s \<noteq> [] \<and> list_all (\<lambda>c. decval c \<noteq> None) s
     then Some (horner 10 (map (the \<circ> decval) s)) else None)"

definition int_of_str :: "string \<Rightarrow> int res" where
  "int_of_str s = (case s of
     c # t \<Rightarrow> (if c = CHR ''-'' then (case nat_of_str t of Some n \<Rightarrow> Inr (- int n) | None \<Rightarrow> Inl ValueError)
             else if c = CHR ''+'' then (case nat_of_str t of Some n \<Rightarrow> Inr (int n) | None \<Rightarrow> Inl ValueError)
             else (case nat_of_str s of Some n \<Rightarrow> Inr (int n) | None \<Rightarrow> Inl ValueError))
   | [] \<Rightarrow> Inl ValueError)"

lemma decval_hexdig [simp]: "d < 10 \<Longrightarrow> decval (hexdig d) = Some d"
proof -
  have "\<forall>d \<in> set [0..<10]. decval (hexdig d) = Some d"
    by code_simp
  then show "d < 10 \<Longrightarrow> decval (hexdig d) = Some d"
    by simp
qed

lemma nat_of_str_of_nat [simp]: "nat_of_str (str_of_nat n) = Some n"
proof (cases "n = 0")
  case True
  then show ?thesis
    by (simp add: nat_of_str_def str_of_nat_def decval_def horner_Cons)
next
  case False
  have b: "\<forall>d \<in> set (digits_of 10 n). d < 10"
    using digits_of_bound by blast
  have "digits_of 10 n \<noteq> []"
    using digits_of_head [of 10 n] False by simp
  moreover have "map (the \<circ> decval) (map hexdig (digits_of 10 n)) = digits_of 10 n"
    using b by (simp add: map_idI)
  moreover have "list_all (\<lambda>c. decval c \<noteq> None) (map hexdig (digits_of 10 n))"
    using b by (simp add: list_all_iff)
  ultimately show ?thesis
    using False horner_digits_of [of 10 n] by (simp only: nat_of_str_def str_of_nat_def) simp
qed

lemma str_of_nat_head: "\<exists>d s. str_of_nat n = hexdig d # s \<and> d < 10"
proof (cases "n = 0")
  case True
  then show ?thesis
    by (intro exI [of _ 0]) (simp add: str_of_nat_def hexdig_def HEX_LOWER_def)
next
  case False
  then obtain d ds where "digits_of 10 n = d # ds"
    using digits_of_head [of 10 n] by (cases "digits_of 10 n") auto
  then show ?thesis
    using False digits_of_bound [of d 10 n] by (auto simp: str_of_nat_def)
qed

lemma int_of_str_of_int [simp]: "int_of_str (str_of_int i) = Inr i"
proof -
  have "hexdig d \<noteq> CHR ''-''" "hexdig d \<noteq> CHR ''+''" if "d < 10" for d
    using decval_hexdig [OF that] by (auto simp: decval_def)
  then show ?thesis
    using str_of_nat_head [of "nat i"] nat_of_str_of_nat [of "nat i"] nat_of_str_of_nat [of "nat (- i)"]
    by (auto simp: int_of_str_def str_of_int_def simp del: nat_of_str_of_nat)
qed

lemma str_of_nat_digit: "c \<in> set (str_of_nat n) \<Longrightarrow> decval c \<noteq> None"
  using nat_of_str_of_nat [of n] by (auto simp: nat_of_str_def list_all_iff split: if_splits)

lemma str_of_int_chars:
  "CHR '','' \<notin> set (str_of_int i)" "CHR '' '' \<notin> set (str_of_int i)" "str_of_int i \<noteq> []"
proof -
  have "decval CHR '','' = None" "decval CHR '' '' = None"
    by (simp_all add: decval_def)
  then have "CHR '','' \<notin> set (str_of_nat n)" "CHR '' '' \<notin> set (str_of_nat n)" for n
    using str_of_nat_digit by blast+
  then show "CHR '','' \<notin> set (str_of_int i)" "CHR '' '' \<notin> set (str_of_int i)"
    by (simp_all add: str_of_int_def)
  obtain d s where "str_of_nat (nat i) = hexdig d # s"
    using str_of_nat_head by blast
  then show "str_of_int i \<noteq> []"
    by (simp add: str_of_int_def)
qed

end
