(* ===== verification/B40.thy ===== *)
theory B40
  imports PyString
begin

text \<open>
  The base-40 codec of names (\<open>lib/b40.py\<close>) and the name hashes built on it
  (\<open>lib/hashing.py\<close>). A name is read as a base-40 numeral, written in base 16, padded to whole
  bytes, and hashed with the script of its buyer. The hash functions and \<open>is_hex\<close> belong to the
  \<open>virtualchain\<close> package and are parameters.
\<close>

section \<open>Character sets\<close>

definition B16_CHARS :: string where
  "B16_CHARS = ''0123456789abcdef''"

definition B40_CHARS :: string where
  "B40_CHARS = ''0123456789abcdefghijklmnopqrstuvwxyz-_.+''"

section \<open>Integers and strings\<close>

text \<open>
  The loop of \<open>int_to_charset\<close> appends digits, least significant first. It ends for a character
  set of at least two characters; with a single character it does not end, with none
  \<open>divmod\<close> raises.
\<close>

function int_to_charset_loop :: "nat \<Rightarrow> string \<Rightarrow> string \<Rightarrow> string" where
  "int_to_charset_loop val charset output =
    (if val = 0 \<or> length charset < 2 then output
     else int_to_charset_loop (val div length charset) charset
            (output @ [charset ! (val mod length charset)]))"
  by pat_completeness auto
termination by (relation "measure fst") auto

declare int_to_charset_loop.simps [simp del]

definition int_to_charset :: "int \<Rightarrow> string \<Rightarrow> string res" where
  "int_to_charset val charset =
    (if val < 0 then Inl ValueError
     else if val = 0 then (case charset of [] \<Rightarrow> Inl IndexError | c # _ \<Rightarrow> Inr [c])
     else if charset = [] then Inl ZeroDivisionError
     else if length charset = 1 then Inl Diverges
     else Inr (rev (int_to_charset_loop (nat val) charset [])))"

definition charset_to_int :: "string \<Rightarrow> string \<Rightarrow> int res" where
  "charset_to_int s charset =
    rfold (\<lambda>output char. rbind (str_index charset char)
             (\<lambda>i. Inr (output * int (length charset) + int i))) 0 s"

definition change_charset :: "pyval \<Rightarrow> string \<Rightarrow> string \<Rightarrow> string res" where
  "change_charset s original_charset target_charset = (case s of
     VStr t \<Rightarrow> rbind (charset_to_int t original_charset) (\<lambda>i. int_to_charset i target_charset)
   | _ \<Rightarrow> Inl ValueError)"

definition hexpad :: "string \<Rightarrow> string" where
  "hexpad x = replicate (length x mod 2) CHR ''0'' @ x"

definition charset_to_hex :: "pyval \<Rightarrow> string \<Rightarrow> string res" where
  "charset_to_hex s original_charset =
     rbind (change_charset s original_charset B16_CHARS) (\<lambda>h. Inr (hexpad h))"

definition hex_to_charset :: "(string \<Rightarrow> bool) \<Rightarrow> string \<Rightarrow> string \<Rightarrow> string res" where
  "hex_to_charset is_hex s destination_charset =
     (if \<not> is_hex s then Inl ValueError
      else change_charset (VStr (str_lower s)) B16_CHARS destination_charset)"

definition is_b40 :: "pyval \<Rightarrow> bool" where
  "is_b40 s = (case s of VStr t \<Rightarrow> match_all (\<lambda>c. c \<in> set B40_CHARS) t | _ \<Rightarrow> False)"

definition b40_to_bin :: "pyval \<Rightarrow> string res" where
  "b40_to_bin s = (if \<not> is_b40 s then Inl ValueError
     else rbind (charset_to_hex s B40_CHARS) unhexlify)"

definition bin_to_b40 :: "(string \<Rightarrow> bool) \<Rightarrow> pyval \<Rightarrow> string res" where
  "bin_to_b40 is_hex s = (case s of
     VStr t \<Rightarrow> hex_to_charset is_hex (hexlify t) B40_CHARS | _ \<Rightarrow> Inl ValueError)"

definition b40_to_hex :: "pyval \<Rightarrow> string res" where
  "b40_to_hex s = rbind (b40_to_bin s) (\<lambda>b. Inr (hexlify b))"

section \<open>Name hashes\<close>

text \<open>
  \<open>hash_name\<close>; \<open>register_addr\<close> is \<open>None\<close> or an address string, and \<open>hex_hash160\<close> is the hash
  function of \<open>virtualchain\<close>.
\<close>

definition hash_name :: "(string \<Rightarrow> string) \<Rightarrow> pyval \<Rightarrow> string \<Rightarrow> string option \<Rightarrow> string res" where
  "hash_name hex_hash160 name script_pubkey register_addr =
    rbind (b40_to_bin name) (\<lambda>bin_name.
    rbind (unhexlify script_pubkey) (\<lambda>script.
      let name_and_pubkey = bin_name @ script;
          name_and_pubkey = (case register_addr of None \<Rightarrow> name_and_pubkey
                             | Some a \<Rightarrow> name_and_pubkey @ a)
      in Inr (hex_hash160 name_and_pubkey)))"

definition hash256_trunc128 :: "(string \<Rightarrow> string) \<Rightarrow> string \<Rightarrow> string" where
  "hash256_trunc128 bin_sha256 data = hexlify (take 16 (bin_sha256 data))"

section \<open>The codec of a character set\<close>

text \<open>
  What the conversions need of a character set: at least two characters, all distinct. The
  laws below hold for every such set; both sets of the module are instances.
\<close>

text \<open>A numeral without leading zeros; the zero itself keeps one digit.\<close>

definition canonical :: "string \<Rightarrow> string \<Rightarrow> string" where
  "canonical cs s = (let t = dropWhile (\<lambda>c. c = cs ! 0) s in if t = [] then [cs ! 0] else t)"

locale charset =
  fixes cs :: string
  assumes distinct_cs: "distinct cs"
    and two_cs: "2 \<le> length cs"
begin

lemma cs_not_Nil: "cs \<noteq> []" "0 < length cs"
  using two_cs by auto

lemma digit_bound: "c \<in> set cs \<Longrightarrow> the (find_char c cs) < length cs \<and> cs ! the (find_char c cs) = c"
  by (metis find_char_None find_char_Some option.collapse)

lemma digits_bound: "set s \<subseteq> set cs \<Longrightarrow> \<forall>d \<in> set (map (\<lambda>c. the (find_char c cs)) s). d < length cs"
  using digit_bound by auto

lemma charset_to_int_ok:
  assumes "set s \<subseteq> set cs"
  shows "charset_to_int s cs = Inr (int (horner (length cs) (map (\<lambda>c. the (find_char c cs)) s)))"
  using assms
proof (induction s rule: rev_induct)
  case Nil
  then show ?case by (simp add: charset_to_int_def)
next
  case (snoc c s)
  then obtain i where "find_char c cs = Some i"
    using find_char_None by fastforce
  with snoc show ?case
    by (simp add: charset_to_int_def rfold_append str_index_def)
qed

lemma charset_to_int_bad:
  assumes "\<not> set s \<subseteq> set cs"
  shows "charset_to_int s cs = Inl ValueError"
  using assms
proof (induction s rule: rev_induct)
  case (snoc c s)
  show ?case
  proof (cases "set s \<subseteq> set cs")
    case True
    with snoc.prems have "find_char c cs = None"
      by (simp add: find_char_None)
    with charset_to_int_ok [OF True] show ?thesis
      by (simp add: charset_to_int_def rfold_append str_index_def)
  next
    case False
    then show ?thesis
      using snoc.IH by (simp add: charset_to_int_def rfold_append)
  qed
qed simp

lemma loop_digits:
  "int_to_charset_loop n cs out = out @ rev (map ((!) cs) (digits_of (length cs) n))"
proof (induction "length cs" n arbitrary: out rule: digits_of.induct)
  case (1 n)
  then show ?case
    using two_cs
    by (subst int_to_charset_loop.simps) (cases "n = 0"; simp add: digits_of_step)
qed

lemma int_to_charset_ok:
  "int_to_charset (int n) cs = Inr (if n = 0 then [cs ! 0] else map ((!) cs) (digits_of (length cs) n))"
  using two_cs cs_not_Nil hd_conv_nth [of cs]
  by (auto simp: int_to_charset_def loop_digits split: list.split)

lemma digit_nth: "i < length cs \<Longrightarrow> the (find_char (cs ! i) cs) = i"
  using distinct_cs by (simp add: find_char_nth)

lemma int_string_int:
  "rbind (int_to_charset (int n) cs) (\<lambda>s. charset_to_int s cs) = Inr (int n)"
proof -
  define s where "s = (if n = 0 then [cs ! 0] else map ((!) cs) (digits_of (length cs) n))"
  note pos = cs_not_Nil
  have "set s \<subseteq> set cs"
    using pos digits_of_bound [of _ "length cs" n] by (auto simp: s_def)
  moreover have "map (\<lambda>c. the (find_char c cs)) s = (if n = 0 then [0] else digits_of (length cs) n)"
    using pos digits_of_bound [of _ "length cs" n] by (auto simp: s_def digit_nth intro!: map_idI)
  ultimately have "charset_to_int s cs = Inr (int n)"
    using horner_digits_of [OF two_cs, of n] horner_snoc [of "length cs" "[]" 0]
    by (simp add: charset_to_int_ok)
  then show ?thesis
    by (simp add: int_to_charset_ok s_def)
qed

lemma digit_0_iff: "c \<in> set cs \<Longrightarrow> the (find_char c cs) = 0 \<longleftrightarrow> c = cs ! 0"
  using digit_bound [of c] digit_nth [of 0] by (metis length_pos_if_in_set)

lemma digits_dropWhile:
  "set s \<subseteq> set cs \<Longrightarrow> map ((!) cs) (dropWhile (\<lambda>d. d = 0) (map (\<lambda>c. the (find_char c cs)) s))
     = dropWhile (\<lambda>c. c = cs ! 0) s"
proof (induction s)
  case (Cons c s)
  then show ?case
    by (auto simp: digit_0_iff digit_bound intro!: map_idI)
qed simp

lemma string_int_string:
  assumes "set s \<subseteq> set cs"
  shows "rbind (charset_to_int s cs) (\<lambda>i. int_to_charset i cs) = Inr (canonical cs s)"
proof -
  let ?ds = "map (\<lambda>c. the (find_char c cs)) s"
  have ds: "digits_of (length cs) (horner (length cs) ?ds) = dropWhile (\<lambda>d. d = 0) ?ds"
    by (rule digits_of_horner [OF two_cs digits_bound [OF assms]])
  have zero: "horner (length cs) ?ds = 0 \<longleftrightarrow> dropWhile (\<lambda>c. c = cs ! 0) s = []"
    using horner_eq_0 [of "length cs" ?ds] cs_not_Nil assms
    by (auto simp: dropWhile_eq_Nil_conv digit_0_iff subset_iff)
  show ?thesis
    using digits_dropWhile [OF assms] zero
    by (simp add: charset_to_int_ok [OF assms] int_to_charset_ok canonical_def Let_def ds)
qed

end

interpretation b16: charset B16_CHARS
  by unfold_locales (simp_all add: B16_CHARS_def)

interpretation b40: charset B40_CHARS
  by unfold_locales (simp_all add: B40_CHARS_def)

section \<open>Names as bytes\<close>

definition b40num :: "string \<Rightarrow> nat" where
  "b40num s = horner 40 (map (\<lambda>c. the (find_char c B40_CHARS)) s)"

lemma length_B_CHARS [simp]: "length B16_CHARS = 16" "length B40_CHARS = 40"
  by (simp_all add: B16_CHARS_def B40_CHARS_def)

lemma B16_nth: "B16_CHARS ! n = hexdig n"
  by (simp add: B16_CHARS_def hexdig_def HEX_LOWER_def)

lemma newline_not_b40: "CHR ''\<newline>'' \<notin> set B40_CHARS"
  by (simp add: B40_CHARS_def)

lemma is_b40_iff: "is_b40 (VStr s) \<longleftrightarrow> set s \<subseteq> set B40_CHARS \<or>
    (\<exists>t. s = t @ [CHR ''\<newline>''] \<and> set t \<subseteq> set B40_CHARS)"
  unfolding is_b40_def match_all_def list_all_iff
  by (cases s rule: rev_cases) auto

lemma charset_to_hex_b40:
  assumes "set s \<subseteq> set B40_CHARS"
  shows "\<exists>ds. charset_to_hex (VStr s) B40_CHARS = Inr (map hexdig ds) \<and>
    (\<forall>d \<in> set ds. d < 16) \<and> even (length ds) \<and> horner 16 ds = b40num s"
proof -
  define ds where "ds = (if b40num s = 0 then [0] else digits_of 16 (b40num s))"
  define ds' where "ds' = replicate (length ds mod 2) 0 @ ds"
  have "charset_to_hex (VStr s) B40_CHARS = Inr (hexpad (map hexdig ds))"
    using b40.charset_to_int_ok [OF assms] b16.int_to_charset_ok [of "b40num s"]
    by (simp add: charset_to_hex_def change_charset_def b40num_def ds_def B16_nth fun_eq_iff
        cong: map_cong)
  moreover have "hexpad (map hexdig ds) = map hexdig ds'"
    by (simp add: hexpad_def ds'_def hexdig_def HEX_LOWER_def)
  moreover have "\<forall>d \<in> set ds'. d < 16"
    using digits_of_bound [of _ 16 "b40num s"] by (auto simp: ds'_def ds_def)
  moreover have "even (length ds')"
    by (cases "even (length ds)") (simp_all add: ds'_def mod2_eq_if)
  moreover have "horner 16 ds' = b40num s"
    using horner_digits_of [of 16 "b40num s"] horner_Cons [of 16 0 "[]"] by (simp add: ds'_def ds_def)
  ultimately show ?thesis
    by metis
qed

lemma b40_to_bin_ok:
  assumes "set s \<subseteq> set B40_CHARS"
  shows "\<exists>b. b40_to_bin (VStr s) = Inr b \<and> bytenum b = b40num s"
  using charset_to_hex_b40 [OF assms] unhexlify_digits assms
  by (fastforce simp: b40_to_bin_def is_b40_iff)

lemma b40_to_bin_bad:
  "\<not> set s \<subseteq> set B40_CHARS \<Longrightarrow> b40_to_bin (VStr s) = Inl ValueError"
  by (simp add: b40_to_bin_def charset_to_hex_def change_charset_def b40.charset_to_int_bad)

lemma hexlify_digits: "\<exists>ds. hexlify b = map hexdig ds \<and> (\<forall>d \<in> set ds. d < 16) \<and> horner 16 ds = bytenum b"
proof -
  define ds where "ds = concat (map (\<lambda>c. [of_char c div 16, of_char c mod 16 :: nat]) b)"
  have 1: "hexlify b = map hexdig ds"
    by (simp add: ds_def hexlify_def map_concat comp_def)
  have "(of_char c :: nat) div 16 < 16" for c
    using of_char_less [of c] by linarith
  then have 2: "\<forall>d \<in> set ds. d < 16"
    by (auto simp: ds_def)
  then have "map (the \<circ> hexval) (map hexdig ds) = ds"
    by (simp add: map_idI)
  then have "horner 16 ds = bytenum b"
    using hexnum_hexlify [of b] by (simp add: hexnum_def 1)
  with 1 2 show ?thesis
    by blast
qed

lemma bin_to_b40_ok:
  assumes "is_hex (hexlify b)"
  shows "bin_to_b40 is_hex (VStr b) = int_to_charset (int (bytenum b)) B40_CHARS"
proof -
  obtain ds where ds: "hexlify b = map hexdig ds" "\<forall>d \<in> set ds. d < 16" "horner 16 ds = bytenum b"
    using hexlify_digits by blast
  have lower: "str_lower (hexlify b) = hexlify b"
    using ds(1,2) by (simp add: str_lower_def lower_hexdig)
  have sub: "set (hexlify b) \<subseteq> set B16_CHARS"
    using ds(1,2) by (auto simp: B16_nth [symmetric])
  have "map (\<lambda>c. the (find_char c B16_CHARS)) (hexlify b) = ds"
    using ds(1,2) b16.digit_nth by (auto simp: B16_nth [symmetric] intro!: map_idI)
  then show ?thesis
    using b16.charset_to_int_ok [OF sub] assms ds(3)
    by (simp add: bin_to_b40_def hex_to_charset_def change_charset_def lower)
qed

section \<open>Properties\<close>

text \<open>
  C29: Writing a base-40 name as bytes and reading the bytes back gives the name without its
  leading zeros, for every string over the base-40 alphabet. The hypothesis on \<open>is_hex\<close> is that
  it accepts the output of \<open>hexlify\<close>.
\<close>

theorem b40_bin_roundtrip:
  assumes "set s \<subseteq> set B40_CHARS" and "\<And>b. is_hex (hexlify b)"
  shows "rbind (b40_to_bin (VStr s)) (\<lambda>b. bin_to_b40 is_hex (VStr b)) = Inr (canonical B40_CHARS s)"
proof -
  obtain b where b: "b40_to_bin (VStr s) = Inr b" "bytenum b = b40num s"
    using b40_to_bin_ok [OF assms(1)] by blast
  have "bin_to_b40 is_hex (VStr b) = rbind (charset_to_int s B40_CHARS) (\<lambda>i. int_to_charset i B40_CHARS)"
    using bin_to_b40_ok [of is_hex b] assms(2) b(2) b40.charset_to_int_ok [OF assms(1)]
    by (simp add: b40num_def)
  then show ?thesis
    using b(1) b40.string_int_string [OF assms(1)] by simp
qed

theorem b40_bin_roundtrip_witness:
  "rbind (b40_to_bin (VStr ''muneeb.id'')) (\<lambda>b. bin_to_b40 (\<lambda>_. True) (VStr b)) = Inr ''muneeb.id''"
  using b40_bin_roundtrip [of "''muneeb.id''" "\<lambda>_. True"]
  by (simp add: B40_CHARS_def canonical_def)

text \<open>
  \<open>b40_to_bin\<close> returns on exactly the strings over the base-40 alphabet and raises
  \<open>ValueError\<close> on every other string, the strings with a final newline that \<open>is_b40\<close> accepts
  included.
\<close>

theorem b40_to_bin_total:
  "(\<exists>b. b40_to_bin (VStr s) = Inr b) = (set s \<subseteq> set B40_CHARS) \<and>
   (b40_to_bin (VStr s) = Inl ValueError) = (\<not> set s \<subseteq> set B40_CHARS)"
  using b40_to_bin_ok [of s] b40_to_bin_bad [of s] by (cases "set s \<subseteq> set B40_CHARS") auto

text \<open>
  The two conversions between integers and base-40 numerals are inverse on the integers: a
  non-negative integer is recovered from its numeral.
\<close>

theorem int_charset_roundtrip:
  assumes "0 \<le> v"
  shows "rbind (int_to_charset v B40_CHARS) (\<lambda>s. charset_to_int s B40_CHARS) = Inr v"
  using b40.int_string_int [of "nat v"] assms by simp

text \<open>
  C36: The hash of a name does not depend on the leading zeros of the name: a buyer who
  preorders a name has at the same time preordered every name that differs from it in leading
  zeros only.
\<close>

theorem hash_name_leading_zeros:
  "set s \<subseteq> set B40_CHARS \<Longrightarrow>
     hash_name h (VStr (replicate n CHR ''0'' @ s)) script addr = hash_name h (VStr s) script addr"
proof -
  assume s: "set s \<subseteq> set B40_CHARS"
  let ?z = "replicate n CHR ''0'' @ s"
  have z: "set ?z \<subseteq> set B40_CHARS"
    using s by (auto simp: B40_CHARS_def)
  have "charset_to_int ?z B40_CHARS = charset_to_int s B40_CHARS"
    unfolding b40.charset_to_int_ok [OF z] b40.charset_to_int_ok [OF s]
    by (simp add: B40_CHARS_def)
  then have "charset_to_hex (VStr ?z) B40_CHARS = charset_to_hex (VStr s) B40_CHARS"
    by (simp add: charset_to_hex_def change_charset_def)
  then have "b40_to_bin (VStr ?z) = b40_to_bin (VStr s)"
    using s z by (simp add: b40_to_bin_def is_b40_iff)
  then show ?thesis
    by (simp add: hash_name_def)
qed

theorem hash_name_leading_zeros_witness:
  "hash_name id (VStr ''00judecn.id'') ''76a9'' None = hash_name id (VStr ''judecn.id'') ''76a9'' None"
  using hash_name_leading_zeros [of "''judecn.id''" id 2 "''76a9''" None]
  by (simp add: B40_CHARS_def numeral_2_eq_2)

end
