(* ===== verification/Sha256.thy ===== *)
theory Sha256
  imports Prelude "HOL-Library.Word"
begin

text \<open>
  SHA-256 as \<open>hashlib.sha256\<close> of the Python standard library computes it (FIPS 180-4), on 32-bit
  words whose addition wraps around. The checksums of c32 addresses are built on it.
\<close>

unbundle bit_operations_syntax

type_synonym word32 = "32 word"

text \<open>
  The constants: the first 32 bits of the fractional parts of the cube roots of the first 64 primes
  and of the square roots of the first 8. \<open>iroot k x b r\<close> decides the low \<open>b\<close> bits of the \<open>k\<close>-th
  root of \<open>x\<close> in turn; a root of at most 311 has three bits before the point and 32 after it.
\<close>

fun iroot :: "nat \<Rightarrow> nat \<Rightarrow> nat \<Rightarrow> nat \<Rightarrow> nat" where
  "iroot k x 0 r = r"
| "iroot k x (Suc b) r = iroot k x b (if (r + 2 ^ b) ^ k \<le> x then r + 2 ^ b else r)"

definition primes_below :: "nat \<Rightarrow> nat list" where
  "primes_below m = filter (\<lambda>n. list_all (\<lambda>d. n mod d \<noteq> 0) [2..<n]) [2..<m]"

definition root_bits :: "nat \<Rightarrow> nat \<Rightarrow> word32" where
  "root_bits k p = of_nat (iroot k (p * 2 ^ (32 * k)) 35 0)"

definition sha_K :: "word32 list" where
  "sha_K = map (root_bits 3) (primes_below 312)"

definition sha_init :: "word32 list" where
  "sha_init = map (root_bits 2) [2, 3, 5, 7, 11, 13, 17, 19]"

definition rotr :: "nat \<Rightarrow> word32 \<Rightarrow> word32" where
  "rotr n w = (drop_bit n w OR push_bit (32 - n) w)"

text \<open>Bytes of a word, most significant first, and the word of four bytes.\<close>

definition word_bytes :: "word32 \<Rightarrow> string" where
  "word_bytes w = map (\<lambda>k. char_of (unat w div 256 ^ k :: nat)) [3, 2, 1, 0]"

definition bytes_word :: "string \<Rightarrow> word32" where
  "bytes_word s = of_nat (foldl (\<lambda>a c. a * 256 + of_char c) 0 s)"

text \<open>Padding: a one bit, zeros, and the length in bits as eight bytes.\<close>

definition sha_pad :: "string \<Rightarrow> string" where
  "sha_pad s = (let n = length s; z = (119 - n mod 64) mod 64 in
     s @ [char_of (128 :: nat)] @ replicate z (char_of (0 :: nat)) @
     map (\<lambda>k. char_of (8 * n div 256 ^ k :: nat)) [7, 6, 5, 4, 3, 2, 1, 0])"

fun sha_words :: "string \<Rightarrow> word32 list" where
  "sha_words (a # b # c # d # s) = bytes_word [a, b, c, d] # sha_words s"
| "sha_words _ = []"

text \<open>The message schedule, latest word first.\<close>

definition sha_next_word :: "word32 list \<Rightarrow> word32" where
  "sha_next_word ws =
    (let w2 = ws ! 1; w7 = ws ! 6; w15 = ws ! 14; w16 = ws ! 15;
         s0 = rotr 7 w15 XOR rotr 18 w15 XOR drop_bit 3 w15;
         s1 = rotr 17 w2 XOR rotr 19 w2 XOR drop_bit 10 w2
     in w16 + s0 + w7 + s1)"

definition sha_schedule :: "word32 list \<Rightarrow> word32 list" where
  "sha_schedule block = rev (((\<lambda>ws. sha_next_word ws # ws) ^^ 48) (rev block))"

fun sha_round :: "word32 list \<Rightarrow> word32 \<times> word32 \<Rightarrow> word32 list" where
  "sha_round [a, b, c, d, e, f, g, h] (k, w) =
    (let s1 = rotr 6 e XOR rotr 11 e XOR rotr 25 e;
         ch = (e AND f) XOR (NOT e AND g);
         t1 = h + s1 + ch + k + w;
         s0 = rotr 2 a XOR rotr 13 a XOR rotr 22 a;
         maj = (a AND b) XOR (a AND c) XOR (b AND c);
         t2 = s0 + maj
     in [t1 + t2, a, b, c, d + t1, e, f, g])"
| "sha_round st _ = st"

definition sha_block :: "word32 list \<Rightarrow> word32 list \<Rightarrow> word32 list" where
  "sha_block st block =
    map2 (+) st (foldl sha_round st (zip sha_K (sha_schedule block)))"

fun sha_blocks :: "nat \<Rightarrow> word32 list \<Rightarrow> word32 list \<Rightarrow> word32 list" where
  "sha_blocks 0 st ws = st"
| "sha_blocks (Suc n) st ws = sha_blocks n (sha_block st (take 16 ws)) (drop 16 ws)"

definition sha256 :: "string \<Rightarrow> string" where
  "sha256 s = (let p = sha_pad s in
     concat (map word_bytes (sha_blocks (length p div 64) sha_init (sha_words p))))"

section \<open>The digest interface\<close>

text \<open>All that the checksummed encodings need of a digest: it has 32 bytes.\<close>

locale digest32 =
  fixes digest :: "string \<Rightarrow> string"
  assumes digest_length: "length (digest s) = 32"
begin

lemma digest_take4: "length (take 4 (digest (digest s))) = 4"
  by (simp add: digest_length)

end

lemma length_sha_round [simp]: "length (sha_round st kw) = length st"
  by (cases "(st, kw)" rule: sha_round.cases) (auto simp: Let_def)

lemma length_sha_rounds [simp]: "length (foldl sha_round st kws) = length st"
  by (induction kws arbitrary: st) simp_all

lemma length_sha_blocks [simp]: "length (sha_blocks n st ws) = length st"
  by (induction n arbitrary: st ws) (simp_all add: sha_block_def)

lemma length_concat_word_bytes: "length (concat (map word_bytes ws)) = 4 * length ws"
  by (induction ws) (simp_all add: word_bytes_def)

interpretation sha256: digest32 sha256
  by unfold_locales (simp add: sha256_def Let_def length_concat_word_bytes sha_init_def)

end
