(* ===== verification/C32.thy ===== *)
theory C32
  imports PyString Sha256
begin

text \<open>
  The c32check address codec of \<open>lib/c32.py\<close>: base-32 strings with leading-zero bytes kept, the
  checksummed form with a version digit, and the translation between c32 and base58check
  addresses. The base58check codec belongs to the \<open>keylib\<close> package and is a parameter.
\<close>

section \<open>Alphabets and versions\<close>

definition C32 :: string where
  "C32 = ''0123456789ABCDEFGHJKMNPQRSTVWXYZ''"

definition HEX :: string where
  "HEX = ''0123456789abcdef''"

definition is_hexdigit :: "char \<Rightarrow> bool" where
  "is_hexdigit c = (hexval c \<noteq> None)"

definition ADDR_BITCOIN_TO_STACKS :: "(int \<times> int) list" where
  "ADDR_BITCOIN_TO_STACKS = [(0, 22), (5, 20), (111, 26), (196, 21)]"

definition ADDR_STACKS_TO_BITCOIN :: "(int \<times> int) list" where
  "ADDR_STACKS_TO_BITCOIN = [(22, 0), (20, 5), (26, 111), (21, 196)]"

definition replace_char :: "char \<Rightarrow> char \<Rightarrow> string \<Rightarrow> string" where
  "replace_char a b s = map (\<lambda>c. if c = a then b else c) s"

definition c32normalize :: "string \<Rightarrow> string" where
  "c32normalize c32input =
    replace_char CHR ''I'' CHR ''1'' (replace_char CHR ''L'' CHR ''1''
      (replace_char CHR ''O'' CHR ''0'' (str_upper c32input)))"

section \<open>Encoding\<close>

text \<open>
  The loop reads the hexadecimal digits from the last one on (the argument is the reversed
  string). \<open>carry\<close> is the number of low bits of the current digit that an earlier base-32 digit
  has used up.
\<close>

fun c32encode_loop :: "nat \<Rightarrow> string \<Rightarrow> string \<Rightarrow> string res" where
  "c32encode_loop carry [] res = Inr res"
| "c32encode_loop carry (c # cs) res =
    (if carry < 4 then
       rbind (str_index HEX c) (\<lambda>cur.
       rbind (case cs of [] \<Rightarrow> Inr 0 | n # _ \<Rightarrow> str_index HEX n) (\<lambda>next_code.
         let current_code = cur div 2 ^ carry;
             next_bits = 1 + carry;
             next_low_bits = (next_code mod 2 ^ next_bits) * 2 ^ (5 - next_bits)
         in rbind (str_at C32 (current_code + next_low_bits)) (\<lambda>cur_c32_digit.
              c32encode_loop next_bits cs (cur_c32_digit # res))))
     else c32encode_loop 0 cs res)"

definition leading_zeros :: "string \<Rightarrow> nat" where
  "leading_zeros s = length (takeWhile (\<lambda>c. c = CHR ''0'') s)"

definition c32encode :: "string \<Rightarrow> int option \<Rightarrow> string res" where
  "c32encode input_hex min_length =
    (if length input_hex = 0 then Inr []
     else if \<not> match_some is_hexdigit input_hex then Inl ValueError
     else
       let input_hex = (if length input_hex mod 2 \<noteq> 0 then CHR ''0'' # input_hex else input_hex);
           input_hex = str_lower input_hex
       in rbind (c32encode_loop 0 (rev input_hex) []) (\<lambda>res.
            let res = drop (leading_zeros res) res;
                num_leading_byte_zeros = leading_zeros input_hex div 2;
                res = replicate num_leading_byte_zeros CHR ''0'' @ res
            in case min_length of
                 None \<Rightarrow> Inr res
               | Some m \<Rightarrow> if m > 0
                   then Inr (replicate (nat (m - int (length res))) CHR ''0'' @ res)
                   else Inr res))"

section \<open>Decoding\<close>

fun c32decode_loop :: "nat \<Rightarrow> nat \<Rightarrow> string \<Rightarrow> string \<Rightarrow> (nat \<times> string) res" where
  "c32decode_loop carry carry_bits [] res = Inr (carry, res)"
| "c32decode_loop carry carry_bits (c # cs) res =
    rbind (if carry_bits = 4 then rbind (str_at HEX carry) (\<lambda>d. Inr (d # res, 0, 0))
           else Inr (res, carry_bits, carry)) (\<lambda>(res, carry_bits, carry).
    rbind (str_index C32 c) (\<lambda>code.
      let current_value = code * 2 ^ carry_bits + carry;
          carry_bits = carry_bits + 1;
          carry' = current_value div 16
      in rbind (str_at HEX (current_value mod length HEX)) (\<lambda>current_hex_digit.
           if carry' > 2 ^ carry_bits then Inl (Exception ''Panic error in decoding'')
           else c32decode_loop carry' carry_bits cs (current_hex_digit # res))))"

text \<open>Pad to whole bytes, then drop the leading zero bytes.\<close>

definition c32decode_strip :: "string \<Rightarrow> string" where
  "c32decode_strip res =
    (let res = (if length res mod 2 = 1 then CHR ''0'' # res else res);
         hex_leading_zeros = leading_zeros res
     in drop (hex_leading_zeros - hex_leading_zeros mod 2) res)"

definition c32decode :: "string \<Rightarrow> int \<Rightarrow> string res" where
  "c32decode c32input min_length =
    (if length c32input = 0 then Inr []
     else let c32input = c32normalize c32input in
       if \<not> match_all (\<lambda>c. c \<in> set C32) c32input then Inl ValueError
       else
         let num_leading_zero_bytes = leading_zeros c32input in
         rbind (c32decode_loop 0 0 (rev c32input) []) (\<lambda>(carry, res).
         rbind (str_at HEX carry) (\<lambda>last_digit.
           let hexstr = c32decode_strip (last_digit # res);
               hexstr = concat (replicate num_leading_zero_bytes ''00'') @ hexstr
           in if min_length > 0 then
                let count = min_length * 2 - int (length hexstr)
                in Inr (concat (replicate (nat (count div 2)) ''00'') @ hexstr)
              else Inr hexstr)))"

section \<open>Checksums and addresses\<close>

text \<open>\<open>'{:02x}'.format(n)\<close> of a number below 256.\<close>

definition hex2 :: "nat \<Rightarrow> string" where
  "hex2 n = [hexdig (n div 16), hexdig (n mod 16)]"

definition c32checksum :: "string \<Rightarrow> string res" where
  "c32checksum data_hex =
    rbind (unhexlify data_hex) (\<lambda>data.
      let tmphash = sha256 data; data_hash = sha256 tmphash in Inr (hexlify (take 4 data_hash)))"

definition c32checkEncode :: "int \<Rightarrow> string \<Rightarrow> string res" where
  "c32checkEncode version data =
    (if version < 0 \<or> version \<ge> int (length C32) then Inl ValueError
     else if \<not> match_all is_hexdigit data then Inl ValueError
     else
       let data = str_lower data;
           data = (if length data mod 2 \<noteq> 0 then CHR ''0'' # data else data)
       in rbind (c32checksum (hex2 (nat version) @ data)) (\<lambda>checksum_hex.
          rbind (c32encode (data @ checksum_hex) None) (\<lambda>c32str.
            Inr (C32 ! nat version # c32str))))"

definition c32checkDecode :: "string \<Rightarrow> (int \<times> string) res" where
  "c32checkDecode c32data =
    (let c32data = c32normalize c32data in
     if \<not> match_all (\<lambda>c. c \<in> set C32) c32data then Inl ValueError
     else rbind (c32decode (drop 1 c32data) 0) (\<lambda>data_hex.
       if length data_hex < 8 then Inl ValueError
       else case c32data of [] \<Rightarrow> Inl IndexError
       | version_chr # _ \<Rightarrow>
           rbind (str_index C32 version_chr) (\<lambda>version.
             let data = take (length data_hex - 8) data_hex;
                 checksum = drop (length data_hex - 8) data_hex
             in rbind (c32checksum (hex2 version @ data)) (\<lambda>expected.
                  if expected \<noteq> checksum then Inl ValueError else Inr (int version, data)))))"

definition c32address :: "int \<Rightarrow> string \<Rightarrow> string res" where
  "c32address version hash160hex =
    (if \<not> match_n 40 is_hexdigit hash160hex then Inl ValueError
     else rbind (c32checkEncode version hash160hex) (\<lambda>c32string. Inr (CHR ''S'' # c32string)))"

definition c32addressDecode :: "string \<Rightarrow> (int \<times> string) res" where
  "c32addressDecode c32addr =
    (if length c32addr \<le> 5 then Inl ValueError else c32checkDecode (drop 1 c32addr))"

text \<open>
  \<open>b58check_unpack\<close> of \<open>keylib\<close> returns the version byte, the payload and the checksum;
  \<open>b58check_encode\<close> builds an address of a payload and a version.
\<close>

definition b58ToC32 :: "(string \<Rightarrow> (char \<times> string \<times> string) res) \<Rightarrow> string \<Rightarrow> int \<Rightarrow> string res" where
  "b58ToC32 b58check_unpack b58check version =
    rbind (b58check_unpack b58check) (\<lambda>(addr_version_byte, addr_bin, addr_checksum).
      let addr_version = of_char addr_version_byte :: int;
          addr_hash160 = hexlify addr_bin;
          stacks_version = (if version < 0 then
             (case map_of ADDR_BITCOIN_TO_STACKS addr_version of Some v \<Rightarrow> v | None \<Rightarrow> addr_version)
             else version)
      in c32address stacks_version addr_hash160)"

definition c32ToB58 :: "(string \<Rightarrow> int \<Rightarrow> string res) \<Rightarrow> string \<Rightarrow> int \<Rightarrow> string res" where
  "c32ToB58 b58check_encode c32string version =
    rbind (c32addressDecode c32string) (\<lambda>(addr_version, addr_hash160).
      let bitcoin_version = (if version < 0 then
             (case map_of ADDR_STACKS_TO_BITCOIN addr_version of Some v \<Rightarrow> v | None \<Rightarrow> addr_version)
             else version)
      in rbind (unhexlify addr_hash160) (\<lambda>b. b58check_encode b bitcoin_version))"

section \<open>Digits\<close>

lemma HEX_hexdig: "(!) HEX = hexdig"
  by (simp add: HEX_def hexdig_def HEX_LOWER_def fun_eq_iff)

lemma hexdig_0 [simp]: "hexdig 0 = CHR ''0''"
  by (simp add: hexdig_def HEX_LOWER_def)

lemma length_alphabets [simp]: "length C32 = 32" "length HEX = 16"
  by (simp_all add: C32_def HEX_def)

lemma distinct_alphabets: "distinct C32" "distinct HEX"
  by (simp_all add: C32_def HEX_def)

lemma index_alphabets [simp]:
  "d < 32 \<Longrightarrow> str_index C32 (C32 ! d) = Inr d"
  "d < 16 \<Longrightarrow> str_index HEX (hexdig d) = Inr d"
  "d < 32 \<Longrightarrow> str_at C32 d = Inr (C32 ! d)"
  "d < 16 \<Longrightarrow> str_at HEX d = Inr (hexdig d)"
  using find_char_nth [OF distinct_alphabets(1)] find_char_nth [OF distinct_alphabets(2)]
  by (simp_all add: str_index_def str_at_def HEX_hexdig [symmetric])

lemma digit_is_0: "d < 16 \<Longrightarrow> hexdig d = CHR ''0'' \<longleftrightarrow> d = 0" "d < 32 \<Longrightarrow> C32 ! d = CHR ''0'' \<longleftrightarrow> d = 0"
  using nth_eq_iff_index_eq [OF distinct_alphabets(1), of d 0]
    nth_eq_iff_index_eq [OF distinct_alphabets(2), of d 0]
  by (simp_all add: HEX_hexdig [symmetric]) (simp_all add: C32_def HEX_def)

lemma leading_zeros_hex: "\<forall>d \<in> set ds. d < 16 \<Longrightarrow>
    leading_zeros (map hexdig ds) = length (takeWhile (\<lambda>d. d = 0) ds)"
  by (induction ds) (auto simp: leading_zeros_def digit_is_0)

lemma leading_zeros_c32: "\<forall>d \<in> set ds. d < 32 \<Longrightarrow>
    leading_zeros (map ((!) C32) ds) = length (takeWhile (\<lambda>d. d = 0) ds)"
  by (induction ds) (auto simp: leading_zeros_def digit_is_0)

lemma drop_takeWhile: "drop (length (takeWhile P xs)) xs = dropWhile P xs"
  by (metis dropWhile_eq_drop)

text \<open>The shortest even-length hexadecimal digits of a number (none for zero).\<close>

definition even_hex :: "nat \<Rightarrow> nat list" where
  "even_hex n = (let ds = digits_of 16 n in replicate (length ds mod 2) 0 @ ds)"

lemma replicate_takeWhile_0:
  "ds = replicate (length (takeWhile (\<lambda>d. d = 0) ds)) 0 @ dropWhile (\<lambda>d. d = (0 :: nat)) ds"
  by (induction ds) auto

lemma even_digits_split:
  assumes "\<forall>d \<in> set ds. d < 16" and "even (length ds)"
  shows "ds = replicate (2 * (length (takeWhile (\<lambda>d. d = 0) ds) div 2)) 0 @ even_hex (horner 16 ds)"
proof -
  let ?z = "length (takeWhile (\<lambda>d. d = 0) ds)" and ?r = "dropWhile (\<lambda>d. d = 0) ds"
  have r: "digits_of 16 (horner 16 ds) = ?r"
    using digits_of_horner [of 16 ds] assms(1) by simp
  have "?z + length ?r = length ds"
    by (metis length_append takeWhile_dropWhile_id)
  with assms(2) have "length ?r mod 2 = ?z mod 2"
    by presburger
  moreover have "replicate ?z (0::nat) = replicate (2 * (?z div 2)) 0 @ replicate (?z mod 2) 0"
    by (simp flip: replicate_add)
  ultimately have "replicate ?z 0 @ ?r = replicate (2 * (?z div 2)) 0 @ even_hex (horner 16 ds)"
    by (simp add: even_hex_def Let_def r)
  with replicate_takeWhile_0 show ?thesis
    by (rule trans)
qed

section \<open>The loops compute base changes\<close>

lemma encode_step_value:
  assumes "c < 4" and "d < 16"
  shows "(L div 2 ^ (1 + c)) * 32 + (d div 2 ^ c + (L mod 16 mod 2 ^ (1 + c)) * 2 ^ (5 - (1 + c)))
     = (L * 16 + d) div (2::nat) ^ c" (is ?digits)
    and "d div 2 ^ c + (n mod 2 ^ (1 + c)) * 2 ^ (5 - (1 + c)) < (32::nat)" (is ?bound)
proof -
  define p q r :: nat where "p = 2 ^ c" and "q = 2 ^ (1 + c)" and "r = 2 ^ (5 - (1 + c))"
  have qr: "q * r = 32"
    using assms(1) by (simp add: q_def r_def flip: power_add power_Suc)
  have pr: "r * p = 16"
    using assms(1) by (simp add: p_def r_def flip: power_add)
  have "q dvd 2 ^ 4"
    unfolding q_def using assms(1) by (intro le_imp_power_dvd) simp
  then have low: "L mod 16 mod q = L mod q"
    by (simp add: mod_mod_cancel)
  have parts: "(L div q) * 32 + (L mod q) * r = r * L"
    by (metis div_mult_mod_eq distrib_left mult.assoc mult.commute qr)
  have "L * 16 + d = d + (r * L) * p"
    unfolding pr [symmetric] by (simp add: ac_simps)
  then have shifted: "(L * 16 + d) div p = r * L + d div p"
    using div_mult_self1 [of p d "r * L"] by (simp only: p_def) simp
  show ?digits
    unfolding p_def [symmetric] q_def [symmetric] r_def [symmetric] low shifted using parts by linarith
  have "d div p < r"
    using assms(2) pr by (intro less_mult_imp_div_less) simp
  moreover have "Suc (n mod q) * r \<le> q * r"
    using mod_less_divisor [of q n] by (intro mult_le_mono1) (simp add: q_def Suc_le_eq)
  ultimately show ?bound
    using qr unfolding p_def [symmetric] q_def [symmetric] r_def [symmetric] by simp
qed

lemma c32encode_loop_value:
  assumes "carry \<le> 4" and "\<forall>d \<in> set ds. d < 16"
  shows "\<exists>out. c32encode_loop carry (map hexdig ds) res = Inr (map ((!) C32) out @ res) \<and>
    (\<forall>d \<in> set out. d < 32) \<and> horner 32 out = horner 16 (rev ds) div 2 ^ carry"
  using assms
proof (induction ds arbitrary: carry res)
  case (Cons d ds)
  let ?L = "horner 16 (rev ds)"
  show ?case
  proof (cases "carry < 4")
    case True
    define n where "n = (case ds of [] \<Rightarrow> 0 | n # _ \<Rightarrow> n)"
    define e where "e = d div 2 ^ carry + (n mod 2 ^ (1 + carry)) * 2 ^ (5 - (1 + carry))"
    have n: "n = ?L mod 16" and nxt: "(case map hexdig ds of [] \<Rightarrow> Inr 0 | n # _ \<Rightarrow> str_index HEX n) = Inr n"
      using Cons.prems by (cases ds; simp add: n_def)+
    have e: "e < 32"
      using encode_step_value(2) [OF True] Cons.prems by (simp add: e_def)
    obtain out where out: "c32encode_loop (1 + carry) (map hexdig ds) (C32 ! e # res)
        = Inr (map ((!) C32) out @ C32 ! e # res)" "\<forall>d \<in> set out. d < 32"
      "horner 32 out = ?L div 2 ^ (1 + carry)"
      using Cons.IH [of "1 + carry" "C32 ! e # res"] True Cons.prems by auto
    have "c32encode_loop carry (map hexdig (d # ds)) res = Inr (map ((!) C32) (out @ [e]) @ res)"
      using True nxt e out(1) Cons.prems by (simp add: Let_def e_def)
    moreover have "horner 32 (out @ [e]) = horner 16 (rev (d # ds)) div 2 ^ carry"
      using out(3) encode_step_value(1) [OF True, of d ?L] Cons.prems by (simp add: e_def n)
    ultimately show ?thesis
      using out(2) e by (intro exI [of _ "out @ [e]"]) auto
  next
    case False
    with Cons.prems have c: "carry = 4"
      by simp
    obtain out where "c32encode_loop 0 (map hexdig ds) res = Inr (map ((!) C32) out @ res)"
      "\<forall>d \<in> set out. d < 32" "horner 32 out = ?L"
      using Cons.IH [of 0 res] Cons.prems by auto
    with c Cons.prems show ?thesis
      by (intro exI [of _ out]) simp
  qed
qed simp

lemma c32decode_loop_value:
  assumes "cb \<le> 4" and "carry < 2 ^ cb" and "\<forall>d \<in> set ds. d < 32"
  shows "\<exists>carry' out. c32decode_loop carry cb (map ((!) C32) ds) res = Inr (carry', map hexdig out @ res) \<and>
    carry' < 16 \<and> (\<forall>d \<in> set out. d < 16) \<and> horner 16 (carry' # out) = horner 32 (rev ds) * 2 ^ cb + carry"
  using assms
proof (induction ds arbitrary: cb carry res)
  case Nil
  have "(2::nat) ^ cb \<le> 2 ^ 4"
    using Nil.prems(1) by (intro power_increasing) simp_all
  with Nil show ?case
    by (intro exI [of _ carry] exI [of _ "[]"]) (simp add: horner_Cons)
next
  case (Cons d ds)
  let ?L = "horner 32 (rev ds)"
  define emit where "emit = (if cb = 4 then [carry] else [])"
  define b where "b = (if cb = 4 then 0 else cb)"
  define c where "c = (if cb = 4 then 0 else carry)"
  define v where "v = d * 2 ^ b + c"
  have b: "b < 4" and c: "c < 2 ^ b"
    using Cons.prems by (auto simp: b_def c_def)
  have d: "d < 32"
    using Cons.prems by simp
  have "v < (d + 1) * 2 ^ b"
    using c by (simp add: v_def)
  also have "\<dots> \<le> 32 * 2 ^ b"
    using d by (intro mult_le_mono1) simp
  finally have carry: "v div 16 < 2 ^ Suc b"
    by (simp add: div_less_iff_less_mult)
  obtain carry' out where IH:
    "c32decode_loop (v div 16) (Suc b) (map ((!) C32) ds) (hexdig (v mod 16) # map hexdig emit @ res)
      = Inr (carry', map hexdig out @ hexdig (v mod 16) # map hexdig emit @ res)"
    "carry' < 16" "\<forall>d \<in> set out. d < 16" "horner 16 (carry' # out) = ?L * 2 ^ Suc b + v div 16"
    using Cons.IH [of "Suc b" "v div 16" "hexdig (v mod 16) # map hexdig emit @ res"] b carry Cons.prems
    by auto
  have "c32decode_loop carry cb (map ((!) C32) (d # ds)) res
      = Inr (carry', map hexdig (out @ [v mod 16] @ emit) @ res)"
    using IH(1) d carry Cons.prems
    by (cases "cb = 4") (simp_all add: Let_def emit_def b_def c_def v_def not_less)
  moreover have "horner 16 (carry' # out @ [v mod 16] @ emit) = horner 32 (rev (d # ds)) * 2 ^ cb + carry"
  proof -
    have "horner 16 ((carry' # out) @ [v mod 16]) = ?L * 2 ^ Suc b * 16 + v"
      unfolding horner_snoc IH(4) by (simp add: algebra_simps)
    then have *: "horner 16 ((carry' # out) @ [v mod 16]) = (?L * 32 + d) * 2 ^ b + c"
      by (simp add: v_def algebra_simps)
    show ?thesis
      using * horner_snoc [of 16 "(carry' # out) @ [v mod 16]" carry]
      by (auto simp: emit_def b_def c_def)
  qed
  moreover have "\<forall>x \<in> set (out @ [v mod 16] @ emit). x < 16"
    using IH(3) Cons.prems by (auto simp: emit_def)
  ultimately show ?case
    using IH(2) by blast
qed

section \<open>Encoding and decoding whole strings\<close>

definition byte_zeros :: "nat list \<Rightarrow> nat" where
  "byte_zeros ds = length (takeWhile (\<lambda>d. d = 0) ds) div 2"

definition c32_digits :: "nat list \<Rightarrow> nat list" where
  "c32_digits ds = replicate (byte_zeros ds) 0 @ digits_of 32 (horner 16 ds)"

lemma c32_digits_less: "\<forall>d \<in> set (c32_digits ds). d < 32"
  using digits_of_bound [of _ 32] by (auto simp: c32_digits_def)

lemma c32_nth_0: "C32 ! 0 = CHR ''0''"
  by (simp add: C32_def)

lemma is_hexdigit_hexdig: "d < 16 \<Longrightarrow> is_hexdigit (hexdig d)"
  by (simp add: is_hexdigit_def)

lemma lower_map_hexdig: "\<forall>d \<in> set ds. d < 16 \<Longrightarrow> str_lower (map hexdig ds) = map hexdig ds"
  by (simp add: str_lower_def lower_hexdig)

lemma c32encode_digits:
  assumes "ds \<noteq> []" and "\<forall>d \<in> set ds. d < 16" and "even (length ds)"
  shows "c32encode (map hexdig ds) None = Inr (map ((!) C32) (c32_digits ds))"
proof -
  have match: "match_some is_hexdigit (map hexdig ds)"
    using assms by (simp add: match_some_def list_all_iff is_hexdigit_hexdig)
  obtain out where out: "c32encode_loop 0 (map hexdig (rev ds)) [] = Inr (map ((!) C32) out)"
    "\<forall>d \<in> set out. d < 32" "horner 32 out = horner 16 ds"
    using c32encode_loop_value [of 0 "rev ds" "[]"] assms(2) by auto
  have "digits_of 32 (horner 16 ds) = dropWhile (\<lambda>d. d = 0) out"
    using digits_of_horner [of 32 out] out(2,3) by simp
  then have "map ((!) C32) (digits_of 32 (horner 16 ds))
      = drop (leading_zeros (map ((!) C32) out)) (map ((!) C32) out)"
    by (simp add: leading_zeros_c32 [OF out(2)] drop_map drop_takeWhile)
  then show ?thesis
    using assms match out(1)
    by (simp add: c32encode_def Let_def lower_map_hexdig rev_map [symmetric] leading_zeros_hex
        c32_digits_def byte_zeros_def c32_nth_0 even_iff_mod_2_eq_zero [symmetric])
qed

lemma c32normalize_nth: "i < length s \<Longrightarrow> c32normalize s ! i = hd (c32normalize [s ! i])"
  by (simp add: c32normalize_def replace_char_def str_upper_def)

lemma c32normalize_C32: "c32normalize C32 = C32"
  by (simp add: c32normalize_def C32_def replace_char_def str_upper_def toupper_def)

lemma c32normalize_id:
  assumes "\<forall>d \<in> set ds. d < 32"
  shows "c32normalize (map ((!) C32) ds) = map ((!) C32) ds"
proof (rule nth_equalityI)
  fix i
  assume "i < length (c32normalize (map ((!) C32) ds))"
  then have i: "i < length ds"
    by (simp add: c32normalize_def replace_char_def str_upper_def)
  then have "ds ! i < 32"
    using assms by simp
  then show "c32normalize (map ((!) C32) ds) ! i = map ((!) C32) ds ! i"
    using i c32normalize_nth [of "ds ! i" C32] by (simp add: c32normalize_nth c32normalize_C32)
qed (simp add: c32normalize_def replace_char_def str_upper_def)

lemma concat_replicate_00: "concat (replicate n ''00'') = replicate (2 * n) CHR ''0''"
  by (induction n) simp_all

lemma c32decode_strip_digits:
  assumes "\<forall>d \<in> set ds. d < 16"
  shows "c32decode_strip (map hexdig ds) = map hexdig (even_hex (horner 16 ds))"
proof -
  define hs where "hs = (if length ds mod 2 = 1 then 0 # ds else ds)"
  have hs: "\<forall>d \<in> set hs. d < 16" "horner 16 hs = horner 16 ds" and even: "even (length hs)"
    using assms by (simp_all add: hs_def horner_Cons) presburger
  let ?z = "length (takeWhile (\<lambda>d. d = 0) hs)"
  have "drop (?z - ?z mod 2) hs = even_hex (horner 16 ds)"
    using arg_cong [OF even_digits_split [OF hs(1) even], of "drop (2 * (?z div 2))"]
    by (simp add: minus_mod_eq_mult_div hs(2))
  then have "drop (leading_zeros (map hexdig hs) - leading_zeros (map hexdig hs) mod 2) (map hexdig hs)
      = map hexdig (even_hex (horner 16 ds))"
    by (simp add: leading_zeros_hex [OF hs(1)] drop_map)
  moreover have "(if length (map hexdig ds) mod 2 = 1 then CHR ''0'' # map hexdig ds else map hexdig ds)
      = map hexdig hs"
    by (simp add: hs_def)
  ultimately show ?thesis
    by (simp only: c32decode_strip_def Let_def)
qed

lemma c32decode_digits:
  assumes "ds \<noteq> []" and "\<forall>d \<in> set ds. d < 32"
  shows "c32decode (map ((!) C32) ds) 0 =
    Inr (map hexdig (replicate (2 * length (takeWhile (\<lambda>d. d = 0) ds)) 0 @ even_hex (horner 32 ds)))"
proof -
  have match: "match_all (\<lambda>c. c \<in> set C32) (map ((!) C32) ds)"
    using assms(2) by (intro match_all_list_all) (simp add: list_all_iff)
  obtain carry out where out: "c32decode_loop 0 0 (map ((!) C32) (rev ds)) [] = Inr (carry, map hexdig out)"
    "carry < 16" "\<forall>d \<in> set out. d < 16" "horner 16 (carry # out) = horner 32 ds"
    using c32decode_loop_value [of 0 0 "rev ds" "[]"] assms(2) by auto
  have "c32decode_strip (hexdig carry # map hexdig out) = map hexdig (even_hex (horner 32 ds))"
    using c32decode_strip_digits [of "carry # out"] out(2-4) by simp
  then show ?thesis
    using assms match out(1,2)
    by (simp add: c32decode_def Let_def c32normalize_id rev_map leading_zeros_c32 concat_replicate_00)
qed

lemma c32decode_length:
  assumes "\<forall>d \<in> set ds. d < 32" and "c32decode (map ((!) C32) ds) 0 = Inr s"
  shows "length s \<le> 4 * length ds + 1"
proof (cases "ds = []")
  case False
  have "horner 32 ds < 32 ^ length ds"
    by (rule horner_less [OF assms(1)])
  also have "\<dots> \<le> (16::nat) ^ (2 * length ds)"
    by (simp add: power_mult power_mono)
  finally have "length (digits_of 16 (horner 32 ds)) \<le> 2 * length ds"
    by (intro length_digits_of) simp_all
  then have "length (even_hex (horner 32 ds)) \<le> 2 * length ds + 1"
    by (simp add: even_hex_def Let_def)
  moreover have "length (takeWhile (\<lambda>d. d = 0) ds) \<le> length ds"
    by (rule length_takeWhile_le)
  moreover have "length s = 2 * length (takeWhile (\<lambda>d. d = 0) ds) + length (even_hex (horner 32 ds))"
    using assms c32decode_digits [OF False assms(1)] by auto
  ultimately show ?thesis
    by linarith
qed (use assms in \<open>simp add: c32decode_def\<close>)

lemma c32_roundtrip_digits:
  assumes "ds \<noteq> []" and "\<forall>d \<in> set ds. d < 16" and "even (length ds)"
  shows "c32decode (map ((!) C32) (c32_digits ds)) 0 = Inr (map hexdig ds)"
proof -
  let ?n = "horner 16 ds"
  have zeros: "length (takeWhile (\<lambda>d. d = 0) (c32_digits ds)) = byte_zeros ds"
    using digits_of_head [of 32 ?n]
    by (cases "?n = 0"; cases "digits_of 32 ?n") (auto simp: c32_digits_def takeWhile_append takeWhile_eq_Nil_iff)
  have val: "horner 32 (c32_digits ds) = ?n"
    using horner_digits_of [of 32 ?n] by (simp add: c32_digits_def)
  have "c32_digits ds \<noteq> []"
  proof
    assume empty: "c32_digits ds = []"
    then have "?n = 0" and "byte_zeros ds = 0"
      using val by (auto simp: c32_digits_def)
    then have "takeWhile (\<lambda>d. d = 0) ds = ds"
      using horner_eq_0 [of 16 ds] by (simp add: takeWhile_eq_all_conv)
    with \<open>byte_zeros ds = 0\<close> assms(1,3) show False
      by (cases ds; cases "tl ds") (auto simp: byte_zeros_def)
  qed
  then have "c32decode (map ((!) C32) (c32_digits ds)) 0 =
      Inr (map hexdig (replicate (2 * byte_zeros ds) 0 @ even_hex ?n))"
    using c32decode_digits [of "c32_digits ds"] c32_digits_less [of ds] zeros val by simp
  moreover have "ds = replicate (2 * byte_zeros ds) 0 @ even_hex ?n"
    unfolding byte_zeros_def by (rule even_digits_split [OF assms(2,3)])
  ultimately show ?thesis
    by metis
qed

definition even_pad :: "string \<Rightarrow> string" where
  "even_pad h = (if odd (length h) then CHR ''0'' # h else h)"

lemma even_pad_digits:
  assumes "\<forall>c \<in> set h. hexval c \<noteq> None"
  shows "\<forall>c \<in> set (even_pad h). hexval c \<noteq> None" "even (length (even_pad h))"
  using assms by (auto simp: even_pad_def hexval_def)

lemma even_pad_not_Nil [simp]: "even_pad h = [] \<longleftrightarrow> h = []"
  by (cases h) (simp_all add: even_pad_def)

lemma c32encode_even_pad:
  assumes "h \<noteq> []" and "\<forall>c \<in> set h. hexval c \<noteq> None"
  shows "c32encode h None = c32encode (str_lower (even_pad h)) None"
proof -
  let ?ds = "hexdigits (even_pad h)"
  have ds: "\<forall>d \<in> set ?ds. d < 16"
    by (rule hexdigits_less [OF even_pad_digits(1) [OF assms(2)]])
  have lower: "str_lower (even_pad h) = map hexdig ?ds"
    by (rule lower_hexdigits [OF even_pad_digits(1) [OF assms(2)]])
  have "match_some is_hexdigit h" "match_some is_hexdigit (str_lower (even_pad h))"
    using assms ds by (auto simp: match_some_def list_all_iff lower is_hexdigit_hexdig is_hexdigit_def
        hexdigits_def)
  moreover have "(if length h mod 2 \<noteq> 0 then CHR ''0'' # h else h) = even_pad h"
    by (simp add: even_pad_def odd_iff_mod_2_eq_one)
  moreover have "str_lower (str_lower (even_pad h)) = str_lower (even_pad h)"
    by (simp add: lower lower_map_hexdig [OF ds])
  moreover have "length (str_lower (even_pad h)) mod 2 = 0"
    using even_pad_digits(2) [OF assms(2)] by (simp add: str_lower_def)
  moreover have "length h \<noteq> 0" "length (str_lower (even_pad h)) \<noteq> 0"
    using assms(1) by (simp_all add: str_lower_def)
  ultimately show ?thesis
    by (simp only: c32encode_def Let_def if_False simp_thms)
qed

lemma c32_encode_decode:
  assumes "h \<noteq> []" and "\<forall>c \<in> set h. hexval c \<noteq> None"
  shows "\<exists>ds. c32encode h None = Inr (map ((!) C32) ds) \<and> (\<forall>d \<in> set ds. d < 32) \<and>
    c32decode (map ((!) C32) ds) 0 = Inr (str_lower (even_pad h))"
proof -
  let ?ds = "hexdigits (even_pad h)"
  have ds: "?ds \<noteq> []" "\<forall>d \<in> set ?ds. d < 16" "even (length ?ds)"
    using assms hexdigits_less [OF even_pad_digits(1) [OF assms(2)]] even_pad_digits(2) [OF assms(2)]
    by (simp_all add: hexdigits_def)
  have "str_lower (even_pad h) = map hexdig ?ds"
    by (rule lower_hexdigits [OF even_pad_digits(1) [OF assms(2)]])
  then show ?thesis
    using c32encode_even_pad [OF assms] c32encode_digits [OF ds] c32_roundtrip_digits [OF ds]
      c32_digits_less [of ?ds] by auto
qed

section \<open>The checksummed form\<close>

lemma hexlify_lower: "\<forall>c \<in> set (hexlify b). hexval c \<noteq> None" "str_lower (hexlify b) = hexlify b"
proof -
  have "(of_char c :: nat) div 16 < 16" for c
    using of_char_less [of c] by linarith
  then show "\<forall>c \<in> set (hexlify b). hexval c \<noteq> None" "str_lower (hexlify b) = hexlify b"
    by (auto simp: hexlify_def str_lower_def lower_hexdig map_concat intro!: arg_cong [where f = concat])
qed

lemma lower_even_pad:
  assumes "\<forall>c \<in> set h. hexval c \<noteq> None"
  shows "\<forall>c \<in> set (str_lower (even_pad h)). hexval c \<noteq> None"
    "even (length (str_lower (even_pad h)))"
    "str_lower (str_lower (even_pad h)) = str_lower (even_pad h)"
    "(if length (str_lower h) mod 2 \<noteq> 0 then CHR ''0'' # str_lower h else str_lower h) = str_lower (even_pad h)"
proof -
  note pad = even_pad_digits [OF assms]
  have ds: "\<forall>d \<in> set (hexdigits (even_pad h)). d < 16"
    by (rule hexdigits_less [OF pad(1)])
  then show "\<forall>c \<in> set (str_lower (even_pad h)). hexval c \<noteq> None"
    "str_lower (str_lower (even_pad h)) = str_lower (even_pad h)"
    by (auto simp: lower_hexdigits [OF pad(1)] lower_map_hexdig)
  show "even (length (str_lower (even_pad h)))"
    using pad(2) by (simp add: str_lower_def)
  have "tolower CHR ''0'' = CHR ''0''"
    by (simp add: tolower_def)
  then show "(if length (str_lower h) mod 2 \<noteq> 0 then CHR ''0'' # str_lower h else str_lower h)
      = str_lower (even_pad h)"
    by (simp add: str_lower_def even_pad_def odd_iff_mod_2_eq_one)
qed

lemma c32checksum_ok:
  assumes "\<forall>c \<in> set h. hexval c \<noteq> None" and "str_lower h = h" and "even (length h)"
  shows "\<exists>b. c32checksum h = Inr (hexlify b) \<and> length b = 4"
proof -
  have "h = map hexdig (hexdigits h)" "\<forall>d \<in> set (hexdigits h). d < 16"
    using lower_hexdigits [OF assms(1)] assms(2) hexdigits_less [OF assms(1)] by simp_all
  then obtain b where "unhexlify h = Inr b"
    using unhexlify_digits [of "hexdigits h"] assms(3) by (metis length_map)
  then show ?thesis
    using sha256.digest_take4 [of b] by (auto simp: c32checksum_def Let_def)
qed

lemma hex2_lower:
  assumes "v < 32"
  shows "\<forall>c \<in> set (hex2 v). hexval c \<noteq> None" "str_lower (hex2 v) = hex2 v" "length (hex2 v) = 2"
proof -
  have "v div 16 < 16" using assms by simp
  then show "\<forall>c \<in> set (hex2 v). hexval c \<noteq> None" "str_lower (hex2 v) = hex2 v" "length (hex2 v) = 2"
    by (simp_all add: hex2_def str_lower_def lower_hexdig)
qed

lemma c32check_encode_decode:
  assumes "0 \<le> v" "v < 32" and "\<forall>c \<in> set h. hexval c \<noteq> None"
  shows "\<exists>ds. c32checkEncode v h = Inr (map ((!) C32) (nat v # ds)) \<and> (\<forall>d \<in> set ds. d < 32) \<and>
    c32checkDecode (map ((!) C32) (nat v # ds)) = Inr (v, str_lower (even_pad h)) \<and>
    length (str_lower (even_pad h)) + 8 \<le> 4 * length ds + 1"
proof -
  define d where "d = str_lower (even_pad h)"
  note low = lower_even_pad [OF assms(3), folded d_def]
  have nv: "nat v < 32"
    using assms by simp
  note hv = hex2_lower [OF nv]
  have vd: "\<forall>c \<in> set (hex2 (nat v) @ d). hexval c \<noteq> None" "str_lower (hex2 (nat v) @ d) = hex2 (nat v) @ d"
    "even (length (hex2 (nat v) @ d))"
    using hv low(1-3) by (auto simp: str_lower_def)
  obtain b where b: "c32checksum (hex2 (nat v) @ d) = Inr (hexlify b)" "length b = 4"
    using c32checksum_ok [OF vd] by blast
  let ?p = "d @ hexlify b"
  have p: "?p \<noteq> []" "\<forall>c \<in> set ?p. hexval c \<noteq> None" "str_lower (even_pad ?p) = ?p"
    using b(2) low(1-3) hexlify_lower [of b] by (auto simp: str_lower_def even_pad_def)
  obtain ds where ds: "c32encode ?p None = Inr (map ((!) C32) ds)" "\<forall>d \<in> set ds. d < 32"
    "c32decode (map ((!) C32) ds) 0 = Inr ?p"
    using c32_encode_decode [OF p(1,2)] p(3) by auto
  have enc: "c32checkEncode v h = Inr (map ((!) C32) (nat v # ds))"
    using assms b ds(1) low(4)
    by (simp add: c32checkEncode_def Let_def list_all_iff is_hexdigit_def)
  have "match_all (\<lambda>c. c \<in> set C32) (map ((!) C32) (nat v # ds))"
    using ds(2) nv by (intro match_all_list_all) (auto simp: list_all_iff)
  then have dec: "c32checkDecode (map ((!) C32) (nat v # ds)) = Inr (v, d)"
    using ds(2,3) nv b assms(1) c32normalize_id [of "nat v # ds"]
    by (simp add: c32checkDecode_def Let_def)
  have "length ?p \<le> 4 * length ds + 1"
    by (rule c32decode_length [OF ds(2,3)])
  then show ?thesis
    using enc ds(2) dec b(2) by (auto simp: d_def)
qed

section \<open>Properties\<close>

text \<open>
  C26: Decoding the c32 encoding of a hexadecimal string gives the string back, in lower case and
  padded to whole bytes; in particular the decoder's panic branch is never taken on the output of
  the encoder.
\<close>

theorem c32_roundtrip:
  assumes "h \<noteq> []" and "\<forall>c \<in> set h. hexval c \<noteq> None"
  shows "rbind (c32encode h None) (\<lambda>s. c32decode s 0) = Inr (str_lower (even_pad h))"
  using c32_encode_decode [OF assms] by auto

theorem c32_roundtrip_witness:
  "rbind (c32encode ''00A46'' None) (\<lambda>s. c32decode s 0) = Inr ''000a46''"
proof -
  have "\<forall>c \<in> set ''00A46''. hexval c \<noteq> None" "str_lower (even_pad ''00A46'') = ''000a46''"
    by code_simp+
  then show ?thesis
    using c32_roundtrip [of "''00A46''"] by simp
qed


text \<open>
  C27: A checksummed string decodes to the version and the data it was made of, for every version
  below 32 and every hexadecimal data; the encoder never fails on such input.
\<close>

theorem c32check_roundtrip:
  assumes "0 \<le> v" "v < 32" and "\<forall>c \<in> set h. hexval c \<noteq> None"
  shows "rbind (c32checkEncode v h) c32checkDecode = Inr (v, str_lower (even_pad h))"
  using c32check_encode_decode [OF assms] by auto

theorem c32check_roundtrip_witness:
  "rbind (c32checkEncode 22 ''A4'') c32checkDecode = Inr (22, ''a4'')"
proof -
  have "\<forall>c \<in> set ''A4''. hexval c \<noteq> None" "str_lower (even_pad ''A4'') = ''a4''"
    by code_simp+
  then show ?thesis
    using c32check_roundtrip [of 22 "''A4''"] by simp
qed

text \<open>
  C28: Translating a base58check address to c32 and back is the identity for the four address
  versions of the translation tables, provided \<open>b58check_encode\<close> rebuilds what
  \<open>b58check_unpack\<close> took apart (payload of 20 bytes).
\<close>

theorem b58_c32_roundtrip:
  assumes "b58check_unpack a = Inr (vb, payload, chk)" and "length payload = 20"
    and "of_char vb \<in> {0, 5, 111, 196 :: int}"
    and "b58check_encode payload (of_char vb) = Inr a"
  shows "rbind (b58ToC32 b58check_unpack a (-1)) (\<lambda>c. c32ToB58 b58check_encode c (-1)) = Inr a"
proof -
  define sv where "sv = (case map_of ADDR_BITCOIN_TO_STACKS (of_char vb) of Some v \<Rightarrow> v | None \<Rightarrow> of_char vb)"
  have sv: "0 \<le> sv" "sv < 32" "map_of ADDR_STACKS_TO_BITCOIN sv = Some (of_char vb)"
    using assms(3) by (auto simp: sv_def ADDR_BITCOIN_TO_STACKS_def ADDR_STACKS_TO_BITCOIN_def)
  let ?h = "hexlify payload"
  have lower: "str_lower (even_pad ?h) = ?h"
    by (simp add: even_pad_def hexlify_lower)
  obtain ds where ds: "c32checkEncode sv ?h = Inr (map ((!) C32) (nat sv # ds))"
    "c32checkDecode (map ((!) C32) (nat sv # ds)) = Inr (sv, ?h)" "length ?h + 8 \<le> 4 * length ds + 1"
    using c32check_encode_decode [OF sv(1,2) hexlify_lower(1)] lower by metis
  have "match_n 40 is_hexdigit ?h"
    using assms(2) hexlify_lower(1) [of payload] by (simp add: match_n_def list_all_iff is_hexdigit_def)
  then have "b58ToC32 b58check_unpack a (-1) = Inr (CHR ''S'' # map ((!) C32) (nat sv # ds))"
    using assms(1) ds(1) by (simp add: b58ToC32_def c32address_def sv_def Let_def)
  moreover have "5 < length (CHR ''S'' # map ((!) C32) (nat sv # ds))"
    using ds(3) assms(2) by simp
  ultimately show ?thesis
    using ds(2) sv(3) assms(4) by (simp add: c32ToB58_def c32addressDecode_def)
qed

theorem b58_c32_roundtrip_witness:
  "rbind (b58ToC32 (\<lambda>s. Inr (CHR 0x05, s, [])) (replicate 20 CHR ''x'') (-1))
     (\<lambda>c. c32ToB58 (\<lambda>p _. Inr p) c (-1)) = Inr (replicate 20 CHR ''x'')"
  using b58_c32_roundtrip [of "\<lambda>s. Inr (CHR 0x05, s, [])" "replicate 20 CHR ''x''" "CHR 0x05"
      "replicate 20 CHR ''x''" "[]" "\<lambda>p _. Inr p"]
  by simp

end
