(* ===== verification/Config.thy ===== *)
theory Config
  imports Prelude
begin

text \<open>
  The protocol constants of \<open>lib/config.py\<close>: epochs and their features, prices, opcodes, the
  lengths of wire fields and the graph of operation sequences; with the functions that read
  them. The production configuration is modelled (no test environment variable is set, mainnet).
\<close>

section \<open>Constants\<close>

text \<open>Namespace versions.\<close>

definition NAMESPACE_VERSION_PAY_TO_BURN :: int where
  "NAMESPACE_VERSION_PAY_TO_BURN = 1"

definition NAMESPACE_VERSION_PAY_TO_CREATOR :: int where
  "NAMESPACE_VERSION_PAY_TO_CREATOR = 2"

definition NAMESPACE_VERSION_PAY_WITH_STACKS :: int where
  "NAMESPACE_VERSION_PAY_WITH_STACKS = 3"

definition NAMESPACE_VERSIONS_SUPPORTED :: "int list" where
  "NAMESPACE_VERSIONS_SUPPORTED =
    [NAMESPACE_VERSION_PAY_TO_BURN, NAMESPACE_VERSION_PAY_TO_CREATOR, NAMESPACE_VERSION_PAY_WITH_STACKS]"

text \<open>
  Time. \<open>round\<close> to the nearest integer of \<open>365.2424 * 24 * 60 / 10 = 52594.9056\<close> and of
  \<open>60 * 24 / 10 = 144\<close>.
\<close>

definition BLOCKS_PER_YEAR :: int where
  "BLOCKS_PER_YEAR = round (3652424 / 10000 * 24 * 60 / 10 :: rat)"

definition BLOCKS_PER_DAY :: int where
  "BLOCKS_PER_DAY = round (60 * 24 / 10 :: rat)"

definition EXPIRATION_PERIOD :: int where "EXPIRATION_PERIOD = BLOCKS_PER_YEAR * 1"
definition NAME_PREORDER_EXPIRE :: int where "NAME_PREORDER_EXPIRE = BLOCKS_PER_DAY"
definition NAMESPACE_PREORDER_EXPIRE :: int where "NAMESPACE_PREORDER_EXPIRE = BLOCKS_PER_DAY"
definition NAMESPACE_REVEAL_EXPIRE :: int where "NAMESPACE_REVEAL_EXPIRE = BLOCKS_PER_YEAR"

lemma block_periods [simp]:
  "BLOCKS_PER_YEAR = 52595" "BLOCKS_PER_DAY = 144"
  by (simp_all add: BLOCKS_PER_YEAR_def BLOCKS_PER_DAY_def round_def floor_eq_iff)

text \<open>
  Prices: satoshis for BTC (floats), microSTACKs for STACKS (integers). The floating-point
  products and quotients of the source are exact integers.
\<close>

definition NAME_COST_UNIT :: int where "NAME_COST_UNIT = 100"
definition NAME_COST_UNIT_STACKS :: int where "NAME_COST_UNIT_STACKS = 1733"
definition SATOSHIS_PER_BTC :: int where "SATOSHIS_PER_BTC = 10 ^ 8"
definition MICROSTACKS_PER_STACKS :: int where "MICROSTACKS_PER_STACKS = 10 ^ 6"

definition NAMESPACE_1_CHAR_COST :: rat where
  "NAMESPACE_1_CHAR_COST = 400 * of_int SATOSHIS_PER_BTC"
definition NAMESPACE_23_CHAR_COST :: rat where
  "NAMESPACE_23_CHAR_COST = 40 * of_int SATOSHIS_PER_BTC"
definition NAMESPACE_4567_CHAR_COST :: rat where
  "NAMESPACE_4567_CHAR_COST = 4 * of_int SATOSHIS_PER_BTC"
definition NAMESPACE_8UP_CHAR_COST :: rat where
  "NAMESPACE_8UP_CHAR_COST = 4 / 10 * of_int SATOSHIS_PER_BTC"

definition NAMESPACE_1_CHAR_COST_STACKS :: int where
  "NAMESPACE_1_CHAR_COST_STACKS = floor (96000 * of_int MICROSTACKS_PER_STACKS / (15 / 100) :: rat)"
definition NAMESPACE_23_CHAR_COST_STACKS :: int where
  "NAMESPACE_23_CHAR_COST_STACKS = floor (9600 * of_int MICROSTACKS_PER_STACKS / (15 / 100) :: rat)"
definition NAMESPACE_4567_CHAR_COST_STACKS :: int where
  "NAMESPACE_4567_CHAR_COST_STACKS = floor (960 * of_int MICROSTACKS_PER_STACKS / (15 / 100) :: rat)"
definition NAMESPACE_8UP_CHAR_COST_STACKS :: int where
  "NAMESPACE_8UP_CHAR_COST_STACKS = floor (96 * of_int MICROSTACKS_PER_STACKS / (15 / 100) :: rat)"

definition MICROSTACKS_PER_SATOSHI_NUM :: int where "MICROSTACKS_PER_SATOSHI_NUM = 650"
definition MICROSTACKS_PER_SATOSHI_DEN :: int where "MICROSTACKS_PER_SATOSHI_DEN = 15"

definition TOTAL_STACKS_TOKENS :: int where "TOTAL_STACKS_TOKENS = 1320000000000000"

definition NAMESPACE_LIFE_INFINITE :: int where "NAMESPACE_LIFE_INFINITE = 0xffffffff"
definition FIRST_BLOCK_MAINNET :: int where "FIRST_BLOCK_MAINNET = 373601"

definition TOKEN_TYPE_STACKS :: string where "TOKEN_TYPE_STACKS = ''STACKS''"

section \<open>Epochs\<close>

datatype feature =
    EPOCH_FEATURE_MULTISIG | EPOCH_FEATURE_SEGWIT | EPOCH_FEATURE_OP_REGISTER_UPDATE
  | EPOCH_FEATURE_OP_RENEW_TRANSFER_UPDATE | EPOCH_FEATURE_NAMESPACE_BURN_TO_CREATOR
  | EPOCH_FEATURE_NAMESPACE_PAY_WITH_STACKS | EPOCH_FEATURE_STACKS_BUY_NAMESPACES
  | EPOCH_FEATURE_NAMEOPS_COST_TOKENS | EPOCH_FEATURE_FIX_PREORDER_EXPIRE
  | EPOCH_FEATURE_TOKEN_TRANSFER | EPOCH_FEATURE_INT_DIVISION
  | EPOCH_FEATURE_TOKEN_TRANSFER_CONSENSUS_HASH_OPTIONAL

text \<open>The rules of a namespace in an epoch, and an epoch. \<open>None\<close> entries are the source's.\<close>

record ns_rules =
  NAMESPACE_LIFETIME_MULTIPLIER :: int
  NAMESPACE_LIFETIME_GRACE_PERIOD :: int
  PRICE_MULTIPLIER :: "rat option"
  PRICE_MULTIPLIER_STACKS :: "rat option"
  PRICE_DIVISOR :: "int option"
  PRICE_DIVISOR_STACKS :: "int option"
  NAMESPACE_RECEIVE_FEES_PERIOD :: int

record epoch =
  end_block :: int
  namespaces :: "(string \<times> ns_rules) list"
  namespace_prices :: "pyval list option"
  namespace_prices_stacks :: "pyval list option"
  namespace_price_units :: string
  features :: "feature list"
  script_types :: "string list"
  sender_types :: "string list"

definition EPOCH_NOW :: int where "EPOCH_NOW = -1"

definition EPOCH_1_FEATURES :: "feature list" where "EPOCH_1_FEATURES = []"
definition EPOCH_2_FEATURES :: "feature list" where "EPOCH_2_FEATURES = [EPOCH_FEATURE_MULTISIG]"
definition EPOCH_3_FEATURES :: "feature list" where
  "EPOCH_3_FEATURES = [EPOCH_FEATURE_MULTISIG, EPOCH_FEATURE_SEGWIT, EPOCH_FEATURE_OP_REGISTER_UPDATE,
     EPOCH_FEATURE_OP_RENEW_TRANSFER_UPDATE, EPOCH_FEATURE_NAMESPACE_BURN_TO_CREATOR]"
definition EPOCH_4_FEATURES :: "feature list" where
  "EPOCH_4_FEATURES = [EPOCH_FEATURE_MULTISIG, EPOCH_FEATURE_SEGWIT, EPOCH_FEATURE_OP_REGISTER_UPDATE,
     EPOCH_FEATURE_OP_RENEW_TRANSFER_UPDATE, EPOCH_FEATURE_NAMESPACE_BURN_TO_CREATOR,
     EPOCH_FEATURE_NAMESPACE_PAY_WITH_STACKS, EPOCH_FEATURE_STACKS_BUY_NAMESPACES,
     EPOCH_FEATURE_FIX_PREORDER_EXPIRE, EPOCH_FEATURE_NAMEOPS_COST_TOKENS,
     EPOCH_FEATURE_TOKEN_TRANSFER, EPOCH_FEATURE_INT_DIVISION]"
definition EPOCH_5_FEATURES :: "feature list" where
  "EPOCH_5_FEATURES = [EPOCH_FEATURE_MULTISIG, EPOCH_FEATURE_SEGWIT, EPOCH_FEATURE_OP_REGISTER_UPDATE,
     EPOCH_FEATURE_OP_RENEW_TRANSFER_UPDATE, EPOCH_FEATURE_NAMESPACE_BURN_TO_CREATOR,
     EPOCH_FEATURE_NAMESPACE_PAY_WITH_STACKS, EPOCH_FEATURE_STACKS_BUY_NAMESPACES,
     EPOCH_FEATURE_FIX_PREORDER_EXPIRE, EPOCH_FEATURE_NAMEOPS_COST_TOKENS,
     EPOCH_FEATURE_TOKEN_TRANSFER, EPOCH_FEATURE_INT_DIVISION,
     EPOCH_FEATURE_TOKEN_TRANSFER_CONSENSUS_HASH_OPTIONAL]"
definition EPOCH_6_FEATURES :: "feature list" where
  "EPOCH_6_FEATURES = [EPOCH_FEATURE_MULTISIG, EPOCH_FEATURE_SEGWIT, EPOCH_FEATURE_OP_REGISTER_UPDATE,
     EPOCH_FEATURE_OP_RENEW_TRANSFER_UPDATE, EPOCH_FEATURE_NAMESPACE_BURN_TO_CREATOR,
     EPOCH_FEATURE_NAMESPACE_PAY_WITH_STACKS, EPOCH_FEATURE_STACKS_BUY_NAMESPACES,
     EPOCH_FEATURE_FIX_PREORDER_EXPIRE, EPOCH_FEATURE_NAMEOPS_COST_TOKENS,
     EPOCH_FEATURE_TOKEN_TRANSFER, EPOCH_FEATURE_INT_DIVISION,
     EPOCH_FEATURE_TOKEN_TRANSFER_CONSENSUS_HASH_OPTIONAL]"

text \<open>The price multiplier \<open>0.1\<close> of epoch 3 is the IEEE double nearest to one tenth.\<close>

definition FLOAT_0_1 :: rat where
  "FLOAT_0_1 = 3602879701896397 / 36028797018963968"

lemma FLOAT_0_1_pos: "0 < FLOAT_0_1"
  by (simp add: FLOAT_0_1_def)

definition btc_prices :: "rat \<Rightarrow> pyval list" where
  "btc_prices scale = [VInt (21 * 10 ^ 8), VFloat (NAMESPACE_1_CHAR_COST / scale)] @
     replicate 2 (VFloat (NAMESPACE_23_CHAR_COST / scale)) @
     replicate 4 (VFloat (NAMESPACE_4567_CHAR_COST / scale)) @
     replicate 12 (VFloat (NAMESPACE_8UP_CHAR_COST / scale))"

definition stacks_prices :: "pyval list" where
  "stacks_prices = [VNone, VInt NAMESPACE_1_CHAR_COST_STACKS] @
     replicate 2 (VInt NAMESPACE_23_CHAR_COST_STACKS) @
     replicate 4 (VInt NAMESPACE_4567_CHAR_COST_STACKS) @
     replicate 12 (VInt NAMESPACE_8UP_CHAR_COST_STACKS)"

definition EPOCH_1_id :: ns_rules where
  "EPOCH_1_id =
    \<lparr>NAMESPACE_LIFETIME_MULTIPLIER = 1, NAMESPACE_LIFETIME_GRACE_PERIOD = 0,
     PRICE_MULTIPLIER = Some 1, PRICE_MULTIPLIER_STACKS = Some 1,
     PRICE_DIVISOR = None, PRICE_DIVISOR_STACKS = None,
     NAMESPACE_RECEIVE_FEES_PERIOD = 0\<rparr>"

definition EPOCH_1 :: epoch where
  "EPOCH_1 =
    \<lparr>end_block = 436650, namespaces = [(''id'', EPOCH_1_id), (''*'', EPOCH_1_id)],
     namespace_prices = Some (btc_prices 1), namespace_prices_stacks = None,
     namespace_price_units = ''BTC'', features = EPOCH_1_FEATURES,
     script_types = [''nulldata'', ''p2pkh'', ''p2sh''],
     sender_types = [''p2pkh'', ''p2sh'']\<rparr>"

definition EPOCH_2_id :: ns_rules where
  "EPOCH_2_id =
    \<lparr>NAMESPACE_LIFETIME_MULTIPLIER = 2, NAMESPACE_LIFETIME_GRACE_PERIOD = 0,
     PRICE_MULTIPLIER = Some 1, PRICE_MULTIPLIER_STACKS = Some 1,
     PRICE_DIVISOR = None, PRICE_DIVISOR_STACKS = None,
     NAMESPACE_RECEIVE_FEES_PERIOD = 0\<rparr>"

definition EPOCH_2 :: epoch where
  "EPOCH_2 =
    \<lparr>end_block = 488500, namespaces = [(''id'', EPOCH_2_id), (''*'', EPOCH_2_id)],
     namespace_prices = Some (btc_prices 1), namespace_prices_stacks = None,
     namespace_price_units = ''BTC'', features = EPOCH_2_FEATURES,
     script_types = [''nulldata'', ''p2pkh'', ''p2sh''],
     sender_types = [''p2pkh'', ''p2sh'']\<rparr>"

definition EPOCH_3_id :: ns_rules where
  "EPOCH_3_id =
    \<lparr>NAMESPACE_LIFETIME_MULTIPLIER = 2, NAMESPACE_LIFETIME_GRACE_PERIOD = 5000,
     PRICE_MULTIPLIER = Some FLOAT_0_1, PRICE_MULTIPLIER_STACKS = Some 1,
     PRICE_DIVISOR = None, PRICE_DIVISOR_STACKS = None,
     NAMESPACE_RECEIVE_FEES_PERIOD = BLOCKS_PER_YEAR\<rparr>"

definition EPOCH_3 :: epoch where
  "EPOCH_3 =
    \<lparr>end_block = 547921, namespaces = [(''id'', EPOCH_3_id), (''*'', EPOCH_3_id)],
     namespace_prices = Some (btc_prices 10), namespace_prices_stacks = None,
     namespace_price_units = ''BTC'', features = EPOCH_3_FEATURES,
     script_types = [''nulldata'', ''p2pkh'', ''p2sh'', ''p2sh-p2wpkh'', ''p2sh-p2wsh''],
     sender_types = [''p2pkh'', ''p2sh'']\<rparr>"

definition EPOCH_4_id :: ns_rules where
  "EPOCH_4_id =
    \<lparr>NAMESPACE_LIFETIME_MULTIPLIER = 2, NAMESPACE_LIFETIME_GRACE_PERIOD = 5000,
     PRICE_MULTIPLIER = None, PRICE_MULTIPLIER_STACKS = None,
     PRICE_DIVISOR = Some 10, PRICE_DIVISOR_STACKS = Some 1,
     NAMESPACE_RECEIVE_FEES_PERIOD = BLOCKS_PER_YEAR\<rparr>"

definition EPOCH_4 :: epoch where
  "EPOCH_4 =
    \<lparr>end_block = 599866, namespaces = [(''id'', EPOCH_4_id), (''*'', EPOCH_4_id)],
     namespace_prices = None, namespace_prices_stacks = Some stacks_prices,
     namespace_price_units = ''STACKS'', features = EPOCH_4_FEATURES,
     script_types = [''nulldata'', ''p2pkh'', ''p2sh'', ''p2sh-p2wpkh'', ''p2sh-p2wsh''],
     sender_types = [''p2pkh'', ''p2sh'']\<rparr>"

definition EPOCH_5_id :: ns_rules where
  "EPOCH_5_id =
    \<lparr>NAMESPACE_LIFETIME_MULTIPLIER = 2, NAMESPACE_LIFETIME_GRACE_PERIOD = 5000,
     PRICE_MULTIPLIER = None, PRICE_MULTIPLIER_STACKS = None,
     PRICE_DIVISOR = Some 10, PRICE_DIVISOR_STACKS = Some 1,
     NAMESPACE_RECEIVE_FEES_PERIOD = BLOCKS_PER_YEAR\<rparr>"

definition EPOCH_5 :: epoch where
  "EPOCH_5 =
    \<lparr>end_block = 613249, namespaces = [(''id'', EPOCH_5_id), (''*'', EPOCH_5_id)],
     namespace_prices = None, namespace_prices_stacks = Some stacks_prices,
     namespace_price_units = ''STACKS'', features = EPOCH_5_FEATURES,
     script_types = [''nulldata'', ''p2pkh'', ''p2sh'', ''p2sh-p2wpkh'', ''p2sh-p2wsh''],
     sender_types = [''p2pkh'', ''p2sh'']\<rparr>"

definition EPOCH_6_id :: ns_rules where
  "EPOCH_6_id =
    \<lparr>NAMESPACE_LIFETIME_MULTIPLIER = 2, NAMESPACE_LIFETIME_GRACE_PERIOD = 5000,
     PRICE_MULTIPLIER = None, PRICE_MULTIPLIER_STACKS = None,
     PRICE_DIVISOR = Some 10, PRICE_DIVISOR_STACKS = Some 1,
     NAMESPACE_RECEIVE_FEES_PERIOD = BLOCKS_PER_YEAR\<rparr>"

definition EPOCH_6 :: epoch where
  "EPOCH_6 =
    \<lparr>end_block = EPOCH_NOW, namespaces = [(''id'', EPOCH_6_id), (''*'', EPOCH_6_id)],
     namespace_prices = None, namespace_prices_stacks = Some stacks_prices,
     namespace_price_units = ''STACKS'', features = EPOCH_6_FEATURES,
     script_types = [''nulldata'', ''p2pkh'', ''p2sh'', ''p2sh-p2wpkh'', ''p2sh-p2wsh''],
     sender_types = [''p2pkh'', ''p2sh'']\<rparr>"

definition EPOCHS :: "epoch list" where
  "EPOCHS = [EPOCH_1, EPOCH_2, EPOCH_3, EPOCH_4, EPOCH_5, EPOCH_6]"

text \<open>
  The self-consistency check that runs when the module is loaded: it raises unless every epoch
  but the last has a non-negative end, below the end of the next epoch when that one is positive.
\<close>

fun epochs_selfcheck :: "epoch list \<Rightarrow> unit res" where
  "epochs_selfcheck (e # f # es) =
    (if end_block e < 0 then Inl (Exception ''Invalid end block for epoch'')
     else if end_block e \<ge> end_block f \<and> end_block f > 0 then Inl (Exception ''Invalid epoch block range'')
     else epochs_selfcheck (f # es))"
| "epochs_selfcheck _ = Inr ()"

text \<open>
  \<open>get_epoch_number\<close>: the test of the first epoch, then the loop over the others; the process
  is aborted when no epoch fits.
\<close>

fun epoch_loop :: "nat \<Rightarrow> epoch list \<Rightarrow> int \<Rightarrow> nat res" where
  "epoch_loop i (e # f # es) block_height =
    (if end_block e < block_height \<and> (block_height \<le> end_block f \<or> end_block f = EPOCH_NOW)
     then Inr i else epoch_loop (Suc i) (f # es) block_height)"
| "epoch_loop i _ block_height = Inl Abort"

definition epoch_number_in :: "epoch list \<Rightarrow> int \<Rightarrow> nat res" where
  "epoch_number_in epochs block_height = (case epochs of
     [] \<Rightarrow> Inl IndexError
   | e # _ \<Rightarrow> if block_height \<le> end_block e then Inr 0 else epoch_loop 1 epochs block_height)"

definition get_epoch_number :: "int \<Rightarrow> nat res" where
  "get_epoch_number block_height = epoch_number_in EPOCHS block_height"

definition get_epoch_config :: "int \<Rightarrow> epoch res" where
  "get_epoch_config block_height =
    rbind (get_epoch_number block_height) (\<lambda>epoch_number.
      if epoch_number \<ge> length EPOCHS then Inl Abort else Inr (EPOCHS ! epoch_number))"

text \<open>The rules of a namespace: its own entry, or the entry of \<open>*\<close>.\<close>

definition epoch_ns_rules :: "epoch \<Rightarrow> string \<Rightarrow> ns_rules res" where
  "epoch_ns_rules e namespace_id = (case map_of (namespaces e) namespace_id of
     Some r \<Rightarrow> Inr r
   | None \<Rightarrow> (case map_of (namespaces e) ''*'' of Some r \<Rightarrow> Inr r | None \<Rightarrow> Inl (KeyError ''*'')))"

definition get_epoch_namespace_lifetime_multiplier :: "int \<Rightarrow> string \<Rightarrow> int res" where
  "get_epoch_namespace_lifetime_multiplier block_height namespace_id =
    rbind (get_epoch_config block_height) (\<lambda>epoch_config.
    rbind (epoch_ns_rules epoch_config namespace_id) (\<lambda>r. Inr (NAMESPACE_LIFETIME_MULTIPLIER r)))"

definition get_epoch_namespace_lifetime_grace_period :: "int \<Rightarrow> string \<Rightarrow> int res" where
  "get_epoch_namespace_lifetime_grace_period block_height namespace_id =
    rbind (get_epoch_config block_height) (\<lambda>epoch_config.
    rbind (epoch_ns_rules epoch_config namespace_id) (\<lambda>r. Inr (NAMESPACE_LIFETIME_GRACE_PERIOD r)))"

definition get_epoch_price_multiplier :: "int \<Rightarrow> string \<Rightarrow> string \<Rightarrow> rat res" where
  "get_epoch_price_multiplier block_height namespace_id units =
    (if units \<notin> {TOKEN_TYPE_STACKS, ''BTC''} then Inl Abort
     else rbind (get_epoch_config block_height) (\<lambda>epoch_config.
          rbind (epoch_ns_rules epoch_config namespace_id) (\<lambda>r.
            case (if units = ''BTC'' then PRICE_MULTIPLIER r else PRICE_MULTIPLIER_STACKS r) of
              None \<Rightarrow> Inl Abort | Some m \<Rightarrow> Inr m)))"

definition get_epoch_price_divisor :: "int \<Rightarrow> string \<Rightarrow> string \<Rightarrow> int res" where
  "get_epoch_price_divisor block_height namespace_id units =
    (if units \<notin> {TOKEN_TYPE_STACKS, ''BTC''} then Inl Abort
     else rbind (get_epoch_config block_height) (\<lambda>epoch_config.
          rbind (epoch_ns_rules epoch_config namespace_id) (\<lambda>r.
            case (if units = ''BTC'' then PRICE_DIVISOR r else PRICE_DIVISOR_STACKS r) of
              None \<Rightarrow> Inl Abort | Some d \<Rightarrow> Inr d)))"

definition get_epoch_namespace_receive_fees_period :: "int \<Rightarrow> string \<Rightarrow> int res" where
  "get_epoch_namespace_receive_fees_period block_height namespace_id =
    rbind (get_epoch_config block_height) (\<lambda>epoch_config.
    rbind (epoch_ns_rules epoch_config namespace_id) (\<lambda>r. Inr (NAMESPACE_RECEIVE_FEES_PERIOD r)))"

definition get_epoch_namespace_prices :: "int \<Rightarrow> string \<Rightarrow> pyval list option res" where
  "get_epoch_namespace_prices block_height units =
    assert_that (units \<in> {''BTC'', TOKEN_TYPE_STACKS})
      (rbind (get_epoch_config block_height) (\<lambda>epoch_config.
        Inr (if units = ''BTC'' then namespace_prices epoch_config
             else namespace_prices_stacks epoch_config)))"

definition get_epoch_namespace_price_units :: "int \<Rightarrow> string res" where
  "get_epoch_namespace_price_units block_height =
    rbind (get_epoch_config block_height) (\<lambda>epoch_config. Inr (namespace_price_units epoch_config))"

definition get_epoch_btc_script_types :: "int \<Rightarrow> string list res" where
  "get_epoch_btc_script_types block_height =
    rbind (get_epoch_config block_height) (\<lambda>epoch_config. Inr (script_types epoch_config))"

definition get_epoch_btc_sender_types :: "int \<Rightarrow> string list res" where
  "get_epoch_btc_sender_types block_height =
    rbind (get_epoch_config block_height) (\<lambda>epoch_config. Inr (sender_types epoch_config))"

definition get_epoch_features :: "int \<Rightarrow> feature list res" where
  "get_epoch_features block_height =
    rbind (get_epoch_config block_height) (\<lambda>epoch_config. Inr (features epoch_config))"

definition epoch_has_multisig :: "int \<Rightarrow> bool res" where
  "epoch_has_multisig block_height =
    rbind (get_epoch_config block_height) (\<lambda>epoch_config.
      Inr (EPOCH_FEATURE_MULTISIG \<in> set (features epoch_config)))"

definition epoch_has_segwit :: "int \<Rightarrow> bool res" where
  "epoch_has_segwit block_height =
    rbind (get_epoch_config block_height) (\<lambda>epoch_config.
      Inr (EPOCH_FEATURE_SEGWIT \<in> set (features epoch_config)))"

section \<open>Opcodes and wire formats\<close>

definition NAME_PREORDER :: char where "NAME_PREORDER = CHR ''?''"
definition NAME_REGISTRATION :: char where "NAME_REGISTRATION = CHR '':''"
definition NAME_UPDATE :: char where "NAME_UPDATE = CHR ''+''"
definition NAME_TRANSFER :: char where "NAME_TRANSFER = CHR ''>''"
definition NAME_RENEWAL :: char where "NAME_RENEWAL = NAME_REGISTRATION"
definition NAME_REVOKE :: char where "NAME_REVOKE = CHR ''~''"
definition NAME_IMPORT :: char where "NAME_IMPORT = CHR '';''"
definition NAMESPACE_PREORDER :: char where "NAMESPACE_PREORDER = CHR ''*''"
definition NAMESPACE_REVEAL :: char where "NAMESPACE_REVEAL = CHR ''&''"
definition NAMESPACE_READY :: char where "NAMESPACE_READY = CHR ''!''"
definition ANNOUNCE :: char where "ANNOUNCE = CHR ''#''"
definition TOKEN_TRANSFER :: char where "TOKEN_TRANSFER = CHR ''$''"
definition TRANSFER_KEEP_DATA :: char where "TRANSFER_KEEP_DATA = CHR ''>''"
definition TRANSFER_REMOVE_DATA :: char where "TRANSFER_REMOVE_DATA = CHR ''~''"

lemmas opcode_defs =
  NAME_PREORDER_def NAME_REGISTRATION_def NAME_UPDATE_def NAME_TRANSFER_def NAME_RENEWAL_def
  NAME_REVOKE_def NAME_IMPORT_def NAMESPACE_PREORDER_def NAMESPACE_REVEAL_def NAMESPACE_READY_def
  ANNOUNCE_def TOKEN_TRANSFER_def TRANSFER_KEEP_DATA_def TRANSFER_REMOVE_DATA_def

definition MAGIC_BYTES :: string where "MAGIC_BYTES = ''id''"

definition OPCODES :: "char list" where
  "OPCODES = [NAME_PREORDER, NAME_REVOKE, NAME_REGISTRATION, NAME_UPDATE, NAME_TRANSFER, NAME_IMPORT,
     NAMESPACE_PREORDER, NAMESPACE_REVEAL, NAMESPACE_READY, ANNOUNCE, TOKEN_TRANSFER]"

definition OPCODE_NAMES :: "(char \<times> string) list" where
  "OPCODE_NAMES = [(NAME_PREORDER, ''NAME_PREORDER''), (NAME_REGISTRATION, ''NAME_REGISTRATION''),
     (NAME_UPDATE, ''NAME_UPDATE''), (NAME_TRANSFER, ''NAME_TRANSFER''),
     (NAME_RENEWAL, ''NAME_REGISTRATION''), (NAME_REVOKE, ''NAME_REVOKE''), (NAME_IMPORT, ''NAME_IMPORT''),
     (NAMESPACE_PREORDER, ''NAMESPACE_PREORDER''), (NAMESPACE_REVEAL, ''NAMESPACE_REVEAL''),
     (NAMESPACE_READY, ''NAMESPACE_READY''), (ANNOUNCE, ''ANNOUNCE''), (TOKEN_TRANSFER, ''TOKEN_TRANSFER'')]"

definition NAME_OPCODES :: "(string \<times> char) list" where
  "NAME_OPCODES = [(''NAME_PREORDER'', NAME_PREORDER), (''NAME_REGISTRATION'', NAME_REGISTRATION),
     (''NAME_UPDATE'', NAME_UPDATE), (''NAME_TRANSFER'', NAME_TRANSFER), (''NAME_RENEWAL'', NAME_REGISTRATION),
     (''NAME_IMPORT'', NAME_IMPORT), (''NAME_REVOKE'', NAME_REVOKE),
     (''NAMESPACE_PREORDER'', NAMESPACE_PREORDER), (''NAMESPACE_REVEAL'', NAMESPACE_REVEAL),
     (''NAMESPACE_READY'', NAMESPACE_READY), (''ANNOUNCE'', ANNOUNCE), (''TOKEN_TRANSFER'', TOKEN_TRANSFER)]"

definition LENGTHS :: "string \<Rightarrow> nat" where
  "LENGTHS k = the (map_of [
     (''magic_bytes'', 2), (''opcode'', 1), (''preorder_name_hash'', 20), (''consensus_hash'', 16),
     (''namelen'', 1), (''name_min'', 1), (''name_max'', 34), (''fqn_min'', 3), (''fqn_max'', 37),
     (''name_hash'', 16), (''name_consensus_hash'', 16), (''value_hash'', 20),
     (''blockchain_id_name'', 37), (''blockchain_id_namespace_life'', 4),
     (''blockchain_id_namespace_coeff'', 1), (''blockchain_id_namespace_base'', 1),
     (''blockchain_id_namespace_buckets'', 8), (''blockchain_id_namespace_discounts'', 1),
     (''blockchain_id_namespace_version'', 2), (''blockchain_id_namespace_id'', 19),
     (''namespace_id'', 19), (''announce'', 20), (''max_op_length'', 80), (''tokens_burnt'', 8)] k)"

lemma LENGTHS_simps [simp]:
  "LENGTHS ''magic_bytes'' = 2" "LENGTHS ''opcode'' = 1" "LENGTHS ''preorder_name_hash'' = 20"
  "LENGTHS ''consensus_hash'' = 16" "LENGTHS ''namelen'' = 1" "LENGTHS ''name_min'' = 1"
  "LENGTHS ''name_max'' = 34" "LENGTHS ''fqn_min'' = 3" "LENGTHS ''fqn_max'' = 37"
  "LENGTHS ''name_hash'' = 16" "LENGTHS ''name_consensus_hash'' = 16" "LENGTHS ''value_hash'' = 20"
  "LENGTHS ''blockchain_id_name'' = 37" "LENGTHS ''blockchain_id_namespace_life'' = 4"
  "LENGTHS ''blockchain_id_namespace_coeff'' = 1" "LENGTHS ''blockchain_id_namespace_base'' = 1"
  "LENGTHS ''blockchain_id_namespace_buckets'' = 8" "LENGTHS ''blockchain_id_namespace_discounts'' = 1"
  "LENGTHS ''blockchain_id_namespace_version'' = 2" "LENGTHS ''blockchain_id_namespace_id'' = 19"
  "LENGTHS ''namespace_id'' = 19" "LENGTHS ''announce'' = 20" "LENGTHS ''max_op_length'' = 80"
  "LENGTHS ''tokens_burnt'' = 8"
  by (simp_all add: LENGTHS_def)

definition MIN_OP_LENGTHS :: "string \<Rightarrow> nat" where
  "MIN_OP_LENGTHS k = the (map_of [
     (''preorder'', LENGTHS ''preorder_name_hash'' + LENGTHS ''consensus_hash''),
     (''preorder_multi'', 1 + LENGTHS ''preorder_name_hash'' + LENGTHS ''consensus_hash''),
     (''registration'', LENGTHS ''fqn_min''),
     (''registration_multi'', 2 * LENGTHS ''fqn_min'' + 2 * LENGTHS ''value_hash''),
     (''update'', LENGTHS ''name_consensus_hash'' + LENGTHS ''value_hash''),
     (''transfer'', LENGTHS ''name_hash'' + LENGTHS ''consensus_hash''),
     (''revoke'', LENGTHS ''fqn_min''),
     (''name_import'', LENGTHS ''fqn_min''),
     (''namespace_preorder'', LENGTHS ''preorder_name_hash'' + LENGTHS ''consensus_hash''),
     (''namespace_reveal'', LENGTHS ''blockchain_id_namespace_life'' + LENGTHS ''blockchain_id_namespace_coeff'' +
        LENGTHS ''blockchain_id_namespace_base'' + LENGTHS ''blockchain_id_namespace_buckets'' +
        LENGTHS ''blockchain_id_namespace_discounts'' + LENGTHS ''blockchain_id_namespace_version'' +
        LENGTHS ''name_min''),
     (''namespace_ready'', 1 + LENGTHS ''name_min''),
     (''announce'', LENGTHS ''announce'')] k)"

lemma MIN_OP_LENGTHS_simps [simp]:
  "MIN_OP_LENGTHS ''preorder'' = 36" "MIN_OP_LENGTHS ''preorder_multi'' = 37"
  "MIN_OP_LENGTHS ''registration'' = 3" "MIN_OP_LENGTHS ''registration_multi'' = 46"
  "MIN_OP_LENGTHS ''update'' = 36" "MIN_OP_LENGTHS ''transfer'' = 32" "MIN_OP_LENGTHS ''revoke'' = 3"
  "MIN_OP_LENGTHS ''name_import'' = 3" "MIN_OP_LENGTHS ''namespace_preorder'' = 36"
  "MIN_OP_LENGTHS ''namespace_reveal'' = 18" "MIN_OP_LENGTHS ''namespace_ready'' = 2"
  "MIN_OP_LENGTHS ''announce'' = 20"
  by (simp_all add: MIN_OP_LENGTHS_def)

definition OPCODE_SEQUENCE_GRAPH :: "(string \<times> string list) list" where
  "OPCODE_SEQUENCE_GRAPH = [
     (''NAME_PREORDER'', [''NAME_REGISTRATION'']),
     (''NAME_REGISTRATION'', [''NAME_UPDATE'', ''NAME_TRANSFER'', ''NAME_RENEWAL'', ''NAME_REVOKE'']),
     (''NAME_UPDATE'', [''NAME_UPDATE'', ''NAME_TRANSFER'', ''NAME_RENEWAL'', ''NAME_REVOKE'']),
     (''NAME_TRANSFER'', [''NAME_UPDATE'', ''NAME_TRANSFER'', ''NAME_RENEWAL'', ''NAME_REVOKE'']),
     (''NAME_RENEWAL'', [''NAME_UPDATE'', ''NAME_TRANSFER'', ''NAME_RENEWAL'', ''NAME_REVOKE'']),
     (''NAME_REVOKE'', [''NAME_REGISTRATION'']),
     (''NAME_IMPORT'', [''NAME_IMPORT'', ''NAME_UPDATE'', ''NAME_TRANSFER'', ''NAME_RENEWAL'', ''NAME_REVOKE'']),
     (''NAMESPACE_PREORDER'', [''NAMESPACE_REVEAL'']),
     (''NAMESPACE_REVEAL'', [''NAMESPACE_READY'']),
     (''NAMESPACE_READY'', [])]"

definition OPCODE_NAME_STATE_PREORDER :: "string list" where
  "OPCODE_NAME_STATE_PREORDER = [''NAME_PREORDER'']"
definition OPCODE_NAMESPACE_STATE_PREORDER :: "string list" where
  "OPCODE_NAMESPACE_STATE_PREORDER = [''NAMESPACE_PREORDER'']"
definition OPCODE_PREORDER_OPS :: "string list" where
  "OPCODE_PREORDER_OPS = OPCODE_NAME_STATE_PREORDER @ OPCODE_NAMESPACE_STATE_PREORDER"
definition OPCODE_NAME_STATE_CREATIONS :: "string list" where
  "OPCODE_NAME_STATE_CREATIONS = [''NAME_REGISTRATION'', ''NAME_IMPORT'']"
definition OPCODE_NAME_STATE_IMPORTS :: "string list" where
  "OPCODE_NAME_STATE_IMPORTS = [''NAME_IMPORT'']"
definition OPCODE_NAMESPACE_STATE_CREATIONS :: "string list" where
  "OPCODE_NAMESPACE_STATE_CREATIONS = [''NAMESPACE_REVEAL'']"
definition OPCODE_CREATION_OPS :: "string list" where
  "OPCODE_CREATION_OPS = OPCODE_NAME_STATE_CREATIONS @ OPCODE_NAMESPACE_STATE_CREATIONS"
definition OPCODE_NAME_STATE_TRANSITIONS :: "string list" where
  "OPCODE_NAME_STATE_TRANSITIONS =
     [''NAME_IMPORT'', ''NAME_UPDATE'', ''NAME_TRANSFER'', ''NAME_RENEWAL'', ''NAME_REVOKE'']"
definition OPCODE_NAMESPACE_STATE_TRANSITIONS :: "string list" where
  "OPCODE_NAMESPACE_STATE_TRANSITIONS = [''NAMESPACE_READY'']"
definition OPCODE_TRANSITION_OPS :: "string list" where
  "OPCODE_TRANSITION_OPS = OPCODE_NAME_STATE_TRANSITIONS @ OPCODE_NAMESPACE_STATE_TRANSITIONS"
definition OPCODE_STATELESS_OPS :: "string list" where
  "OPCODE_STATELESS_OPS = [''ANNOUNCE'']"
definition OPCODE_NAME_NAMEOPS :: "string list" where
  "OPCODE_NAME_NAMEOPS = [''NAME_PREORDER'', ''NAME_IMPORT'', ''NAME_REGISTRATION'', ''NAME_UPDATE'',
     ''NAME_TRANSFER'', ''NAME_RENEWAL'', ''NAME_REVOKE'']"
definition OPCODE_TOKEN_OPS :: "string list" where
  "OPCODE_TOKEN_OPS = [''TOKEN_TRANSFER'']"

lemmas opcode_classes =
  OPCODE_NAME_STATE_PREORDER_def OPCODE_NAMESPACE_STATE_PREORDER_def OPCODE_PREORDER_OPS_def
  OPCODE_NAME_STATE_CREATIONS_def OPCODE_NAME_STATE_IMPORTS_def OPCODE_NAMESPACE_STATE_CREATIONS_def
  OPCODE_CREATION_OPS_def OPCODE_NAME_STATE_TRANSITIONS_def OPCODE_NAMESPACE_STATE_TRANSITIONS_def
  OPCODE_TRANSITION_OPS_def OPCODE_STATELESS_OPS_def OPCODE_NAME_NAMEOPS_def OPCODE_TOKEN_OPS_def

definition op_get_opcode_name :: "string \<Rightarrow> string res" where
  "op_get_opcode_name op_string =
    (if op_string = NAME_REGISTRATION # '':'' then Inr ''NAME_RENEWAL''
     else case op_string of [] \<Rightarrow> Inl IndexError
     | op # _ \<Rightarrow> (case map_of OPCODE_NAMES op of
         None \<Rightarrow> Inl (Exception ''No such operation'') | Some n \<Rightarrow> Inr n))"

section \<open>Epoch tables\<close>

definition epoch_covers :: "epoch \<Rightarrow> int \<Rightarrow> bool" where
  "epoch_covers e h = (h \<le> end_block e \<or> end_block e = EPOCH_NOW)"

lemma epoch_covers_mono: "h \<le> h' \<Longrightarrow> epoch_covers e h' \<Longrightarrow> epoch_covers e h"
  by (auto simp: epoch_covers_def)

text \<open>
  What the lookups need of an epoch table: it passes the self-consistency check, has at least
  two epochs, and its last epoch never ends.
\<close>

locale epoch_table =
  fixes es :: "epoch list"
  assumes selfcheck: "epochs_selfcheck es = Inr ()"
    and two_epochs: "2 \<le> length es"
    and open_end: "end_block (last es) = EPOCH_NOW"
begin

lemma loop_finds:
  "fs \<noteq> [] \<Longrightarrow> end_block (last fs) = EPOCH_NOW \<Longrightarrow> end_block e < h \<Longrightarrow>
    \<exists>j < length fs. epoch_loop i (e # fs) h = Inr (i + j) \<and> end_block ((e # fs) ! j) < h \<and>
      epoch_covers (fs ! j) h \<and> (\<forall>k < j. \<not> epoch_covers (fs ! k) h)"
proof (induction fs arbitrary: e i)
  case (Cons f fs)
  show ?case
  proof (cases "epoch_covers f h")
    case True
    with Cons.prems show ?thesis
      by (intro exI [of _ 0]) (auto simp: epoch_covers_def)
  next
    case False
    then have "end_block f < h" "fs \<noteq> []"
      using Cons.prems by (auto simp: epoch_covers_def split: if_splits)
    with Cons obtain j where j: "j < length fs" "epoch_loop (Suc i) (f # fs) h = Inr (Suc i + j)"
      "end_block ((f # fs) ! j) < h" "epoch_covers (fs ! j) h" "\<forall>k < j. \<not> epoch_covers (fs ! k) h"
      by (metis last_ConsR)
    with False Cons.prems show ?thesis
      by (intro exI [of _ "Suc j"]) (auto simp: epoch_covers_def less_Suc_eq_0_disj)
  qed
qed simp

lemma first_end: "\<exists>e fs. es = e # fs \<and> fs \<noteq> [] \<and> 0 \<le> end_block e"
  using selfcheck two_epochs
  by (cases es rule: epochs_selfcheck.cases) (auto split: if_splits)

lemma number_spec:
  "\<exists>n < length es. epoch_number_in es h = Inr n \<and> (n = 0 \<or> end_block (es ! (n - 1)) < h) \<and>
     epoch_covers (es ! n) h \<and> (\<forall>k < n. \<not> epoch_covers (es ! k) h)"
proof -
  obtain e fs where es: "es = e # fs" "fs \<noteq> []" "0 \<le> end_block e"
    using first_end by blast
  show ?thesis
  proof (cases "h \<le> end_block e")
    case True
    with es show ?thesis
      by (intro exI [of _ 0]) (auto simp: epoch_number_in_def epoch_covers_def)
  next
    case False
    then obtain j where "j < length fs" "epoch_loop 1 (e # fs) h = Inr (1 + j)"
      "end_block ((e # fs) ! j) < h" "epoch_covers (fs ! j) h" "\<forall>k < j. \<not> epoch_covers (fs ! k) h"
      using loop_finds [of fs e h 1] es open_end by auto
    with False es show ?thesis
      by (intro exI [of _ "Suc j"])
        (auto simp: epoch_number_in_def epoch_covers_def less_Suc_eq_0_disj EPOCH_NOW_def)
  qed
qed

lemma number_mono:
  assumes "h \<le> h'" "epoch_number_in es h = Inr n" "epoch_number_in es h' = Inr n'"
  shows "n \<le> n'"
proof -
  have "\<forall>k < n. \<not> epoch_covers (es ! k) h'"
    using number_spec [of h] assms(1,2) epoch_covers_mono by fastforce
  moreover have "epoch_covers (es ! n') h'"
    using number_spec [of h'] assms(3) by auto
  ultimately show ?thesis
    by (meson not_le)
qed

end

interpretation mainnet: epoch_table EPOCHS
  by unfold_locales
    (simp_all add: EPOCHS_def EPOCH_1_def EPOCH_2_def EPOCH_3_def EPOCH_4_def EPOCH_5_def EPOCH_6_def
      EPOCH_NOW_def)

text \<open>The epoch of a block height, read off the table.\<close>

definition epoch_of :: "int \<Rightarrow> epoch" where
  "epoch_of h = (if h \<le> 436650 then EPOCH_1 else if h \<le> 488500 then EPOCH_2
     else if h \<le> 547921 then EPOCH_3 else if h \<le> 599866 then EPOCH_4
     else if h \<le> 613249 then EPOCH_5 else EPOCH_6)"

lemma get_epoch_config_eq [simp]: "get_epoch_config h = Inr (epoch_of h)"
  by (simp add: get_epoch_config_def get_epoch_number_def epoch_number_in_def epoch_of_def EPOCHS_def
      EPOCH_1_def EPOCH_2_def EPOCH_3_def EPOCH_4_def EPOCH_5_def EPOCH_6_def EPOCH_NOW_def)

lemma epoch_ns_rules_ok:
  "\<exists>r. epoch_ns_rules (epoch_of h) ns = Inr r \<and>
     r = (if h \<le> 436650 then EPOCH_1_id else if h \<le> 488500 then EPOCH_2_id
       else if h \<le> 547921 then EPOCH_3_id else if h \<le> 599866 then EPOCH_4_id
       else if h \<le> 613249 then EPOCH_5_id else EPOCH_6_id)"
  by (auto simp: epoch_of_def epoch_ns_rules_def EPOCH_1_def EPOCH_2_def EPOCH_3_def EPOCH_4_def
      EPOCH_5_def EPOCH_6_def)

lemmas epoch_tables = EPOCH_1_def EPOCH_2_def EPOCH_3_def EPOCH_4_def EPOCH_5_def EPOCH_6_def
  EPOCH_1_id_def EPOCH_2_id_def EPOCH_3_id_def EPOCH_4_id_def EPOCH_5_id_def EPOCH_6_id_def
  EPOCH_1_FEATURES_def EPOCH_2_FEATURES_def EPOCH_3_FEATURES_def EPOCH_4_FEATURES_def
  EPOCH_5_FEATURES_def EPOCH_6_FEATURES_def

lemma get_epoch_features_eq [simp]: "get_epoch_features h = Inr (features (epoch_of h))"
  by (simp add: get_epoch_features_def)

section \<open>Properties\<close>

text \<open>
  C30: Every block height lies in exactly one epoch: \<open>get_epoch_number\<close> returns (the process is
  never aborted), the height is past the end of the preceding epoch and within its own, and the
  epoch number never decreases as the chain grows.
\<close>

theorem get_epoch_number_total_mono:
  "\<exists>n < length EPOCHS. get_epoch_number h = Inr n \<and> (n = 0 \<or> end_block (EPOCHS ! (n - 1)) < h) \<and>
     (h \<le> end_block (EPOCHS ! n) \<or> n = length EPOCHS - 1) \<and>
     (\<exists>n'. get_epoch_number (h + int k) = Inr n' \<and> n \<le> n')"
proof -
  obtain n n' where n: "n < length EPOCHS" "get_epoch_number h = Inr n"
      "n = 0 \<or> end_block (EPOCHS ! (n - 1)) < h" "epoch_covers (EPOCHS ! n) h"
    and n': "get_epoch_number (h + int k) = Inr n'"
    using mainnet.number_spec [of h] mainnet.number_spec [of "h + int k"]
    by (auto simp: get_epoch_number_def)
  have "n \<le> n'"
    using mainnet.number_mono [of h "h + int k" n n'] n n' by (simp add: get_epoch_number_def)
  moreover have "end_block (EPOCHS ! n) = EPOCH_NOW \<Longrightarrow> n = length EPOCHS - 1"
    using n(1) by (auto simp: EPOCHS_def EPOCH_NOW_def epoch_tables less_Suc_eq numeral_eq_Suc)
  ultimately show ?thesis
    using n n' by (auto simp: epoch_covers_def)
qed

text \<open>
  Features are never withdrawn: a feature of the epoch at some height is a feature at every
  later height.
\<close>

theorem epoch_features_mono:
  assumes "h \<le> h'" and "get_epoch_features h = Inr fs" and "f \<in> set fs"
  shows "\<exists>fs'. get_epoch_features h' = Inr fs' \<and> f \<in> set fs'"
proof -
  have "set (features (epoch_of h)) \<subseteq> set (features (epoch_of h'))"
    using assms(1) by (auto simp: epoch_of_def epoch_tables)
  with assms show ?thesis
    by auto
qed

text \<open>
  C31: The two price tables fit the integer-division feature: for a known unit, a price divisor
  exists exactly in the epochs with the feature and a price multiplier exactly in the others, so
  code that selects the getter by the feature never aborts the process.
\<close>

theorem price_scale_matches_feature:
  assumes "units = ''BTC'' \<or> units = TOKEN_TYPE_STACKS"
  shows "if EPOCH_FEATURE_INT_DIVISION \<in> set (features (epoch_of h))
    then (\<exists>d > 0. get_epoch_price_divisor h ns units = Inr d) \<and> get_epoch_price_multiplier h ns units = Inl Abort
    else (\<exists>m > 0. get_epoch_price_multiplier h ns units = Inr m) \<and> get_epoch_price_divisor h ns units = Inl Abort"
proof -
  obtain r where r: "epoch_ns_rules (epoch_of h) ns = Inr r"
    "r = (if h \<le> 436650 then EPOCH_1_id else if h \<le> 488500 then EPOCH_2_id
       else if h \<le> 547921 then EPOCH_3_id else if h \<le> 599866 then EPOCH_4_id
       else if h \<le> 613249 then EPOCH_5_id else EPOCH_6_id)"
    using epoch_ns_rules_ok by blast
  show ?thesis
    using assms
    by (auto simp: get_epoch_price_divisor_def get_epoch_price_multiplier_def r(1))
      (auto simp: r(2) epoch_of_def epoch_tables TOKEN_TYPE_STACKS_def FLOAT_0_1_pos split: if_splits)
qed

theorem price_scale_matches_feature_witness:
  "\<exists>d > 0. get_epoch_price_divisor 600000 ''id'' ''BTC'' = Inr d"
  using price_scale_matches_feature [of "''BTC''" 600000 "''id''"]
  by (simp add: epoch_of_def epoch_tables)

end
