(* ===== verification/Floats.thy ===== *)
theory Floats
  imports Prelude "HOL-Library.Log_Nat"
begin

text \<open>
  IEEE double-precision numbers as the pre-Stacks price computation uses them: a float is the
  rational it denotes, and every operation rounds its exact result to the nearest number with a
  53-bit significand, ties to even. Overflow and subnormal numbers do not occur for prices.
\<close>

definition round_half_even :: "rat \<Rightarrow> int" where
  "round_half_even x = (let f = floor x; d = x - of_int f in
     if d < 1 / 2 then f else if d > 1 / 2 then f + 1 else if even f then f else f + 1)"

definition int_pow2 :: "int \<Rightarrow> rat" where
  "int_pow2 e = (if 0 \<le> e then 2 ^ nat e else 1 / 2 ^ nat (- e))"

text \<open>The exponent of the leading bit of a positive rational.\<close>

definition lead_exp :: "rat \<Rightarrow> int" where
  "lead_exp x = (case quotient_of x of (p, q) \<Rightarrow>
     let e = bitlen p - bitlen q in if int_pow2 e \<le> x then e else e - 1)"

definition rnd :: "rat \<Rightarrow> rat" where
  "rnd x = (if x = 0 then 0 else
     let s = int_pow2 (52 - lead_exp \<bar>x\<bar>) in of_int (round_half_even (x * s)) / s)"

definition float_mult :: "rat \<Rightarrow> rat \<Rightarrow> rat" where
  "float_mult x y = rnd (x * y)"

definition float_div :: "rat \<Rightarrow> rat \<Rightarrow> rat" where
  "float_div x y = rnd (x / y)"

definition float_of_int :: "int \<Rightarrow> rat" where
  "float_of_int i = rnd (of_int i)"

lemma round_half_even_of_int [simp]: "round_half_even (of_int i) = i"
  by (simp add: round_half_even_def Let_def)

lemma round_half_even_nonneg: "0 \<le> x \<Longrightarrow> 0 \<le> round_half_even x"
  by (auto simp: round_half_even_def Let_def)

lemma int_pow2_pos: "0 < int_pow2 e"
  by (simp add: int_pow2_def)

lemma rnd_nonneg: "0 \<le> x \<Longrightarrow> 0 \<le> rnd x"
  using int_pow2_pos [of "52 - lead_exp \<bar>x\<bar>"]
  by (auto simp: rnd_def Let_def intro!: divide_nonneg_pos round_half_even_nonneg)

end
