(* ===== verification/VirtualchainApi.thy ===== *)
theory VirtualchainApi
  imports Prelude
begin

text \<open>
  The functions of the packages \<open>virtualchain\<close> and \<open>keylib\<close> that the node calls. Their sources
  are not part of the repository, so they are fields of a record that the model's definitions
  take as an argument; a property that relies on one of them says so in a hypothesis.
  \<open>None\<close> stands for a raised exception (\<open>b58check_decode\<close>, \<open>pubkey_address\<close>,
  \<open>address_reencode\<close>) or for the value
  \<open>None\<close> (\<open>script_hex_to_address\<close>). \<open>child_address\<close> is the address of the child, with the given
  index, of the public keychain made from a public key (package \<open>keychain\<close>). The last four fields are methods of \<open>virtualchain.StateEngine\<close>,
  the base class of the name database: the removal of the fields that the engine itself added to an
  operation (\<open>sanitize_op\<close>), and the consensus hashes of past blocks.
\<close>

record virtualchain =
  is_hex :: "string \<Rightarrow> bool"
  hex_hash160 :: "string \<Rightarrow> string"
  bin_sha256 :: "string \<Rightarrow> string"
  bin_double_sha256 :: "string \<Rightarrow> string"
  btc_script_classify :: "string \<Rightarrow> string"
  btc_script_deserialize :: "string \<Rightarrow> string list"
  pubkey_address :: "string \<Rightarrow> string option"
  script_hex_to_address :: "string \<Rightarrow> string option"
  is_multisig_address :: "string \<Rightarrow> bool"
  is_multisig_script :: "string \<Rightarrow> bool"
  hex_hash160_to_address :: "string \<Rightarrow> string"
  address_reencode :: "string \<Rightarrow> string option"
  b58check_decode :: "string \<Rightarrow> string option"
  b58check_unpack :: "string \<Rightarrow> (char \<times> string \<times> string) res"
  b58check_encode :: "string \<Rightarrow> int \<Rightarrow> string res"
  address_to_hex_hash160 :: "string \<Rightarrow> string"
  child_address :: "string \<Rightarrow> nat \<Rightarrow> string"
  version_byte :: int
  engine_sanitize_op :: "(string \<times> pyval) list \<Rightarrow> (string \<times> pyval) list"
  is_consensus_hash_valid :: "int \<Rightarrow> string \<Rightarrow> bool"
  get_consensus_at :: "int \<Rightarrow> string option"
  get_block_from_consensus :: "string \<Rightarrow> int option"

text \<open>The address that receives burnt coins: the address of the all-zero public key hash.\<close>

definition BLOCKSTACK_BURN_ADDRESS :: "virtualchain \<Rightarrow> string" where
  "BLOCKSTACK_BURN_ADDRESS vc = hex_hash160_to_address vc ''0000000000000000000000000000000000000000''"

text \<open>
  A concrete instance, on which the hypotheses of properties are shown to be satisfiable: hashes
  are the identity, every script is its own address, and every base58 string decodes.
\<close>

definition example_vc :: virtualchain where
  "example_vc = \<lparr>is_hex = (\<lambda>_. True), hex_hash160 = (\<lambda>_. ''c0ffee''), bin_sha256 = (\<lambda>s. s), bin_double_sha256 = (\<lambda>s. s),
     btc_script_classify = (\<lambda>_. ''p2pkh''), btc_script_deserialize = (\<lambda>s. [[], s]), pubkey_address = Some,
     script_hex_to_address = Some, is_multisig_address = (\<lambda>_. False), is_multisig_script = (\<lambda>_. False),
     hex_hash160_to_address = (\<lambda>s. s), address_reencode = (\<lambda>_. None), b58check_decode = Some,
     b58check_unpack = (\<lambda>s. Inr (CHR 0x00, s, [])), b58check_encode = (\<lambda>s _. Inr s), address_to_hex_hash160 = (\<lambda>s. s), child_address = (\<lambda>s i. s), version_byte = 0, engine_sanitize_op = (\<lambda>d. d),
     is_consensus_hash_valid = (\<lambda>_ _. True), get_consensus_at = (\<lambda>_. Some ''ch''),
     get_block_from_consensus = (\<lambda>_. Some 500000)\<rparr>"

lemma example_vc_sel [simp]:
  "hex_hash160 example_vc x = ''c0ffee''" "bin_sha256 example_vc x = x" "is_multisig_address example_vc x = False"
  "is_multisig_script example_vc x = False" "is_consensus_hash_valid example_vc h x = True"
  "get_consensus_at example_vc b = Some ''ch''" "get_block_from_consensus example_vc x = Some 500000"
  "script_hex_to_address example_vc x = Some x" "pubkey_address example_vc x = Some x"
  "child_address example_vc x i = x" "version_byte example_vc = 0" "engine_sanitize_op example_vc d = d"
  by (simp_all add: example_vc_def)

end
