(* ===== verification/Scripts.thy ===== *)
theory Scripts
  imports B40 C32 Config Floats VirtualchainApi
begin

text \<open>
  The validity checks and prices of \<open>lib/scripts.py\<close> (with the patterns of \<open>lib/schemas.py\<close>
  that they match): names, namespaces, subdomains, addresses, block heights, the price of a name
  and of a namespace, and the checks of a transaction's outputs and senders.
\<close>

section \<open>Transactions\<close>

text \<open>The parts of a Bitcoin transaction that the operations read.\<close>

record tx_output =
  out_script :: string
  out_value :: int

record tx_sender =
  script_pubkey :: string
  script_type :: string
  addresses :: "string list"

record tx_input =
  in_script :: string

section \<open>Names\<close>

definition count_char :: "char \<Rightarrow> string \<Rightarrow> nat" where
  "count_char c s = length (filter ((=) c) s)"

definition is_namespace_valid :: "pyval \<Rightarrow> bool" where
  "is_namespace_valid namespace_id = (case namespace_id of
     VStr s \<Rightarrow>
       if \<not> is_b40 namespace_id \<or> CHR ''+'' \<in> set s \<or> count_char CHR ''.'' s > 0 then False
       else if length s = 0 \<or> length s > LENGTHS ''blockchain_id_namespace_id'' then False
       else True
   | _ \<Rightarrow> False)"

definition is_name_valid :: "pyval \<Rightarrow> bool" where
  "is_name_valid fqn = (case fqn of
     VStr s \<Rightarrow>
       if count_char CHR ''.'' s \<noteq> 1 then False
       else (case split_on CHR ''.'' s of
         [name, namespace_id] \<Rightarrow>
           if length name = 0 \<or> length namespace_id = 0 then False
           else if \<not> is_b40 (VStr name) \<or> CHR ''+'' \<in> set name \<or> CHR ''.'' \<in> set name then False
           else if \<not> is_namespace_valid (VStr namespace_id) then False
           else if length s > LENGTHS ''blockchain_id_name'' then False
           else True
       | _ \<Rightarrow> False)
   | _ \<Rightarrow> False)"

definition get_namespace_from_name :: "string \<Rightarrow> string" where
  "get_namespace_from_name name =
    (if CHR ''.'' \<notin> set name then [] else last (split_on CHR ''.'' name))"

definition get_name_from_fq_name :: "string \<Rightarrow> string option" where
  "get_name_from_fq_name name =
    (if CHR ''.'' \<notin> set name then None
     else Some (join_with ''.'' (butlast (split_on CHR ''.'' name))))"

text \<open>
  \<open>OP_SUBDOMAIN_NAME_PATTERN\<close>: a label, a period, a label of at most 37 characters, a period and
  1 to 19 namespace characters, up to the end or a final newline. The labels hold no period, so the
  match is determined by the first two periods.
\<close>

definition name_char_noperiod :: "char \<Rightarrow> bool" where
  "name_char_noperiod c = (c \<in> set ''abcdefghijklmnopqrstuvwxyz0123456789-_+'')"

definition name_char :: "char \<Rightarrow> bool" where
  "name_char c = (name_char_noperiod c \<or> c = CHR ''.'')"

definition strip_newline :: "string \<Rightarrow> string" where
  "strip_newline s = (if s \<noteq> [] \<and> last s = CHR ''\<newline>'' then butlast s else s)"

definition match_subdomain :: "string \<Rightarrow> (string \<times> string) option" where
  "match_subdomain fqa = (case split_on CHR ''.'' (strip_newline fqa) of
     [sub, label, ns] \<Rightarrow>
       if sub \<noteq> [] \<and> list_all name_char_noperiod sub \<and>
          1 \<le> length label \<and> length label \<le> LENGTHS ''fqn_max'' \<and> list_all name_char_noperiod label \<and>
          1 \<le> length ns \<and> length ns \<le> LENGTHS ''namespace_id'' \<and> list_all name_char ns
       then Some (sub, label @ ''.'' @ ns) else None
   | _ \<Rightarrow> None)"

definition is_address_subdomain :: "string \<Rightarrow> bool \<times> (string \<times> string) option" where
  "is_address_subdomain fqa =
    (if count_char CHR ''.'' fqa \<noteq> 2 then (False, None)
     else case match_subdomain fqa of
       None \<Rightarrow> (False, None)
     | Some (subdomain_name, domain) \<Rightarrow>
         if \<not> is_name_valid (VStr domain) then (False, None)
         else (True, Some (subdomain_name, domain)))"

definition is_subdomain :: "string \<Rightarrow> bool" where
  "is_subdomain fqn = fst (is_address_subdomain fqn)"

section \<open>Prices\<close>

definition get_int :: "pydict \<Rightarrow> string \<Rightarrow> int res" where
  "get_int d k = rbind (getitem d k) (\<lambda>v. case py_int v of Some i \<Rightarrow> Inr i | None \<Rightarrow> Inl TypeError)"

definition get_str :: "pydict \<Rightarrow> string \<Rightarrow> string res" where
  "get_str d k = rbind (getitem d k) (\<lambda>v. case v of VStr s \<Rightarrow> Inr s | _ \<Rightarrow> Inl TypeError)"

text \<open>The exponents of the price buckets are four-bit numbers in the wire format.\<close>

definition get_buckets :: "pydict \<Rightarrow> nat list res" where
  "get_buckets d = rbind (getitem d ''buckets'') (\<lambda>v. case v of
     VList l \<Rightarrow> rmap (\<lambda>x. case x of VInt i \<Rightarrow> if 0 \<le> i then Inr (nat i) else Inl ValueError
                          | _ \<Rightarrow> Inl TypeError) l
   | _ \<Rightarrow> Inl TypeError)"

definition has_no_vowel :: "string \<Rightarrow> bool" where
  "has_no_vowel name = (\<forall>c \<in> set (str_lower name). c \<notin> set ''aeiouy'')"

definition has_nonalpha :: "string \<Rightarrow> bool" where
  "has_nonalpha name = (\<exists>c \<in> set (str_lower name). c \<in> set ''0123456789-_'')"

definition bucket_exponent :: "string \<Rightarrow> nat list \<Rightarrow> nat res" where
  "bucket_exponent name buckets =
    (if length name < length buckets
     then Inr (if length name = 0 then last buckets else buckets ! (length name - 1))
     else if buckets = [] then Inl IndexError else Inr (last buckets))"

definition name_discount :: "string \<Rightarrow> pydict \<Rightarrow> int res" where
  "name_discount name namespace =
    rbind (if has_no_vowel name
           then rbind (get_int namespace ''no_vowel_discount'') (\<lambda>d. Inr (max 1 d)) else Inr 1) (\<lambda>discount.
      if has_nonalpha name
      then rbind (get_int namespace ''nonalpha_discount'') (\<lambda>d. Inr (max discount d)) else Inr discount)"

definition price_name :: "string \<Rightarrow> pydict \<Rightarrow> int \<Rightarrow> pyval res" where
  "price_name name namespace block_height =
    rbind (get_epoch_features block_height) (\<lambda>epoch_features.
    rbind (getitem namespace ''version'') (\<lambda>version.
      let pay_stacks = py_eq version (VInt NAMESPACE_VERSION_PAY_WITH_STACKS);
          units = (if pay_stacks then ''STACKS'' else ''BTC'');
          cost_unit = (if pay_stacks then NAME_COST_UNIT_STACKS else NAME_COST_UNIT)
      in
      rbind (get_int namespace ''base'') (\<lambda>base.
      rbind (get_int namespace ''coeff'') (\<lambda>coeff.
      rbind (get_buckets namespace) (\<lambda>buckets.
      rbind (bucket_exponent name buckets) (\<lambda>exponent.
      rbind (name_discount name namespace) (\<lambda>discount.
        if EPOCH_FEATURE_INT_DIVISION \<in> set epoch_features then
          let price = (coeff * base ^ exponent * cost_unit) div discount;
              price = (if price < cost_unit then cost_unit else price)
          in rbind (get_str namespace ''namespace_id'') (\<lambda>namespace_id.
             rbind (get_epoch_price_divisor block_height namespace_id units) (\<lambda>price_divisor.
               Inr (VInt (price div price_divisor))))
        else
          let price = float_mult (float_div (float_of_int (coeff * base ^ exponent)) (of_int discount)) (of_int cost_unit);
              price = (if price < of_int cost_unit then of_int cost_unit else price)
          in rbind (get_str namespace ''namespace_id'') (\<lambda>namespace_id.
             rbind (get_epoch_price_multiplier block_height namespace_id units) (\<lambda>price_multiplier.
               Inr (VFloat (float_mult price price_multiplier)))))))))))"

definition price_name_stacks :: "string \<Rightarrow> pydict \<Rightarrow> int \<Rightarrow> pyval res" where
  "price_name_stacks name namespace block_height =
    rbind (getitem namespace ''version'') (\<lambda>version.
      if py_eq version (VInt NAMESPACE_VERSION_PAY_WITH_STACKS)
      then price_name name namespace block_height
      else rbind (price_name name namespace block_height) (\<lambda>btc_price.
        case btc_price of
          VInt p \<Rightarrow> Inr (VInt (p * MICROSTACKS_PER_SATOSHI_NUM div MICROSTACKS_PER_SATOSHI_DEN))
        | VFloat p \<Rightarrow> Inr (VInt ((if 0 \<le> p then floor p else ceiling p)
                          * MICROSTACKS_PER_SATOSHI_NUM div MICROSTACKS_PER_SATOSHI_DEN))
        | _ \<Rightarrow> Inl TypeError))"

definition price_namespace :: "string \<Rightarrow> int \<Rightarrow> string \<Rightarrow> pyval res" where
  "price_namespace namespace_id block_height units =
    rbind (get_epoch_namespace_prices block_height units) (\<lambda>price_table.
      case price_table of
        None \<Rightarrow> Inr VNone
      | Some t \<Rightarrow> if length namespace_id \<ge> length t \<or> length namespace_id = 0 then Inr VNone
                  else Inr (t ! length namespace_id))"

section \<open>Lookups in a block's operations and in a transaction\<close>

definition find_by_opcode :: "pydict list \<Rightarrow> string list \<Rightarrow> pydict list res" where
  "find_by_opcode checked_ops opcode =
    rfold (\<lambda>ret opdata.
      rbind (get_str opdata ''op'') (\<lambda>op.
      rbind (op_get_opcode_name op) (\<lambda>name.
        Inr (if name \<in> set opcode then ret @ [opdata] else ret)))) [] checked_ops"

text \<open>
  A script that \<open>BitcoinPublicKey\<close> rejects is skipped, like one whose address differs.
\<close>

fun get_public_key_hex_from_tx :: "virtualchain \<Rightarrow> tx_input list \<Rightarrow> string \<Rightarrow> string option" where
  "get_public_key_hex_from_tx vc [] address = None"
| "get_public_key_hex_from_tx vc (inp # inputs) address =
    (let input_script_code = btc_script_deserialize vc (in_script inp) in
     if length input_script_code = 2 then
       let pubkey_candidate = input_script_code ! 1 in
       (case pubkey_address vc pubkey_candidate of
          None \<Rightarrow> get_public_key_hex_from_tx vc inputs address
        | Some a \<Rightarrow> if address \<noteq> a then get_public_key_hex_from_tx vc inputs address
                     else Some pubkey_candidate)
     else get_public_key_hex_from_tx vc inputs address)"

section \<open>Argument checks\<close>

definition check_name :: "pyval \<Rightarrow> bool" where
  "check_name name = (case name of VStr _ \<Rightarrow> is_name_valid name | _ \<Rightarrow> False)"

definition check_namespace :: "pyval \<Rightarrow> bool" where
  "check_namespace namespace_id = (case namespace_id of VStr _ \<Rightarrow> is_namespace_valid namespace_id | _ \<Rightarrow> False)"

definition check_string :: "pyval \<Rightarrow> nat option \<Rightarrow> nat option \<Rightarrow> (string \<Rightarrow> bool) option \<Rightarrow> bool" where
  "check_string value min_length max_length pattern = (case value of
     VStr s \<Rightarrow>
       if (case min_length of Some m \<Rightarrow> m \<noteq> 0 \<and> length s < m | None \<Rightarrow> False) then False
       else if (case max_length of Some m \<Rightarrow> m \<noteq> 0 \<and> length s > m | None \<Rightarrow> False) then False
       else (case pattern of Some p \<Rightarrow> p s | None \<Rightarrow> True)
   | _ \<Rightarrow> False)"

definition match_range :: "nat \<Rightarrow> nat \<Rightarrow> (char \<Rightarrow> bool) \<Rightarrow> string \<Rightarrow> bool" where
  "match_range m n ok s = (\<exists>t \<in> {s, strip_newline s}. m \<le> length t \<and> length t \<le> n \<and> list_all ok t)"

definition check_token_type :: "pyval \<Rightarrow> bool" where
  "check_token_type token_type =
    check_string token_type (Some 1) (Some (LENGTHS ''namespace_id''))
      (Some (\<lambda>s. strip_newline s = TOKEN_TYPE_STACKS \<or> match_range 1 (LENGTHS ''namespace_id'') name_char s))"

definition check_subdomain :: "pyval \<Rightarrow> bool" where
  "check_subdomain fqn = (case fqn of VStr s \<Rightarrow> is_subdomain s | _ \<Rightarrow> False)"

definition check_block :: "pyval \<Rightarrow> bool" where
  "check_block block_id = (case block_id of
     VInt i \<Rightarrow> if i < FIRST_BLOCK_MAINNET then False else if i > 10 ^ 7 then False else True
   | _ \<Rightarrow> False)"

definition check_offset :: "pyval \<Rightarrow> int option \<Rightarrow> bool" where
  "check_offset offset max_value = (case offset of
     VInt i \<Rightarrow>
       if i < 0 then False
       else if (case max_value of Some m \<Rightarrow> m \<noteq> 0 \<and> i > m | None \<Rightarrow> False) then False
       else True
   | _ \<Rightarrow> False)"

definition check_count :: "pyval \<Rightarrow> int option \<Rightarrow> bool" where
  "check_count count max_value = (case count of
     VInt i \<Rightarrow>
       if i < 0 then False
       else if (case max_value of Some m \<Rightarrow> m \<noteq> 0 \<and> i > m | None \<Rightarrow> False) then False
       else True
   | _ \<Rightarrow> False)"

definition b58_char :: "char \<Rightarrow> bool" where
  "b58_char c = (c \<in> set ''123456789ABCDEFGHJKLMNPQRSTUVWXYZabcdefghijkmnopqrstuvwxyz'')"

definition check_address :: "virtualchain \<Rightarrow> pyval \<Rightarrow> bool" where
  "check_address vc address =
    (if \<not> check_string address (Some 26) (Some 35) (Some (match_range 1 35 b58_char)) then False
     else case address of VStr s \<Rightarrow> b58check_decode vc s \<noteq> None | _ \<Rightarrow> False)"

definition is_c32_address :: "string \<Rightarrow> bool" where
  "is_c32_address addr = (case c32addressDecode addr of Inr _ \<Rightarrow> True | Inl _ \<Rightarrow> False)"

definition check_account_address :: "virtualchain \<Rightarrow> string \<Rightarrow> bool" where
  "check_account_address vc address =
    (if address = ''treasury'' \<or> address = ''unallocated'' then True
     else if take 16 address = ''not_distributed_'' \<and> length address > 16 then True
     else if match_some (\<lambda>c. c \<in> set C32) address \<and> is_c32_address address then True
     else check_address vc (VStr address))"

definition check_tx_output_types :: "virtualchain \<Rightarrow> tx_output list \<Rightarrow> int \<Rightarrow> bool res" where
  "check_tx_output_types vc outputs block_height =
    rbind (get_epoch_btc_script_types block_height) (\<lambda>supported_output_types.
      Inr (list_all (\<lambda>out. btc_script_classify vc (out_script out) \<in> set supported_output_types) outputs))"

definition check_tx_sender_types :: "virtualchain \<Rightarrow> tx_sender list \<Rightarrow> int \<Rightarrow> bool res" where
  "check_tx_sender_types vc senders block_height =
    rbind (get_epoch_btc_sender_types block_height) (\<lambda>supported_sender_types.
      Inr (list_all (\<lambda>sender. length (addresses sender) = 1 \<and>
             btc_script_classify vc (script_pubkey sender) \<in> set supported_sender_types) senders))"

definition address_as_b58 :: "virtualchain \<Rightarrow> string \<Rightarrow> string res" where
  "address_as_b58 vc addr =
    (if is_c32_address addr then c32ToB58 (b58check_encode vc) addr (-1)
     else if check_address vc (VStr addr) then Inr addr
     else Inl ValueError)"

section \<open>What the checks accept\<close>

text \<open>A label of a name: base-40 characters other than plus and period.\<close>

definition plain_label :: "string \<Rightarrow> bool" where
  "plain_label s = (s \<noteq> [] \<and> set s \<subseteq> set B40_CHARS - {CHR ''+'', CHR ''.''})"

lemma split_on_two: "count_char c s = 1 \<Longrightarrow> \<exists>a b. split_on c s = [a, b] \<and> s = a @ c # b \<and> c \<notin> set a \<and> c \<notin> set b"
proof -
  assume "count_char c s = 1"
  then have "length (split_on c s) = 2"
    by (simp add: length_split_on count_char_def)
  then obtain a b where ab: "split_on c s = [a, b]"
    by (auto simp: length_Suc_conv numeral_2_eq_2)
  then show ?thesis
    using join_split [of c s] split_on_no_sep [of c s] by auto
qed

lemma count_char_0 [simp]:
  "count_char c s = 0 \<longleftrightarrow> c \<notin> set s" "0 < count_char c s \<longleftrightarrow> c \<in> set s"
  by (auto simp: count_char_def filter_empty_conv)

text \<open>Because of the regular expression, a label may be followed by a newline.\<close>

definition label_or_newline :: "string \<Rightarrow> bool" where
  "label_or_newline s = (plain_label s \<or> s = ''\<newline>'' \<or> (\<exists>t. s = t @ ''\<newline>'' \<and> plain_label t))"

lemma label_or_newline_iff:
  "label_or_newline s \<longleftrightarrow> s \<noteq> [] \<and> is_b40 (VStr s) \<and> CHR ''+'' \<notin> set s \<and> CHR ''.'' \<notin> set s"
  by (cases s rule: rev_cases) (auto simp: label_or_newline_def is_b40_iff plain_label_def newline_not_b40)

lemma is_namespace_valid_iff:
  "is_namespace_valid (VStr s) \<longleftrightarrow> label_or_newline s \<and> length s \<le> 19"
  by (auto simp: is_namespace_valid_def label_or_newline_iff)

lemma is_name_valid_iff:
  "is_name_valid (VStr s) \<longleftrightarrow>
     (\<exists>n ns. s = n @ ''.'' @ ns \<and> label_or_newline n \<and> label_or_newline ns \<and> length ns \<le> 19 \<and> length s \<le> 37)"
proof
  assume valid: "is_name_valid (VStr s)"
  then have "count_char CHR ''.'' s = 1"
    by (simp add: is_name_valid_def split: if_splits)
  then obtain a b where "split_on CHR ''.'' s = [a, b]" "s = a @ CHR ''.'' # b"
    using split_on_two by blast
  with valid show "\<exists>n ns. s = n @ ''.'' @ ns \<and> label_or_newline n \<and> label_or_newline ns \<and>
      length ns \<le> 19 \<and> length s \<le> 37"
    by (auto simp: is_name_valid_def is_namespace_valid_iff label_or_newline_iff split: if_splits)
next
  assume "\<exists>n ns. s = n @ ''.'' @ ns \<and> label_or_newline n \<and> label_or_newline ns \<and>
      length ns \<le> 19 \<and> length s \<le> 37"
  then obtain n ns where s: "s = n @ ''.'' @ ns" "label_or_newline n" "label_or_newline ns"
      "length ns \<le> 19" "length s \<le> 37"
    by blast
  then have "CHR ''.'' \<notin> set n" "CHR ''.'' \<notin> set ns"
    by (simp_all add: label_or_newline_iff)
  then have "split_on CHR ''.'' s = [n, ns]" "count_char CHR ''.'' s = 1"
    by (simp_all add: s(1) split_on_join split_on_none) (auto simp: count_char_def filter_empty_conv)
  with s show "is_name_valid (VStr s)"
    by (simp add: is_name_valid_def is_namespace_valid_iff label_or_newline_iff)
qed

lemma label_split_fq:
  assumes "CHR ''.'' \<notin> set ns" and "CHR ''.'' \<notin> set n"
  shows "get_namespace_from_name (n @ ''.'' @ ns) = ns" "get_name_from_fq_name (n @ ''.'' @ ns) = Some n"
  using assms by (simp_all add: get_namespace_from_name_def get_name_from_fq_name_def split_on_join split_on_none)

lemma join_three: "split_on CHR ''.'' s = [a, b, c] \<Longrightarrow> s = a @ ''.'' @ b @ ''.'' @ c"
  using join_split [of "CHR ''.''" s] by simp

text \<open>The namespace parameters that the price curve reads, as the database holds them.\<close>

definition price_params :: "pydict \<Rightarrow> int \<Rightarrow> int \<Rightarrow> int \<Rightarrow> nat list \<Rightarrow> int \<Rightarrow> int \<Rightarrow> bool" where
  "price_params ns version base coeff buckets no_vowel nonalpha \<longleftrightarrow>
    map_of ns ''version'' = Some (VInt version) \<and> map_of ns ''base'' = Some (VInt base) \<and>
    map_of ns ''coeff'' = Some (VInt coeff) \<and> map_of ns ''buckets'' = Some (VList (map (\<lambda>e. VInt (int e)) buckets)) \<and>
    map_of ns ''no_vowel_discount'' = Some (VInt no_vowel) \<and>
    map_of ns ''nonalpha_discount'' = Some (VInt nonalpha) \<and> (\<exists>i. map_of ns ''namespace_id'' = Some (VStr i))"

definition discount_of :: "string \<Rightarrow> int \<Rightarrow> int \<Rightarrow> int" where
  "discount_of name no_vowel nonalpha =
    max (max 1 (if has_no_vowel name then no_vowel else 1)) (if has_nonalpha name then nonalpha else 1)"

lemma getitem_map_of: "map_of d k = Some v \<Longrightarrow> getitem d k = Inr v"
  by (simp add: getitem_def)

lemma get_int_map_of: "map_of d k = Some (VInt i) \<Longrightarrow> get_int d k = Inr i"
  by (simp add: get_int_def getitem_def)

lemma get_str_map_of: "map_of d k = Some (VStr i) \<Longrightarrow> get_str d k = Inr i"
  by (simp add: get_str_def getitem_def)

lemma get_buckets_map_of:
  assumes "map_of d ''buckets'' = Some (VList (map (\<lambda>e. VInt (int e)) es))"
  shows "get_buckets d = Inr es"
proof -
  have "rmap (\<lambda>x. case x of VInt i \<Rightarrow> if 0 \<le> i then Inr (nat i) else Inl ValueError | _ \<Rightarrow> Inl TypeError)
      (map (\<lambda>e. VInt (int e)) es) = Inr es"
    by (induction es) simp_all
  with assms show ?thesis
    by (simp add: get_buckets_def getitem_def)
qed

lemma name_discount_params:
  "price_params ns v b c es nv na \<Longrightarrow> name_discount name ns = Inr (discount_of name nv na)"
  by (auto simp: price_params_def name_discount_def get_int_map_of discount_of_def)

definition cost_unit_of :: "int \<Rightarrow> int" where
  "cost_unit_of version = (if version = NAMESPACE_VERSION_PAY_WITH_STACKS then NAME_COST_UNIT_STACKS else NAME_COST_UNIT)"

definition divisor_of :: "int \<Rightarrow> int" where
  "divisor_of version = (if version = NAMESPACE_VERSION_PAY_WITH_STACKS then 1 else 10)"

lemma price_divisor_int_epoch:
  assumes "EPOCH_FEATURE_INT_DIVISION \<in> set (features (epoch_of h))"
  shows "get_epoch_price_divisor h ns (if v = NAMESPACE_VERSION_PAY_WITH_STACKS then ''STACKS'' else ''BTC'')
    = Inr (divisor_of v)"
proof -
  have h: "547921 < h"
    using assms by (simp add: epoch_of_def epoch_tables split: if_splits)
  obtain r where "epoch_ns_rules (epoch_of h) ns = Inr r" "r = (if h \<le> 599866 then EPOCH_4_id
       else if h \<le> 613249 then EPOCH_5_id else EPOCH_6_id)"
    using epoch_ns_rules_ok [of h ns] h by auto
  then show ?thesis
    by (simp add: get_epoch_price_divisor_def divisor_of_def epoch_tables TOKEN_TYPE_STACKS_def)
qed

lemma price_name_int_epoch:
  assumes "EPOCH_FEATURE_INT_DIVISION \<in> set (features (epoch_of h))"
    and "price_params ns v b c es nv na" and "bucket_exponent name es = Inr e"
  shows "price_name name ns h = Inr (VInt
    (max (cost_unit_of v) (c * b ^ e * cost_unit_of v div discount_of name nv na) div divisor_of v))"
proof -
  obtain i where i: "map_of ns ''namespace_id'' = Some (VStr i)"
    using assms(2) by (auto simp: price_params_def)
  have get: "getitem ns ''version'' = Inr (VInt v)" "get_int ns ''base'' = Inr b" "get_int ns ''coeff'' = Inr c"
    "get_buckets ns = Inr es" "get_str ns ''namespace_id'' = Inr i"
    using assms(2) i by (simp_all add: price_params_def getitem_map_of get_int_map_of get_str_map_of get_buckets_map_of)
  have div: "get_epoch_price_divisor h i (if v = NAMESPACE_VERSION_PAY_WITH_STACKS then ''STACKS'' else ''BTC'')
      = Inr (divisor_of v)"
    by (rule price_divisor_int_epoch [OF assms(1)])
  show ?thesis
    using div by (simp add: price_name_def get assms(1,3) name_discount_params [OF assms(2)] cost_unit_of_def
        max_def Let_def not_less split del: if_split) (simp add: not_less)
qed

section \<open>Properties\<close>

text \<open>
  C33: What a valid fully-qualified name is: two non-empty labels of base-40 characters other
  than plus and period, joined by one period, the namespace of at most 19 and the whole of at most
  37 bytes, where each label may also end in (or be) a newline. The parts are recovered by
  \<open>get_name_from_fq_name\<close> and \<open>get_namespace_from_name\<close>.
\<close>

theorem is_name_valid_characterised:
  "is_name_valid (VStr s) \<longleftrightarrow>
     (\<exists>n ns. s = n @ ''.'' @ ns \<and> label_or_newline n \<and> label_or_newline ns \<and> length ns \<le> 19 \<and> length s \<le> 37 \<and>
        get_name_from_fq_name s = Some n \<and> get_namespace_from_name s = ns)"
proof -
  have "label_or_newline ns \<Longrightarrow> label_or_newline n \<Longrightarrow>
      get_namespace_from_name (n @ ''.'' @ ns) = ns \<and> get_name_from_fq_name (n @ ''.'' @ ns) = Some n" for n ns
    by (intro conjI label_split_fq) (simp_all add: label_or_newline_iff)
  then show ?thesis
    unfolding is_name_valid_iff by metis
qed

text \<open>
  C35: A name that passes \<open>is_name_valid\<close> can be hashed exactly when it holds no newline; with a
  newline, \<open>hash_name\<close> raises an exception although the name was accepted.
\<close>

theorem valid_name_hashable:
  assumes "is_name_valid (VStr s)" and "unhexlify script = Inr b"
  shows "if CHR ''\<newline>'' \<in> set s then hash_name h (VStr s) script addr = Inl ValueError
    else \<exists>hash. hash_name h (VStr s) script addr = Inr hash"
proof -
  obtain n ns where s: "s = n @ ''.'' @ ns" "label_or_newline n" "label_or_newline ns"
    using assms(1) unfolding is_name_valid_iff by blast
  have "CHR ''.'' \<in> set B40_CHARS"
    by (simp add: B40_CHARS_def)
  then have "CHR ''\<newline>'' \<in> set s \<longleftrightarrow> \<not> set s \<subseteq> set B40_CHARS"
    using s newline_not_b40 by (auto simp: label_or_newline_def plain_label_def)
  then show ?thesis
    using b40_to_bin_ok [of s] b40_to_bin_bad [of s] assms(2) by (auto simp: hash_name_def Let_def)
qed

theorem valid_name_hashable_witness:
  "is_name_valid (VStr ''a.id\<newline>'') \<and> hash_name id (VStr ''a.id\<newline>'') ''00'' None = Inl ValueError"
proof -
  have "is_name_valid (VStr ''a.id\<newline>'')" "unhexlify ''00'' = Inr [CHR 0x00]"
    by code_simp+
  then show ?thesis
    using valid_name_hashable [of "''a.id\<newline>''" "''00''" _ id None] by auto
qed


definition example_namespace :: pydict where
  "example_namespace = [(''version'', VInt 1), (''base'', VInt 4), (''coeff'', VInt 250),
     (''buckets'', VList (map (\<lambda>e. VInt (int e)) [6, 5, 4, 3, 2, 1, 0, 0, 0, 0, 0, 0, 0, 0, 0, 0])),
     (''no_vowel_discount'', VInt 4), (''nonalpha_discount'', VInt 4), (''namespace_id'', VStr ''id'')]"


end
