(* ===== verification/Accounts.thy ===== *)
theory Accounts
  imports Scripts "HOL-Library.Product_Lexorder"
begin

text \<open>
  The token accounts of \<open>lib/nameset/db.py\<close>: the tables \<open>accounts\<close> and \<open>account_vesting\<close>, the
  queries on them, debits, credits, vesting and the genesis allocation. Every change of an account
  appends a row; the current state of an account is its row with the greatest block and
  transaction index. A violated primary key makes the node abort.
\<close>

section \<open>Rows and tables\<close>

record account_row =
  acc_address :: string
  acc_type :: string
  credit_value :: int
  debit_value :: int
  lock_transfer_block_id :: int
  receive_whitelisted :: bool
  metadata :: pyval
  acc_block_id :: int
  acc_txid :: string
  acc_vtxindex :: int

record vesting_row =
  vest_address :: string
  vest_type :: string
  vesting_value :: int
  vest_block_id :: int

type_synonym accounts = "account_row list"

definition account_key :: "account_row \<Rightarrow> string \<times> int \<times> string \<times> int \<times> string" where
  "account_key r = (acc_address r, acc_block_id r, acc_txid r, acc_vtxindex r, acc_type r)"

text \<open>\<open>INSERT INTO accounts\<close>: the statement fails, and the node aborts, on a duplicate key.\<close>

definition accounts_insert :: "accounts \<Rightarrow> account_row \<Rightarrow> accounts res" where
  "accounts_insert accts r =
    (if account_key r \<in> set (map account_key accts) then Inl Abort else Inr (accts @ [r]))"

text \<open>\<open>ORDER BY block_id DESC, vtxindex DESC\<close>.\<close>

definition order_desc :: "accounts \<Rightarrow> accounts" where
  "order_desc = sort_key (\<lambda>r. (- acc_block_id r, - acc_vtxindex r))"

section \<open>Queries\<close>

definition namedb_get_account :: "accounts \<Rightarrow> string \<Rightarrow> string \<Rightarrow> account_row option" where
  "namedb_get_account accts address token_type =
    (case order_desc (filter (\<lambda>r. acc_address r = address \<and> acc_type r = token_type) accts) of
       [] \<Rightarrow> None | r # _ \<Rightarrow> Some r)"

definition namedb_get_account_balance :: "account_row \<Rightarrow> int res" where
  "namedb_get_account_balance account =
    (let balance = credit_value account - debit_value account in
     if balance < 0 then Inl Abort else Inr balance)"

definition namedb_get_account_tokens :: "accounts \<Rightarrow> string \<Rightarrow> string list" where
  "namedb_get_account_tokens accts address =
    remdups (map acc_type (filter (\<lambda>r. acc_address r = address) accts))"

definition namedb_get_account_at :: "accounts \<Rightarrow> string \<Rightarrow> int \<Rightarrow> accounts" where
  "namedb_get_account_at accts address block_number =
    (let ret = order_desc (filter (\<lambda>r. acc_address r = address \<and> acc_block_id r = block_number) accts) in
     if length ret > 0 then ret
     else take 1 (order_desc (filter (\<lambda>r. acc_address r = address \<and> acc_block_id r < block_number) accts)))"

definition namedb_get_account_tokens_at :: "accounts \<Rightarrow> string \<Rightarrow> string \<Rightarrow> int \<Rightarrow> int \<Rightarrow> account_row option" where
  "namedb_get_account_tokens_at accts address token_type block_height vtxindex =
    (case order_desc (filter (\<lambda>r. acc_address r = address \<and> acc_type r = token_type \<and>
              acc_block_id r = block_height \<and> acc_vtxindex r = vtxindex) accts) of
       [] \<Rightarrow> None | r # _ \<Rightarrow> Some r)"

text \<open>The result is the pair of the current and the prior state.\<close>

definition namedb_get_account_delta ::
    "accounts \<Rightarrow> string \<Rightarrow> string \<Rightarrow> int \<Rightarrow> int \<Rightarrow> (account_row \<times> account_row) option" where
  "namedb_get_account_delta accts address token_type block_id vtxindex =
    (case take 2 (order_desc (filter (\<lambda>r. acc_address r = address \<and> acc_type r = token_type \<and>
              (acc_block_id r \<le> block_id \<or> acc_block_id r = block_id \<and> acc_vtxindex r \<le> vtxindex)) accts)) of
       [current, prior] \<Rightarrow>
         if acc_block_id current \<noteq> block_id \<or> acc_vtxindex current \<noteq> vtxindex then None
         else Some (current, prior)
     | _ \<Rightarrow> None)"

definition namedb_get_account_diff :: "account_row \<Rightarrow> account_row \<Rightarrow> int res" where
  "namedb_get_account_diff current prior =
    (if acc_address current \<noteq> acc_address prior \<or> acc_type current \<noteq> acc_type prior then Inl ValueError
     else rbind (namedb_get_account_balance current) (\<lambda>c.
          rbind (namedb_get_account_balance prior) (\<lambda>p. Inr (c - p))))"

text \<open>\<open>LIMIT\<close> and \<open>OFFSET\<close>; SQLite has no \<open>OFFSET\<close> without a \<open>LIMIT\<close>, so that query aborts.\<close>

definition sql_page :: "int option \<Rightarrow> int option \<Rightarrow> 'a list \<Rightarrow> 'a list res" where
  "sql_page offset count rows = (case (count, offset) of
     (None, None) \<Rightarrow> Inr rows
   | (None, Some _) \<Rightarrow> Inl Abort
   | (Some n, None) \<Rightarrow> Inr (if n < 0 then rows else take (nat n) rows)
   | (Some n, Some k) \<Rightarrow> Inr (let rs = drop (nat k) rows in if n < 0 then rs else take (nat n) rs))"

definition namedb_get_account_history :: "accounts \<Rightarrow> string \<Rightarrow> int option \<Rightarrow> int option \<Rightarrow> accounts res" where
  "namedb_get_account_history accts address offset count =
    sql_page offset count (order_desc (filter (\<lambda>r. acc_address r = address) accts))"

definition namedb_get_account_history_at ::
    "accounts \<Rightarrow> string \<Rightarrow> int \<Rightarrow> int option \<Rightarrow> int option \<Rightarrow> accounts res" where
  "namedb_get_account_history_at accts address tail_block_height offset count =
    sql_page offset count
      (order_desc (filter (\<lambda>r. acc_address r = address \<and> acc_block_id r \<le> tail_block_height) accts))"

definition namedb_get_all_account_addresses :: "accounts \<Rightarrow> string list" where
  "namedb_get_all_account_addresses accts = remdups (map acc_address accts)"

section \<open>Debits, credits and vesting\<close>

definition namedb_account_transaction_save ::
    "accounts \<Rightarrow> string \<Rightarrow> string \<Rightarrow> int \<Rightarrow> int \<Rightarrow> int \<Rightarrow> int \<Rightarrow> string \<Rightarrow> account_row option \<Rightarrow> accounts res" where
  "namedb_account_transaction_save accts address token_type new_credit_value new_debit_value
      block_id vtxindex txid existing_account =
    accounts_insert accts
      \<lparr>acc_address = address, acc_type = token_type,
       credit_value = new_credit_value, debit_value = new_debit_value,
       lock_transfer_block_id = (case existing_account of None \<Rightarrow> 0 | Some a \<Rightarrow> lock_transfer_block_id a),
       receive_whitelisted = (case existing_account of None \<Rightarrow> True | Some a \<Rightarrow> receive_whitelisted a),
       metadata = (case existing_account of None \<Rightarrow> VNone | Some a \<Rightarrow> metadata a),
       acc_block_id = block_id, acc_txid = txid, acc_vtxindex = vtxindex\<rparr>"

definition namedb_account_debit ::
    "accounts \<Rightarrow> string \<Rightarrow> string \<Rightarrow> int \<Rightarrow> int \<Rightarrow> int \<Rightarrow> string \<Rightarrow> accounts res" where
  "namedb_account_debit accts account_addr token_type amount block_id vtxindex txid =
    (case namedb_get_account accts account_addr token_type of
       None \<Rightarrow> Inl Abort
     | Some account \<Rightarrow>
         let new_credit_value = credit_value account;
             new_debit_value = debit_value account + amount
         in if new_debit_value > new_credit_value then Inl Abort
            else namedb_account_transaction_save accts account_addr token_type
                   new_credit_value new_debit_value block_id vtxindex txid (Some account))"

definition namedb_account_credit ::
    "accounts \<Rightarrow> string \<Rightarrow> string \<Rightarrow> int \<Rightarrow> int \<Rightarrow> int \<Rightarrow> string \<Rightarrow> accounts res" where
  "namedb_account_credit accts account_addr token_type amount block_id vtxindex txid =
    (let account = namedb_get_account accts account_addr token_type;
         new_credit_value = (case account of None \<Rightarrow> amount | Some a \<Rightarrow> credit_value a + amount);
         new_debit_value = (case account of None \<Rightarrow> 0 | Some a \<Rightarrow> debit_value a)
     in if new_debit_value > new_credit_value then Inl Abort
        else namedb_account_transaction_save accts account_addr token_type
               new_credit_value new_debit_value block_id vtxindex txid account)"

definition namedb_vesting_txid :: "virtualchain \<Rightarrow> string \<Rightarrow> string \<Rightarrow> int \<Rightarrow> int \<Rightarrow> string" where
  "namedb_vesting_txid vc address token_type token_amount block_height =
    hexlify (bin_double_sha256 vc (address @ '' vesting '' @ token_type @ '' '' @ str_of_int token_amount
      @ '' at '' @ str_of_int block_height))"

definition namedb_accounts_vest ::
    "virtualchain \<Rightarrow> accounts \<Rightarrow> vesting_row list \<Rightarrow> int \<Rightarrow> accounts res" where
  "namedb_accounts_vest vc accts vesting block_height =
    rfold (\<lambda>accts row.
        let fake_txid = namedb_vesting_txid vc (vest_address row) (vest_type row) (vesting_value row) block_height
        in namedb_account_credit accts (vest_address row) (vest_type row) (vesting_value row)
             block_height 0 fake_txid)
      accts (filter (\<lambda>row. vest_block_id row = block_height) vesting)"

section \<open>The genesis allocation\<close>

record genesis_account =
  gen_address :: string
  gen_type :: string
  gen_value :: int
  gen_vesting :: "(int \<times> int) list option"
  gen_vesting_total :: "int option"
  gen_lock_send :: "int option"
  gen_receive_whitelisted :: "bool option"
  gen_metadata :: "string option"

definition namedb_genesis_txid :: "virtualchain \<Rightarrow> string \<Rightarrow> string \<Rightarrow> string" where
  "namedb_genesis_txid vc address meta = hexlify (bin_double_sha256 vc (address @ '' genesis '' @ meta))"

definition namedb_genesis_patch_txid :: "virtualchain \<Rightarrow> string \<Rightarrow> string \<Rightarrow> string" where
  "namedb_genesis_patch_txid vc address meta = hexlify (bin_double_sha256 vc (address @ '' patch '' @ meta))"

text \<open>
  The address of a genesis row: c32 addresses are translated, base58 addresses re-encoded. An
  address that raises \<open>ValueError\<close> is kept, and has to be marked as not receive-whitelisted.
\<close>

definition genesis_address :: "virtualchain \<Rightarrow> genesis_account \<Rightarrow> string res" where
  "genesis_address vc g =
    (let r = rbind (if is_c32_address (gen_address g) then address_as_b58 vc (gen_address g)
                    else Inr (gen_address g))
               (\<lambda>a. case address_reencode vc a of Some b \<Rightarrow> Inr b | None \<Rightarrow> Inl ValueError)
     in case r of
          Inl ValueError \<Rightarrow> assert_that (gen_receive_whitelisted g = Some False) (Inr (gen_address g))
        | _ \<Rightarrow> r)"

definition vesting_insert :: "vesting_row list \<Rightarrow> vesting_row \<Rightarrow> vesting_row list res" where
  "vesting_insert vs v =
    (if (vest_address v, vest_type v, vest_block_id v)
          \<in> set (map (\<lambda>w. (vest_address w, vest_type w, vest_block_id w)) vs)
     then Inl Abort else Inr (vs @ [v]))"

definition genesis_row :: "virtualchain \<Rightarrow> accounts \<times> vesting_row list \<Rightarrow> genesis_account \<Rightarrow>
    (accounts \<times> vesting_row list) res" where
  "genesis_row vc tables g =
    rbind (genesis_address vc g) (\<lambda>address.
      let meta = (case gen_metadata g of Some m \<Rightarrow> m | None \<Rightarrow> []);
          lock_send = (case gen_lock_send g of Some l \<Rightarrow> l | None \<Rightarrow> 0);
          whitelisted = (case gen_receive_whitelisted g of Some b \<Rightarrow> b | None \<Rightarrow> True)
      in assert_that (lock_send \<ge> 0)
        (rbind (accounts_insert (fst tables)
          \<lparr>acc_address = address, acc_type = gen_type g, credit_value = gen_value g, debit_value = 0,
           lock_transfer_block_id = lock_send, receive_whitelisted = whitelisted, metadata = VStr meta,
           acc_block_id = FIRST_BLOCK_MAINNET, acc_txid = namedb_genesis_txid vc address meta,
           acc_vtxindex = 0\<rparr>) (\<lambda>accts.
         case gen_vesting g of
           None \<Rightarrow> Inr (accts, snd tables)
         | Some vesting \<Rightarrow>
             assert_that (gen_vesting_total g = Some (sum_list (map snd vesting)))
               (rbind (rfold (\<lambda>vs hv. vesting_insert vs
                    \<lparr>vest_address = address, vest_type = gen_type g, vesting_value = snd hv, vest_block_id = fst hv\<rparr>)
                  (snd tables) vesting) (\<lambda>vs. Inr (accts, vs))))))"

text \<open>The genesis history enters as the hash of its serialisation.\<close>

definition namedb_create_token_genesis :: "virtualchain \<Rightarrow> accounts \<times> vesting_row list \<Rightarrow>
    genesis_account list \<Rightarrow> string \<Rightarrow> (accounts \<times> vesting_row list) res" where
  "namedb_create_token_genesis vc tables initial_account_balances genesis_hash =
    rbind (rfold (genesis_row vc) tables initial_account_balances) (\<lambda>(accts, vs).
    rbind (accounts_insert accts
      \<lparr>acc_address = BLOCKSTACK_BURN_ADDRESS vc, acc_type = ''GENESIS'', credit_value = 0, debit_value = 0,
       lock_transfer_block_id = 1, receive_whitelisted = False, metadata = VStr genesis_hash,
       acc_block_id = FIRST_BLOCK_MAINNET, acc_txid = genesis_hash, acc_vtxindex = 0\<rparr>) (\<lambda>accts.
      Inr (accts, vs)))"

section \<open>The ledger interface\<close>

text \<open>
  What the rest of the node relies on: balances, debits that never overdraw, credits, and positions
  in the chain at which an account has not yet been written. A transfer is a debit followed by a
  credit at the same position.
\<close>

locale ledger =
  fixes balance :: "'s \<Rightarrow> 'a \<Rightarrow> int"
    and present :: "'s \<Rightarrow> 'a \<Rightarrow> bool"
    and fresh :: "'s \<Rightarrow> 'a \<Rightarrow> 'p \<Rightarrow> bool"
    and inv :: "'s \<Rightarrow> bool"
    and debit :: "'s \<Rightarrow> 'a \<Rightarrow> int \<Rightarrow> 'p \<Rightarrow> 's res"
    and credit :: "'s \<Rightarrow> 'a \<Rightarrow> int \<Rightarrow> 'p \<Rightarrow> 's res"
  assumes debit_succeeds:
      "fresh s a p \<Longrightarrow> present s a \<Longrightarrow> n \<le> balance s a \<Longrightarrow> \<exists>s'. debit s a n p = Inr s'"
    and debit_refuses: "balance s a < n \<Longrightarrow> debit s a n p = Inl Abort"
    and debit_effect: "fresh s a p \<Longrightarrow> debit s a n p = Inr s' \<Longrightarrow>
      balance s' b = (if b = a then balance s a - n else balance s b)"
    and debit_fresh: "debit s a n p = Inr s' \<Longrightarrow> a \<noteq> b \<Longrightarrow> fresh s b p \<Longrightarrow> fresh s' b p"
    and debit_inv: "inv s \<Longrightarrow> 0 \<le> n \<Longrightarrow> debit s a n p = Inr s' \<Longrightarrow> inv s'"
    and credit_succeeds: "inv s \<Longrightarrow> fresh s a p \<Longrightarrow> 0 \<le> n \<Longrightarrow> \<exists>s'. credit s a n p = Inr s'"
    and credit_effect: "fresh s a p \<Longrightarrow> credit s a n p = Inr s' \<Longrightarrow>
      balance s' b = (if b = a then balance s a + n else balance s b)"
    and credit_fresh: "credit s a n p = Inr s' \<Longrightarrow> a \<noteq> b \<Longrightarrow> fresh s b p \<Longrightarrow> fresh s' b p"
    and credit_inv: "inv s \<Longrightarrow> 0 \<le> n \<Longrightarrow> credit s a n p = Inr s' \<Longrightarrow> inv s'"
begin

lemma transfer_effect:
  assumes "a \<noteq> b" "fresh s a p" "fresh s b p"
    and "rbind (debit s a n p) (\<lambda>s'. credit s' b n p) = Inr t"
  shows "balance t c = balance s c - (if c = a then n else 0) + (if c = b then n else 0)"
proof -
  obtain s' where s': "debit s a n p = Inr s'" "credit s' b n p = Inr t"
    using assms(4) by (auto simp: res_simps)
  have "fresh s' b p"
    by (rule debit_fresh [OF s'(1) assms(1,3)])
  then show ?thesis
    using credit_effect [OF _ s'(2), of c] debit_effect [OF assms(2) s'(1)] assms(1) by auto
qed

lemma transfer_conserves:
  assumes "a \<noteq> b" "fresh s a p" "fresh s b p" "finite A" "a \<in> A" "b \<in> A"
    and "rbind (debit s a n p) (\<lambda>s'. credit s' b n p) = Inr t"
  shows "(\<Sum>c\<in>A. balance t c) = (\<Sum>c\<in>A. balance s c)"
proof -
  have "(\<Sum>c\<in>A. balance t c)
      = (\<Sum>c\<in>A. balance s c - (if c = a then n else 0) + (if c = b then n else 0))"
    using transfer_effect [OF assms(1-3,7)] by simp
  also have "\<dots> = (\<Sum>c\<in>A. balance s c)"
    using assms(4-6) by (simp add: sum.distrib sum_subtractf sum.delta)
  finally show ?thesis .
qed

lemma transfer_succeeds:
  assumes "inv s" "a \<noteq> b" "fresh s a p" "fresh s b p" "present s a" "0 \<le> n" "n \<le> balance s a"
  shows "\<exists>t. rbind (debit s a n p) (\<lambda>s'. credit s' b n p) = Inr t \<and> inv t"
proof -
  obtain s' where s': "debit s a n p = Inr s'"
    using debit_succeeds assms by blast
  have "fresh s' b p"
    by (rule debit_fresh [OF s' assms(2,4)])
  then obtain t where "credit s' b n p = Inr t"
    using credit_succeeds debit_inv [OF assms(1,6) s'] assms(6) by blast
  with s' show ?thesis
    using credit_inv debit_inv [OF assms(1,6) s'] assms(6) by auto
qed

end

section \<open>The account tables are a ledger\<close>

definition balance_of :: "accounts \<Rightarrow> string \<times> string \<Rightarrow> int" where
  "balance_of accts ac = (case namedb_get_account accts (fst ac) (snd ac) of
     None \<Rightarrow> 0 | Some r \<Rightarrow> credit_value r - debit_value r)"

definition has_account :: "accounts \<Rightarrow> string \<times> string \<Rightarrow> bool" where
  "has_account accts ac = (namedb_get_account accts (fst ac) (snd ac) \<noteq> None)"

definition fresh_at :: "accounts \<Rightarrow> string \<times> string \<Rightarrow> int \<times> int \<times> string \<Rightarrow> bool" where
  "fresh_at accts ac p = (\<forall>r \<in> set accts. acc_address r = fst ac \<and> acc_type r = snd ac \<longrightarrow>
     (acc_block_id r, acc_vtxindex r) < (fst p, fst (snd p)))"

definition accounts_ok :: "accounts \<Rightarrow> bool" where
  "accounts_ok accts = (\<forall>r \<in> set accts. 0 \<le> debit_value r \<and> debit_value r \<le> credit_value r)"

lemma insort_newest:
  "f r < f x \<Longrightarrow> insort_key f x (r # xs) = r # insort_key f x xs"
  by auto

lemma order_desc_newest:
  assumes "\<forall>x \<in> set xs. (acc_block_id x, acc_vtxindex x) < (acc_block_id r, acc_vtxindex r)"
  shows "order_desc (xs @ [r]) = r # order_desc xs"
  using assms
proof (induction xs)
  case (Cons x xs)
  then have "order_desc (xs @ [r]) = r # order_desc xs"
    by simp
  moreover have "(- acc_block_id r, - acc_vtxindex r) < (- acc_block_id x, - acc_vtxindex x)"
    using Cons.prems by (auto simp: less_prod_def)
  ultimately show ?case
    using insort_newest [of "\<lambda>r. (- acc_block_id r, - acc_vtxindex r)" r x]
    by (simp only: order_desc_def append_Cons sort_key_simps)
qed (simp add: order_desc_def)

lemma set_order_desc [simp]: "set (order_desc xs) = set xs"
  by (simp add: order_desc_def)

lemma get_account_in: "namedb_get_account accts a t = Some r \<Longrightarrow>
    r \<in> set accts \<and> acc_address r = a \<and> acc_type r = t"
proof -
  assume "namedb_get_account accts a t = Some r"
  then have "r \<in> set (order_desc (filter (\<lambda>r. acc_address r = a \<and> acc_type r = t) accts))"
    by (auto simp: namedb_get_account_def split: list.splits simp del: set_order_desc)
  then show ?thesis
    by simp
qed

lemma get_account_append:
  assumes "fresh_at accts (acc_address r, acc_type r) (acc_block_id r, acc_vtxindex r, x)"
  shows "namedb_get_account (accts @ [r]) a t =
    (if a = acc_address r \<and> t = acc_type r then Some r else namedb_get_account accts a t)"
proof (cases "a = acc_address r \<and> t = acc_type r")
  case True
  then have "order_desc (filter (\<lambda>r. acc_address r = a \<and> acc_type r = t) accts @ [r])
      = r # order_desc (filter (\<lambda>r. acc_address r = a \<and> acc_type r = t) accts)"
    using assms by (intro order_desc_newest) (auto simp: fresh_at_def)
  with True show ?thesis
    by (simp add: namedb_get_account_def)
next
  case False
  then show ?thesis
    by (auto simp: namedb_get_account_def)
qed

lemma accounts_insert_fresh:
  assumes "fresh_at accts a p" "acc_address r = fst a" "acc_type r = snd a"
    "acc_block_id r = fst p" "acc_vtxindex r = fst (snd p)"
  shows "accounts_insert accts r = Inr (accts @ [r])"
  using assms by (force simp: accounts_insert_def account_key_def fresh_at_def)

lemma accounts_insert_eq: "accounts_insert accts r = Inr s \<Longrightarrow> s = accts @ [r]"
  by (simp add: accounts_insert_def split: if_splits)

lemma fresh_at_append:
  "fresh_at accts b p \<Longrightarrow> (acc_address r, acc_type r) \<noteq> b \<Longrightarrow> fresh_at (accts @ [r]) b p"
  by (auto simp: fresh_at_def)

abbreviation debit_at :: "accounts \<Rightarrow> string \<times> string \<Rightarrow> int \<Rightarrow> int \<times> int \<times> string \<Rightarrow> accounts res" where
  "debit_at s a n p \<equiv> namedb_account_debit s (fst a) (snd a) n (fst p) (fst (snd p)) (snd (snd p))"

abbreviation credit_at :: "accounts \<Rightarrow> string \<times> string \<Rightarrow> int \<Rightarrow> int \<times> int \<times> string \<Rightarrow> accounts res" where
  "credit_at s a n p \<equiv> namedb_account_credit s (fst a) (snd a) n (fst p) (fst (snd p)) (snd (snd p))"

text \<open>A debit or credit that returns has appended one row, whose totals are determined.\<close>

lemma debit_row:
  assumes "debit_at s a n p = Inr t"
  shows "\<exists>old r. namedb_get_account s (fst a) (snd a) = Some old \<and> t = s @ [r] \<and>
    acc_address r = fst a \<and> acc_type r = snd a \<and> acc_block_id r = fst p \<and> acc_vtxindex r = fst (snd p) \<and>
    credit_value r = credit_value old \<and> debit_value r = debit_value old + n \<and> debit_value r \<le> credit_value r"
  using assms
  by (auto simp: namedb_account_debit_def namedb_account_transaction_save_def Let_def
      split: option.splits if_splits dest!: accounts_insert_eq)

lemma credit_row:
  assumes "credit_at s a n p = Inr t"
  shows "\<exists>r. t = s @ [r] \<and>
    acc_address r = fst a \<and> acc_type r = snd a \<and> acc_block_id r = fst p \<and> acc_vtxindex r = fst (snd p) \<and>
    credit_value r = (case namedb_get_account s (fst a) (snd a) of None \<Rightarrow> n | Some q \<Rightarrow> credit_value q + n) \<and>
    debit_value r = (case namedb_get_account s (fst a) (snd a) of None \<Rightarrow> 0 | Some q \<Rightarrow> debit_value q) \<and>
    debit_value r \<le> credit_value r"
  using assms
  by (auto simp: namedb_account_credit_def namedb_account_transaction_save_def Let_def
      split: option.splits if_splits dest!: accounts_insert_eq)

lemma balance_append:
  assumes "fresh_at s a p" "acc_address r = fst a" "acc_type r = snd a"
    "acc_block_id r = fst p" "acc_vtxindex r = fst (snd p)"
  shows "balance_of (s @ [r]) b = (if b = a then credit_value r - debit_value r else balance_of s b)"
  using get_account_append [of s r "snd (snd p)" "fst b" "snd b"] assms
  by (cases b; cases a) (auto simp: balance_of_def)

interpretation token_ledger: ledger balance_of has_account fresh_at accounts_ok debit_at credit_at
proof
  fix s a n b t and p :: "int \<times> int \<times> string"
  show "\<exists>s'. debit_at s a n p = Inr s'" if "fresh_at s a p" "has_account s a" "n \<le> balance_of s a"
    using that(2,3)
    by (auto simp: namedb_account_debit_def namedb_account_transaction_save_def has_account_def balance_of_def
        Let_def accounts_insert_fresh [OF that(1)])
  show "debit_at s a n p = Inl Abort" if "balance_of s a < n"
    using that by (auto simp: namedb_account_debit_def balance_of_def Let_def split: option.splits)
  show "balance_of t b = (if b = a then balance_of s a - n else balance_of s b)"
    if "fresh_at s a p" "debit_at s a n p = Inr t"
    using debit_row [OF that(2)] balance_append [OF that(1)] by (auto simp: balance_of_def)
  show "balance_of t b = (if b = a then balance_of s a + n else balance_of s b)"
    if "fresh_at s a p" "credit_at s a n p = Inr t"
    using credit_row [OF that(2)] balance_append [OF that(1)]
    by (cases "namedb_get_account s (fst a) (snd a)") (auto simp: balance_of_def)
  show "fresh_at t b p" if "debit_at s a n p = Inr t" "a \<noteq> b" "fresh_at s b p"
    using debit_row [OF that(1)] fresh_at_append [OF that(3)] that(2) by auto
  show "fresh_at t b p" if "credit_at s a n p = Inr t" "a \<noteq> b" "fresh_at s b p"
    using credit_row [OF that(1)] fresh_at_append [OF that(3)] that(2) by auto
  show "accounts_ok t" if "accounts_ok s" "0 \<le> n" "debit_at s a n p = Inr t"
    using debit_row [OF that(3)] that(1,2) get_account_in by (fastforce simp: accounts_ok_def)
  show "accounts_ok t" if "accounts_ok s" "0 \<le> n" "credit_at s a n p = Inr t"
    using credit_row [OF that(3)] that(1,2) get_account_in
    by (cases "namedb_get_account s (fst a) (snd a)") (fastforce simp: accounts_ok_def)+
  show "\<exists>s'. credit_at s a n p = Inr s'" if "accounts_ok s" "fresh_at s a p" "0 \<le> n"
  proof (cases "namedb_get_account s (fst a) (snd a)")
    case None
    with that show ?thesis
      by (simp add: namedb_account_credit_def namedb_account_transaction_save_def accounts_insert_fresh [OF that(2)])
  next
    case (Some r)
    then have "debit_value r \<le> credit_value r"
      using that(1) get_account_in by (auto simp: accounts_ok_def)
    with Some that(3) show ?thesis
      by (simp add: namedb_account_credit_def namedb_account_transaction_save_def accounts_insert_fresh [OF that(2)])
  qed
qed

section \<open>Vesting and genesis\<close>

lemma vest_rows_effect:
  assumes "accounts_ok accts"
    and "\<forall>r \<in> set rows. 0 \<le> vesting_value r \<and> fresh_at accts (vest_address r, vest_type r) (h, 0, [])"
    and "distinct (map (\<lambda>r. (vest_address r, vest_type r)) rows)"
  shows "\<exists>t. rfold (\<lambda>accts row. namedb_account_credit accts (vest_address row) (vest_type row) (vesting_value row)
        h 0 (txid row)) accts rows = Inr t \<and> accounts_ok t \<and>
      (\<forall>a. balance_of t a = balance_of accts a +
        sum_list (map vesting_value (filter (\<lambda>r. (vest_address r, vest_type r) = a) rows)))"
  using assms
proof (induction rows arbitrary: accts)
  case (Cons r rows)
  let ?a = "(vest_address r, vest_type r)" and ?p = "(h, 0, txid r)"
  have fresh: "fresh_at accts ?a ?p" and n: "0 \<le> vesting_value r"
    using Cons.prems(2) by (simp_all add: fresh_at_def)
  obtain t where t: "credit_at accts ?a (vesting_value r) ?p = Inr t"
    using token_ledger.credit_succeeds [OF Cons.prems(1) fresh n] by blast
  have ok: "accounts_ok t"
    by (rule token_ledger.credit_inv [OF Cons.prems(1) n t])
  have "fresh_at t (vest_address q, vest_type q) (h, 0, [])" if "q \<in> set rows" for q
  proof -
    have "?a \<noteq> (vest_address q, vest_type q)"
      using that Cons.prems(3) by force
    moreover have "fresh_at accts (vest_address q, vest_type q) ?p"
      using Cons.prems(2) that by (simp add: fresh_at_def)
    ultimately have "fresh_at t (vest_address q, vest_type q) ?p"
      by (rule token_ledger.credit_fresh [OF t])
    then show ?thesis
      by (simp add: fresh_at_def)
  qed
  then obtain u where u: "rfold (\<lambda>accts row. namedb_account_credit accts (vest_address row) (vest_type row)
        (vesting_value row) h 0 (txid row)) t rows = Inr u" "accounts_ok u"
      "\<forall>a. balance_of u a = balance_of t a +
        sum_list (map vesting_value (filter (\<lambda>r. (vest_address r, vest_type r) = a) rows))"
    using Cons.IH [OF ok] Cons.prems by auto
  then show ?case
    using t token_ledger.credit_effect [OF fresh t] by auto
qed simp

lemma order_desc_head:
  assumes "order_desc xs = r # rs" and "x \<in> set xs"
  shows "(acc_block_id x, acc_vtxindex x) \<le> (acc_block_id r, acc_vtxindex r)"
proof -
  have "sorted (map (\<lambda>r. (- acc_block_id r, - acc_vtxindex r)) (r # rs))"
    using sorted_sort_key [of "\<lambda>r. (- acc_block_id r, - acc_vtxindex r)" xs] assms(1)
    by (simp only: order_desc_def)
  moreover have "x = r \<or> x \<in> set rs"
    using assms set_order_desc [of xs] by auto
  ultimately show ?thesis
    by (auto simp: less_eq_prod_def)
qed

definition token_supply :: "accounts \<Rightarrow> int" where
  "token_supply accts = sum_list (map credit_value accts)"

definition vesting_supply :: "vesting_row list \<Rightarrow> int" where
  "vesting_supply vs = sum_list (map vesting_value vs)"

lemma vesting_inserts:
  "rfold (\<lambda>vs hv. vesting_insert vs
      \<lparr>vest_address = a, vest_type = t, vesting_value = snd hv, vest_block_id = fst hv\<rparr>) vs hvs = Inr ws \<Longrightarrow>
    vesting_supply ws = vesting_supply vs + sum_list (map snd hvs)"
  by (induction hvs arbitrary: vs)
    (auto simp: res_simps vesting_insert_def vesting_supply_def split: if_splits)

lemma genesis_row_shape:
  assumes "genesis_row vc (accts, vs) g = Inr (accts', vs')"
  shows "\<exists>r. accts' = accts @ [r] \<and> credit_value r = gen_value g \<and> debit_value r = 0"
    "case gen_vesting g of None \<Rightarrow> vs' = vs
     | Some v \<Rightarrow> \<exists>a t. rfold (\<lambda>vs hv. vesting_insert vs
         \<lparr>vest_address = a, vest_type = t, vesting_value = snd hv, vest_block_id = fst hv\<rparr>) vs v = Inr vs'"
proof -
  show "\<exists>r. accts' = accts @ [r] \<and> credit_value r = gen_value g \<and> debit_value r = 0"
    using assms
    by (auto simp: genesis_row_def res_simps Let_def split: option.splits dest!: accounts_insert_eq)
  show "case gen_vesting g of None \<Rightarrow> vs' = vs
     | Some v \<Rightarrow> \<exists>a t. rfold (\<lambda>vs hv. vesting_insert vs
         \<lparr>vest_address = a, vest_type = t, vesting_value = snd hv, vest_block_id = fst hv\<rparr>) vs v = Inr vs'"
    using assms by (cases "gen_vesting g") (auto simp: genesis_row_def res_simps Let_def)
qed

lemma genesis_row_effect:
  assumes "genesis_row vc (accts, vs) g = Inr (accts', vs')"
  shows "token_supply accts' = token_supply accts + gen_value g"
    "(\<forall>r \<in> set accts. debit_value r = 0) \<Longrightarrow> (\<forall>r \<in> set accts'. debit_value r = 0)"
    "vesting_supply vs' = vesting_supply vs + (case gen_vesting g of None \<Rightarrow> 0 | Some v \<Rightarrow> sum_list (map snd v))"
proof -
  show "token_supply accts' = token_supply accts + gen_value g"
    "(\<forall>r \<in> set accts. debit_value r = 0) \<Longrightarrow> (\<forall>r \<in> set accts'. debit_value r = 0)"
    using genesis_row_shape(1) [OF assms] by (auto simp: token_supply_def)
  show "vesting_supply vs' = vesting_supply vs + (case gen_vesting g of None \<Rightarrow> 0 | Some v \<Rightarrow> sum_list (map snd v))"
    using genesis_row_shape(2) [OF assms] by (cases "gen_vesting g") (auto dest: vesting_inserts)
qed

lemma genesis_rows_effect:
  assumes "rfold (genesis_row vc) (accts, vs) gs = Inr (accts', vs')"
  shows "token_supply accts' = token_supply accts + sum_list (map gen_value gs) \<and>
    ((\<forall>r \<in> set accts. debit_value r = 0) \<longrightarrow> (\<forall>r \<in> set accts'. debit_value r = 0)) \<and>
    vesting_supply vs' = vesting_supply vs +
      sum_list (map (\<lambda>g. case gen_vesting g of None \<Rightarrow> 0 | Some v \<Rightarrow> sum_list (map snd v)) gs)"
  using assms
proof (induction gs arbitrary: accts vs)
  case Nil
  then show ?case
    by simp
next
  case (Cons g gs)
  obtain a v where t: "genesis_row vc (accts, vs) g = Inr (a, v)" "rfold (genesis_row vc) (a, v) gs = Inr (accts', vs')"
    using Cons.prems by (auto simp: res_simps)
  note row = genesis_row_effect [OF t(1)] and rows = Cons.IH [OF t(2)]
  have "(\<forall>r \<in> set accts. debit_value r = 0) \<longrightarrow> (\<forall>r \<in> set accts'. debit_value r = 0)"
    using row(2) rows by blast
  moreover have "token_supply accts' = token_supply accts + sum_list (map gen_value (g # gs))"
    using row(1) rows by simp
  moreover have "vesting_supply vs' = vesting_supply vs +
      sum_list (map (\<lambda>g. case gen_vesting g of None \<Rightarrow> 0 | Some v \<Rightarrow> sum_list (map snd v)) (g # gs))"
    using row(3) rows by (simp split: option.split_asm)
  ultimately show ?case
    by blast
qed

section \<open>Properties\<close>

text \<open>
  C19: Tokens are conserved by a transfer between two accounts: on a table in which no account is
  overdrawn, a debit of one account within its balance followed by a credit of another at the same
  transaction succeeds, moves exactly the amount, leaves every other account alone, overdraws no
  account, and keeps the sum of the balances of any set of accounts that holds both. The hypotheses
  say that neither account has been written at this transaction or later.
\<close>

theorem token_transfer_conserves:
  assumes "accounts_ok accts" and "a \<noteq> b" and "fresh_at accts a p" and "fresh_at accts b p"
    and "has_account accts a" and "0 \<le> n" and "n \<le> balance_of accts a"
    and "finite A" and "a \<in> A" and "b \<in> A"
  shows "\<exists>t. rbind (debit_at accts a n p) (\<lambda>s. credit_at s b n p) = Inr t \<and> accounts_ok t \<and>
    (\<forall>c. balance_of t c = balance_of accts c - (if c = a then n else 0) + (if c = b then n else 0)) \<and>
    (\<Sum>c\<in>A. balance_of t c) = (\<Sum>c\<in>A. balance_of accts c)"
proof -
  obtain t where t: "rbind (debit_at accts a n p) (\<lambda>s. credit_at s b n p) = Inr t" "accounts_ok t"
    using token_ledger.transfer_succeeds [OF assms(1-7)] by blast
  show ?thesis
    using t token_ledger.transfer_effect [OF assms(2-4) t(1)]
      token_ledger.transfer_conserves [OF assms(2-4,8-10) t(1)] by blast
qed

definition example_account :: account_row where
  "example_account = \<lparr>acc_address = ''A'', acc_type = ''STACKS'', credit_value = 100, debit_value = 30,
     lock_transfer_block_id = 0, receive_whitelisted = True, metadata = VNone, acc_block_id = 373601,
     acc_txid = ''00'', acc_vtxindex = 0\<rparr>"

theorem token_transfer_conserves_witness:
  "\<exists>t. rbind (debit_at [example_account] (''A'', ''STACKS'') 70 (600000, 1, ''01''))
        (\<lambda>s. credit_at s (''B'', ''STACKS'') 70 (600000, 1, ''01'')) = Inr t \<and>
     balance_of t (''B'', ''STACKS'') = 70"
proof -
  have "namedb_get_account [example_account] ''A'' ''STACKS'' = Some example_account"
    "namedb_get_account [example_account] ''B'' ''STACKS'' = None"
    by (simp_all add: namedb_get_account_def order_desc_def example_account_def)
  then show ?thesis
    using token_transfer_conserves [of "[example_account]" "(''A'', ''STACKS'')" "(''B'', ''STACKS'')"
        "(600000, 1, ''01'')" 70 "{(''A'', ''STACKS''), (''B'', ''STACKS'')}"]
    by (auto simp: accounts_ok_def fresh_at_def has_account_def balance_of_def example_account_def)
qed




definition example_vesting :: vesting_row where
  "example_vesting = \<lparr>vest_address = ''A'', vest_type = ''STACKS'', vesting_value = 5, vest_block_id = 600001\<rparr>"


text \<open>
  C22: The genesis allocation creates exactly the tokens it lists: when it returns on empty tables,
  the credits of the account rows sum to the listed values, nothing is debited, and the vesting
  table sums to the vesting entries of the list.
\<close>

theorem genesis_supply:
  assumes "namedb_create_token_genesis vc ([], []) gs gh = Inr (accts, vs)"
  shows "token_supply accts = sum_list (map gen_value gs) \<and> (\<forall>r \<in> set accts. debit_value r = 0) \<and>
    vesting_supply vs = sum_list (map (\<lambda>g. case gen_vesting g of None \<Rightarrow> 0 | Some v \<Rightarrow> sum_list (map snd v)) gs)"
proof -
  obtain a where t: "rfold (genesis_row vc) ([], []) gs = Inr (a, vs)" and
    accts: "\<exists>r. accts = a @ [r] \<and> credit_value r = 0 \<and> debit_value r = 0"
    using assms by (auto simp: namedb_create_token_genesis_def res_simps dest!: accounts_insert_eq)
  show ?thesis
    using genesis_rows_effect [OF t] accts by (auto simp: token_supply_def vesting_supply_def)
qed

definition example_genesis :: genesis_account where
  "example_genesis = \<lparr>gen_address = ''burn'', gen_type = ''STACKS'', gen_value = 7,
     gen_vesting = Some [(400000, 3), (400001, 2)], gen_vesting_total = Some 5, gen_lock_send = None,
     gen_receive_whitelisted = Some False, gen_metadata = None\<rparr>"

theorem genesis_supply_witness:
  "\<exists>accts vs. namedb_create_token_genesis example_vc ([], []) [example_genesis] ''00'' = Inr (accts, vs) \<and>
     token_supply accts = 7 \<and> vesting_supply vs = 5"
proof -
  have "genesis_address example_vc example_genesis = Inr ''burn''"
    by (simp add: genesis_address_def is_c32_address_def c32addressDecode_def example_genesis_def
        example_vc_def assert_that_def)
  then obtain accts vs where "namedb_create_token_genesis example_vc ([], []) [example_genesis] ''00'' = Inr (accts, vs)"
    by (auto simp: namedb_create_token_genesis_def genesis_row_def example_genesis_def assert_that_def
        accounts_insert_def account_key_def vesting_insert_def)
  from genesis_supply [OF this] this show ?thesis
    by (auto simp: example_genesis_def)
qed

text \<open>
  C37: \<open>namedb_get_account_delta\<close> finds nothing for an account state that was followed by another
  one in the same block: its query admits every row of the block instead of those up to the given
  transaction index, so the newest row of the block hides the requested one.
\<close>

theorem account_delta_hidden:
  assumes "r \<in> set accts" and "acc_address r = addr" and "acc_type r = ty" and "acc_block_id r = b"
    and "v < acc_vtxindex r"
  shows "namedb_get_account_delta accts addr ty b v = None"
proof -
  define rows where "rows = filter (\<lambda>r. acc_address r = addr \<and> acc_type r = ty \<and>
    (acc_block_id r \<le> b \<or> acc_block_id r = b \<and> acc_vtxindex r \<le> v)) accts"
  have r: "r \<in> set rows"
    using assms by (simp add: rows_def)
  show ?thesis
  proof (cases "order_desc rows")
    case Nil
    then show ?thesis
      using r set_order_desc [of rows] by simp
  next
    case (Cons c cs)
    have "(acc_block_id r, acc_vtxindex r) \<le> (acc_block_id c, acc_vtxindex c)"
      by (rule order_desc_head [OF Cons r])
    then have "acc_block_id c \<noteq> b \<or> acc_vtxindex c \<noteq> v"
      using assms(4,5) by (auto simp: less_eq_prod_def)
    then show ?thesis
      unfolding namedb_get_account_delta_def rows_def [symmetric] Cons
      by (simp add: numeral_2_eq_2 split: list.split)
  qed
qed

theorem account_delta_hidden_witness:
  "namedb_get_account_delta
     [example_account, example_account\<lparr>acc_block_id := 600000, acc_vtxindex := 1\<rparr>,
      example_account\<lparr>acc_block_id := 600000, acc_vtxindex := 2\<rparr>] ''A'' ''STACKS'' 600000 1 = None"
  using account_delta_hidden [of "example_account\<lparr>acc_block_id := 600000, acc_vtxindex := 2\<rparr>"
      "[example_account, example_account\<lparr>acc_block_id := 600000, acc_vtxindex := 1\<rparr>,
        example_account\<lparr>acc_block_id := 600000, acc_vtxindex := 2\<rparr>]" "''A''" "''STACKS''" 600000 1]
  by (simp add: example_account_def)

end
