(* ===== verification/NameDB.thy ===== *)
theory NameDB
  imports Accounts
begin

text \<open>
  The state of the name database (\<open>lib/nameset/db.py\<close> and the class \<open>BlockstackDB\<close> of
  \<open>lib/nameset/namedb.py\<close>) and the queries the operations make: names, namespaces, preorders,
  their expiry and grace periods, and histories. A table is the list of its rows in order of
  insertion; a row is the dictionary of its columns. A query that fetches one row takes the first
  row that matches.
\<close>

section \<open>The state\<close>

text \<open>
  A row of the \<open>history\<close> table. Its column \<open>history_data\<close> is JSON text in the database; here it is
  the record that the text denotes.
\<close>

record history_row =
  h_txid :: string
  h_history_id :: string
  creator_address :: pyval
  h_block_id :: int
  h_vtxindex :: int
  h_op :: string
  h_opcode :: string
  h_value_hash :: pyval
  history_data :: pydict

text \<open>
  \<open>collisions\<close> maps a block to the identifiers already taken in it, by kind of identifier;
  \<open>vesting\<close> lists the blocks whose tokens have vested; \<open>rejected\<close> is the log of rejected
  transactions. \<open>import_keychains\<close> holds the lines of the keychain file of each namespace, and
  \<open>announce_ids\<close> the names whose announcements the node follows. \<open>rejected_table\<close> is
  the table of rejected transactions in the database of metadata, by transaction, which exists if \<open>save_rejected\<close>.
\<close>

type_synonym collision_table = "(string \<times> pyval list) list"

record state_engine =
  name_rows :: "pydict list"
  namespace_rows :: "pydict list"
  preorder_rows :: "pydict list"
  history_rows :: "history_row list"
  account_rows :: accounts
  vesting_rows :: "vesting_row list"
  lastblock :: int
  collisions :: "(int \<times> collision_table) list"
  vesting :: "int list"
  rejected :: "(int \<times> int \<times> string \<times> string \<times> string option) list"
  import_keychains :: "(string \<times> string list) list"
  announce_ids :: "string list"
  save_rejected :: bool
  rejected_table :: "(string \<times> int \<times> int \<times> string \<times> string option) list"

section \<open>Price buckets as text\<close>

text \<open>
  The column \<open>buckets\<close> holds the printed form of a list of integers: \<open>str\<close> writes it and
  \<open>json.loads\<close> reads it. \<open>str\<close> of a string is the string itself.
\<close>

fun str_of_ints :: "int list \<Rightarrow> string" where
  "str_of_ints xs = ''['' @ join_with '', '' (map str_of_int xs) @ '']''"

definition py_str :: "pyval \<Rightarrow> string res" where
  "py_str v = (case v of
     VStr s \<Rightarrow> Inr s
   | VInt i \<Rightarrow> Inr (str_of_int i)
   | VList l \<Rightarrow> rbind (rmap (\<lambda>x. case py_int x of Some i \<Rightarrow> Inr i | None \<Rightarrow> Inl TypeError) l)
       (\<lambda>is. Inr (str_of_ints is))
   | _ \<Rightarrow> Inl TypeError)"

definition strip_space :: "string \<Rightarrow> string" where
  "strip_space s = rev (dropWhile ((=) CHR '' '') (rev (dropWhile ((=) CHR '' '') s)))"

definition json_loads_ints :: "string \<Rightarrow> pyval res" where
  "json_loads_ints s =
    (if length s \<ge> 2 \<and> hd s = CHR ''['' \<and> last s = CHR '']'' then
       (let inner = butlast (tl s) in
        if strip_space inner = [] then Inr (VList [])
        else rbind (rmap (\<lambda>p. int_of_str (strip_space p)) (split_on CHR '','' inner))
               (\<lambda>is. Inr (VList (map VInt is))))
     else Inl ValueError)"

definition buckets_to_text :: "pydict \<Rightarrow> pydict res" where
  "buckets_to_text d = rbind (getitem d ''buckets'') (\<lambda>b. rbind (py_str b) (\<lambda>s. Inr (dset d ''buckets'' (VStr s))))"

definition buckets_of_text :: "pydict \<Rightarrow> pydict res" where
  "buckets_of_text d = rbind (get_str d ''buckets'') (\<lambda>s. rbind (json_loads_ints s) (\<lambda>v. Inr (dset d ''buckets'' v)))"

definition decanonicalize_namespace_preorder :: "pydict \<Rightarrow> pydict res" where
  "decanonicalize_namespace_preorder canonical_op =
    (if has_key canonical_op ''buckets'' then buckets_of_text canonical_op else Inr canonical_op)"

definition decanonicalize_namespace_reveal :: "pydict \<Rightarrow> pydict res" where
  "decanonicalize_namespace_reveal canonical_op =
    assert_that (has_key canonical_op ''buckets'') (buckets_of_text canonical_op)"

definition decanonicalize_namespace_ready :: "pydict \<Rightarrow> pydict res" where
  "decanonicalize_namespace_ready canonical_op =
    (if has_key canonical_op ''buckets'' then buckets_of_text canonical_op else Inr canonical_op)"

definition canonicalize_namespace_preorder :: "pydict \<Rightarrow> pydict res" where
  "canonicalize_namespace_preorder parsed_op =
    (if has_key parsed_op ''buckets'' then buckets_to_text parsed_op else Inr parsed_op)"

definition canonicalize_namespace_reveal :: "pydict \<Rightarrow> pydict res" where
  "canonicalize_namespace_reveal parsed_op =
    assert_that (has_key parsed_op ''buckets'') (buckets_to_text parsed_op)"

definition canonicalize_namespace_ready :: "pydict \<Rightarrow> pydict res" where
  "canonicalize_namespace_ready parsed_op =
    (if has_key parsed_op ''buckets'' then buckets_to_text parsed_op else Inr parsed_op)"

definition op_decanonicalize :: "string \<Rightarrow> pydict \<Rightarrow> pydict res" where
  "op_decanonicalize op_name canonical_op =
    (if op_name = ''NAMESPACE_PREORDER'' then decanonicalize_namespace_preorder canonical_op
     else if op_name = ''NAMESPACE_REVEAL'' then decanonicalize_namespace_reveal canonical_op
     else if op_name = ''NAMESPACE_READY'' then decanonicalize_namespace_ready canonical_op
     else Inr canonical_op)"

lemma strip_space_none: "CHR '' '' \<notin> set s \<Longrightarrow> strip_space s = s"
proof -
  have none: "dropWhile ((=) CHR '' '') t = t" if "CHR '' '' \<notin> set t" for t
    using that by (cases t) auto
  show "CHR '' '' \<notin> set s \<Longrightarrow> strip_space s = s"
    by (simp add: strip_space_def none)
qed

lemma dropWhile_not_Nil: "c \<in> set s \<Longrightarrow> \<not> P c \<Longrightarrow> dropWhile P s \<noteq> []"
  by (induction s) auto

lemma strip_space_not_Nil:
  assumes "c \<in> set s" and "c \<noteq> CHR '' ''"
  shows "strip_space s \<noteq> []"
proof -
  let ?P = "(=) CHR '' ''"
  have ne: "dropWhile ?P s \<noteq> []"
    using assms by (intro dropWhile_not_Nil [of c]) auto
  have mem: "hd (dropWhile ?P s) \<in> set (rev (dropWhile ?P s))"
    unfolding set_rev by (rule hd_in_set [OF ne])
  have "dropWhile ?P (rev (dropWhile ?P s)) \<noteq> []"
    by (rule dropWhile_not_Nil) (rule mem, rule hd_dropWhile [OF ne])
  then show ?thesis
    by (simp only: strip_space_def rev_is_Nil_conv not_False_eq_True)
qed

lemma strip_space_Cons [simp]: "strip_space (CHR '' '' # s) = strip_space s"
  by (simp add: strip_space_def)

lemma rmap_strip_ints:
  "rmap (\<lambda>p. int_of_str (strip_space p)) (map (\<lambda>i. CHR '' '' # str_of_int i) is) = Inr is"
  by (induction "is") (simp_all add: strip_space_none str_of_int_chars)

lemma split_on_ints:
  "split_on CHR '','' (join_with '', '' (map str_of_int (i # is))) =
     str_of_int i # map (\<lambda>i. CHR '' '' # str_of_int i) is"
proof (induction "is" arbitrary: i)
  case Nil
  then show ?case by (simp add: split_on_none str_of_int_chars)
next
  case (Cons j "is")
  from Cons [of j] show ?case
    by (simp add: split_on_join [OF str_of_int_chars(1)])
qed

lemma json_loads_str: "json_loads_ints (str_of_ints is) = Inr (VList (map VInt is))"
proof (cases "is")
  case Nil
  then show ?thesis by (simp add: json_loads_ints_def strip_space_def)
next
  case (Cons i js)
  let ?inner = "join_with '', '' (map str_of_int (i # js))"
  have "hd (str_of_int i) \<in> set ?inner" and "hd (str_of_int i) \<noteq> CHR '' ''"
    using hd_in_set [OF str_of_int_chars(3), of i] str_of_int_chars(2) [of i] by (cases js, auto)
  then have "strip_space ?inner \<noteq> []"
    by (rule strip_space_not_Nil)
  moreover have "rmap (\<lambda>p. int_of_str (strip_space p)) (split_on CHR '','' ?inner) = Inr (i # js)"
    unfolding split_on_ints by (simp add: rmap_strip_ints strip_space_none str_of_int_chars)
  ultimately show ?thesis
    using Cons by (simp add: json_loads_ints_def Let_def)
qed

section \<open>Rows\<close>

text \<open>
  A column read in a \<open>WHERE\<close> clause; a comparison with \<open>NULL\<close> selects nothing.
\<close>

definition text_col :: "pydict \<Rightarrow> string \<Rightarrow> string \<Rightarrow> bool" where
  "text_col r k s = (map_of r k = Some (VStr s))"

definition int_col :: "pydict \<Rightarrow> string \<Rightarrow> int option" where
  "int_col r k = (case map_of r k of Some v \<Rightarrow> py_int v | None \<Rightarrow> None)"

definition sql_cmp :: "(int \<Rightarrow> int \<Rightarrow> bool) \<Rightarrow> int option \<Rightarrow> int option \<Rightarrow> bool" where
  "sql_cmp R a b = (case (a, b) of (Some x, Some y) \<Rightarrow> R x y | _ \<Rightarrow> False)"

definition sql_arith :: "(int \<Rightarrow> int \<Rightarrow> int) \<Rightarrow> int option \<Rightarrow> int option \<Rightarrow> int option" where
  "sql_arith f a b = (case (a, b) of (Some x, Some y) \<Rightarrow> Some (f x y) | _ \<Rightarrow> None)"

text \<open>Reading a row turns flags into booleans and token amounts, stored as text, into integers.\<close>

definition flag_columns :: "string list" where
  "flag_columns = [''revoked'', ''locked'', ''receive_whitelisted'']"

definition amount_columns :: "string list" where
  "amount_columns = [''credit_value'', ''debit_value'', ''vesting_value'', ''token_fee'']"

definition row_field :: "string \<times> pyval \<Rightarrow> (string \<times> pyval) res" where
  "row_field kv = (case kv of (k, v) \<Rightarrow>
     if k \<in> set flag_columns then
       (if py_eq v (VInt 0) then Inr (k, VBool False)
        else if py_eq v (VInt 1) then Inr (k, VBool True)
        else if v = VNone then Inr (k, VNone)
        else Inl (Exception ''Invalid value for revoked''))
     else if k \<in> set amount_columns then
       (case v of
          VNone \<Rightarrow> Inr (k, VNone)
        | VInt i \<Rightarrow> Inr (k, VInt i)
        | VStr s \<Rightarrow> (case int_of_str s of Inr i \<Rightarrow> Inr (k, VInt i) | Inl _ \<Rightarrow> Inl Abort)
        | _ \<Rightarrow> Inl Abort)
     else Inr (k, v))"

definition namedb_row_factory :: "pydict \<Rightarrow> pydict res" where
  "namedb_row_factory row = rmap row_field row"

definition fetchone :: "pydict list \<Rightarrow> pydict option res" where
  "fetchone rows = (case rows of [] \<Rightarrow> Inr None
     | r # _ \<Rightarrow> rbind (namedb_row_factory r) (\<lambda>d. Inr (Some d)))"

text \<open>The decorator \<open>autofill("opcode")\<close>.\<close>

definition autofill_opcode :: "pydict option res \<Rightarrow> pydict option res" where
  "autofill_opcode reader = rbind reader (\<lambda>rec. case rec of
     None \<Rightarrow> Inr None
   | Some r \<Rightarrow> if has_key r ''opcode'' then Inl (Exception ''Unknown autofill field'')
       else assert_that (has_key r ''op'')
         (rbind (get_str r ''op'') (\<lambda>op. rbind (op_get_opcode_name op) (\<lambda>opcode.
            Inr (Some (dset r ''opcode'' (VStr opcode)))))))"

section \<open>Histories\<close>

text \<open>
  The readers of names and namespaces can attach the history of the record. Here the history is a
  query of its own, made by the two operations that look at it (transfers and announcements).
\<close>

definition history_order :: "history_row list \<Rightarrow> history_row list" where
  "history_order = sort_key (\<lambda>r. (h_block_id r, h_vtxindex r))"

definition namedb_get_history_rows ::
    "state_engine \<Rightarrow> string \<Rightarrow> int option \<Rightarrow> int option \<Rightarrow> bool \<Rightarrow> history_row list res" where
  "namedb_get_history_rows st hid offset count reverse =
    (let rows = filter (\<lambda>r. h_history_id r = hid) (history_rows st);
         ordered = (if reverse then sort_key (\<lambda>r. (- h_block_id r, - h_vtxindex r)) rows else history_order rows)
     in if count \<noteq> None then sql_page offset count ordered else Inr ordered)"

definition history_put :: "(int \<times> pydict list) list \<Rightarrow> int \<Rightarrow> pydict \<Rightarrow> (int \<times> pydict list) list" where
  "history_put history block_id hist = (case map_of history block_id of
     Some hs \<Rightarrow> AList.update block_id (hs @ [hist]) history
   | None \<Rightarrow> AList.update block_id [hist] history)"

definition namedb_history_extract :: "history_row list \<Rightarrow> (int \<times> pydict list) list res" where
  "namedb_history_extract rows = rfold (\<lambda>history row.
     rbind (get_str (history_data row) ''op'') (\<lambda>op.
     rbind (op_get_opcode_name op) (\<lambda>opcode.
     rbind (op_decanonicalize opcode (dset (history_data row) ''opcode'' (VStr opcode))) (\<lambda>hist.
       Inr (history_put history (h_block_id row) hist))))) [] rows"

definition namedb_get_history :: "state_engine \<Rightarrow> string \<Rightarrow> (int \<times> pydict list) list res" where
  "namedb_get_history st hid =
    rbind (namedb_get_history_rows st hid None None False) namedb_history_extract"

definition namedb_flatten_history :: "(int \<times> pydict list) list \<Rightarrow> pydict list" where
  "namedb_flatten_history hist =
    concat (map (\<lambda>block_id. the (map_of hist block_id)) (sort (map fst hist)))"

definition namedb_get_record_states_at :: "state_engine \<Rightarrow> string \<Rightarrow> int \<Rightarrow> pydict list" where
  "namedb_get_record_states_at st hid block_number =
    (let newest = sort_key (\<lambda>r. (- h_block_id r, - h_vtxindex r));
         ret = map history_data (newest (filter (\<lambda>r. h_history_id r = hid \<and> h_block_id r = block_number)
                 (history_rows st)))
     in if length ret > 0 then ret
        else map history_data (take 1 (newest (filter (\<lambda>r. h_history_id r = hid \<and> h_block_id r < block_number)
               (history_rows st)))))"

definition namedb_get_last_name_import :: "state_engine \<Rightarrow> string \<Rightarrow> int \<Rightarrow> int \<Rightarrow> pydict option" where
  "namedb_get_last_name_import st name block_id vtxindex =
    (case sort_key (\<lambda>r. (- h_block_id r, - h_vtxindex r)) (filter (\<lambda>r. h_history_id r = name \<and>
         (h_block_id r < block_id \<or> h_block_id r = block_id \<and> h_vtxindex r < vtxindex)) (history_rows st)) of
       [] \<Rightarrow> None | r # _ \<Rightarrow> Some (history_data r))"

section \<open>Namespaces\<close>

definition op_is :: "pydict \<Rightarrow> char \<Rightarrow> bool" where
  "op_is r opc = text_col r ''op'' [opc]"

definition decanonicalized :: "pydict option res \<Rightarrow> pydict option res" where
  "decanonicalized q = obind q (\<lambda>ns.
     rbind (get_str ns ''op'') (\<lambda>op. rbind (op_get_opcode_name op) (\<lambda>opcode.
     rbind (op_decanonicalize opcode ns) (\<lambda>ns'. Inr (Some ns')))))"

definition namedb_get_namespace ::
    "state_engine \<Rightarrow> string \<Rightarrow> int option \<Rightarrow> bool \<Rightarrow> bool \<Rightarrow> pydict option res" where
  "namedb_get_namespace st namespace_id current_block include_expired only_revealed =
    assert_that (include_expired \<or> current_block \<noteq> None)
      (decanonicalized (fetchone (filter (\<lambda>r. text_col r ''namespace_id'' namespace_id \<and>
         (op_is r NAMESPACE_READY \<or>
          op_is r NAMESPACE_REVEAL \<and>
          (only_revealed \<and> current_block \<noteq> None \<longrightarrow> sql_cmp (\<le>) (int_col r ''reveal_block'') current_block) \<and>
          (\<not> include_expired \<longrightarrow> sql_cmp (<) current_block
             (sql_arith (+) (int_col r ''reveal_block'') (Some NAMESPACE_REVEAL_EXPIRE)))))
       (namespace_rows st))))"

definition namedb_get_namespace_by_preorder_hash :: "state_engine \<Rightarrow> string \<Rightarrow> pydict option res" where
  "namedb_get_namespace_by_preorder_hash st preorder_hash =
    decanonicalized (fetchone (filter (\<lambda>r. text_col r ''preorder_hash'' preorder_hash) (namespace_rows st)))"

definition namedb_get_namespace_reveal :: "state_engine \<Rightarrow> string \<Rightarrow> int \<Rightarrow> pydict option res" where
  "namedb_get_namespace_reveal st namespace_id current_block =
    obind (fetchone (filter (\<lambda>r. text_col r ''namespace_id'' namespace_id \<and> op_is r NAMESPACE_REVEAL \<and>
         sql_cmp (\<le>) (int_col r ''reveal_block'') (Some current_block) \<and>
         sql_cmp (<) (Some current_block) (sql_arith (+) (int_col r ''reveal_block'') (Some NAMESPACE_REVEAL_EXPIRE)))
       (namespace_rows st)))
      (\<lambda>r. rbind (op_decanonicalize ''NAMESPACE_REVEAL'' r) (\<lambda>r'. Inr (Some r')))"

definition namedb_get_namespace_ready :: "state_engine \<Rightarrow> string \<Rightarrow> pydict option res" where
  "namedb_get_namespace_ready st namespace_id =
    obind (fetchone (filter (\<lambda>r. text_col r ''namespace_id'' namespace_id \<and> op_is r NAMESPACE_READY)
       (namespace_rows st)))
      (\<lambda>r. rbind (op_decanonicalize ''NAMESPACE_READY'' r) (\<lambda>r'. Inr (Some r')))"

definition namedb_get_namespace_at :: "state_engine \<Rightarrow> string \<Rightarrow> int \<Rightarrow> bool \<Rightarrow> pydict list option res" where
  "namedb_get_namespace_at st namespace_id block_number include_expired =
    rbind (if include_expired then Inr True
           else rbind (namedb_get_namespace st namespace_id (Some block_number) False False)
                  (\<lambda>r. Inr (r \<noteq> None))) (\<lambda>live.
      if \<not> live then Inr None
      else let rows = namedb_get_record_states_at st namespace_id block_number in
           Inr (if rows = [] then None else Some rows))"

section \<open>Names\<close>

text \<open>
  The selection of unexpired names, on a name joined with a namespace: the namespace is ready and
  the lifetime and grace period, counted from its launch or from the last renewal, have not passed;
  or the namespace is revealed and not expired.
\<close>

definition unexpired_row :: "int \<Rightarrow> int \<Rightarrow> int \<Rightarrow> pydict \<Rightarrow> pydict \<Rightarrow> bool" where
  "unexpired_row multiplier grace current_block name_row ns =
    (let life = sql_arith (+) (sql_arith (*) (int_col ns ''lifetime'') (Some multiplier)) (Some grace);
         now = Some current_block
     in (op_is ns NAMESPACE_READY \<and>
         (sql_cmp (>) (sql_arith (+) (int_col ns ''ready_block'') life) now \<or>
          sql_cmp (\<ge>) (sql_arith (+) (int_col name_row ''last_renewed'') life) now)) \<or>
        (op_is ns NAMESPACE_REVEAL \<and> sql_cmp (\<le>) (int_col ns ''reveal_block'') now \<and>
         sql_cmp (<) now (sql_arith (+) (int_col ns ''reveal_block'') (Some NAMESPACE_REVEAL_EXPIRE))))"

definition namedb_select_where_unexpired_names :: "int \<Rightarrow> bool \<Rightarrow> (pydict \<Rightarrow> pydict \<Rightarrow> bool) res" where
  "namedb_select_where_unexpired_names current_block only_registered =
    rbind (get_epoch_namespace_lifetime_multiplier current_block ''*'') (\<lambda>multiplier.
    rbind (get_epoch_namespace_lifetime_grace_period current_block ''*'') (\<lambda>grace.
      Inr (\<lambda>name_row ns.
        (only_registered \<longrightarrow> sql_cmp (\<le>) (int_col name_row ''first_registered'') (Some current_block)) \<and>
        unexpired_row multiplier grace current_block name_row ns)))"

text \<open>\<open>name_records JOIN namespaces ON name_records.namespace_id = namespaces.namespace_id WHERE \<dots>\<close>.\<close>

definition join_namespaces :: "state_engine \<Rightarrow> (pydict \<Rightarrow> pydict \<Rightarrow> bool) \<Rightarrow> pydict list" where
  "join_namespaces st P = concat (map (\<lambda>n. map (\<lambda>_. n)
     (filter (\<lambda>ns. map_of n ''namespace_id'' = map_of ns ''namespace_id'' \<and> P n ns) (namespace_rows st)))
     (name_rows st))"

definition namedb_get_name ::
    "state_engine \<Rightarrow> string \<Rightarrow> int \<Rightarrow> bool \<Rightarrow> bool \<Rightarrow> pydict option res" where
  "namedb_get_name st name current_block include_expired only_registered =
    (if \<not> include_expired then
       rbind (namedb_select_where_unexpired_names current_block only_registered) (\<lambda>unexpired.
         fetchone (join_namespaces st (\<lambda>n ns. text_col n ''name'' name \<and> unexpired n ns)))
     else fetchone (filter (\<lambda>n. text_col n ''name'' name) (name_rows st)))"

definition namedb_get_name_by_preorder_hash :: "state_engine \<Rightarrow> string \<Rightarrow> pydict option res" where
  "namedb_get_name_by_preorder_hash st preorder_hash =
    fetchone (filter (\<lambda>n. text_col n ''preorder_hash'' preorder_hash) (name_rows st))"

definition namedb_get_names_by_sender :: "state_engine \<Rightarrow> string \<Rightarrow> int \<Rightarrow> pyval list res" where
  "namedb_get_names_by_sender st sender current_block =
    rbind (namedb_select_where_unexpired_names current_block True) (\<lambda>unexpired.
      Inr (map (\<lambda>n. dget n ''name'' VNone)
        (join_namespaces st (\<lambda>n ns. text_col n ''sender'' sender \<and>
           sql_cmp (=) (int_col n ''revoked'') (Some 0) \<and> unexpired n ns))))"

definition namedb_get_name_from_name_hash128 :: "state_engine \<Rightarrow> string \<Rightarrow> int \<Rightarrow> pyval option res" where
  "namedb_get_name_from_name_hash128 st name_hash128 block_number =
    rbind (namedb_select_where_unexpired_names block_number True) (\<lambda>unexpired.
      Inr (case join_namespaces st (\<lambda>n ns. text_col n ''name_hash128'' name_hash128 \<and>
             sql_cmp (=) (int_col n ''revoked'') (Some 0) \<and> unexpired n ns) of
        [] \<Rightarrow> None | n # _ \<Rightarrow> Some (dget n ''name'' VNone)))"

definition namedb_get_name_at :: "state_engine \<Rightarrow> string \<Rightarrow> int \<Rightarrow> bool \<Rightarrow> pydict list option res" where
  "namedb_get_name_at st name block_number include_expired =
    rbind (if include_expired then Inr True
           else rbind (namedb_get_name st name block_number False False) (\<lambda>r. Inr (r \<noteq> None))) (\<lambda>live.
      if \<not> live then Inr None
      else let rows = namedb_get_record_states_at st name block_number in
           Inr (if rows = [] then None else Some rows))"

section \<open>Preorders\<close>

definition namedb_get_name_preorder :: "state_engine \<Rightarrow> string \<Rightarrow> int \<Rightarrow> pydict option res" where
  "namedb_get_name_preorder st preorder_hash current_block =
    obind (fetchone (filter (\<lambda>p. text_col p ''preorder_hash'' preorder_hash \<and> op_is p NAME_PREORDER \<and>
         sql_cmp (<) (int_col p ''block_number'') (Some (current_block + NAME_PREORDER_EXPIRE))) (preorder_rows st)))
      (\<lambda>preorder_rec.
        rbind (namedb_select_where_unexpired_names current_block True) (\<lambda>unexpired.
          require (join_namespaces st (\<lambda>n ns. text_col n ''preorder_hash'' preorder_hash \<and> unexpired n ns) = [])
            (Inr (Some preorder_rec))))"

definition namedb_get_namespace_preorder :: "state_engine \<Rightarrow> string \<Rightarrow> int \<Rightarrow> pydict option res" where
  "namedb_get_namespace_preorder st namespace_preorder_hash current_block =
    obind (fetchone (filter (\<lambda>p. text_col p ''preorder_hash'' namespace_preorder_hash \<and> op_is p NAMESPACE_PREORDER \<and>
         sql_cmp (<) (int_col p ''block_number'') (Some (current_block + NAMESPACE_PREORDER_EXPIRE))) (preorder_rows st)))
      (\<lambda>preorder_rec.
        require (filter (\<lambda>ns. text_col ns ''preorder_hash'' namespace_preorder_hash \<and>
             (op_is ns NAMESPACE_READY \<or> op_is ns NAMESPACE_REVEAL \<and>
              sql_cmp (<) (int_col ns ''reveal_block'') (Some (current_block + NAMESPACE_REVEAL_EXPIRE))))
           (namespace_rows st) = [])
          (Inr (Some preorder_rec)))"

section \<open>Decentralized identifiers\<close>

text \<open>The names of the table joined with the history rows of each.\<close>

definition join_history :: "state_engine \<Rightarrow> (pydict \<Rightarrow> history_row \<Rightarrow> bool) \<Rightarrow> history_row list" where
  "join_history st P = concat (map (\<lambda>n. filter (\<lambda>r. text_col n ''name'' (h_history_id r) \<and> P n r) (history_rows st))
     (name_rows st))"

definition namedb_get_name_DID_info :: "state_engine \<Rightarrow> string \<Rightarrow> int \<Rightarrow> (pyval \<times> int) option" where
  "namedb_get_name_DID_info st name block_height =
    (case sort_key (\<lambda>r. (- h_block_id r, - h_vtxindex r)) (join_history st (\<lambda>n r. text_col n ''name'' name \<and>
         creator_address r \<noteq> VNone \<and> h_block_id r \<le> block_height)) of
       [] \<Rightarrow> None
     | row # _ \<Rightarrow> Some (creator_address row,
         int (length (join_history st (\<lambda>n r. creator_address r = creator_address row \<and>
           (h_block_id r < h_block_id row \<or>
            h_block_id r = h_block_id row \<and> h_vtxindex r \<le> h_vtxindex row)))) - 1))"

section \<open>The class BlockstackDB\<close>

definition get_namespace :: "state_engine \<Rightarrow> string \<Rightarrow> pydict option res" where
  "get_namespace st namespace_id = autofill_opcode (namedb_get_namespace_ready st namespace_id)"

definition get_namespace_op_state :: "state_engine \<Rightarrow> string \<Rightarrow> int \<Rightarrow> bool \<Rightarrow> pydict option res" where
  "get_namespace_op_state st namespace_id block_number include_expired =
    autofill_opcode (namedb_get_namespace st namespace_id (Some block_number) include_expired True)"

definition get_namespace_by_preorder :: "state_engine \<Rightarrow> string \<Rightarrow> pydict option res" where
  "get_namespace_by_preorder st preorder_hash =
    autofill_opcode (namedb_get_namespace_by_preorder_hash st preorder_hash)"

definition get_name_by_preorder :: "state_engine \<Rightarrow> string \<Rightarrow> pydict option res" where
  "get_name_by_preorder st preorder_hash =
    autofill_opcode (namedb_get_name_by_preorder_hash st preorder_hash)"

definition get_name :: "state_engine \<Rightarrow> string \<Rightarrow> int option \<Rightarrow> bool \<Rightarrow> pydict option res" where
  "get_name st name height include_expired =
    autofill_opcode (namedb_get_name st name
      (case height of None \<Rightarrow> lastblock st | Some b \<Rightarrow> b) include_expired True)"

definition get_namespace_reveal :: "state_engine \<Rightarrow> string \<Rightarrow> pydict option res" where
  "get_namespace_reveal st namespace_id =
    autofill_opcode (namedb_get_namespace_reveal st namespace_id (lastblock st))"

definition get_names_owned_by_sender :: "state_engine \<Rightarrow> string \<Rightarrow> int option \<Rightarrow> pyval list res" where
  "get_names_owned_by_sender st sender_pubkey height =
    namedb_get_names_by_sender st sender_pubkey (case height of None \<Rightarrow> lastblock st | Some b \<Rightarrow> b)"

definition get_name_from_name_hash128 :: "state_engine \<Rightarrow> string \<Rightarrow> pyval option res" where
  "get_name_from_name_hash128 st name_hash = namedb_get_name_from_name_hash128 st name_hash (lastblock st)"

definition get_valid_transaction_window :: int where
  "get_valid_transaction_window = 24"

text \<open>\<open>range(lo, hi)\<close>.\<close>

definition int_range :: "int \<Rightarrow> int \<Rightarrow> int list" where
  "int_range lo hi = map (\<lambda>k. lo + int k) [0..<nat (hi - lo)]"

definition recent_consensus_hashes :: "virtualchain \<Rightarrow> int \<Rightarrow> string list" where
  "recent_consensus_hashes vc block_id = foldl (\<lambda>acc i. case get_consensus_at vc i of
       None \<Rightarrow> acc
     | Some ch \<Rightarrow> if ch \<in> set acc then acc else acc @ [ch])
     [] (int_range (block_id - get_valid_transaction_window) (block_id + 1))"

definition get_name_from_name_consensus_hash ::
    "virtualchain \<Rightarrow> state_engine \<Rightarrow> string \<Rightarrow> string \<Rightarrow> int \<Rightarrow> (string \<times> string) option res" where
  "get_name_from_name_consensus_hash vc st name_consensus_hash sender_script_pubkey block_id =
    rbind (namedb_get_names_by_sender st sender_script_pubkey (lastblock st)) (\<lambda>names.
      Inr (List.find (\<lambda>(name, ch). hash256_trunc128 (bin_sha256 vc) (name @ ch) = name_consensus_hash)
        (concat (map (\<lambda>n. case n of VStr name \<Rightarrow> map (Pair name) (recent_consensus_hashes vc block_id) | _ \<Rightarrow> [])
           names))))"

definition get_name_preorder ::
    "virtualchain \<Rightarrow> state_engine \<Rightarrow> string \<Rightarrow> string \<Rightarrow> string \<Rightarrow> bool \<Rightarrow> pydict option res" where
  "get_name_preorder vc st name sender_script_pubkey register_addr include_failed =
    autofill_opcode
      (rbind (get_name st name None False) (\<lambda>name_rec.
        require (name_rec = None \<or> include_failed)
          (let namespace_id = get_namespace_from_name name in
           obind (get_namespace st namespace_id) (\<lambda>namespace.
           rbind (hash_name (hex_hash160 vc) (VStr name) sender_script_pubkey (Some register_addr)) (\<lambda>preorder_hash.
           obind (namedb_get_name_preorder st preorder_hash (lastblock st)) (\<lambda>preorder.
           rbind (get_epoch_namespace_lifetime_multiplier (lastblock st) namespace_id) (\<lambda>multiplier.
           rbind (get_int preorder ''block_number'') (\<lambda>block_number.
           rbind (get_int namespace ''lifetime'') (\<lambda>lifetime.
             require (lastblock st < block_number + lifetime * multiplier) (Inr (Some preorder)))))))))))"

definition get_namespace_preorder :: "state_engine \<Rightarrow> string \<Rightarrow> pydict option res" where
  "get_namespace_preorder st namespace_id_hash =
    autofill_opcode (namedb_get_namespace_preorder st namespace_id_hash (lastblock st))"

definition get_name_owner :: "state_engine \<Rightarrow> string \<Rightarrow> pyval option res" where
  "get_name_owner st name = obind (get_name st name None False) (\<lambda>name_rec.
     rbind (getitem name_rec ''sender'') (\<lambda>v. Inr (Some v)))"

definition is_name_expired :: "state_engine \<Rightarrow> string \<Rightarrow> int \<Rightarrow> bool res" where
  "is_name_expired st name block_number =
    rbind (namedb_get_name st name block_number False True) (\<lambda>r. Inr (r = None))"

text \<open>The pair of the expiry block and the renewal deadline.\<close>

definition get_name_deadlines :: "pydict \<Rightarrow> pydict \<Rightarrow> int \<Rightarrow> (int \<times> int) option res" where
  "get_name_deadlines name_rec namespace_rec block_number =
    rbind (getitem namespace_rec ''op'') (\<lambda>op.
      require (py_eq op (VStr [NAMESPACE_READY]))
        (rbind (get_str namespace_rec ''namespace_id'') (\<lambda>namespace_id.
         rbind (get_epoch_namespace_lifetime_multiplier block_number namespace_id) (\<lambda>multiplier.
         rbind (get_epoch_namespace_lifetime_grace_period block_number namespace_id) (\<lambda>grace.
         rbind (get_int namespace_rec ''ready_block'') (\<lambda>ready_block.
         rbind (get_int name_rec ''last_renewed'') (\<lambda>last_renewed.
         rbind (get_int namespace_rec ''lifetime'') (\<lambda>lifetime.
           let expire_block = max ready_block last_renewed + lifetime * multiplier in
           Inr (Some (expire_block, expire_block + grace))))))))))"

definition is_name_in_grace_period :: "state_engine \<Rightarrow> string \<Rightarrow> int \<Rightarrow> bool res" where
  "is_name_in_grace_period st name block_number =
    rbind (namedb_get_name st name block_number False True) (\<lambda>name_rec. case name_rec of
      None \<Rightarrow> Inr False
    | Some nr \<Rightarrow>
        rbind (namedb_get_namespace st (get_namespace_from_name name) (Some block_number) False True) (\<lambda>namespace_rec.
          case namespace_rec of
            None \<Rightarrow> Inr False
          | Some nsr \<Rightarrow> rbind (get_name_deadlines nr nsr block_number) (\<lambda>grace_info. case grace_info of
              None \<Rightarrow> Inr False
            | Some (expire_block, renewal_deadline) \<Rightarrow>
                Inr (expire_block \<le> block_number \<and> block_number < renewal_deadline))))"

definition is_name_registered :: "state_engine \<Rightarrow> string \<Rightarrow> bool res" where
  "is_name_registered st name = rbind (get_name st name None False) (\<lambda>name_rec. case name_rec of
     None \<Rightarrow> Inr False
   | Some r \<Rightarrow> rbind (getitem r ''revoked'') (\<lambda>v. Inr (\<not> truth v)))"

definition is_namespace_ready :: "state_engine \<Rightarrow> string \<Rightarrow> bool res" where
  "is_namespace_ready st namespace_id = rbind (get_namespace st namespace_id) (\<lambda>r. Inr (r \<noteq> None))"

definition is_namespace_preordered :: "state_engine \<Rightarrow> string \<Rightarrow> bool res" where
  "is_namespace_preordered st namespace_id_hash =
    rbind (get_namespace_preorder st namespace_id_hash) (\<lambda>r. Inr (r \<noteq> None))"

definition is_namespace_revealed :: "state_engine \<Rightarrow> string \<Rightarrow> bool res" where
  "is_namespace_revealed st namespace_id = rbind (get_namespace_reveal st namespace_id) (\<lambda>r. Inr (r \<noteq> None))"

definition is_name_owner :: "state_engine \<Rightarrow> string \<Rightarrow> string \<Rightarrow> bool res" where
  "is_name_owner st name sender_script_pubkey =
    rbind (is_name_registered st name) (\<lambda>registered.
      if \<not> registered then Inr False
      else rbind (get_name_owner st name) (\<lambda>owner. Inr (owner = Some (VStr sender_script_pubkey))))"

definition is_new_preorder :: "state_engine \<Rightarrow> string \<Rightarrow> int option \<Rightarrow> bool res" where
  "is_new_preorder st preorder_hash height =
    rbind (namedb_get_name_preorder st preorder_hash (case height of None \<Rightarrow> lastblock st | Some b \<Rightarrow> b))
      (\<lambda>r. Inr (r = None))"

definition is_new_namespace_preorder :: "state_engine \<Rightarrow> string \<Rightarrow> int option \<Rightarrow> bool res" where
  "is_new_namespace_preorder st namespace_id_hash height =
    rbind (namedb_get_namespace_preorder st namespace_id_hash (case height of None \<Rightarrow> lastblock st | Some b \<Rightarrow> b))
      (\<lambda>r. Inr (r = None))"

definition is_name_revoked :: "state_engine \<Rightarrow> string \<Rightarrow> bool res" where
  "is_name_revoked st name = rbind (get_name st name None False) (\<lambda>name_rec. case name_rec of
     None \<Rightarrow> Inr False
   | Some r \<Rightarrow> rbind (getitem r ''revoked'') (\<lambda>v. Inr (truth v)))"

definition get_account :: "state_engine \<Rightarrow> string \<Rightarrow> string \<Rightarrow> account_row option" where
  "get_account st address token_type = namedb_get_account (account_rows st) address token_type"

definition get_account_balance :: "account_row \<Rightarrow> int res" where
  "get_account_balance account = namedb_get_account_balance account"

definition is_token_type_supported :: "string \<Rightarrow> bool" where
  "is_token_type_supported token_type = (token_type \<in> {TOKEN_TYPE_STACKS})"

section \<open>What the queries return\<close>

text \<open>The rules of an epoch are the same for every namespace.\<close>

definition rules_at :: "int \<Rightarrow> ns_rules" where
  "rules_at h = (if h \<le> 436650 then EPOCH_1_id else if h \<le> 488500 then EPOCH_2_id
     else if h \<le> 547921 then EPOCH_3_id else if h \<le> 599866 then EPOCH_4_id
     else if h \<le> 613249 then EPOCH_5_id else EPOCH_6_id)"

abbreviation lifetime_multiplier :: "int \<Rightarrow> int" where
  "lifetime_multiplier h \<equiv> NAMESPACE_LIFETIME_MULTIPLIER (rules_at h)"

abbreviation grace_period :: "int \<Rightarrow> int" where
  "grace_period h \<equiv> NAMESPACE_LIFETIME_GRACE_PERIOD (rules_at h)"

lemma epoch_rules [simp]:
  "epoch_ns_rules (epoch_of h) namespace_id = Inr (rules_at h)"
  "get_epoch_namespace_lifetime_multiplier h namespace_id = Inr (lifetime_multiplier h)"
  "get_epoch_namespace_lifetime_grace_period h namespace_id = Inr (grace_period h)"
  using epoch_ns_rules_ok [of h namespace_id]
  by (auto simp: rules_at_def get_epoch_namespace_lifetime_multiplier_def
      get_epoch_namespace_lifetime_grace_period_def)

lemma get_str_eq_Inr [res_simps]: "get_str d k = Inr s \<longleftrightarrow> map_of d k = Some (VStr s)"
proof (cases "map_of d k")
  case (Some v)
  then show ?thesis by (cases v) (auto simp: get_str_def getitem_def)
qed (simp add: get_str_def getitem_def)

lemma get_int_eq_Inr [res_simps]: "get_int d k = Inr i \<longleftrightarrow> (\<exists>v. map_of d k = Some v \<and> py_int v = Some i)"
  by (cases "map_of d k") (auto simp: get_int_def getitem_def split: option.splits)

lemma row_field_key:
  assumes "row_field (k, v) = Inr kv'"
  shows "fst kv' = k"
  using assms by (cases v) (auto simp: row_field_def split: if_splits sum.splits)

lemma row_factory_Cons:
  assumes "namedb_row_factory (kv # row) = Inr d"
  shows "\<exists>v' d'. row_field kv = Inr (fst kv, v') \<and> namedb_row_factory row = Inr d' \<and> d = (fst kv, v') # d'"
proof -
  from assms obtain kv' d' where "row_field kv = Inr kv'" "namedb_row_factory row = Inr d'" "d = kv' # d'"
    by (auto simp: namedb_row_factory_def res_simps)
  then show ?thesis
    using row_field_key [of "fst kv" "snd kv" kv'] by (cases kv') auto
qed

lemma row_factory_lookup:
  assumes "namedb_row_factory row = Inr d"
  shows "map_of d k = (case map_of row k of None \<Rightarrow> None
    | Some v \<Rightarrow> (case row_field (k, v) of Inr (_, v') \<Rightarrow> Some v' | Inl _ \<Rightarrow> None))"
  using assms
proof (induction row arbitrary: d)
  case Nil
  then show ?case by (simp add: namedb_row_factory_def)
next
  case (Cons kv row)
  from row_factory_Cons [OF Cons.prems] obtain v' d' where
    d: "row_field kv = Inr (fst kv, v')" "namedb_row_factory row = Inr d'" "d = (fst kv, v') # d'"
    by blast
  show ?case
  proof (cases "fst kv = k")
    case True
    then show ?thesis using d by (cases kv) simp
  next
    case False
    then show ?thesis using d Cons.IH [OF d(2)] by (cases kv) simp
  qed
qed

text \<open>Columns that reading leaves as they are.\<close>

definition plain_column :: "string \<Rightarrow> bool" where
  "plain_column k = (k \<notin> set (flag_columns @ amount_columns))"

lemma row_factory_plain:
  assumes "namedb_row_factory row = Inr d" and "plain_column k"
  shows "map_of d k = map_of row k"
  using row_factory_lookup [OF assms(1), of k] assms(2)
  by (auto simp: row_field_def plain_column_def split: option.splits)

text \<open>A name is unrevoked when its flag reads as false.\<close>

definition unrevoked :: "pydict \<Rightarrow> bool" where
  "unrevoked row = (\<exists>v. map_of row ''revoked'' = Some v \<and> (py_eq v (VInt 0) \<or> v = VNone))"

lemma row_factory_revoked:
  assumes "namedb_row_factory row = Inr d" and "map_of d ''revoked'' = Some v"
  shows "truth v \<longleftrightarrow> \<not> unrevoked row"
  using row_factory_lookup [OF assms(1), of "''revoked''"] assms(2)
  by (auto simp: row_field_def unrevoked_def flag_columns_def split: option.splits sum.splits if_splits)

lemma fetchone_eq_Some [res_simps]:
  "fetchone rows = Inr (Some d) \<longleftrightarrow> (\<exists>r rs. rows = r # rs \<and> namedb_row_factory r = Inr d)"
  by (auto simp: fetchone_def res_simps split: list.splits)

lemma fetchone_eq_None [res_simps]: "fetchone rows = Inr None \<longleftrightarrow> rows = []"
  by (auto simp: fetchone_def res_simps split: list.splits)

lemma autofill_eq_None [res_simps]: "autofill_opcode q = Inr None \<longleftrightarrow> q = Inr None"
  by (auto simp: autofill_opcode_def res_simps split: option.splits)

lemma autofill_eq_Some [res_simps]:
  "autofill_opcode q = Inr (Some d) \<longleftrightarrow> (\<exists>r op opcode. q = Inr (Some r) \<and> map_of r ''opcode'' = None \<and>
     map_of r ''op'' = Some (VStr op) \<and> op_get_opcode_name op = Inr opcode \<and> d = dset r ''opcode'' (VStr opcode))"
proof (cases q)
  case (Inr rec)
  then show ?thesis
    by (cases rec) (auto simp: autofill_opcode_def res_simps has_key_def)
qed (simp add: autofill_opcode_def)

lemma join_namespaces_mem:
  "n \<in> set (join_namespaces st P) \<longleftrightarrow> n \<in> set (name_rows st) \<and>
     (\<exists>ns \<in> set (namespace_rows st). map_of n ''namespace_id'' = map_of ns ''namespace_id'' \<and> P n ns)"
  by (auto simp: join_namespaces_def)

text \<open>
  The specification of a lookup: \<open>live_name st name h n ns\<close> says that the row \<open>n\<close> holds \<open>name\<close>,
  registered by block \<open>h\<close> and unexpired at \<open>h\<close> in the namespace \<open>ns\<close>.
\<close>

definition live_name :: "state_engine \<Rightarrow> string \<Rightarrow> int \<Rightarrow> pydict \<Rightarrow> pydict \<Rightarrow> bool" where
  "live_name st name h n ns \<longleftrightarrow>
     n \<in> set (name_rows st) \<and> ns \<in> set (namespace_rows st) \<and> text_col n ''name'' name \<and>
     map_of n ''namespace_id'' = map_of ns ''namespace_id'' \<and>
     sql_cmp (\<le>) (int_col n ''first_registered'') (Some h) \<and>
     unexpired_row (lifetime_multiplier h) (grace_period h) h n ns"

lemma select_unexpired [simp]:
  "namedb_select_where_unexpired_names h only_registered = Inr (\<lambda>n ns.
     (only_registered \<longrightarrow> sql_cmp (\<le>) (int_col n ''first_registered'') (Some h)) \<and>
     unexpired_row (lifetime_multiplier h) (grace_period h) h n ns)"
  by (simp add: namedb_select_where_unexpired_names_def)

lemma namedb_get_name_Some:
  assumes "namedb_get_name st name h False True = Inr (Some r)"
  shows "\<exists>n ns. live_name st name h n ns \<and> namedb_row_factory n = Inr r"
proof -
  from assms obtain n rs where n: "namedb_row_factory n = Inr r"
    and "join_namespaces st (\<lambda>n ns. text_col n ''name'' name \<and>
      sql_cmp (\<le>) (int_col n ''first_registered'') (Some h) \<and>
      unexpired_row (lifetime_multiplier h) (grace_period h) h n ns) = n # rs"
    by (auto simp: namedb_get_name_def res_simps)
  then have "n \<in> set (join_namespaces st (\<lambda>n ns. text_col n ''name'' name \<and>
      sql_cmp (\<le>) (int_col n ''first_registered'') (Some h) \<and>
      unexpired_row (lifetime_multiplier h) (grace_period h) h n ns))"
    by simp
  then show ?thesis
    using n by (auto simp: join_namespaces_mem live_name_def)
qed

lemma namedb_get_name_None:
  "namedb_get_name st name h False True = Inr None \<longleftrightarrow> (\<nexists>n ns. live_name st name h n ns)"
proof -
  have "namedb_get_name st name h False True = Inr None \<longleftrightarrow>
     set (join_namespaces st (\<lambda>n ns. text_col n ''name'' name \<and>
      sql_cmp (\<le>) (int_col n ''first_registered'') (Some h) \<and>
      unexpired_row (lifetime_multiplier h) (grace_period h) h n ns)) = {}"
    by (simp add: namedb_get_name_def res_simps)
  also have "\<dots> \<longleftrightarrow> (\<nexists>n ns. live_name st name h n ns)"
    by (auto simp: live_name_def set_eq_iff join_namespaces_mem)
  finally show ?thesis .
qed

lemma get_name_Some:
  assumes "get_name st name height False = Inr (Some r)"
  shows "\<exists>n ns d. live_name st name (case height of None \<Rightarrow> lastblock st | Some b \<Rightarrow> b) n ns \<and>
    namedb_row_factory n = Inr d \<and> (\<forall>k. k \<noteq> ''opcode'' \<longrightarrow> map_of r k = map_of d k)"
proof -
  from assms obtain d opcode where
    d: "namedb_get_name st name (case height of None \<Rightarrow> lastblock st | Some b \<Rightarrow> b) False True = Inr (Some d)"
    and r: "r = dset d ''opcode'' (VStr opcode)"
    by (auto simp: get_name_def res_simps)
  from namedb_get_name_Some [OF d] show ?thesis
    unfolding r by auto
qed

lemma get_name_None:
  "get_name st name height False = Inr None \<longleftrightarrow>
     (\<nexists>n ns. live_name st name (case height of None \<Rightarrow> lastblock st | Some b \<Rightarrow> b) n ns)"
  by (simp add: get_name_def autofill_eq_None namedb_get_name_None)

text \<open>
  The owner of a name: the sender of a live row of the name that is not revoked.
\<close>

definition owns :: "state_engine \<Rightarrow> string \<Rightarrow> string \<Rightarrow> bool" where
  "owns st sender name = (\<exists>n ns. live_name st name (lastblock st) n ns \<and> unrevoked n \<and> text_col n ''sender'' sender)"

lemma is_name_registered_True:
  assumes "is_name_registered st name = Inr True"
  shows "\<exists>r n ns d. get_name st name None False = Inr (Some r) \<and> live_name st name (lastblock st) n ns \<and> unrevoked n \<and>
    namedb_row_factory n = Inr d \<and> (\<forall>k. k \<noteq> ''opcode'' \<longrightarrow> map_of r k = map_of d k)"
proof -
  from assms obtain r v where r: "get_name st name None False = Inr (Some r)"
    and v: "map_of r ''revoked'' = Some v" "\<not> truth v"
    by (auto simp: is_name_registered_def res_simps dict_simps split: option.splits)
  from get_name_Some [OF r] obtain n ns d where n: "live_name st name (lastblock st) n ns"
    "namedb_row_factory n = Inr d" "\<forall>k. k \<noteq> ''opcode'' \<longrightarrow> map_of r k = map_of d k"
    by auto
  have "map_of d ''revoked'' = Some v"
    using n(3) v(1) by simp
  then have "unrevoked n"
    using row_factory_revoked [OF n(2)] v(2) by blast
  then show ?thesis
    using r n by blast
qed

lemma is_name_owner_True:
  assumes "is_name_owner st name sender = Inr True"
  shows "owns st sender name"
proof -
  from assms have reg: "is_name_registered st name = Inr True"
    and owner: "get_name_owner st name = Inr (Some (VStr sender))"
    by (auto simp: is_name_owner_def res_simps split: if_splits)
  from is_name_registered_True [OF reg] obtain r n ns d where
    n: "get_name st name None False = Inr (Some r)" "live_name st name (lastblock st) n ns" "unrevoked n"
      "namedb_row_factory n = Inr d" "\<forall>k. k \<noteq> ''opcode'' \<longrightarrow> map_of r k = map_of d k"
    by auto
  from owner n(1) have "map_of r ''sender'' = Some (VStr sender)"
    by (auto simp: get_name_owner_def res_simps dict_simps)
  then have "text_col n ''sender'' sender"
    using n(5) row_factory_plain [OF n(4), of "''sender''"]
    by (simp add: text_col_def plain_column_def flag_columns_def amount_columns_def)
  then show ?thesis
    using n(2,3) by (auto simp: owns_def)
qed

definition ready_namespace :: "state_engine \<Rightarrow> string \<Rightarrow> pydict \<Rightarrow> bool" where
  "ready_namespace st namespace_id ns \<longleftrightarrow> ns \<in> set (namespace_rows st) \<and>
     text_col ns ''namespace_id'' namespace_id \<and> op_is ns NAMESPACE_READY"

lemma is_namespace_ready_True:
  assumes "is_namespace_ready st namespace_id = Inr True"
  shows "\<exists>ns. ready_namespace st namespace_id ns"
proof -
  from assms obtain r where "get_namespace st namespace_id = Inr (Some r)"
    by (auto simp: is_namespace_ready_def res_simps)
  then obtain n rs where "filter (\<lambda>r. text_col r ''namespace_id'' namespace_id \<and> op_is r NAMESPACE_READY)
      (namespace_rows st) = n # rs"
    by (auto simp: get_namespace_def namedb_get_namespace_ready_def res_simps)
  then have "n \<in> set (filter (\<lambda>r. text_col r ''namespace_id'' namespace_id \<and> op_is r NAMESPACE_READY)
      (namespace_rows st))"
    by simp
  then show ?thesis
    by (auto simp: ready_namespace_def)
qed

lemma is_name_expired_False:
  "is_name_expired st name h = Inr False \<Longrightarrow> \<exists>n ns. live_name st name h n ns"
  by (auto simp: is_name_expired_def res_simps dest!: namedb_get_name_Some)

section \<open>Expiry and grace period\<close>

text \<open>
  A name held by one row, in a namespace held by one row that is ready: launched at block \<open>rb\<close> with
  lifetime \<open>lt\<close>; the name was registered at \<open>fr\<close> and last renewed at \<open>lr\<close>.
\<close>

definition sole_name :: "state_engine \<Rightarrow> string \<Rightarrow> pydict \<Rightarrow> pydict \<Rightarrow> int \<Rightarrow> int \<Rightarrow> int \<Rightarrow> int \<Rightarrow> bool" where
  "sole_name st name n ns rb lt fr lr \<longleftrightarrow>
     filter (\<lambda>r. text_col r ''name'' name) (name_rows st) = [n] \<and>
     filter (\<lambda>r. text_col r ''namespace_id'' (get_namespace_from_name name)) (namespace_rows st) = [ns] \<and>
     text_col n ''namespace_id'' (get_namespace_from_name name) \<and>
     text_col ns ''namespace_id'' (get_namespace_from_name name) \<and> op_is ns NAMESPACE_READY \<and>
     map_of ns ''ready_block'' = Some (VInt rb) \<and> map_of ns ''lifetime'' = Some (VInt lt) \<and>
     map_of n ''first_registered'' = Some (VInt fr) \<and> map_of n ''last_renewed'' = Some (VInt lr)"

lemma join_namespaces_filter:
  "join_namespaces st (\<lambda>m q. A m \<and> Q m q) = concat (map (\<lambda>m. map (\<lambda>_. m)
     (filter (\<lambda>q. map_of m ''namespace_id'' = map_of q ''namespace_id'' \<and> Q m q) (namespace_rows st)))
     (filter A (name_rows st)))"
proof -
  have "concat (map (\<lambda>m. map (\<lambda>_. m) (filter (\<lambda>q. map_of m ''namespace_id'' = map_of q ''namespace_id'' \<and>
      A m \<and> Q m q) qs)) ms) = concat (map (\<lambda>m. map (\<lambda>_. m)
      (filter (\<lambda>q. map_of m ''namespace_id'' = map_of q ''namespace_id'' \<and> Q m q) qs)) (filter A ms))" for ms qs
    by (induction ms) auto
  then show ?thesis
    by (simp add: join_namespaces_def)
qed

lemma filter_singleton:
  assumes "filter P xs = [x]"
  shows "filter (\<lambda>y. P y \<and> Q y) xs = (if Q x then [x] else [])"
proof -
  have "filter (\<lambda>y. P y \<and> Q y) xs = filter Q (filter P xs)"
    by simp
  then show ?thesis
    unfolding assms by simp
qed

lemma join_sole_name:
  assumes "sole_name st name n ns rb lt fr lr"
  shows "join_namespaces st (\<lambda>m q. text_col m ''name'' name \<and> Q m q) = (if Q n ns then [n] else [])"
proof -
  from assms have n: "map_of n ''namespace_id'' = Some (VStr (get_namespace_from_name name))"
    by (simp add: sole_name_def text_col_def)
  have "filter (\<lambda>q. map_of n ''namespace_id'' = map_of q ''namespace_id'' \<and> Q n q) (namespace_rows st)
      = filter (\<lambda>r. text_col r ''namespace_id'' (get_namespace_from_name name) \<and> Q n r) (namespace_rows st)"
    by (rule filter_cong) (auto simp: n text_col_def)
  also have "\<dots> = (if Q n ns then [ns] else [])"
    using assms by (intro filter_singleton) (simp add: sole_name_def)
  finally show ?thesis
    using assms by (simp add: join_namespaces_filter sole_name_def)
qed

lemma unexpired_sole_name:
  assumes "sole_name st name n ns rb lt fr lr"
  shows "unexpired_row m g h n ns \<longleftrightarrow> h < rb + (lt * m + g) \<or> h \<le> lr + (lt * m + g)"
proof -
  from assms have "\<not> op_is ns NAMESPACE_REVEAL"
    by (auto simp: sole_name_def op_is_def text_col_def opcode_defs)
  then show ?thesis
    using assms by (auto simp: unexpired_row_def sole_name_def int_col_def sql_cmp_def sql_arith_def Let_def)
qed

lemma namespace_sole_name:
  assumes "sole_name st name n ns rb lt fr lr"
    and "namedb_row_factory ns = Inr nsr" and "op_decanonicalize ''NAMESPACE_READY'' nsr = Inr nsr'"
  shows "namedb_get_namespace st (get_namespace_from_name name) (Some h) False True = Inr (Some nsr')"
proof -
  from assms(1) have ready: "map_of ns ''op'' = Some (VStr [NAMESPACE_READY])"
    by (simp add: sole_name_def op_is_def text_col_def)
  then have "get_str nsr ''op'' = Inr [NAMESPACE_READY]"
    using row_factory_plain [OF assms(2), of "''op''"]
    by (simp add: res_simps plain_column_def flag_columns_def amount_columns_def)
  moreover have "op_get_opcode_name [NAMESPACE_READY] = Inr ''NAMESPACE_READY''"
    by (simp add: op_get_opcode_name_def OPCODE_NAMES_def opcode_defs)
  ultimately have "decanonicalized (Inr (Some nsr)) = Inr (Some nsr')"
    using assms(3) by (simp add: decanonicalized_def)
  moreover have "filter (\<lambda>r. text_col r ''namespace_id'' (get_namespace_from_name name) \<and> X r) (namespace_rows st) = [ns]"
    if "X ns" for X
    using filter_singleton [of "\<lambda>r. text_col r ''namespace_id'' (get_namespace_from_name name)" _ ns X] assms(1) that
    by (simp add: sole_name_def)
  moreover have "op_is ns NAMESPACE_READY"
    using ready by (simp add: op_is_def text_col_def)
  ultimately show ?thesis
    by (simp add: namedb_get_namespace_def assert_that_def fetchone_def assms(2))
qed

text \<open>Decanonicalization touches only the price buckets.\<close>

lemma op_decanonicalize_other:
  assumes "op_decanonicalize opcode d = Inr d'" and "k \<noteq> ''buckets''"
  shows "map_of d' k = map_of d k"
  using assms by (auto simp: op_decanonicalize_def decanonicalize_namespace_preorder_def
      decanonicalize_namespace_reveal_def decanonicalize_namespace_ready_def buckets_of_text_def res_simps
      split: if_splits)

lemma deadlines_sole_name:
  assumes "sole_name st name n ns rb lt fr lr" and "namedb_row_factory n = Inr nr"
    and "namedb_row_factory ns = Inr nsr" and "op_decanonicalize ''NAMESPACE_READY'' nsr = Inr nsr'"
  shows "get_name_deadlines nr nsr' h = Inr (Some (max rb lr + lt * lifetime_multiplier h,
    max rb lr + lt * lifetime_multiplier h + grace_period h))"
proof -
  have plain: "map_of nr k = map_of n k" "map_of nsr k = map_of ns k" if "plain_column k" for k
    using row_factory_plain [OF assms(2) that] row_factory_plain [OF assms(3) that] by auto
  have ns: "map_of nsr' ''op'' = Some (VStr [NAMESPACE_READY])"
      "map_of nsr' ''namespace_id'' = Some (VStr (get_namespace_from_name name))"
      "map_of nsr' ''ready_block'' = Some (VInt rb)" "map_of nsr' ''lifetime'' = Some (VInt lt)"
    using assms(1) by (simp_all add: op_decanonicalize_other [OF assms(4)] plain sole_name_def op_is_def
        text_col_def plain_column_def flag_columns_def amount_columns_def)
  have "map_of nr ''last_renewed'' = Some (VInt lr)"
    using assms(1) by (simp add: plain sole_name_def plain_column_def flag_columns_def amount_columns_def)
  with ns show ?thesis
    by (simp add: get_name_deadlines_def getitem_map_of get_int_map_of get_str_map_of Let_def)
qed

lemma get_name_sole_name:
  assumes "sole_name st name n ns rb lt fr lr" and "fr \<le> h" and "namedb_row_factory n = Inr nr"
  shows "namedb_get_name st name h False True = Inr
    (if h < rb + (lt * lifetime_multiplier h + grace_period h) \<or> h \<le> lr + (lt * lifetime_multiplier h + grace_period h)
     then Some nr else None)"
proof -
  have "sql_cmp (\<le>) (int_col n ''first_registered'') (Some h)"
    using assms(1,2) by (simp add: sole_name_def int_col_def sql_cmp_def)
  then show ?thesis
    by (simp add: namedb_get_name_def join_sole_name [OF assms(1)] unexpired_sole_name [OF assms(1)]
        fetchone_def assms(3))
qed

lemma expired_sole_name:
  assumes "sole_name st name n ns rb lt fr lr" and "fr \<le> h" and "namedb_row_factory n = Inr nr"
  shows "is_name_expired st name h = Inr
    (\<not> (h < rb + (lt * lifetime_multiplier h + grace_period h) \<or> h \<le> lr + (lt * lifetime_multiplier h + grace_period h)))"
  using get_name_sole_name [OF assms] by (simp add: is_name_expired_def)

lemma grace_sole_name:
  assumes "sole_name st name n ns rb lt fr lr" and "fr \<le> h"
    and "namedb_row_factory n = Inr nr" and "namedb_row_factory ns = Inr nsr"
    and "op_decanonicalize ''NAMESPACE_READY'' nsr = Inr nsr'"
  shows "is_name_in_grace_period st name h = Inr (max rb lr + lt * lifetime_multiplier h \<le> h \<and>
    h < max rb lr + lt * lifetime_multiplier h + grace_period h)"
  using deadlines_sole_name [OF assms(1,3,4,5)] namespace_sole_name [OF assms(1,4,5)]
    get_name_sole_name [OF assms(1,2,3)]
  by (auto simp: Let_def is_name_in_grace_period_def)


definition example_namespace_row :: pydict where
  "example_namespace_row = [(''namespace_id'', VStr ''id''), (''op'', VStr ''!''), (''ready_block'', VInt 373800),
     (''reveal_block'', VInt 373700), (''block_number'', VInt 373601), (''lifetime'', VInt 52595),
     (''version'', VInt 1), (''recipient'', VStr ''76a9''), (''recipient_address'', VStr ''1ns''),
     (''sender'', VStr ''76a9''), (''address'', VStr ''1ns''), (''preorder_hash'', VStr ''aa''), (''coeff'', VInt 250),
     (''base'', VInt 4), (''buckets'', VStr ''[6, 5, 4, 3, 2, 1, 0, 0, 0, 0, 0, 0, 0, 0, 0, 0]''),
     (''nonalpha_discount'', VInt 10), (''no_vowel_discount'', VInt 10), (''token_fee'', VStr ''0'')]"

definition example_name_row :: "string \<Rightarrow> int \<Rightarrow> pydict" where
  "example_name_row sender renewed = [(''name'', VStr ''ab.id''), (''namespace_id'', VStr ''id''), (''op'', VStr '':''),
     (''sender'', VStr sender), (''address'', VStr ''1owner''), (''name_hash128'', VStr ''abcd''),
     (''first_registered'', VInt 400000), (''last_renewed'', VInt renewed), (''revoked'', VInt 0),
     (''preorder_hash'', VStr ''bb''), (''block_number'', VInt 399990), (''preorder_block_number'', VInt 399990),
     (''value_hash'', VNone), (''op_fee'', VInt 5), (''token_fee'', VStr ''0''), (''last_creation_op'', VStr '':''),
     (''txid'', VStr ''cc''), (''vtxindex'', VInt 3), (''sender_pubkey'', VNone)]"

definition example_with :: "string \<Rightarrow> int \<Rightarrow> int \<Rightarrow> pydict list \<Rightarrow> account_row list \<Rightarrow> state_engine" where
  "example_with sender renewed last_block preorders accounts = \<lparr>name_rows = [example_name_row sender renewed],
     namespace_rows = [example_namespace_row], preorder_rows = preorders, history_rows = [], account_rows = accounts,
     vesting_rows = [], lastblock = last_block, collisions = [], vesting = [], rejected = [],
     import_keychains = [], announce_ids = [], save_rejected = True, rejected_table = []\<rparr>"

abbreviation example_state :: "string \<Rightarrow> int \<Rightarrow> int \<Rightarrow> state_engine" where
  "example_state sender renewed last_block \<equiv> example_with sender renewed last_block [] []"

lemma get_namespace_from_example [simp]: "get_namespace_from_name ''ab.id'' = ''id''"
  by (simp add: get_namespace_from_name_def)

lemmas column_classes = plain_column_def flag_columns_def amount_columns_def

lemma example_sole_name:
  "sole_name (example_with s r b ps acc) ''ab.id'' (example_name_row s r) example_namespace_row 373800 52595 400000 r"
  by (simp add: sole_name_def example_with_def example_name_row_def example_namespace_row_def text_col_def op_is_def
      opcode_defs)

lemma int_of_str_0 [simp]: "int_of_str ''0'' = Inr 0"
  by (simp add: int_of_str_def nat_of_str_def decval_def horner_Cons)

lemma example_name_read:
  "namedb_row_factory (example_name_row s r) =
     Inr (dset (dset (example_name_row s r) ''revoked'' (VBool False)) ''token_fee'' (VInt 0))"
  by (simp add: namedb_row_factory_def example_name_row_def row_field_def flag_columns_def amount_columns_def dset_def)

lemma example_namespace_read:
  "namedb_row_factory example_namespace_row = Inr (dset example_namespace_row ''token_fee'' (VInt 0))"
  by (simp add: namedb_row_factory_def example_namespace_row_def row_field_def flag_columns_def amount_columns_def dset_def)

lemma example_buckets:
  "json_loads_ints ''[6, 5, 4, 3, 2, 1, 0, 0, 0, 0, 0, 0, 0, 0, 0, 0]'' =
     Inr (VList (map VInt [6, 5, 4, 3, 2, 1, 0, 0, 0, 0, 0, 0, 0, 0, 0, 0]))"
  by code_simp

lemma example_namespace_decanonicalized:
  "op_decanonicalize ''NAMESPACE_READY'' (dset example_namespace_row ''token_fee'' (VInt 0)) =
     Inr (dset (dset example_namespace_row ''token_fee'' (VInt 0)) ''buckets''
       (VList (map VInt [6, 5, 4, 3, 2, 1, 0, 0, 0, 0, 0, 0, 0, 0, 0, 0])))"
  by (simp add: op_decanonicalize_def decanonicalize_namespace_ready_def has_key_def example_namespace_row_def
      buckets_of_text_def get_str_def getitem_def example_buckets)


text \<open>The queries on the example: its name is live, unrevoked, outside its grace period and owned by its sender.\<close>

definition example_name_rec :: "string \<Rightarrow> int \<Rightarrow> pydict" where
  "example_name_rec s r = dset (dset (example_name_row s r) ''revoked'' (VBool False)) ''token_fee'' (VInt 0)"

definition example_namespace_rec :: pydict where
  "example_namespace_rec = dset (dset example_namespace_row ''token_fee'' (VInt 0)) ''buckets''
     (VList (map VInt [6, 5, 4, 3, 2, 1, 0, 0, 0, 0, 0, 0, 0, 0, 0, 0]))"

abbreviation live_example :: "string \<Rightarrow> pydict list \<Rightarrow> account_row list \<Rightarrow> state_engine" where
  "live_example s ps acc \<equiv> example_with s 500000 590000 ps acc"

lemma lastblock_example [simp]: "lastblock (example_with s r b ps acc) = b"
  by (simp add: example_with_def)

lemma live_example_unexpired:
  "unexpired_row (lifetime_multiplier 590000) (grace_period 590000) 590000 (example_name_row s 500000) example_namespace_row"
  by (simp add: unexpired_row_def example_name_row_def example_namespace_row_def rules_at_def epoch_tables op_is_def
      text_col_def int_col_def sql_cmp_def sql_arith_def Let_def opcode_defs)

lemma live_example_get_name:
  "get_name (live_example s ps acc) ''ab.id'' None False =
     Inr (Some (dset (example_name_rec s 500000) ''opcode'' (VStr ''NAME_REGISTRATION'')))"
proof -
  have "namedb_get_name (live_example s ps acc) ''ab.id'' 590000 False True = Inr (Some (example_name_rec s 500000))"
    unfolding example_name_rec_def
    by (subst get_name_sole_name [OF example_sole_name _ example_name_read])
      (simp_all add: rules_at_def epoch_tables Let_def)
  then show ?thesis
    by (simp add: get_name_def example_with_def autofill_opcode_def example_name_rec_def example_name_row_def
        has_key_def dset_def get_str_def getitem_def op_get_opcode_name_def OPCODE_NAMES_def opcode_defs assert_that_def)
qed

lemma live_example_get_namespace:
  "get_namespace (live_example s ps acc) ''id'' = Inr (Some (dset example_namespace_rec ''opcode'' (VStr ''NAMESPACE_READY'')))"
  by code_simp

lemma live_example_queries:
  "is_namespace_ready (live_example s ps acc) ''id'' = Inr True" 
  "is_name_registered (live_example s ps acc) ''ab.id'' = Inr True"
  "is_name_revoked (live_example s ps acc) ''ab.id'' = Inr False"
  "is_name_owner (live_example s ps acc) ''ab.id'' s = Inr True"
  by (simp_all add: is_namespace_ready_def is_name_registered_def is_name_revoked_def is_name_owner_def
      get_name_owner_def live_example_get_name live_example_get_namespace example_name_rec_def example_name_row_def
      getitem_def dset_def)

lemma live_example_deadlines:
  "is_name_expired (live_example s ps acc) ''ab.id'' 590000 = Inr False"
  "is_name_expired (live_example s ps acc) ''ab.id'' 590001 = Inr False"
  "is_name_in_grace_period (live_example s ps acc) ''ab.id'' 590001 = Inr False"
  by (simp_all add: expired_sole_name [OF example_sole_name _ example_name_read]
      grace_sole_name [OF example_sole_name _ example_name_read example_namespace_read example_namespace_decanonicalized]
      rules_at_def epoch_tables Let_def)

end
