(* ===== verification/Nameset.thy ===== *)
theory Nameset
  imports NameDB
begin

text \<open>
  The decorators of the operations' \<open>check\<close> methods (\<open>lib/nameset/__init__.py\<close>) and the collision
  detection they call (class \<open>BlockstackDB\<close> of \<open>lib/nameset/namedb.py\<close>): two operations of one
  block that create the same name, reveal the same namespace or carry the same preorder hash
  collide.

  A \<open>check\<close> method returns \<open>False\<close> or mutates the operation and returns \<open>True\<close>; here it yields
  \<open>None\<close> or the mutated operation. (The caller checks a copy and drops it on \<open>False\<close>.) A decorated
  method also returns the state and the operations checked so far, which collisions mark.
\<close>

type_synonym checker = "state_engine \<Rightarrow> pydict \<Rightarrow> int \<Rightarrow> pydict list \<Rightarrow> pydict option res"
type_synonym verdict = "pydict option \<times> state_engine \<times> pydict list"
type_synonym decorated = "state_engine \<Rightarrow> pydict \<Rightarrow> int \<Rightarrow> pydict list \<Rightarrow> verdict res"

section \<open>Field lists and tags\<close>

definition CONSENSUS_FIELDS_REQUIRED :: "string list" where
  "CONSENSUS_FIELDS_REQUIRED = [''op'', ''txid'', ''vtxindex'']"

definition CONSENSUS_FIELDS_REQUIRED_TOKENS :: "string list" where
  "CONSENSUS_FIELDS_REQUIRED_TOKENS = [''address'']"

definition NAMEREC_FIELDS :: "string list" where
  "NAMEREC_FIELDS = [''name'', ''value_hash'', ''sender'', ''sender_pubkey'', ''address'',
     ''block_number'', ''preorder_block_number'', ''first_registered'', ''last_renewed'', ''revoked'',
     ''op'', ''txid'', ''vtxindex'', ''op_fee'', ''importer'', ''importer_address'']"

definition NAMEREC_MUTATE_FIELDS :: "string list" where
  "NAMEREC_MUTATE_FIELDS = [''txid'', ''vtxindex'', ''op'']"

definition state_preorder_invariant_tags :: "string list" where
  "state_preorder_invariant_tags = [''__account_payment_info__'']"

definition state_create_invariant_tags :: "string list" where
  "state_create_invariant_tags = [''__preorder__'', ''__table__'', ''__history_id_key__'', ''__state_create__'']"

definition state_transition_invariant_tags :: "string list" where
  "state_transition_invariant_tags =
     [''__table__'', ''__history_id_key__'', ''__state_transition__'', ''__always_set__'']"

definition token_operation_invariant_tags :: "string list" where
  "token_operation_invariant_tags = [''__table__'', ''__account_payment_info__'', ''__account_credit_info__'']"

definition get_state_invariant_tags :: "string list" where
  "get_state_invariant_tags = remdups (state_create_invariant_tags @ state_transition_invariant_tags @
     state_preorder_invariant_tags @ token_operation_invariant_tags)"

definition has_keys :: "pydict \<Rightarrow> string list \<Rightarrow> bool" where
  "has_keys d ks = list_all (has_key d) ks"

section \<open>Payment information\<close>

text \<open>
  \<open>state_preorder_put_account_payment_info\<close> and its counterparts: the account to debit or to credit
  on commit, or \<open>None\<close> throughout when the operation moves no tokens.
\<close>

definition opt_str :: "pyval \<Rightarrow> bool" where
  "opt_str v = (case v of VNone \<Rightarrow> True | VStr _ \<Rightarrow> True | _ \<Rightarrow> False)"

definition opt_int :: "pyval \<Rightarrow> bool" where
  "opt_int v = (v = VNone \<or> py_int v \<noteq> None)"

definition int_value :: "pyval \<Rightarrow> pyval" where
  "int_value v = (case py_int v of Some i \<Rightarrow> VInt i | None \<Rightarrow> v)"

definition payment_info :: "pyval \<Rightarrow> pyval \<Rightarrow> pyval \<Rightarrow> pyval" where
  "payment_info account_addr token_type amount =
     VDict [(''address'', account_addr), (''type'', token_type), (''amount'', int_value amount)]"

definition state_preorder_put_account_payment_info :: "pydict \<Rightarrow> pyval \<Rightarrow> pyval \<Rightarrow> pyval \<Rightarrow> pydict res" where
  "state_preorder_put_account_payment_info nameop account_addr token_type amount =
    assert_that (opt_int amount \<and> opt_str account_addr \<and> opt_str token_type)
      (Inr (dset nameop ''__account_payment_info__'' (payment_info account_addr token_type amount)))"

definition state_transition_put_account_payment_info :: "pydict \<Rightarrow> pyval \<Rightarrow> pyval \<Rightarrow> pyval \<Rightarrow> pydict res" where
  "state_transition_put_account_payment_info nameop account_addr token_type amount =
    assert_that (opt_int amount \<and> opt_str account_addr \<and> opt_str token_type)
      (Inr (dset nameop ''__account_payment_info__'' (payment_info account_addr token_type amount)))"

definition is_str :: "pyval \<Rightarrow> bool" where
  "is_str v = (case v of VStr _ \<Rightarrow> True | _ \<Rightarrow> False)"

definition token_operation_put_account_payment_info :: "pydict \<Rightarrow> pyval \<Rightarrow> pyval \<Rightarrow> pyval \<Rightarrow> pydict res" where
  "token_operation_put_account_payment_info token_op account_addr token_type amount =
    assert_that (py_int amount \<noteq> None \<and> is_str account_addr \<and> is_str token_type)
      (Inr (dset token_op ''__account_payment_info__'' (payment_info account_addr token_type amount)))"

definition token_operation_put_account_credit_info :: "pydict \<Rightarrow> pyval \<Rightarrow> pyval \<Rightarrow> pyval \<Rightarrow> pydict res" where
  "token_operation_put_account_credit_info token_op account_addr token_type amount =
    assert_that (py_int amount \<noteq> None \<and> is_str account_addr \<and> is_str token_type)
      (Inr (dset token_op ''__account_credit_info__'' (payment_info account_addr token_type amount)))"

definition state_create_put_preorder :: "pydict \<Rightarrow> pydict option \<Rightarrow> pydict" where
  "state_create_put_preorder nameop preorder =
    dset nameop ''__preorder__'' (case preorder of None \<Rightarrow> VNone | Some p \<Rightarrow> VDict p)"

section \<open>Well-formedness of tagged operations\<close>

definition state_create_is_valid :: "pydict \<Rightarrow> bool res" where
  "state_create_is_valid nameop =
    assert_that (has_key nameop ''__state_create__'' \<and> truth (dget nameop ''__state_create__'' VNone) \<and>
       has_key nameop ''__preorder__'' \<and> has_key nameop ''__table__'' \<and> has_key nameop ''__history_id_key__'')
      (rbind (get_str nameop ''__history_id_key__'') (\<lambda>key.
        assert_that (has_key nameop key \<and> has_key nameop ''__always_set__'') (Inr True)))"

definition state_transition_is_valid :: "pydict \<Rightarrow> bool res" where
  "state_transition_is_valid nameop =
    assert_that (has_key nameop ''__state_transition__'' \<and> truth (dget nameop ''__state_transition__'' VNone) \<and>
       has_key nameop ''__history_id_key__'')
      (rbind (getitem nameop ''__history_id_key__'') (\<lambda>key.
        assert_that (key \<in> {VStr ''name'', VStr ''namespace_id''} \<and> has_key nameop ''__table__'' \<and>
            has_key nameop ''__always_set__'' \<and> has_key nameop ''__account_payment_info__'') (Inr True)))"

definition token_operation_is_valid :: "pydict \<Rightarrow> bool res" where
  "token_operation_is_valid token_op =
    assert_that (has_keys token_op (token_operation_invariant_tags @ [''opcode''])) (Inr True)"

section \<open>Collisions\<close>

definition nameop_set_collided :: "pydict \<Rightarrow> string \<Rightarrow> pyval \<Rightarrow> pydict" where
  "nameop_set_collided nameop history_id_key history_id =
    dset (dset (dset nameop ''__collided__'' (VBool True))
      ''__collided_history_id_key__'' (VStr history_id_key)) ''__collided_history_id__'' history_id"

definition nameop_is_collided :: "pydict \<Rightarrow> bool" where
  "nameop_is_collided nameop = (has_key nameop ''__collided__'' \<and> truth (dget nameop ''__collided__'' VNone))"

definition nameop_put_collision :: "collision_table \<Rightarrow> pydict \<Rightarrow> collision_table res" where
  "nameop_put_collision table nameop =
    (case (dget nameop ''__collided_history_id_key__'' VNone, dget nameop ''__collided_history_id__'' VNone) of
       (VStr key, hid) \<Rightarrow>
         if \<not> nameop_is_collided nameop \<or> hid = VNone then Inl Abort
         else Inr (case map_of table key of
           None \<Rightarrow> AList.update key [hid] table
         | Some hids \<Rightarrow> AList.update key (hids @ [hid]) table)
     | _ \<Rightarrow> Inl Abort)"

definition find_collisions :: "pydict list \<Rightarrow> collision_table res" where
  "find_collisions checked_ops = rfold (\<lambda>table op.
     if nameop_is_collided op then nameop_put_collision table op else Inr table) [] checked_ops"

definition put_collisions :: "state_engine \<Rightarrow> int \<Rightarrow> collision_table \<Rightarrow> state_engine" where
  "put_collisions st block_id table = st\<lparr>collisions := AList.update block_id table (collisions st)\<rparr>"

definition clear_collisions :: "state_engine \<Rightarrow> int \<Rightarrow> state_engine" where
  "clear_collisions st block_id = st\<lparr>collisions := AList.delete block_id (collisions st)\<rparr>"

definition mark_collided :: "string \<Rightarrow> pyval \<Rightarrow> string list \<Rightarrow> pydict \<Rightarrow> pydict res" where
  "mark_collided history_id_key history_id affected_opcodes prev_op =
    rbind (get_str prev_op ''op'') (\<lambda>op.
    rbind (op_get_opcode_name op) (\<lambda>prev_opcode.
      if prev_opcode \<notin> set affected_opcodes then Inr prev_op
      else case map_of prev_op history_id_key of
        None \<Rightarrow> Inr prev_op
      | Some v \<Rightarrow> Inr (if py_eq v history_id then nameop_set_collided prev_op history_id_key history_id
                      else prev_op)))"

definition seen_at :: "(int \<times> collision_table) list \<Rightarrow> int \<Rightarrow> string \<Rightarrow> pyval list" where
  "seen_at collision_state block_id history_id_key =
    (case map_of collision_state block_id of None \<Rightarrow> []
     | Some table \<Rightarrow> (case map_of table history_id_key of None \<Rightarrow> [] | Some hids \<Rightarrow> hids))"

definition note_seen ::
    "(int \<times> collision_table) list \<Rightarrow> int \<Rightarrow> string \<Rightarrow> pyval \<Rightarrow> (int \<times> collision_table) list" where
  "note_seen collision_state block_id history_id_key history_id =
    (case map_of collision_state block_id of
       None \<Rightarrow> AList.update block_id [(history_id_key, [history_id])] collision_state
     | Some table \<Rightarrow> AList.update block_id
         (case map_of table history_id_key of
            None \<Rightarrow> AList.update history_id_key [history_id] table
          | Some hids \<Rightarrow> AList.update history_id_key (hids @ [history_id]) table) collision_state)"

definition check_collision_state ::
    "(int \<times> collision_table) list \<Rightarrow> string \<Rightarrow> pyval \<Rightarrow> int \<Rightarrow> pydict list \<Rightarrow> string list \<Rightarrow>
     (bool \<times> (int \<times> collision_table) list \<times> pydict list) res" where
  "check_collision_state collision_state history_id_key history_id block_id checked_ops affected_opcodes =
    (if list_ex (py_eq history_id) (seen_at collision_state block_id history_id_key)
     then rbind (rmap (mark_collided history_id_key history_id affected_opcodes) checked_ops) (\<lambda>ops.
            Inr (True, collision_state, ops))
     else Inr (False, note_seen collision_state block_id history_id_key history_id, checked_ops))"

definition check_collision ::
    "state_engine \<Rightarrow> string \<Rightarrow> pyval \<Rightarrow> int \<Rightarrow> pydict list \<Rightarrow> string list \<Rightarrow> (bool \<times> state_engine \<times> pydict list) res" where
  "check_collision st history_id_key history_id block_id checked_ops affected_opcodes =
    rbind (check_collision_state (collisions st) history_id_key history_id block_id checked_ops affected_opcodes)
      (\<lambda>(rc, coll, ops). Inr (rc, st\<lparr>collisions := coll\<rparr>, ops))"

definition check_preorder_collision ::
    "state_engine \<Rightarrow> pyval \<Rightarrow> int \<Rightarrow> pydict list \<Rightarrow> (bool \<times> state_engine \<times> pydict list) res" where
  "check_preorder_collision st preorder_hash block_id checked_ops =
    check_collision st ''preorder_hash'' preorder_hash block_id checked_ops OPCODE_PREORDER_OPS"

definition check_name_collision ::
    "state_engine \<Rightarrow> pyval \<Rightarrow> int \<Rightarrow> pydict list \<Rightarrow> (bool \<times> state_engine \<times> pydict list) res" where
  "check_name_collision st name block_id checked_ops =
    check_collision st ''name'' name block_id checked_ops OPCODE_NAME_STATE_CREATIONS"

definition check_namespace_collision ::
    "state_engine \<Rightarrow> pyval \<Rightarrow> int \<Rightarrow> pydict list \<Rightarrow> (bool \<times> state_engine \<times> pydict list) res" where
  "check_namespace_collision st namespace_id block_id checked_ops =
    check_collision st ''namespace_id'' namespace_id block_id checked_ops OPCODE_NAMESPACE_STATE_CREATIONS"

definition check_noop_collision ::
    "state_engine \<Rightarrow> pyval \<Rightarrow> int \<Rightarrow> pydict list \<Rightarrow> (bool \<times> state_engine \<times> pydict list) res" where
  "check_noop_collision st name block_id checked_ops = Inr (False, st, checked_ops)"

text \<open>The collision checker is looked up by name in the state engine; an unknown name ends the process.\<close>

definition state_check_collisions ::
    "state_engine \<Rightarrow> pydict \<Rightarrow> string \<Rightarrow> int \<Rightarrow> pydict list \<Rightarrow> string \<Rightarrow> (bool \<times> state_engine \<times> pydict list) res" where
  "state_check_collisions st nameop history_id_key block_id checked_ops collision_checker =
    (if \<not> has_key nameop history_id_key \<or> \<not> has_key nameop ''op'' then Inl Abort
     else rbind (getitem nameop history_id_key) (\<lambda>history_id.
       if collision_checker = ''check_preorder_collision'' then check_preorder_collision st history_id block_id checked_ops
       else if collision_checker = ''check_name_collision'' then check_name_collision st history_id block_id checked_ops
       else if collision_checker = ''check_namespace_collision'' then check_namespace_collision st history_id block_id checked_ops
       else if collision_checker = ''check_noop_collision'' then check_noop_collision st history_id block_id checked_ops
       else Inl Abort))"

section \<open>The decorators\<close>

definition state_preorder :: "string \<Rightarrow> checker \<Rightarrow> decorated" where
  "state_preorder collision_checker check st nameop block_id checked_ops =
    rbind (check st nameop block_id checked_ops) (\<lambda>rc. case rc of
      None \<Rightarrow> Inr (None, st, checked_ops)
    | Some op \<Rightarrow>
        rbind (state_check_collisions st op ''preorder_hash'' block_id checked_ops collision_checker)
          (\<lambda>(collided, st', ops).
            assert_that (has_keys op state_preorder_invariant_tags \<and> has_keys op CONSENSUS_FIELDS_REQUIRED)
              (Inr (if collided then None else Some op, st', ops))))"

text \<open>\<open>state_create\<close> of a \<open>check\<close> method that may change the state, and of one that does not.\<close>

definition state_create_st :: "string \<Rightarrow> string \<Rightarrow> string \<Rightarrow> string list \<Rightarrow>
    (state_engine \<Rightarrow> pydict \<Rightarrow> int \<Rightarrow> pydict list \<Rightarrow> (pydict option \<times> state_engine) res) \<Rightarrow> decorated" where
  "state_create_st history_id_key table_name collision_checker always_set check st nameop block_id checked_ops =
    rbind (check st nameop block_id checked_ops) (\<lambda>(rc, st).
    rbind (get_str (case rc of None \<Rightarrow> nameop | Some op \<Rightarrow> op) ''op'') (\<lambda>opc.
    rbind (op_get_opcode_name opc) (\<lambda>opcode.
      assert_that (opcode \<in> set OPCODE_CREATION_OPS)
        (case rc of
           None \<Rightarrow> Inr (None, st, checked_ops)
         | Some op \<Rightarrow>
             if \<not> has_key op ''__preorder__'' then Inl Abort
             else let op = dset op ''__table__'' (VStr table_name);
                      op = dset op ''__history_id_key__'' (VStr history_id_key);
                      op = dset op ''__state_create__'' (VBool True);
                      op = dset op ''__always_set__'' (VList (map VStr always_set))
             in assert_that (has_keys op state_create_invariant_tags \<and> has_keys op CONSENSUS_FIELDS_REQUIRED)
                  (rbind (state_check_collisions st op history_id_key block_id checked_ops collision_checker)
                     (\<lambda>(collided, st', ops). Inr (if collided then None else Some op, st', ops)))))))"

definition state_create :: "string \<Rightarrow> string \<Rightarrow> string \<Rightarrow> string list \<Rightarrow> checker \<Rightarrow> decorated" where
  "state_create history_id_key table_name collision_checker always_set check =
    state_create_st history_id_key table_name collision_checker always_set
      (\<lambda>st nameop block_id checked_ops. rbind (check st nameop block_id checked_ops) (\<lambda>rc. Inr (rc, st)))"

definition state_transition :: "string \<Rightarrow> string \<Rightarrow> string list \<Rightarrow> bool \<Rightarrow> checker \<Rightarrow> decorated" where
  "state_transition history_id_key table_name always_set may_spend_tokens check st nameop block_id checked_ops =
    rbind (check st nameop block_id checked_ops) (\<lambda>rc. case rc of
      None \<Rightarrow> Inr (None, st, checked_ops)
    | Some op \<Rightarrow>
        let op = dset op ''__table__'' (VStr table_name);
            op = dset op ''__history_id_key__'' (VStr history_id_key);
            op = dset op ''__state_transition__'' (VBool True);
            op = dset op ''__always_set__'' (VList (map VStr always_set))
        in rbind (if \<not> may_spend_tokens then state_transition_put_account_payment_info op VNone VNone VNone
                  else if \<not> has_key op ''__account_payment_info__''
                  then Inl (Exception ''Operation spends tokens, but no payment account information is set'')
                  else Inr op) (\<lambda>op.
             assert_that (has_keys op state_transition_invariant_tags \<and> has_keys op CONSENSUS_FIELDS_REQUIRED)
               (Inr (Some op, st, checked_ops))))"

text \<open>The \<open>check\<close> method of a token operation also logs why it rejects, so it returns the state.\<close>

definition token_operation ::
    "string \<Rightarrow> (state_engine \<Rightarrow> pydict \<Rightarrow> int \<Rightarrow> pydict list \<Rightarrow> (pydict option \<times> state_engine) res) \<Rightarrow> decorated" where
  "token_operation table_name check st token_op block_id checked_ops =
    rbind (check st token_op block_id checked_ops) (\<lambda>(rc, st'). case rc of
      None \<Rightarrow> Inr (None, st', checked_ops)
    | Some op \<Rightarrow>
        let op = dset op ''__table__'' (VStr table_name)
        in assert_that (has_keys op token_operation_invariant_tags \<and> has_keys op CONSENSUS_FIELDS_REQUIRED \<and>
              has_keys op CONSENSUS_FIELDS_REQUIRED_TOKENS)
             (Inr (Some op, st', checked_ops)))"

section \<open>The table of seen identifiers\<close>

text \<open>
  What collision detection relies on: a table that answers whether an identifier has been noted.
  Noting identifiers in turn, exactly the first occurrence of each is fresh.
\<close>

locale seen_table =
  fixes seen :: "'t \<Rightarrow> 'i \<Rightarrow> bool"
    and note_id :: "'t \<Rightarrow> 'i \<Rightarrow> 't"
  assumes seen_note: "seen (note_id t i) j \<longleftrightarrow> j = i \<or> seen t j"
begin

lemma seen_fold: "seen (foldl note_id t is) j \<longleftrightarrow> j \<in> set is \<or> seen t j"
  by (induction "is" arbitrary: t) (auto simp: seen_note)

lemma fresh_iff_first:
  "\<not> seen (foldl note_id t (take k is)) (is ! k) \<longleftrightarrow> is ! k \<notin> set (take k is) \<and> \<not> seen t (is ! k)"
  by (simp add: seen_fold)

end

definition seen_id :: "(int \<times> collision_table) list \<Rightarrow> int \<times> string \<times> string \<Rightarrow> bool" where
  "seen_id coll = (\<lambda>(block_id, key, hid). list_ex (py_eq (VStr hid)) (seen_at coll block_id key))"

definition note_id :: "(int \<times> collision_table) list \<Rightarrow> int \<times> string \<times> string \<Rightarrow> (int \<times> collision_table) list" where
  "note_id coll = (\<lambda>(block_id, key, hid). note_seen coll block_id key (VStr hid))"

lemma seen_at_note_seen:
  "seen_at (note_seen coll b k h) b' k' = (if b' = b \<and> k' = k then seen_at coll b k @ [h] else seen_at coll b' k')"
  by (auto simp: seen_at_def note_seen_def update_conv' split: option.splits)

interpretation seen_ids: seen_table seen_id note_id
  by unfold_locales (auto simp: seen_id_def note_id_def seen_at_note_seen split: if_splits)

text \<open>A check for a collision accepts an identifier once and rejects it from then on.\<close>

lemma check_collision_False:
  assumes "check_collision st key (VStr hid) b ops affected = Inr (False, st', ops')"
  shows "\<not> seen_id (collisions st) (b, key, hid)" and "collisions st' = note_id (collisions st) (b, key, hid)"
    and "ops' = ops" and "st' = st\<lparr>collisions := collisions st'\<rparr>"
  using assms by (auto simp: check_collision_def check_collision_state_def res_simps seen_id_def note_id_def
      split: if_splits)

lemma check_collision_True:
  assumes "check_collision st key (VStr hid) b ops affected = Inr (True, st', ops')"
  shows "seen_id (collisions st) (b, key, hid)" and "st' = st"
  using assms by (auto simp: check_collision_def check_collision_state_def res_simps seen_id_def
      split: if_splits)

lemma check_collision_seen:
  assumes "check_collision st key (VStr hid) b ops affected = Inr (rc, st', ops')"
  shows "rc \<longleftrightarrow> seen_id (collisions st) (b, key, hid)"
    and "seen_id (collisions st') i \<longleftrightarrow> i = (b, key, hid) \<or> seen_id (collisions st) i"
proof -
  show "rc \<longleftrightarrow> seen_id (collisions st) (b, key, hid)"
    using assms by (auto simp: check_collision_def check_collision_state_def res_simps seen_id_def
        split: if_splits)
  show "seen_id (collisions st') i \<longleftrightarrow> i = (b, key, hid) \<or> seen_id (collisions st) i"
  proof (cases rc)
    case True
    with assms have "seen_id (collisions st) (b, key, hid)" and "st' = st"
      by (auto dest: check_collision_True)
    then show ?thesis by auto
  next
    case False
    with assms have "collisions st' = note_id (collisions st) (b, key, hid)"
      by (auto dest: check_collision_False(2))
    then show ?thesis
      by (simp add: seen_ids.seen_note)
  qed
qed

section \<open>What the decorators add\<close>

lemma dupdate_simps [simp]:
  "dupdate d [] = d" "dupdate d ((k, v) # e) = dupdate (dset d k v) e"
  by (simp_all add: dupdate_def)

text \<open>Kept folded where a proof needs only the lookups of the edited dictionary.\<close>

lemmas edits = delitems.simps dupdate_simps

lemma delitem_eq_Inr [res_simps]: "delitem d k = Inr d' \<longleftrightarrow> has_key d k \<and> d' = AList.delete k d"
  by (auto simp: delitem_def)

lemma map_of_alist_delete [simp]: "map_of (AList.delete k d) = (map_of d)(k := None)"
  by (simp add: delete_conv')

text \<open>The entries that the decorators write; every other entry is the \<open>check\<close> method's own.\<close>

definition decorator_tags :: "string list" where
  "decorator_tags = [''__table__'', ''__history_id_key__'', ''__state_create__'', ''__state_transition__'',
     ''__always_set__'', ''__account_payment_info__'']"

definition same_fields :: "pydict \<Rightarrow> pydict \<Rightarrow> bool" where
  "same_fields d e = (\<forall>k. k \<notin> set decorator_tags \<longrightarrow> map_of d k = map_of e k)"

lemma same_fieldsD: "same_fields d e \<Longrightarrow> k \<notin> set decorator_tags \<Longrightarrow> map_of d k = map_of e k"
  by (simp add: same_fields_def)

lemma state_preorder_accepts:
  assumes "state_preorder checker check st op b ops = Inr (Some op', st', ops')"
  shows "check st op b ops = Inr (Some op')"
    and "state_check_collisions st op' ''preorder_hash'' b ops checker = Inr (False, st', ops')"
  using assms by (auto simp: state_preorder_def res_simps split: option.splits if_splits)

lemma state_transition_accepts:
  assumes "state_transition key table always_set spends check st op b ops = Inr (Some op', st', ops')"
  shows "\<exists>op1. check st op b ops = Inr (Some op1) \<and> same_fields op' op1 \<and> st' = st \<and> ops' = ops \<and>
    map_of op' ''__table__'' = Some (VStr table) \<and> map_of op' ''__history_id_key__'' = Some (VStr key) \<and>
    map_of op' ''__account_payment_info__'' =
      (if spends then map_of op1 ''__account_payment_info__'' else Some (payment_info VNone VNone VNone))"
proof -
  from assms obtain op1 where op1: "check st op b ops = Inr (Some op1)"
    by (auto simp: state_transition_def res_simps split: option.splits)
  let ?op = "dset (dset (dset (dset op1 ''__table__'' (VStr table)) ''__history_id_key__'' (VStr key))
    ''__state_transition__'' (VBool True)) ''__always_set__'' (VList (map VStr always_set))"
  have "(if spends then op' = ?op else op' = dset ?op ''__account_payment_info__'' (payment_info VNone VNone VNone))"
    and "st' = st" "ops' = ops"
    using assms op1 by (auto simp: state_transition_def state_transition_put_account_payment_info_def
        opt_int_def opt_str_def res_simps Let_def split: if_splits)
  then show ?thesis
    using op1 by (cases spends) (auto simp: same_fields_def decorator_tags_def)
qed

lemma state_create_st_accepts:
  assumes "state_create_st key table checker always_set check st op b ops = Inr (Some op', st', ops')"
  shows "\<exists>op1 st1. check st op b ops = Inr (Some op1, st1) \<and> same_fields op' op1 \<and> has_key op1 ''__preorder__'' \<and>
    map_of op' ''__table__'' = Some (VStr table) \<and> map_of op' ''__history_id_key__'' = Some (VStr key) \<and>
    state_check_collisions st1 op' key b ops checker = Inr (False, st', ops')"
proof -
  from assms obtain op1 st1 where op1: "check st op b ops = Inr (Some op1, st1)"
    by (auto simp: state_create_st_def res_simps split: option.splits)
  let ?op = "dset (dset (dset (dset op1 ''__table__'' (VStr table)) ''__history_id_key__'' (VStr key))
    ''__state_create__'' (VBool True)) ''__always_set__'' (VList (map VStr always_set))"
  have "op' = ?op" and "has_key op1 ''__preorder__''"
    and "state_check_collisions st1 ?op key b ops checker = Inr (False, st', ops')"
    using assms op1 by (auto simp: state_create_st_def res_simps Let_def split: if_splits)
  then show ?thesis
    using op1 by (auto simp: same_fields_def decorator_tags_def)
qed

lemma state_create_accepts:
  assumes "state_create key table checker always_set check st op b ops = Inr (Some op', st', ops')"
  shows "\<exists>op1. check st op b ops = Inr (Some op1) \<and> same_fields op' op1 \<and> has_key op1 ''__preorder__'' \<and>
    map_of op' ''__table__'' = Some (VStr table) \<and> map_of op' ''__history_id_key__'' = Some (VStr key) \<and>
    state_check_collisions st op' key b ops checker = Inr (False, st', ops')"
  using state_create_st_accepts [OF assms [unfolded state_create_def]] by (auto simp: res_simps)

lemma token_operation_accepts:
  assumes "token_operation table check st op b ops = Inr (Some op', st', ops')"
  shows "\<exists>op1. check st op b ops = Inr (Some op1, st') \<and> op' = dset op1 ''__table__'' (VStr table) \<and> ops' = ops"
  using assms by (auto simp: token_operation_def res_simps Let_def split: option.splits)

text \<open>Conversely, what the \<open>check\<close> method must leave for its decorator to accept.\<close>

lemma has_keys_dset: "has_keys d ks \<Longrightarrow> has_keys (dset d k v) ks"
  by (auto simp: has_keys_def list_all_iff)

lemma state_create_st_accepted:
  assumes "check st0 nameop b ops = Inr (Some op, st)" and "map_of op ''op'' = Some (VStr c)"
    and "op_get_opcode_name c = Inr opcode" and "opcode \<in> set OPCODE_CREATION_OPS"
    and "has_key op ''__preorder__''" and "has_keys op CONSENSUS_FIELDS_REQUIRED"
    and "map_of op key = Some (VStr h)" and "key \<notin> set decorator_tags" and "\<not> seen_id (collisions st) (b, key, h)"
    and "(key, checker) = (''name'', ''check_name_collision'') \<or> (key, checker) = (''namespace_id'', ''check_namespace_collision'')"
  shows "\<exists>op' st'. state_create_st key table checker always_set check st0 nameop b ops = Inr (Some op', st', ops)"
proof -
  let ?op = "dset (dset (dset (dset op ''__table__'' (VStr table)) ''__history_id_key__'' (VStr key))
    ''__state_create__'' (VBool True)) ''__always_set__'' (VList (map VStr always_set))"
  have tags: "has_keys ?op state_create_invariant_tags" "has_keys ?op CONSENSUS_FIELDS_REQUIRED"
    using assms(5) has_keys_dset assms(6) by (simp add: has_keys_def state_create_invariant_tags_def) (intro has_keys_dset assms(6))
  have "getitem ?op key = Inr (VStr h)" "has_key ?op key" "has_key ?op ''op''"
    using assms(2,7,8) by (auto simp: dict_simps decorator_tags_def)
  moreover have "check_collision st key (VStr h) b ops affected =
      Inr (False, st\<lparr>collisions := note_seen (collisions st) b key (VStr h)\<rparr>, ops)" for affected
    using assms(9) by (simp add: check_collision_def check_collision_state_def seen_id_def)
  ultimately have "state_check_collisions st ?op key b ops checker =
      Inr (False, st\<lparr>collisions := note_seen (collisions st) b key (VStr h)\<rparr>, ops)"
    using assms(10) by (auto simp: state_check_collisions_def check_name_collision_def check_namespace_collision_def
        simp del: has_key_dset getitem_dset)
  moreover have "get_str op ''op'' = Inr c"
    using assms(2) by (simp add: get_str_eq_Inr)
  ultimately show ?thesis
    using assms(1,3,4,5) tags by (simp add: state_create_st_def Let_def)
qed

lemma state_create_accepted:
  assumes "check st nameop b ops = Inr (Some op)" and "map_of op ''op'' = Some (VStr c)"
    and "op_get_opcode_name c = Inr opcode" and "opcode \<in> set OPCODE_CREATION_OPS"
    and "has_key op ''__preorder__''" and "has_keys op CONSENSUS_FIELDS_REQUIRED"
    and "map_of op key = Some (VStr h)" and "key \<notin> set decorator_tags" and "\<not> seen_id (collisions st) (b, key, h)"
    and "(key, checker) = (''name'', ''check_name_collision'') \<or> (key, checker) = (''namespace_id'', ''check_namespace_collision'')"
  shows "\<exists>op' st'. state_create key table checker always_set check st nameop b ops = Inr (Some op', st', ops)"
  unfolding state_create_def by (rule state_create_st_accepted [OF _ assms(2-10)]) (simp add: assms(1))

lemma state_preorder_accepted:
  assumes "check st nameop b ops = Inr (Some op)" and "has_keys op state_preorder_invariant_tags"
    and "has_keys op CONSENSUS_FIELDS_REQUIRED" and "map_of op ''preorder_hash'' = Some (VStr h)" and "has_key op ''op''"
    and "\<not> seen_id (collisions st) (b, ''preorder_hash'', h)"
  shows "\<exists>st'. state_preorder ''check_preorder_collision'' check st nameop b ops = Inr (Some op, st', ops)"
proof -
  have "getitem op ''preorder_hash'' = Inr (VStr h)" "has_key op ''preorder_hash''"
    using assms(4) by (simp_all add: dict_simps)
  then show ?thesis
    using assms by (simp add: state_preorder_def state_check_collisions_def check_preorder_collision_def
        check_collision_def check_collision_state_def seen_id_def)
qed

lemma state_transition_accepted:
  assumes "check st nameop b ops = Inr (Some op)" and "has_keys op CONSENSUS_FIELDS_REQUIRED"
    and "spends \<Longrightarrow> has_key op ''__account_payment_info__''"
  shows "\<exists>op'. state_transition key table always_set spends check st nameop b ops = Inr (Some op', st, ops)"
  using assms by (cases spends) (simp_all add: state_transition_def Let_def state_transition_put_account_payment_info_def
      opt_int_def opt_str_def has_keys_dset [of _ CONSENSUS_FIELDS_REQUIRED] has_keys_def [of _ "_ # _"]
      state_transition_invariant_tags_def)

end
