(* ===== verification/OpPreorder.thy ===== *)
theory OpPreorder
  imports Nameset
begin

text \<open>
  Preorders: \<open>lib/operations/preorder.py\<close> (names) and \<open>lib/operations/namespacepreorder.py\<close>, with the
  parts of a transaction that every operation extracts. A preorder commits to a hash of the name or
  namespace, pays in bitcoin or in tokens, and is matched later by a registration or a reveal.
\<close>

section \<open>Extracting fields of a transaction\<close>

text \<open>\<open>try: \<dots> except Exception\<close>, which catches no end of the process.\<close>

definition catching :: "'a res \<Rightarrow> (pyerr \<Rightarrow> 'a res) \<Rightarrow> 'a res" where
  "catching r h = (case r of Inr v \<Rightarrow> Inr v | Inl e \<Rightarrow> if e = Abort \<or> e = Diverges then Inl e else h e)"

definition or_failed :: "'a res \<Rightarrow> 'a res" where
  "or_failed r = catching r (\<lambda>_. Inl (Exception ''Failed to extract''))"

definition as_str :: "pyval \<Rightarrow> string res" where
  "as_str v = (case v of VStr s \<Rightarrow> Inr s | _ \<Rightarrow> Inl TypeError)"

definition opt_val :: "string option \<Rightarrow> pyval" where
  "opt_val x = (case x of None \<Rightarrow> VNone | Some s \<Rightarrow> VStr s)"

text \<open>
  The principal is the sender of the first input: its script, its address and, for a
  pay-to-public-key-hash script, its public key.
\<close>

definition extract_sender :: "virtualchain \<Rightarrow> tx_sender list \<Rightarrow> tx_input list \<Rightarrow> (string \<times> string \<times> pyval) res" where
  "extract_sender vc senders inputs = (case senders of
     [] \<Rightarrow> Inl AssertionError
   | s # _ \<Rightarrow> (case addresses s of
       [] \<Rightarrow> Inl IndexError
     | a # _ \<Rightarrow> Inr (script_pubkey s, a,
         if script_type s = ''pubkeyhash'' then opt_val (get_public_key_hex_from_tx vc inputs a) else VNone)))"

text \<open>\<open>assert parsed is not None\<close>.\<close>

definition assert_some :: "'a option res \<Rightarrow> 'a res" where
  "assert_some r = rbind r (\<lambda>v. case v of None \<Rightarrow> Inl AssertionError | Some x \<Rightarrow> Inr x)"

definition slice :: "nat \<Rightarrow> nat \<Rightarrow> 'a list \<Rightarrow> 'a list" where
  "slice from to xs = take (to - from) (drop from xs)"

text \<open>\<open>int(s.encode('hex'), 16)\<close> of a non-empty string: its bytes as a big-endian number.\<close>

definition big_endian :: "string \<Rightarrow> int" where
  "big_endian s = int (bytenum s)"

text \<open>\<open>int(v)\<close>.\<close>

definition to_int :: "pyval \<Rightarrow> int res" where
  "to_int v = (case v of
     VStr s \<Rightarrow> int_of_str s
   | VFloat r \<Rightarrow> Inr (if 0 \<le> r then floor r else ceiling r)
   | _ \<Rightarrow> (case py_int v of Some i \<Rightarrow> Inr i | None \<Rightarrow> Inl TypeError))"

definition strip_zeros :: "string \<Rightarrow> string" where
  "strip_zeros s = rev (dropWhile ((=) CHR 0x00) (rev (dropWhile ((=) CHR 0x00) s)))"

section \<open>Name quota and balances\<close>

definition MAX_NAMES_PER_SENDER :: int where
  "MAX_NAMES_PER_SENDER = 25"

definition get_num_names_owned :: "state_engine \<Rightarrow> pydict list \<Rightarrow> string \<Rightarrow> int res" where
  "get_num_names_owned st checked_ops sender =
    rbind (find_by_opcode checked_ops [''NAME_REGISTRATION'']) (\<lambda>registers.
    rbind (rmap (\<lambda>reg. getitem reg ''sender'') registers) (\<lambda>senders.
    rbind (get_names_owned_by_sender st sender None) (\<lambda>owned.
      Inr (int (length (filter (py_eq (VStr sender)) senders)) + int (length owned)))))"

text \<open>Whether an account holds a fee: no, if there is no such account.\<close>

definition can_pay :: "state_engine \<Rightarrow> string \<Rightarrow> string \<Rightarrow> pyval \<Rightarrow> bool res" where
  "can_pay st token_address token_type token_fee = (case get_account st token_address token_type of
     None \<Rightarrow> Inr False
   | Some account_info \<Rightarrow> rbind (get_account_balance account_info) (\<lambda>account_balance.
       case py_int token_fee of None \<Rightarrow> Inl AssertionError | Some fee \<Rightarrow> Inr (fee \<le> account_balance)))"

section \<open>Name preorders\<close>

definition preorder_FIELDS :: "string list" where
  "preorder_FIELDS = [''preorder_hash'', ''consensus_hash'', ''sender'', ''sender_pubkey'', ''address'',
     ''block_number'', ''op'', ''txid'', ''vtxindex'', ''op_fee'']"

definition preorder_MUTATE_FIELDS :: "string list" where
  "preorder_MUTATE_FIELDS = preorder_FIELDS @ [''token_fee'', ''token_units'']"

definition preorder_check :: "virtualchain \<Rightarrow> checker" where
  "preorder_check vc st nameop block_id checked_ops =
    rbind (get_str nameop ''preorder_hash'') (\<lambda>preorder_name_hash.
    rbind (get_str nameop ''consensus_hash'') (\<lambda>consensus_hash.
    rbind (get_str nameop ''sender'') (\<lambda>sender.
    rbind (getitem nameop ''token_fee'') (\<lambda>token_fee.
    rbind (getitem nameop ''token_units'') (\<lambda>token_type.
    rbind (get_str nameop ''address'') (\<lambda>token_address.
    rbind (is_new_preorder st preorder_name_hash None) (\<lambda>new. require new (
    require (is_consensus_hash_valid vc block_id consensus_hash) (
    rbind (get_num_names_owned st checked_ops sender) (\<lambda>num_names. require (num_names < MAX_NAMES_PER_SENDER) (
    require (has_key nameop ''op_fee'') (
    rbind (get_epoch_features block_id) (\<lambda>epoch_features.
      if EPOCH_FEATURE_NAMEOPS_COST_TOKENS \<in> set epoch_features \<and> token_type \<noteq> VNone \<and> token_fee \<noteq> VNone then
        rbind (as_str token_type) (\<lambda>tt.
        rbind (can_pay st token_address tt token_fee) (\<lambda>ok. require ok (
        rbind (getitem nameop ''burn_address'') (\<lambda>burn_address.
          require (py_eq burn_address (VStr (BLOCKSTACK_BURN_ADDRESS vc))) (
          require (tt = TOKEN_TYPE_STACKS) (
          rbind (state_preorder_put_account_payment_info nameop (VStr token_address) token_type token_fee) (\<lambda>op.
          rbind (py_str token_fee) (\<lambda>s. Inr (Some (dset op ''token_fee'' (VStr s)))))))))))
      else
        rbind (state_preorder_put_account_payment_info nameop VNone VNone VNone) (\<lambda>op.
          Inr (Some (dset (dset op ''token_fee'' (VStr ''0'')) ''token_units'' (VStr ''BTC'')))))))))))))))))"

definition check_preorder :: "virtualchain \<Rightarrow> decorated" where
  "check_preorder vc = state_preorder ''check_preorder_collision'' (preorder_check vc)"

definition get_preorder_burn_info :: "virtualchain \<Rightarrow> tx_output list \<Rightarrow> pydict option" where
  "get_preorder_burn_info vc outputs =
    (if length outputs \<noteq> 3 then None
     else case script_hex_to_address vc (out_script (outputs ! 2)) of
       None \<Rightarrow> None
     | Some a \<Rightarrow> if a = [] then None
                 else Some [(''op_fee'', VInt (out_value (outputs ! 2))), (''burn_address'', VStr a)])"

definition preorder_parse :: "string \<Rightarrow> int \<Rightarrow> pydict option res" where
  "preorder_parse bin_payload block_height =
    rbind (get_epoch_features block_height) (\<lambda>epoch_features.
      let at_ch = LENGTHS ''preorder_name_hash''; at_tokens = at_ch + LENGTHS ''consensus_hash'';
          at_units = at_tokens + LENGTHS ''tokens_burnt'';
          ret = (\<lambda>fee units. Inr (Some [(''opcode'', VStr ''NAME_PREORDER''),
            (''preorder_hash'', VStr (hexlify (slice 0 at_ch bin_payload))),
            (''consensus_hash'', VStr (hexlify (slice at_ch at_tokens bin_payload))),
            (''token_fee'', fee), (''token_units'', units)]))
      in if length bin_payload < at_tokens then Inr None
         else if length bin_payload > at_tokens then
           if EPOCH_FEATURE_NAMEOPS_COST_TOKENS \<notin> set epoch_features then Inr None
           else if length bin_payload \<noteq> at_units + LENGTHS ''namespace_id'' then Inr None
           else ret (VInt (big_endian (slice at_tokens at_units bin_payload)))
                  (VStr (strip_zeros (slice at_units (at_units + LENGTHS ''namespace_id'') bin_payload)))
         else ret VNone VNone)"

definition preorder_tx_extract ::
    "virtualchain \<Rightarrow> string \<Rightarrow> tx_sender list \<Rightarrow> tx_input list \<Rightarrow> tx_output list \<Rightarrow> int \<Rightarrow> int \<Rightarrow> string \<Rightarrow> pydict res" where
  "preorder_tx_extract vc payload senders inputs outputs block_id vtxindex txid =
    rbind (or_failed (rbind (check_tx_output_types vc (take 3 outputs) block_id) (\<lambda>ok.
        assert_that ok (extract_sender vc senders inputs))))
      (\<lambda>(sender_script, sender_address, sender_pubkey).
    rbind (assert_some (preorder_parse payload block_id)) (\<lambda>parsed_payload.
      case get_preorder_burn_info vc outputs of
        None \<Rightarrow> Inl (Exception ''No burn outputs'')
      | Some burn_info \<Rightarrow>
          let ret = [(''sender'', VStr sender_script), (''address'', VStr sender_address), (''block_number'', VInt block_id),
                (''vtxindex'', VInt vtxindex), (''txid'', VStr txid), (''op'', VStr [NAME_PREORDER])];
              ret = dupdate (dupdate ret parsed_payload) burn_info
          in Inr (dset ret ''sender_pubkey'' sender_pubkey)))"

section \<open>Namespace preorders\<close>

definition namespacepreorder_FIELDS :: "string list" where
  "namespacepreorder_FIELDS = [''preorder_hash'', ''consensus_hash'', ''op'', ''op_fee'', ''txid'', ''vtxindex'',
     ''block_number'', ''sender'', ''sender_pubkey'', ''address'']"

definition namespacepreorder_MUTATE_FIELDS :: "string list" where
  "namespacepreorder_MUTATE_FIELDS = namespacepreorder_FIELDS @ [''token_fee'']"

definition namespacepreorder_check :: "virtualchain \<Rightarrow> checker" where
  "namespacepreorder_check vc st nameop block_id checked_ops =
    rbind (get_str nameop ''preorder_hash'') (\<lambda>namespace_id_hash.
    rbind (get_str nameop ''consensus_hash'') (\<lambda>consensus_hash.
    rbind (getitem nameop ''token_fee'') (\<lambda>token_fee.
    rbind (is_new_namespace_preorder st namespace_id_hash None) (\<lambda>new. require new (
    require (is_consensus_hash_valid vc block_id consensus_hash) (
    require (has_key nameop ''op_fee'') (
    rbind (getitem nameop ''burn_address'') (\<lambda>burn_address.
    require (py_eq burn_address (VStr (BLOCKSTACK_BURN_ADDRESS vc))) (
    rbind (get_epoch_features block_id) (\<lambda>epoch_features.
      if EPOCH_FEATURE_STACKS_BUY_NAMESPACES \<in> set epoch_features then
        rbind (get_str nameop ''address'') (\<lambda>token_address.
        require (token_fee \<noteq> VNone) (
        rbind (can_pay st token_address TOKEN_TYPE_STACKS token_fee) (\<lambda>ok. require ok (
        rbind (state_preorder_put_account_payment_info nameop (VStr token_address) (VStr TOKEN_TYPE_STACKS) token_fee) (\<lambda>op.
        rbind (py_str token_fee) (\<lambda>s.
          Inr (Some (dset (dset op ''token_fee'' (VStr s)) ''token_units'' (VStr TOKEN_TYPE_STACKS)))))))))
      else
        rbind (state_preorder_put_account_payment_info nameop VNone VNone VNone) (\<lambda>op.
          Inr (Some (dset (dset op ''token_fee'' (VStr ''0'')) ''token_units'' (VStr ''BTC''))))))))))))))"

definition check_namespace_preorder :: "virtualchain \<Rightarrow> decorated" where
  "check_namespace_preorder vc = state_preorder ''check_preorder_collision'' (namespacepreorder_check vc)"

definition get_namespace_preorder_burn_info :: "virtualchain \<Rightarrow> tx_output list \<Rightarrow> pydict option" where
  "get_namespace_preorder_burn_info vc outputs =
    (if length outputs < 3 then None
     else case script_hex_to_address vc (out_script (outputs ! 2)) of
       None \<Rightarrow> None
     | Some a \<Rightarrow> if a = [] then None
                 else Some [(''op_fee'', VInt (out_value (outputs ! 2))), (''burn_address'', VStr a)])"

definition namespacepreorder_parse :: "string \<Rightarrow> int \<Rightarrow> pydict option res" where
  "namespacepreorder_parse bin_payload block_height =
    (let at_ch = LENGTHS ''preorder_name_hash''; at_tokens = at_ch + LENGTHS ''consensus_hash'';
         at_end = at_tokens + LENGTHS ''tokens_burnt'';
         ret = (\<lambda>fee. Inr (Some [(''opcode'', VStr ''NAMESPACE_PREORDER''),
           (''preorder_hash'', VStr (hexlify (slice 0 at_ch bin_payload))),
           (''consensus_hash'', VStr (hexlify (slice at_ch at_tokens bin_payload))), (''token_fee'', fee)]))
     in if length bin_payload < at_tokens then Inr None
        else rbind (get_epoch_features block_height) (\<lambda>epoch_features.
          if length bin_payload > at_tokens then
            if EPOCH_FEATURE_STACKS_BUY_NAMESPACES \<notin> set epoch_features then Inr None
            else if length bin_payload \<noteq> at_end then Inr None
            else ret (VInt (big_endian (slice at_tokens at_end bin_payload)))
          else if EPOCH_FEATURE_STACKS_BUY_NAMESPACES \<in> set epoch_features then Inr None
          else ret VNone))"

definition namespacepreorder_tx_extract ::
    "virtualchain \<Rightarrow> string \<Rightarrow> tx_sender list \<Rightarrow> tx_input list \<Rightarrow> tx_output list \<Rightarrow> int \<Rightarrow> int \<Rightarrow> string \<Rightarrow> pydict res" where
  "namespacepreorder_tx_extract vc payload senders inputs outputs block_id vtxindex txid =
    rbind (or_failed (rbind (check_tx_output_types vc (take 3 outputs) block_id) (\<lambda>ok.
        assert_that ok (rbind (extract_sender vc senders inputs) (\<lambda>s.
          case get_namespace_preorder_burn_info vc outputs of
            None \<Rightarrow> Inl AssertionError | Some burn_info \<Rightarrow> Inr (s, burn_info))))))
      (\<lambda>((sender_script, sender_address, sender_pubkey), burn_info).
    rbind (assert_some (namespacepreorder_parse payload block_id)) (\<lambda>parsed_payload.
      let ret = [(''sender'', VStr sender_script), (''address'', VStr sender_address), (''block_number'', VInt block_id),
            (''vtxindex'', VInt vtxindex), (''txid'', VStr txid), (''op'', VStr [NAMESPACE_PREORDER])];
          ret = dupdate (dupdate ret parsed_payload) burn_info
      in Inr (dset ret ''sender_pubkey'' sender_pubkey)))"

section \<open>What an accepted preorder has met\<close>

lemma as_str_eq_Inr [res_simps]: "as_str v = Inr s \<longleftrightarrow> v = VStr s"
  by (auto simp: as_str_def split: pyval.splits)

lemma can_pay_True [res_simps]:
  "can_pay st addr units fee = Inr True \<longleftrightarrow> (\<exists>acct balance f. get_account st addr units = Some acct \<and>
     get_account_balance acct = Inr balance \<and> py_int fee = Some f \<and> f \<le> balance)"
  by (auto simp: can_pay_def res_simps split: option.splits)

text \<open>
  A preorder is funded: nothing is taken from an account, and the record says that it pays in
  bitcoin, or the account of the sender holds the fee, which is what will be taken.
\<close>

definition funded :: "state_engine \<Rightarrow> string \<Rightarrow> pyval \<Rightarrow> pydict \<Rightarrow> bool" where
  "funded st addr fee op \<longleftrightarrow>
    map_of op ''__account_payment_info__'' = Some (payment_info VNone VNone VNone) \<and>
      map_of op ''token_units'' = Some (VStr ''BTC'') \<and> map_of op ''token_fee'' = Some (VStr ''0'') \<or>
    map_of op ''__account_payment_info__'' = Some (payment_info (VStr addr) (VStr TOKEN_TYPE_STACKS) fee) \<and>
      map_of op ''token_units'' = Some (VStr TOKEN_TYPE_STACKS) \<and>
      (\<exists>acct balance f. get_account st addr TOKEN_TYPE_STACKS = Some acct \<and> get_account_balance acct = Inr balance \<and>
         py_int fee = Some f \<and> f \<le> balance)"

lemma preorder_check_Some:
  assumes "preorder_check vc st nameop b ops = Inr (Some op)"
  shows "\<exists>hash ch sender addr fee num. map_of nameop ''preorder_hash'' = Some (VStr hash) \<and>
    map_of nameop ''consensus_hash'' = Some (VStr ch) \<and> map_of nameop ''sender'' = Some (VStr sender) \<and>
    map_of nameop ''address'' = Some (VStr addr) \<and> map_of nameop ''token_fee'' = Some fee \<and>
    is_new_preorder st hash None = Inr True \<and> is_consensus_hash_valid vc b ch \<and>
    get_num_names_owned st ops sender = Inr num \<and> num < MAX_NAMES_PER_SENDER \<and>
    funded st addr fee op \<and> map_of op ''preorder_hash'' = Some (VStr hash) \<and> map_of op ''sender'' = Some (VStr sender)"
  using assms unfolding preorder_check_def funded_def
  by (clarsimp simp: res_simps dict_simps state_preorder_put_account_payment_info_def split: if_splits)
    (elim disjE; clarsimp)

lemma namespacepreorder_check_Some:
  assumes "namespacepreorder_check vc st nameop b ops = Inr (Some op)"
  shows "\<exists>hash ch fee ba. map_of nameop ''preorder_hash'' = Some (VStr hash) \<and>
    map_of nameop ''consensus_hash'' = Some (VStr ch) \<and> map_of nameop ''token_fee'' = Some fee \<and>
    is_new_namespace_preorder st hash None = Inr True \<and> is_consensus_hash_valid vc b ch \<and>
    map_of nameop ''burn_address'' = Some ba \<and> py_eq ba (VStr (BLOCKSTACK_BURN_ADDRESS vc)) \<and>
    (\<exists>addr. funded st addr fee op) \<and> map_of op ''preorder_hash'' = Some (VStr hash)"
  using assms unfolding namespacepreorder_check_def funded_def
  by (clarsimp simp: res_simps dict_simps state_preorder_put_account_payment_info_def split: if_splits)
    (elim disjE; clarsimp)

text \<open>An accepted preorder's hash was not seen before in its block, and is noted.\<close>

lemma preorder_collision:
  assumes "state_check_collisions st op ''preorder_hash'' b ops ''check_preorder_collision'' = Inr (False, st', ops')"
    and "map_of op ''preorder_hash'' = Some (VStr hash)"
  shows "\<not> seen_id (collisions st) (b, ''preorder_hash'', hash) \<and> seen_id (collisions st') (b, ''preorder_hash'', hash) \<and>
    st' = st\<lparr>collisions := collisions st'\<rparr> \<and> ops' = ops"
proof -
  have "check_collision st ''preorder_hash'' (VStr hash) b ops OPCODE_PREORDER_OPS = Inr (False, st', ops')"
    using assms by (auto simp: state_check_collisions_def check_preorder_collision_def res_simps dict_simps split: if_splits)
  note c = check_collision_False [OF this] check_collision_seen(2) [OF this, THEN iffD2, OF disjI1, OF refl]
  show ?thesis
    by (intro conjI) (rule c)+
qed

text \<open>
  C16: An accepted name preorder has a hash that no outstanding preorder has, a valid consensus hash
  and a sender within the quota of names; it is funded by the sender's account, or pays in bitcoin
  and takes nothing from an account. No preorder of the block before it has the same hash.
\<close>

theorem preorder_sound:
  assumes "check_preorder vc st nameop b ops = Inr (Some op, st', ops')"
  shows "\<exists>hash ch sender addr fee num. map_of nameop ''preorder_hash'' = Some (VStr hash) \<and>
    map_of nameop ''consensus_hash'' = Some (VStr ch) \<and> map_of nameop ''sender'' = Some (VStr sender) \<and>
    map_of nameop ''address'' = Some (VStr addr) \<and> map_of nameop ''token_fee'' = Some fee \<and>
    is_new_preorder st hash None = Inr True \<and> is_consensus_hash_valid vc b ch \<and>
    get_num_names_owned st ops sender = Inr num \<and> num < MAX_NAMES_PER_SENDER \<and> funded st addr fee op \<and>
    map_of op ''sender'' = Some (VStr sender) \<and>
    \<not> seen_id (collisions st) (b, ''preorder_hash'', hash) \<and> seen_id (collisions st') (b, ''preorder_hash'', hash) \<and>
    st' = st\<lparr>collisions := collisions st'\<rparr> \<and> ops' = ops"
proof -
  note a = state_preorder_accepts [OF assms [unfolded check_preorder_def]]
  from preorder_check_Some [OF a(1)] obtain hash ch sender addr fee num where
    n: "map_of nameop ''preorder_hash'' = Some (VStr hash)" "map_of nameop ''consensus_hash'' = Some (VStr ch)"
      "map_of nameop ''sender'' = Some (VStr sender)" "map_of nameop ''address'' = Some (VStr addr)"
      "map_of nameop ''token_fee'' = Some fee" "is_new_preorder st hash None = Inr True" "is_consensus_hash_valid vc b ch"
      "get_num_names_owned st ops sender = Inr num" "num < MAX_NAMES_PER_SENDER" "funded st addr fee op"
      "map_of op ''sender'' = Some (VStr sender)"
    and h: "map_of op ''preorder_hash'' = Some (VStr hash)"
    by blast
  note c = preorder_collision [OF a(2) h]
  show ?thesis
    by (intro exI conjI) (rule n c [THEN conjunct1] c [THEN conjunct2, THEN conjunct1]
      c [THEN conjunct2, THEN conjunct2, THEN conjunct1] c [THEN conjunct2, THEN conjunct2, THEN conjunct2])+
qed

definition example_name_preorder :: pydict where
  "example_name_preorder = [(''sender'', VStr ''76a9''), (''address'', VStr ''1me''), (''block_number'', VInt 590001),
     (''vtxindex'', VInt 1), (''txid'', VStr ''ee''), (''op'', VStr [NAME_PREORDER]), (''opcode'', VStr ''NAME_PREORDER''),
     (''preorder_hash'', VStr ''beef''), (''consensus_hash'', VStr ''ch''), (''token_fee'', VInt 640000),
     (''token_units'', VStr TOKEN_TYPE_STACKS), (''op_fee'', VInt 5500),
     (''burn_address'', VStr (BLOCKSTACK_BURN_ADDRESS example_vc)), (''sender_pubkey'', VNone)]"

definition example_funds :: account_row where
  "example_funds = \<lparr>acc_address = ''1me'', acc_type = ''STACKS'', credit_value = 1000000, debit_value = 0,
     lock_transfer_block_id = 0, receive_whitelisted = True, metadata = VNone, acc_block_id = 373601,
     acc_txid = ''00'', acc_vtxindex = 0\<rparr>"

abbreviation funded_example :: state_engine where
  "funded_example \<equiv> live_example ''76ff'' [] [example_funds]"

lemma example_name_preorder_accepted:
  obtains op st' where "check_preorder example_vc funded_example example_name_preorder 590001 [] = Inr (Some op, st', [])"
proof -
  have "get_num_names_owned funded_example [] ''76a9'' = Inr 0"
    by (simp add: get_num_names_owned_def find_by_opcode_def get_names_owned_by_sender_def namedb_get_names_by_sender_def
      join_namespaces_def example_with_def example_name_row_def text_col_def)
  moreover have "is_new_preorder funded_example ''beef'' None = Inr True"
    by (simp add: is_new_preorder_def namedb_get_name_preorder_def example_with_def fetchone_def)
  moreover have "get_account funded_example ''1me'' TOKEN_TYPE_STACKS = Some example_funds"
    by (simp add: get_account_def namedb_get_account_def example_with_def example_funds_def TOKEN_TYPE_STACKS_def order_desc_def)
  moreover have "get_account_balance example_funds = Inr 1000000"
    by (simp add: get_account_balance_def namedb_get_account_balance_def example_funds_def)
  ultimately have "\<exists>op. preorder_check example_vc funded_example example_name_preorder 590001 [] = Inr (Some op) \<and>
      has_keys op state_preorder_invariant_tags \<and> has_keys op CONSENSUS_FIELDS_REQUIRED \<and>
      map_of op ''preorder_hash'' = Some (VStr ''beef'') \<and> has_key op ''op''"
    by (simp add: preorder_check_def example_name_preorder_def get_str_def getitem_def has_key_def epoch_of_def epoch_tables
      MAX_NAMES_PER_SENDER_def as_str_def can_pay_def state_preorder_put_account_payment_info_def opt_int_def opt_str_def
      py_str_def has_keys_def state_preorder_invariant_tags_def CONSENSUS_FIELDS_REQUIRED_def)
  then obtain op where "\<exists>st'. state_preorder ''check_preorder_collision'' (preorder_check example_vc) funded_example
      example_name_preorder 590001 [] = Inr (Some op, st', [])"
    using state_preorder_accepted [of "preorder_check example_vc" funded_example example_name_preorder 590001 "[]" _ "''beef''"]
    by (auto simp: seen_id_def seen_at_def example_with_def)
  then show thesis
    using that by (auto simp: check_preorder_def)
qed

theorem preorder_sound_witness:
  "\<exists>op st'. check_preorder example_vc funded_example example_name_preorder 590001 [] = Inr (Some op, st', []) \<and>
     funded funded_example ''1me'' (VInt 640000) op \<and> seen_id (collisions st') (590001, ''preorder_hash'', ''beef'')"
proof -
  obtain op st' where a: "check_preorder example_vc funded_example example_name_preorder 590001 [] = Inr (Some op, st', [])"
    by (rule example_name_preorder_accepted)
  have "map_of example_name_preorder ''address'' = Some (VStr ''1me'')" "map_of example_name_preorder ''token_fee'' = Some (VInt 640000)"
    "map_of example_name_preorder ''preorder_hash'' = Some (VStr ''beef'')"
    by (simp_all add: example_name_preorder_def)
  then show ?thesis
    using preorder_sound [OF a] a by auto
qed

section \<open>The wire format\<close>

lemma big_endian_bounds: "0 \<le> big_endian s \<and> big_endian s < 256 ^ length s"
  using bytenum_less [of s] by (simp add: big_endian_def)

text \<open>
  C25: The payload of a name preorder is a 20-byte hash and a 16-byte consensus hash, alone or, in an
  epoch where name operations cost tokens, followed by an 8-byte fee and 19 bytes of currency.
  Parsing returns the parts, the fee is an unsigned 64-bit number, and no payload of another length
  is accepted.
\<close>

theorem preorder_parse_wire:
  assumes "length hash = 20" and "length ch = 16" and "length fee = 8" and "length units = 19"
  shows "let parsed = (\<lambda>fee units. Inr (Some [(''opcode'', VStr ''NAME_PREORDER''), (''preorder_hash'', VStr (hexlify hash)),
             (''consensus_hash'', VStr (hexlify ch)), (''token_fee'', fee), (''token_units'', units)]))
    in preorder_parse (hash @ ch) h = parsed VNone VNone \<and>
       preorder_parse (hash @ ch @ fee @ units) h =
         (if EPOCH_FEATURE_NAMEOPS_COST_TOKENS \<in> set (features (epoch_of h))
          then parsed (VInt (big_endian fee)) (VStr (strip_zeros units)) else Inr None) \<and>
       0 \<le> big_endian fee \<and> big_endian fee < 2 ^ 64 \<and>
       (length p \<noteq> 36 \<and> length p \<noteq> 63 \<longrightarrow> preorder_parse p h = Inr None)"
proof -
  have parts: "slice 20 36 (hash @ ch @ fee @ units) = ch" "slice 20 36 (hash @ ch) = ch" "slice 0 20 (hash @ x) = hash"
    "slice 36 44 (hash @ ch @ fee @ units) = fee" "slice 44 63 (hash @ ch @ fee @ units) = units" for x
    using assms by (simp_all add: slice_def)
  have "big_endian fee < 2 ^ 64"
    using big_endian_bounds [of fee] assms(3) by simp
  then show ?thesis
    using big_endian_bounds [of fee] assms by (simp add: preorder_parse_def Let_def parts)
qed

theorem preorder_parse_wire_witness:
  "preorder_parse (replicate 20 CHR 0x01 @ replicate 16 CHR 0x02 @ replicate 8 CHR 0xFF @ ''STACKS'' @ replicate 13 CHR 0x00) 600000 =
     Inr (Some [(''opcode'', VStr ''NAME_PREORDER''), (''preorder_hash'', VStr (hexlify (replicate 20 CHR 0x01))),
        (''consensus_hash'', VStr (hexlify (replicate 16 CHR 0x02))),
        (''token_fee'', VInt (big_endian (replicate 8 CHR 0xFF))), (''token_units'', VStr (strip_zeros (''STACKS'' @ replicate 13 CHR 0x00)))]) \<and>
   big_endian (replicate 8 CHR 0xFF) < 2 ^ 64"
  using preorder_parse_wire [of "replicate 20 CHR 0x01" "replicate 16 CHR 0x02" "replicate 8 CHR 0xFF"
      "''STACKS'' @ replicate 13 CHR 0x00" 600000]
  by (simp add: Let_def epoch_of_def epoch_tables)

end
