(* ===== verification/OpRegister.thy ===== *)
theory OpRegister
  imports OpPreorder
begin

text \<open>
  Registrations and renewals of names: \<open>lib/operations/register.py\<close>. A registration matches a
  preorder, which paid for the name; a renewal is sent by the owner and pays for itself. The price
  and the currency depend on the version of the namespace.
\<close>

section \<open>Fields\<close>

definition register_FIELDS :: "string list" where
  "register_FIELDS = NAMEREC_FIELDS @ [''sender'', ''address'']"

definition REGISTER_MUTATE_FIELDS :: "string list" where
  "REGISTER_MUTATE_FIELDS = NAMEREC_MUTATE_FIELDS @ [''last_renewed'', ''first_registered'', ''revoked'', ''sender'',
     ''address'', ''sender_pubkey'', ''name'', ''value_hash'', ''importer'', ''importer_address'', ''preorder_hash'',
     ''preorder_block_number'', ''consensus_hash'', ''op_fee'', ''token_fee'', ''last_creation_op'']"

definition RENEWAL_MUTATE_FIELDS :: "string list" where
  "RENEWAL_MUTATE_FIELDS = NAMEREC_MUTATE_FIELDS @ [''last_renewed'', ''sender'', ''address'', ''sender_pubkey'',
     ''value_hash'', ''op_fee'', ''token_fee'']"

section \<open>Outputs\<close>

definition get_registration_recipient_from_outputs :: "tx_output list \<Rightarrow> string res" where
  "get_registration_recipient_from_outputs outputs =
    (if length outputs < 2 then Inl (Exception ''Malformed registration outputs: less than 2'')
     else Inr (out_script (outputs ! 1)))"

definition get_renew_burn_info :: "virtualchain \<Rightarrow> tx_output list \<Rightarrow> (string \<times> int) res" where
  "get_renew_burn_info vc outputs =
    (if length outputs < 4 then Inl (Exception ''Malformed renew outputs: don't have 4'')
     else case script_hex_to_address vc (out_script (outputs ! 3)) of
       None \<Rightarrow> Inl (Exception ''Malformed renew inputs: burn output is a nonstandard script'')
     | Some burn_addr \<Rightarrow> Inr (burn_addr, out_value (outputs ! 3)))"

section \<open>Payments\<close>

text \<open>
  The payment checks return \<open>{'status': False}\<close>, here \<open>None\<close>, or the amount paid and its currency.
\<close>

definition need_namespace :: "state_engine \<Rightarrow> string \<Rightarrow> pydict res" where
  "need_namespace st namespace_id = rbind (get_namespace st namespace_id) (\<lambda>r. case r of
     None \<Rightarrow> Inl TypeError | Some ns \<Rightarrow> Inr ns)"

definition need_label :: "string \<Rightarrow> string res" where
  "need_label name = (case get_name_from_fq_name name of None \<Rightarrow> Inl TypeError | Some l \<Rightarrow> Inr l)"

definition get_stacks_payment :: "state_engine \<Rightarrow> pydict \<Rightarrow> string \<Rightarrow> (pyval \<times> string) option res" where
  "get_stacks_payment st nameop state_op_type =
    rbind (get_str nameop ''name'') (\<lambda>name.
      let token_fee = dget nameop ''token_fee'' VNone in
      assert_that (opt_int token_fee)
        (rbind (get_namespace st (get_namespace_from_name name)) (\<lambda>_.
          if state_op_type = ''NAME_REGISTRATION'' then
            rbind (getitem nameop ''__preorder__'') (\<lambda>p. case p of
              VDict preorder \<Rightarrow>
                assert_that (preorder \<noteq> [] \<and> has_key preorder ''token_fee'' \<and> has_key preorder ''token_units'')
                  (rbind (getitem preorder ''token_units'') (\<lambda>token_units.
                   rbind (getitem preorder ''token_fee'') (\<lambda>tokens_paid.
                     require (py_eq token_units (VStr TOKEN_TYPE_STACKS)) (Inr (Some (tokens_paid, TOKEN_TYPE_STACKS))))))
            | _ \<Rightarrow> Inl AssertionError)
          else if state_op_type = ''NAME_RENEWAL'' then
            require (token_fee \<noteq> VNone \<and> \<not> py_eq token_fee (VInt 0)) (Inr (Some (token_fee, TOKEN_TYPE_STACKS)))
          else Inl (Exception ''Unknown state operation type''))))"

definition check_token_payment :: "pyval \<Rightarrow> pyval \<times> string \<Rightarrow> (pyval \<times> string) option res" where
  "check_token_payment token_price stacks_payment_info =
    (case stacks_payment_info of (tokens_paid, token_units) \<Rightarrow>
       rbind (to_int tokens_paid) (\<lambda>paid.
         require (token_units = TOKEN_TYPE_STACKS \<and> \<not> py_lt (VInt paid) token_price)
           (Inr (Some (VInt paid, token_units)))))"

definition check_payment_in_stacks :: "state_engine \<Rightarrow> pydict \<Rightarrow> string \<Rightarrow> int \<Rightarrow> (pyval \<times> string) option res" where
  "check_payment_in_stacks st nameop state_op_type fee_block_id =
    rbind (get_str nameop ''name'') (\<lambda>name.
    rbind (get_namespace st (get_namespace_from_name name)) (\<lambda>_.
    obind (get_stacks_payment st nameop state_op_type) (\<lambda>stacks_payment_info.
    rbind (need_label name) (\<lambda>label.
    rbind (need_namespace st (get_namespace_from_name name)) (\<lambda>namespace.
    rbind (price_name_stacks label namespace fee_block_id) (\<lambda>stacks_price.
    obind (check_token_payment stacks_price stacks_payment_info) (\<lambda>_.
      Inr (Some stacks_payment_info))))))))"

definition is_int :: "pyval \<Rightarrow> bool" where
  "is_int v = (py_int v \<noteq> None)"

definition check_payment_v1 :: "virtualchain \<Rightarrow> state_engine \<Rightarrow> string \<Rightarrow> pydict \<Rightarrow> int \<Rightarrow> pyval \<Rightarrow> pyval \<Rightarrow> pyval \<Rightarrow> int \<Rightarrow>
    (pyval \<times> string) option res" where
  "check_payment_v1 vc st state_op_type nameop fee_block_id token_address burn_address name_fee block_id =
    assert_that (is_int name_fee)
     (rbind (get_epoch_features block_id) (\<lambda>epoch_features.
      rbind (get_str nameop ''name'') (\<lambda>name.
      rbind (need_namespace st (get_namespace_from_name name)) (\<lambda>namespace.
      rbind (getitem namespace ''version'') (\<lambda>version.
      assert_that (py_eq version (VInt NAMESPACE_VERSION_PAY_TO_BURN)) (
      require (py_eq burn_address (VStr (BLOCKSTACK_BURN_ADDRESS vc))) (
      rbind (if EPOCH_FEATURE_NAMEOPS_COST_TOKENS \<in> set epoch_features
             then get_stacks_payment st nameop state_op_type else Inr None) (\<lambda>stacks.
        if stacks \<noteq> None then check_payment_in_stacks st nameop state_op_type fee_block_id
        else rbind (need_label name) (\<lambda>label.
             rbind (price_name label namespace fee_block_id) (\<lambda>btc_price.
               require (\<not> py_lt name_fee btc_price) (Inr (Some (name_fee, ''BTC'')))))))))))))"

definition check_payment_v2 :: "virtualchain \<Rightarrow> state_engine \<Rightarrow> string \<Rightarrow> pydict \<Rightarrow> int \<Rightarrow> pyval \<Rightarrow> pyval \<Rightarrow> pyval \<Rightarrow> int \<Rightarrow>
    (pyval \<times> string) option res" where
  "check_payment_v2 vc st state_op_type nameop fee_block_id token_address burn_address name_fee block_id =
    assert_that (is_int name_fee)
     (rbind (get_epoch_features block_id) (\<lambda>epoch_features.
      rbind (get_str nameop ''name'') (\<lambda>name.
      rbind (need_namespace st (get_namespace_from_name name)) (\<lambda>namespace.
      rbind (getitem namespace ''version'') (\<lambda>version.
      assert_that (py_eq version (VInt NAMESPACE_VERSION_PAY_TO_CREATOR)) (
      require (EPOCH_FEATURE_NAMESPACE_BURN_TO_CREATOR \<in> set epoch_features) (
      rbind (get_str namespace ''namespace_id'') (\<lambda>namespace_id.
      rbind (get_epoch_namespace_receive_fees_period block_id namespace_id) (\<lambda>receive_fees_period.
      rbind (get_int namespace ''reveal_block'') (\<lambda>reveal_block.
      let to_creator = (reveal_block + receive_fees_period \<ge> block_id) in
      rbind (if to_creator then getitem namespace ''address'' else Inr (VStr (BLOCKSTACK_BURN_ADDRESS vc))) (\<lambda>expected.
      require (py_eq burn_address expected) (
      rbind (if EPOCH_FEATURE_NAMEOPS_COST_TOKENS \<in> set epoch_features
             then get_stacks_payment st nameop state_op_type else Inr None) (\<lambda>stacks.
        if stacks \<noteq> None then
          require (\<not> to_creator) (check_payment_in_stacks st nameop state_op_type fee_block_id)
        else rbind (need_label name) (\<lambda>label.
             rbind (price_name label namespace fee_block_id) (\<lambda>btc_price.
               require (\<not> py_lt name_fee btc_price) (Inr (Some (name_fee, ''BTC''))))))))))))))))))"

definition check_payment_v3 :: "virtualchain \<Rightarrow> state_engine \<Rightarrow> string \<Rightarrow> pydict \<Rightarrow> int \<Rightarrow> pyval \<Rightarrow> pyval \<Rightarrow> pyval \<Rightarrow> int \<Rightarrow>
    (pyval \<times> string) option res" where
  "check_payment_v3 vc st state_op_type nameop fee_block_id token_address burn_address name_fee block_id =
    rbind (get_epoch_features block_id) (\<lambda>epoch_features.
    rbind (get_str nameop ''name'') (\<lambda>name.
    rbind (need_namespace st (get_namespace_from_name name)) (\<lambda>namespace.
    rbind (getitem namespace ''version'') (\<lambda>version.
    assert_that (py_eq version (VInt NAMESPACE_VERSION_PAY_WITH_STACKS)) (
    require (EPOCH_FEATURE_NAMESPACE_PAY_WITH_STACKS \<in> set epoch_features) (
    require (py_eq burn_address (VStr (BLOCKSTACK_BURN_ADDRESS vc))) (
    obind (get_stacks_payment st nameop state_op_type) (\<lambda>stacks_payment_info.
    rbind (need_label name) (\<lambda>label.
    rbind (price_name label namespace fee_block_id) (\<lambda>stacks_price.
    obind (check_token_payment stacks_price stacks_payment_info) (\<lambda>_.
      Inr (Some stacks_payment_info))))))))))))"

definition check_payment :: "virtualchain \<Rightarrow> state_engine \<Rightarrow> string \<Rightarrow> pydict \<Rightarrow> int \<Rightarrow> pyval \<Rightarrow> pyval \<Rightarrow> pyval \<Rightarrow> int \<Rightarrow>
    (pyval \<times> string) option res" where
  "check_payment vc st state_op_type nameop fee_block_id token_address burn_address name_fee block_id =
    assert_that (state_op_type \<in> {''NAME_REGISTRATION'', ''NAME_RENEWAL''} \<and> is_int name_fee)
     (rbind (get_str nameop ''name'') (\<lambda>name.
      rbind (need_namespace st (get_namespace_from_name name)) (\<lambda>namespace.
      rbind (getitem namespace ''version'') (\<lambda>version.
        if py_eq version (VInt NAMESPACE_VERSION_PAY_TO_BURN) then
          check_payment_v1 vc st state_op_type nameop fee_block_id token_address burn_address name_fee block_id
        else if py_eq version (VInt NAMESPACE_VERSION_PAY_TO_CREATOR) then
          check_payment_v2 vc st state_op_type nameop fee_block_id token_address burn_address name_fee block_id
        else if py_eq version (VInt NAMESPACE_VERSION_PAY_WITH_STACKS) then
          check_payment_v3 vc st state_op_type nameop fee_block_id token_address burn_address name_fee block_id
        else Inr None))))"

section \<open>Registration\<close>

text \<open>What the registration must match: the parts of the preorder and of the state that it copies.\<close>

record register_match =
  rm_name :: string
  rm_namespace :: pydict
  rm_preorder :: pydict
  rm_preorder_block :: int
  rm_name_block :: pyval

definition register_admit :: "virtualchain \<Rightarrow> state_engine \<Rightarrow> pydict \<Rightarrow> int \<Rightarrow> pydict list \<Rightarrow> register_match option res" where
  "register_admit vc st nameop block_id checked_ops =
    rbind (getitem nameop ''name'') (\<lambda>name_value.
    rbind (get_str nameop ''sender'') (\<lambda>sender.
    require (dget nameop ''recipient_address'' VNone \<noteq> VNone) (
    require (dget nameop ''recipient'' VNone \<noteq> VNone) (
    require (is_name_valid name_value) (
    rbind (as_str name_value) (\<lambda>name.
    rbind (get_str nameop ''recipient_address'') (\<lambda>register_addr.
    rbind (get_str nameop ''recipient'') (\<lambda>recipient.
    rbind (get_epoch_features block_id) (\<lambda>epoch_features.
    rbind (getitem nameop ''opcode'') (\<lambda>_.
    rbind (getitem nameop ''first_registered'') (\<lambda>_.
    require (is_b40 name_value \<and> CHR ''+'' \<notin> set name \<and> count_char CHR ''.'' name \<le> 1) (
    rbind (is_name_revoked st name) (\<lambda>revoked. require (\<not> revoked) (
    rbind (is_namespace_ready st (get_namespace_from_name name)) (\<lambda>ready. require ready (
    rbind (need_namespace st (get_namespace_from_name name)) (\<lambda>namespace.
    rbind (get_num_names_owned st checked_ops recipient) (\<lambda>num_names. require (num_names < MAX_NAMES_PER_SENDER) (
    rbind (epoch_has_multisig block_id) (\<lambda>multisig.
    require (\<not> is_multisig_address vc register_addr \<or> multisig) (
    rbind (get_name_preorder vc st name sender register_addr False) (\<lambda>found.
    rbind (get_name st name None True) (\<lambda>old_name_rec.
    obind (Inr found) (\<lambda>preorder.
    rbind (get_int preorder ''block_number'') (\<lambda>preorder_block.
    require (EPOCH_FEATURE_FIX_PREORDER_EXPIRE \<in> set epoch_features \<longrightarrow> block_id \<le> preorder_block + NAME_PREORDER_EXPIRE) (
    rbind (is_name_registered st name) (\<lambda>registered. require (\<not> registered) (
    require (has_key namespace ''ready_block'') (
    rbind (get_int namespace ''ready_block'') (\<lambda>ready_block. require (ready_block \<le> preorder_block) (
    rbind (getitem preorder ''sender'') (\<lambda>preorderer. require (py_eq preorderer (VStr sender)) (
    require (has_key preorder ''op_fee'') (
    rbind (case old_name_rec of None \<Rightarrow> Inr (VInt preorder_block) | Some r \<Rightarrow> getitem r ''block_number'') (\<lambda>name_block.
      Inr (Some \<lparr>rm_name = name, rm_namespace = namespace, rm_preorder = preorder,
        rm_preorder_block = preorder_block, rm_name_block = name_block\<rparr>))))))))))))))))))))))))))))))))))))"

text \<open>The tokens paid, after the check of the payment: zero when the name was paid for in bitcoin.\<close>

definition register_tokens :: "virtualchain \<Rightarrow> state_engine \<Rightarrow> pydict \<Rightarrow> int \<Rightarrow> register_match \<Rightarrow> pyval option res" where
  "register_tokens vc st nameop block_id m =
    rbind (get_epoch_features block_id) (\<lambda>epoch_features.
    rbind (getitem (rm_preorder m) ''op_fee'') (\<lambda>name_fee.
    rbind (getitem (rm_preorder m) ''vtxindex'') (\<lambda>_.
    rbind (getitem (rm_preorder m) ''burn_address'') (\<lambda>burn_address.
    rbind (getitem (rm_preorder m) ''address'') (\<lambda>token_address.
    obind (check_payment vc st ''NAME_REGISTRATION'' nameop (rm_preorder_block m) token_address burn_address name_fee block_id)
      (\<lambda>(token_fee, token_units).
        if token_units = ''BTC'' then
          assert_that (py_eq token_fee name_fee)
            (rbind (get_stacks_payment st nameop ''NAME_REGISTRATION'') (\<lambda>res.
              assert_that (res = None) (Inr (Some (VInt 0)))))
        else require (EPOCH_FEATURE_NAMEOPS_COST_TOKENS \<in> set epoch_features) (
          assert_that (token_fee \<noteq> VNone \<and> token_units = TOKEN_TYPE_STACKS)
            (rbind (get_stacks_payment st nameop ''NAME_REGISTRATION'') (\<lambda>res. case res of
              None \<Rightarrow> Inl AssertionError
            | Some (paid, units) \<Rightarrow> assert_that (py_eq paid token_fee \<and> units = token_units)
                (Inr (Some token_fee)))))))))))"

definition register_check :: "virtualchain \<Rightarrow> checker" where
  "register_check vc st nameop block_id checked_ops =
    obind (register_admit vc st nameop block_id checked_ops) (\<lambda>m.
    let nameop = state_create_put_preorder nameop (Some (rm_preorder m)) in
    obind (register_tokens vc st nameop block_id m) (\<lambda>token_fee.
    rbind (get_epoch_features block_id) (\<lambda>epoch_features.
    rbind (getitem (rm_preorder m) ''op_fee'') (\<lambda>name_fee.
    rbind (getitem (rm_preorder m) ''preorder_hash'') (\<lambda>preorder_hash.
    rbind (py_str token_fee) (\<lambda>token_fee_text.
    rbind (getitem (rm_namespace m) ''block_number'') (\<lambda>namespace_block.
    rbind (getitem nameop ''recipient'') (\<lambda>recipient.
    rbind (getitem nameop ''recipient_address'') (\<lambda>recipient_address.
    let nameop = dupdate nameop [(''op_fee'', name_fee), (''token_fee'', VStr token_fee_text),
          (''preorder_hash'', preorder_hash), (''importer'', VNone), (''importer_address'', VNone),
          (''consensus_hash'', VNone), (''revoked'', VBool False), (''namespace_block_number'', namespace_block),
          (''last_renewed'', VInt block_id), (''preorder_block_number'', VInt (rm_preorder_block m)),
          (''block_number'', rm_name_block m), (''last_creation_op'', VStr [NAME_PREORDER]),
          (''sender'', recipient), (''address'', recipient_address)] in
    rbind (delitems nameop [''recipient'', ''recipient_address'']) (\<lambda>nameop.
    rbind (getitem nameop ''value_hash'') (\<lambda>value_hash.
      require (value_hash \<noteq> VNone \<longrightarrow> EPOCH_FEATURE_OP_REGISTER_UPDATE \<in> set epoch_features) (Inr (Some nameop)))))))))))))"

definition check_registration :: "virtualchain \<Rightarrow> decorated" where
  "check_registration vc = state_create ''name'' ''name_records'' ''check_name_collision'' [] (register_check vc)"

section \<open>Renewal\<close>

definition renewal_admit :: "virtualchain \<Rightarrow> state_engine \<Rightarrow> pydict \<Rightarrow> int \<Rightarrow> pydict list \<Rightarrow> (string \<times> pydict \<times> pydict) option res" where
  "renewal_admit vc st nameop block_id checked_ops =
    rbind (getitem nameop ''name'') (\<lambda>name_value.
    rbind (get_str nameop ''sender'') (\<lambda>sender.
    rbind (getitem nameop ''address'') (\<lambda>address.
    rbind (get_epoch_features block_id) (\<lambda>epoch_features.
    require (dget nameop ''recipient_address'' VNone \<noteq> VNone) (
    require (dget nameop ''recipient'' VNone \<noteq> VNone) (
    require (is_name_valid name_value) (
    rbind (as_str name_value) (\<lambda>name.
    rbind (getitem nameop ''recipient_address'') (\<lambda>recipient_addr.
    rbind (get_str nameop ''recipient'') (\<lambda>recipient.
    require (sender = recipient \<or> EPOCH_FEATURE_OP_RENEW_TRANSFER_UPDATE \<in> set epoch_features) (
    require (py_eq recipient_addr address \<or> EPOCH_FEATURE_OP_RENEW_TRANSFER_UPDATE \<in> set epoch_features) (
    rbind (getitem nameop ''opcode'') (\<lambda>_.
    require (is_b40 name_value \<and> CHR ''+'' \<notin> set name \<and> count_char CHR ''.'' name \<le> 1) (
    rbind (is_name_revoked st name) (\<lambda>revoked. require (\<not> revoked) (
    rbind (is_namespace_ready st (get_namespace_from_name name)) (\<lambda>ready. require ready (
    rbind (need_namespace st (get_namespace_from_name name)) (\<lambda>namespace.
    rbind (get_num_names_owned st checked_ops recipient) (\<lambda>num_names. require (num_names < MAX_NAMES_PER_SENDER) (
    rbind (is_name_registered st name) (\<lambda>registered. require registered (
    rbind (is_name_owner st name recipient) (\<lambda>owned.
    require (owned \<or> EPOCH_FEATURE_OP_RENEW_TRANSFER_UPDATE \<in> set epoch_features) (
    rbind (is_name_owner st name sender) (\<lambda>owner. require owner (
    require (has_key nameop ''op_fee'' \<and> dget nameop ''op_fee'' VNone \<noteq> VNone) (
    rbind (get_name st name None False) (\<lambda>rec. case rec of
      None \<Rightarrow> Inl TypeError
    | Some prev_name_rec \<Rightarrow> Inr (Some (name, namespace, prev_name_rec)))))))))))))))))))))))))))))))"

definition renewal_pay :: "virtualchain \<Rightarrow> state_engine \<Rightarrow> pydict \<Rightarrow> int \<Rightarrow> (pyval \<times> pydict) option res" where
  "renewal_pay vc st nameop block_id =
    rbind (get_epoch_features block_id) (\<lambda>epoch_features.
    rbind (getitem nameop ''op_fee'') (\<lambda>name_fee.
    rbind (getitem nameop ''burn_address'') (\<lambda>burn_address.
    rbind (getitem nameop ''vtxindex'') (\<lambda>_.
    rbind (getitem nameop ''address'') (\<lambda>address.
    obind (check_payment vc st ''NAME_RENEWAL'' nameop block_id address burn_address name_fee block_id)
      (\<lambda>(token_fee, token_units).
        if token_units = ''BTC'' then
          assert_that (py_eq token_fee name_fee)
            (rbind (get_stacks_payment st nameop ''NAME_RENEWAL'') (\<lambda>res.
              assert_that (res = None)
                (rbind (state_transition_put_account_payment_info nameop VNone VNone VNone) (\<lambda>op.
                  Inr (Some (VInt 0, op))))))
        else require (EPOCH_FEATURE_NAMEOPS_COST_TOKENS \<in> set epoch_features) (
          assert_that (token_fee \<noteq> VNone \<and> token_units = TOKEN_TYPE_STACKS)
            (rbind (get_stacks_payment st nameop ''NAME_RENEWAL'') (\<lambda>res. case res of
              None \<Rightarrow> Inl AssertionError
            | Some (paid, units) \<Rightarrow> assert_that (py_eq paid token_fee \<and> units = token_units)
                (rbind (as_str address) (\<lambda>token_address.
                 rbind (can_pay st token_address token_units token_fee) (\<lambda>ok. require ok (
                 rbind (state_transition_put_account_payment_info nameop address (VStr token_units) token_fee) (\<lambda>op.
                   Inr (Some (token_fee, op))))))))))))))))"

definition renewal_check :: "virtualchain \<Rightarrow> checker" where
  "renewal_check vc st nameop block_id checked_ops =
    obind (renewal_admit vc st nameop block_id checked_ops) (\<lambda>(name, namespace, prev_name_rec).
    rbind (getitem prev_name_rec ''first_registered'') (\<lambda>first_registered.
    rbind (getitem prev_name_rec ''preorder_block_number'') (\<lambda>preorder_block_number.
    rbind (getitem prev_name_rec ''block_number'') (\<lambda>name_block_number.
    rbind (getitem nameop ''op_fee'') (\<lambda>name_fee.
    rbind (getitem prev_name_rec ''preorder_hash'') (\<lambda>preorder_hash.
    rbind (getitem prev_name_rec ''value_hash'') (\<lambda>prev_value_hash.
    obind (renewal_pay vc st nameop block_id) (\<lambda>(token_fee, nameop).
    rbind (get_epoch_features block_id) (\<lambda>epoch_features.
    let given = dget nameop ''value_hash'' VNone;
        value_hash = (if EPOCH_FEATURE_OP_RENEW_TRANSFER_UPDATE \<in> set epoch_features \<and> given \<noteq> VNone
                      then given else prev_value_hash) in
    rbind (py_str token_fee) (\<lambda>token_fee_text.
    rbind (getitem namespace ''block_number'') (\<lambda>namespace_block.
    rbind (getitem nameop ''recipient'') (\<lambda>recipient.
    rbind (getitem nameop ''recipient_address'') (\<lambda>recipient_address.
    rbind (getitem prev_name_rec ''sender_pubkey'') (\<lambda>sender_pubkey.
    let nameop = dupdate nameop [(''op_fee'', name_fee), (''token_fee'', VStr token_fee_text),
          (''preorder_hash'', preorder_hash), (''namespace_block_number'', namespace_block),
          (''first_registered'', first_registered), (''preorder_block_number'', preorder_block_number),
          (''block_number'', name_block_number), (''value_hash'', value_hash), (''last_renewed'', VInt block_id),
          (''sender'', recipient), (''address'', recipient_address), (''sender_pubkey'', sender_pubkey)] in
    rbind (delitems nameop [''recipient'', ''recipient_address'', ''burn_address'']) (\<lambda>nameop.
      Inr (Some nameop))))))))))))))))"

definition check_renewal :: "virtualchain \<Rightarrow> decorated" where
  "check_renewal vc = state_transition ''name'' ''name_records'' [] True (renewal_check vc)"

section \<open>Extraction\<close>

definition rstrip_zeros :: "string \<Rightarrow> string" where
  "rstrip_zeros s = rev (dropWhile ((=) CHR 0x00) (rev s))"

definition register_parse :: "string \<Rightarrow> int \<Rightarrow> pydict option res" where
  "register_parse bin_payload block_height =
    rbind (get_epoch_features block_height) (\<lambda>epoch_features.
      let name_len = LENGTHS ''blockchain_id_name''; name_value_len = name_len + LENGTHS ''value_hash'';
          fqn_padded = rstrip_zeros (slice 0 name_len bin_payload);
          hash = VStr (hexlify (slice name_len name_value_len bin_payload));
          ret = (\<lambda>fqn value_hash tokens. require (is_name_valid (VStr fqn)) (Inr (Some
            [(''opcode'', VStr ''NAME_REGISTRATION''), (''name'', VStr fqn), (''value_hash'', value_hash),
             (''token_fee'', tokens)])))
      in if (EPOCH_FEATURE_OP_REGISTER_UPDATE \<in> set epoch_features \<or>
             EPOCH_FEATURE_OP_RENEW_TRANSFER_UPDATE \<in> set epoch_features) \<and> length bin_payload \<ge> name_value_len then
           if EPOCH_FEATURE_NAMEOPS_COST_TOKENS \<in> set epoch_features then
             if length bin_payload = name_value_len + LENGTHS ''tokens_burnt'' then
               ret fqn_padded hash (VInt (big_endian
                 (slice name_value_len (name_value_len + LENGTHS ''tokens_burnt'') bin_payload)))
             else if length bin_payload \<noteq> name_value_len then Inr None
             else ret fqn_padded hash VNone
           else if length bin_payload \<noteq> name_value_len then Inr None
           else ret fqn_padded hash (VInt 0)
         else ret bin_payload VNone (VInt 0))"

definition register_tx_extract ::
    "virtualchain \<Rightarrow> string \<Rightarrow> tx_sender list \<Rightarrow> tx_input list \<Rightarrow> tx_output list \<Rightarrow> int \<Rightarrow> int \<Rightarrow> string \<Rightarrow> pydict res" where
  "register_tx_extract vc payload senders inputs outputs block_id vtxindex txid =
    rbind (or_failed (rbind (check_tx_output_types vc (take 2 outputs) block_id) (\<lambda>ok.
      assert_that ok
        (rbind (get_registration_recipient_from_outputs outputs) (\<lambda>recipient.
          case script_hex_to_address vc recipient of
            None \<Rightarrow> Inl AssertionError
          | Some recipient_address \<Rightarrow>
              rbind (extract_sender vc senders inputs) (\<lambda>s.
              rbind (if length outputs \<ge> 4 then rbind (get_renew_burn_info vc outputs) (\<lambda>b. Inr (Some b)) else Inr None) (\<lambda>renew.
                Inr (recipient, recipient_address, s, renew))))))))
      (\<lambda>(recipient, recipient_address, (sender_script, sender_address, sender_pubkey), renew).
    rbind (assert_some (register_parse payload block_id)) (\<lambda>parsed_payload.
    rbind (getitem parsed_payload ''token_fee'') (\<lambda>token_fee.
    rbind (getitem parsed_payload ''name'') (\<lambda>name.
    rbind (getitem parsed_payload ''value_hash'') (\<lambda>value_hash.
      let ret = (\<lambda>op opcode. [(''value_hash'', VNone), (''sender'', VStr sender_script), (''address'', VStr sender_address),
            (''recipient'', VStr recipient), (''recipient_address'', VStr recipient_address), (''revoked'', VBool False),
            (''last_renewed'', VInt block_id), (''vtxindex'', VInt vtxindex), (''txid'', VStr txid),
            (''op'', VStr op), (''opcode'', VStr opcode)])
      in case renew of
        None \<Rightarrow>
          assert_that (token_fee = VNone \<or> py_eq token_fee (VInt 0))
            (Inr (dset (dupdate (ret [NAME_REGISTRATION] ''NAME_REGISTRATION'')
              [(''name'', name), (''value_hash'', value_hash), (''first_registered'', VInt block_id),
               (''last_renewed'', VInt block_id)]) ''sender_pubkey'' sender_pubkey))
      | Some (burn_address, op_fee) \<Rightarrow>
          assert_that (token_fee \<noteq> VNone)
            (Inr (dset (dupdate (ret [NAME_RENEWAL, NAME_RENEWAL] ''NAME_RENEWAL'')
              [(''name'', name), (''value_hash'', value_hash), (''op_fee'', VInt op_fee),
               (''burn_address'', VStr burn_address), (''token_fee'', token_fee)]) ''sender_pubkey'' sender_pubkey)))))))"

section \<open>What an accepted payment covers\<close>

lemma obind_Inr: "obind (Inr x) f = (case x of None \<Rightarrow> Inr None | Some y \<Rightarrow> f y)"
  by (cases x) simp_all

lemma need_namespace_eq_Inr [res_simps]:
  "need_namespace st i = Inr ns \<longleftrightarrow> get_namespace st i = Inr (Some ns)"
  by (auto simp: need_namespace_def res_simps split: option.splits)

lemma need_label_eq_Inr [res_simps]: "need_label name = Inr l \<longleftrightarrow> get_name_from_fq_name name = Some l"
  by (auto simp: need_label_def split: option.splits)

lemma check_token_payment_Some [res_simps]:
  "check_token_payment price info = Inr (Some r) \<longleftrightarrow> (\<exists>paid. to_int (fst info) = Inr paid \<and>
     snd info = TOKEN_TYPE_STACKS \<and> \<not> py_lt (VInt paid) price \<and> r = (VInt paid, TOKEN_TYPE_STACKS))"
  by (auto simp: check_token_payment_def res_simps split: prod.splits)

text \<open>
  The specification of a payment: the name's namespace prices the name at the block of the fee, and
  the payment is in bitcoin of at least the price, or in stacks of at least the price in stacks.
\<close>

definition covers_price ::
    "state_engine \<Rightarrow> string \<Rightarrow> pydict \<Rightarrow> int \<Rightarrow> pyval \<Rightarrow> pyval \<Rightarrow> string \<Rightarrow> string \<Rightarrow> pydict \<Rightarrow> bool" where
  "covers_price st state_op_type nameop fee_block_id name_fee paid units name ns \<longleftrightarrow>
    get_namespace st (get_namespace_from_name name) = Inr (Some ns) \<and>
    (\<exists>label price. get_name_from_fq_name name = Some label \<and>
      (units = ''BTC'' \<and> paid = name_fee \<and> price_name label ns fee_block_id = Inr price \<and> \<not> py_lt paid price \<or>
       units = TOKEN_TYPE_STACKS \<and> get_stacks_payment st nameop state_op_type = Inr (Some (paid, units)) \<and>
       price_name_stacks label ns fee_block_id = Inr price \<and>
       (\<exists>amount. to_int paid = Inr amount \<and> \<not> py_lt (VInt amount) price)))"

text \<open>The address that must receive the fee: the namespace's creator, for one year, or nobody.\<close>

definition fee_address :: "virtualchain \<Rightarrow> pydict \<Rightarrow> pyval \<Rightarrow> bool" where
  "fee_address vc ns address \<longleftrightarrow> py_eq address (VStr (BLOCKSTACK_BURN_ADDRESS vc)) \<or>
     (\<exists>creator v. map_of ns ''address'' = Some creator \<and> py_eq address creator \<and>
        map_of ns ''version'' = Some v \<and> py_eq v (VInt NAMESPACE_VERSION_PAY_TO_CREATOR))"

lemma stacks_payment_units:
  "get_stacks_payment st nameop t = Inr (Some (paid, units)) \<Longrightarrow> units = TOKEN_TYPE_STACKS"
  by (auto simp: get_stacks_payment_def res_simps Let_def split: if_splits)

lemma payment_in_stacks_covers:
  assumes "check_payment_in_stacks st nameop t fb = Inr (Some (paid, units))"
    and "map_of nameop ''name'' = Some (VStr name)"
    and "get_namespace st (get_namespace_from_name name) = Inr (Some ns)"
  shows "covers_price st t nameop fb fee paid units name ns"
  using assms unfolding check_payment_in_stacks_def covers_price_def by (auto simp: res_simps)

lemma bitcoin_covers:
  assumes "get_namespace st (get_namespace_from_name name) = Inr (Some ns)" and "get_name_from_fq_name name = Some label"
    and "price_name label ns fb = Inr price" and "\<not> py_lt fee price"
  shows "covers_price st t nameop fb fee fee ''BTC'' name ns"
  using assms by (auto simp: covers_price_def)

lemma fee_address_intros:
  "fee_address vc ns (VStr (BLOCKSTACK_BURN_ADDRESS vc))"
  "map_of ns ''address'' = Some a \<Longrightarrow> py_eq ba a \<Longrightarrow> map_of ns ''version'' = Some v \<Longrightarrow>
     py_eq v (VInt NAMESPACE_VERSION_PAY_TO_CREATOR) \<Longrightarrow> fee_address vc ns ba"
  by (auto simp: fee_address_def)

lemmas covers_intros = payment_in_stacks_covers bitcoin_covers fee_address_intros

lemma payment_v1_covers:
  assumes "check_payment_v1 vc st t nameop fb ta ba fee b = Inr (Some (paid, units))"
  shows "\<exists>name ns. map_of nameop ''name'' = Some (VStr name) \<and> covers_price st t nameop fb fee paid units name ns \<and>
    fee_address vc ns ba"
  using assms unfolding check_payment_v1_def
  by (auto simp: res_simps dict_simps split: if_splits) (blast intro: covers_intros)+

lemma payment_v2_covers:
  assumes "check_payment_v2 vc st t nameop fb ta ba fee b = Inr (Some (paid, units))"
  shows "\<exists>name ns. map_of nameop ''name'' = Some (VStr name) \<and> covers_price st t nameop fb fee paid units name ns \<and>
    fee_address vc ns ba"
  using assms unfolding check_payment_v2_def Let_def
  by (auto simp: res_simps dict_simps split: if_splits) (blast intro: covers_intros)+

lemma payment_v3_covers:
  assumes "check_payment_v3 vc st t nameop fb ta ba fee b = Inr (Some (paid, units))"
  shows "\<exists>name ns. map_of nameop ''name'' = Some (VStr name) \<and> covers_price st t nameop fb fee paid units name ns \<and>
    fee_address vc ns ba"
proof -
  from assms obtain name ns v label price amount where "map_of nameop ''name'' = Some (VStr name)"
    and ns: "get_namespace st (get_namespace_from_name name) = Inr (Some ns)" "getitem ns ''version'' = Inr v"
      "py_eq v (VInt NAMESPACE_VERSION_PAY_WITH_STACKS)" and ba: "ba = VStr (BLOCKSTACK_BURN_ADDRESS vc)"
    and p: "get_stacks_payment st nameop t = Inr (Some (paid, units))" "get_name_from_fq_name name = Some label"
      "price_name label ns fb = Inr price" "to_int paid = Inr amount" "\<not> py_lt (VInt amount) price"
    by (auto simp: check_payment_v3_def res_simps)
  moreover from ns p have "price_name_stacks label ns fb = Inr price"
    by (simp add: price_name_stacks_def)
  ultimately show ?thesis
    using stacks_payment_units [OF p(1)] by (auto simp: covers_price_def fee_address_def)
qed

lemma payment_covers:
  assumes "check_payment vc st t nameop fb ta ba fee b = Inr (Some (paid, units))"
  shows "\<exists>name ns. map_of nameop ''name'' = Some (VStr name) \<and> covers_price st t nameop fb fee paid units name ns \<and>
    fee_address vc ns ba"
proof -
  from assms consider "check_payment_v1 vc st t nameop fb ta ba fee b = Inr (Some (paid, units))"
    | "check_payment_v2 vc st t nameop fb ta ba fee b = Inr (Some (paid, units))"
    | "check_payment_v3 vc st t nameop fb ta ba fee b = Inr (Some (paid, units))"
    by (auto simp: check_payment_def res_simps split: if_splits)
  then show ?thesis
    by cases (fact payment_v1_covers payment_v2_covers payment_v3_covers)+
qed

section \<open>What an accepted registration or renewal has met\<close>

lemma name_preorder_found:
  assumes "get_name_preorder vc st name sender ra False = Inr (Some p)"
  shows "(\<nexists>n ns. live_name st name (lastblock st) n ns) \<and>
    (\<exists>hash row. hash_name (hex_hash160 vc) (VStr name) sender (Some ra) = Inr hash \<and> row \<in> set (preorder_rows st) \<and>
      text_col row ''preorder_hash'' hash \<and> op_is row NAME_PREORDER \<and>
      (\<forall>k. plain_column k \<longrightarrow> k \<noteq> ''opcode'' \<longrightarrow> map_of p k = map_of row k))"
proof -
  from assms obtain hash r opcode where none: "get_name st name None False = Inr None"
    and h: "hash_name (hex_hash160 vc) (VStr name) sender (Some ra) = Inr hash"
    and r: "namedb_get_name_preorder st hash (lastblock st) = Inr (Some r)" and p: "p = dset r ''opcode'' opcode"
    by (auto simp: get_name_preorder_def res_simps Let_def)
  from r obtain row rest where
    "filter (\<lambda>p. text_col p ''preorder_hash'' hash \<and> op_is p NAME_PREORDER \<and>
         sql_cmp (<) (int_col p ''block_number'') (Some (lastblock st + NAME_PREORDER_EXPIRE))) (preorder_rows st) = row # rest"
    and f: "namedb_row_factory row = Inr r"
    by (auto simp: namedb_get_name_preorder_def res_simps)
  then have "row \<in> set (filter (\<lambda>p. text_col p ''preorder_hash'' hash \<and> op_is p NAME_PREORDER \<and>
         sql_cmp (<) (int_col p ''block_number'') (Some (lastblock st + NAME_PREORDER_EXPIRE))) (preorder_rows st))"
    by simp
  moreover have "\<forall>k. plain_column k \<longrightarrow> k \<noteq> ''opcode'' \<longrightarrow> map_of p k = map_of row k"
    using row_factory_plain [OF f] by (simp add: p)
  ultimately show ?thesis
    using h none get_name_None [of st name None] by auto
qed

lemma register_admits:
  assumes "register_admit vc st nameop b ops = Inr (Some m)"
  shows "\<exists>sender recipient ra num. map_of nameop ''name'' = Some (VStr (rm_name m)) \<and>
    map_of nameop ''sender'' = Some (VStr sender) \<and> map_of nameop ''recipient'' = Some (VStr recipient) \<and>
    map_of nameop ''recipient_address'' = Some (VStr ra) \<and> is_name_valid (VStr (rm_name m)) \<and>
    is_namespace_ready st (get_namespace_from_name (rm_name m)) = Inr True \<and>
    get_num_names_owned st ops recipient = Inr num \<and> num < MAX_NAMES_PER_SENDER \<and>
    get_name_preorder vc st (rm_name m) sender ra False = Inr (Some (rm_preorder m)) \<and>
    map_of (rm_preorder m) ''sender'' = Some (VStr sender)"
  using assms unfolding register_admit_def
  by (auto simp: res_simps dict_simps)

lemma register_tokens_Some:
  assumes "register_tokens vc st nameop b m = Inr (Some token_fee)"
  obtains fee ba ta paid units where "map_of (rm_preorder m) ''op_fee'' = Some fee"
    and "map_of (rm_preorder m) ''burn_address'' = Some ba"
    and "check_payment vc st ''NAME_REGISTRATION'' nameop (rm_preorder_block m) ta ba fee b = Inr (Some (paid, units))"
  using assms unfolding register_tokens_def by (auto simp: res_simps dict_simps)

lemma register_check_Some:
  assumes "register_check vc st nameop b ops = Inr (Some op)"
  obtains m token_fee where "register_admit vc st nameop b ops = Inr (Some m)"
    and "register_tokens vc st (state_create_put_preorder nameop (Some (rm_preorder m))) b m = Inr (Some token_fee)"
    and "map_of op ''name'' = map_of nameop ''name''" and "map_of op ''sender'' = map_of nameop ''recipient''"
    and "map_of op ''address'' = map_of nameop ''recipient_address''" and "map_of op ''revoked'' = Some (VBool False)"
    and "map_of op ''last_renewed'' = Some (VInt b)"
    and "map_of op ''preorder_hash'' = map_of (rm_preorder m) ''preorder_hash''"
proof -
  from assms obtain m where m: "register_admit vc st nameop b ops = Inr (Some m)"
    by (auto simp: register_check_def obind_eq_Some simp del: edits)
  let ?op = "state_create_put_preorder nameop (Some (rm_preorder m))"
  from assms m obtain token_fee fee hash tf nsb recipient ra where
    t: "register_tokens vc st ?op b m = Inr (Some token_fee)"
    and f: "map_of (rm_preorder m) ''preorder_hash'' = Some hash" "map_of ?op ''recipient'' = Some recipient"
      "map_of ?op ''recipient_address'' = Some ra"
    and d: "delitems (dupdate ?op [(''op_fee'', fee), (''token_fee'', VStr tf),
          (''preorder_hash'', hash), (''importer'', VNone), (''importer_address'', VNone),
          (''consensus_hash'', VNone), (''revoked'', VBool False), (''namespace_block_number'', nsb),
          (''last_renewed'', VInt b), (''preorder_block_number'', VInt (rm_preorder_block m)),
          (''block_number'', rm_name_block m), (''last_creation_op'', VStr [NAME_PREORDER]),
          (''sender'', recipient), (''address'', ra)]) [''recipient'', ''recipient_address''] = Inr op"
    by (auto simp: register_check_def res_simps dict_simps Let_def simp del: edits) blast+
  show thesis
    using f by (intro that [OF m t]) (simp_all add: map_of_delitems [OF d] state_create_put_preorder_def)
qed

lemma renewal_admits:
  assumes "renewal_admit vc st nameop b ops = Inr (Some (name, ns, prev))"
  shows "\<exists>sender recipient num. map_of nameop ''name'' = Some (VStr name) \<and> is_name_valid (VStr name) \<and>
    map_of nameop ''sender'' = Some (VStr sender) \<and> map_of nameop ''recipient'' = Some (VStr recipient) \<and>
    is_namespace_ready st (get_namespace_from_name name) = Inr True \<and> is_name_owner st name sender = Inr True \<and>
    get_num_names_owned st ops recipient = Inr num \<and> num < MAX_NAMES_PER_SENDER \<and>
    get_name st name None False = Inr (Some prev)"
  using assms unfolding renewal_admit_def
  by (clarsimp simp: res_simps dict_simps)

lemma renewal_pay_Some:
  assumes "renewal_pay vc st nameop b = Inr (Some (token_fee, op))"
  obtains fee ba ta paid units info where "map_of nameop ''op_fee'' = Some fee" and "map_of nameop ''burn_address'' = Some ba"
    and "check_payment vc st ''NAME_RENEWAL'' nameop b ta ba fee b = Inr (Some (paid, units))"
    and "op = dset nameop ''__account_payment_info__'' info"
  using assms unfolding renewal_pay_def
  by (clarsimp simp: res_simps dict_simps state_transition_put_account_payment_info_def split: if_splits) blast

lemma renewal_check_Some:
  assumes "renewal_check vc st nameop b ops = Inr (Some op)"
  obtains name ns prev token_fee op1 where "renewal_admit vc st nameop b ops = Inr (Some (name, ns, prev))"
    and "renewal_pay vc st nameop b = Inr (Some (token_fee, op1))"
    and "map_of op ''name'' = map_of nameop ''name''" and "map_of op ''sender'' = map_of nameop ''recipient''"
    and "map_of op ''address'' = map_of nameop ''recipient_address''" and "map_of op ''last_renewed'' = Some (VInt b)"
    and "map_of op ''first_registered'' = map_of prev ''first_registered''"
proof -
  from assms obtain name ns prev where a: "renewal_admit vc st nameop b ops = Inr (Some (name, ns, prev))"
    by (auto simp: renewal_check_def obind_eq_Some simp del: edits)
  with assms obtain token_fee op1 where p: "renewal_pay vc st nameop b = Inr (Some (token_fee, op1))"
    by (auto simp: renewal_check_def res_simps Let_def simp del: edits)
  obtain info where op1: "op1 = dset nameop ''__account_payment_info__'' info"
    using renewal_pay_Some [OF p] by metis
  from assms a p obtain fr pbn nbn fee hash vh tf nsb recipient ra pk where
    f: "map_of prev ''first_registered'' = Some fr" "map_of op1 ''recipient'' = Some recipient"
      "map_of op1 ''recipient_address'' = Some ra"
    and d: "delitems (dupdate op1 [(''op_fee'', fee), (''token_fee'', VStr tf),
          (''preorder_hash'', hash), (''namespace_block_number'', nsb),
          (''first_registered'', fr), (''preorder_block_number'', pbn),
          (''block_number'', nbn), (''value_hash'', vh), (''last_renewed'', VInt b),
          (''sender'', recipient), (''address'', ra), (''sender_pubkey'', pk)])
        [''recipient'', ''recipient_address'', ''burn_address''] = Inr op"
    by (auto simp: renewal_check_def res_simps dict_simps Let_def simp del: edits split del: if_split)
  show thesis
    using f by (intro that [OF a p]) (simp_all add: map_of_delitems [OF d] op1)
qed

text \<open>
  C1: An accepted registration names a valid name of a launched namespace that nobody holds, and
  matches a preorder: a row of the preorder table, sent by the same sender, whose hash is the hash
  of the name, the sender's script and the recipient's address. The recipient, who holds fewer names
  than the quota allows, becomes the owner. No other registration of the name was seen in the block,
  and the name is noted as seen.
\<close>

theorem registration_sound:
  assumes "check_registration vc st nameop b ops = Inr (Some op, st', ops')"
  shows "\<exists>name sender recipient ra hash row num.
    map_of nameop ''name'' = Some (VStr name) \<and> map_of nameop ''sender'' = Some (VStr sender) \<and>
    map_of nameop ''recipient'' = Some (VStr recipient) \<and> map_of nameop ''recipient_address'' = Some (VStr ra) \<and>
    is_name_valid (VStr name) \<and> (\<exists>ns. ready_namespace st (get_namespace_from_name name) ns) \<and>
    (\<nexists>n ns. live_name st name (lastblock st) n ns) \<and>
    hash_name (hex_hash160 vc) (VStr name) sender (Some ra) = Inr hash \<and> row \<in> set (preorder_rows st) \<and>
    text_col row ''preorder_hash'' hash \<and> op_is row NAME_PREORDER \<and> text_col row ''sender'' sender \<and>
    get_num_names_owned st ops recipient = Inr num \<and> num < MAX_NAMES_PER_SENDER \<and>
    map_of op ''name'' = Some (VStr name) \<and> map_of op ''sender'' = Some (VStr recipient) \<and>
    map_of op ''address'' = Some (VStr ra) \<and> map_of op ''preorder_hash'' = Some (VStr hash) \<and>
    map_of op ''revoked'' = Some (VBool False) \<and> map_of op ''last_renewed'' = Some (VInt b) \<and>
    \<not> seen_id (collisions st) (b, ''name'', name) \<and> seen_id (collisions st') (b, ''name'', name) \<and>
    st' = st\<lparr>collisions := collisions st'\<rparr> \<and> ops' = ops"
proof -
  from state_create_accepts [OF assms [unfolded check_registration_def]] obtain op1
    where op1: "register_check vc st nameop b ops = Inr (Some op1)" "same_fields op op1"
      and c: "state_check_collisions st op ''name'' b ops ''check_name_collision'' = Inr (False, st', ops')"
    by auto
  from op1(1) obtain m where m: "register_admit vc st nameop b ops = Inr (Some m)"
    and o1: "map_of op1 ''name'' = map_of nameop ''name''" "map_of op1 ''sender'' = map_of nameop ''recipient''"
      "map_of op1 ''address'' = map_of nameop ''recipient_address''" "map_of op1 ''revoked'' = Some (VBool False)"
      "map_of op1 ''last_renewed'' = Some (VInt b)"
      "map_of op1 ''preorder_hash'' = map_of (rm_preorder m) ''preorder_hash''"
    by (rule register_check_Some)
  from register_admits [OF m] obtain sender recipient ra num where
    n: "map_of nameop ''name'' = Some (VStr (rm_name m))" "map_of nameop ''sender'' = Some (VStr sender)"
      "map_of nameop ''recipient'' = Some (VStr recipient)" "map_of nameop ''recipient_address'' = Some (VStr ra)"
      "is_name_valid (VStr (rm_name m))" "is_namespace_ready st (get_namespace_from_name (rm_name m)) = Inr True"
      "get_num_names_owned st ops recipient = Inr num" "num < MAX_NAMES_PER_SENDER"
      "get_name_preorder vc st (rm_name m) sender ra False = Inr (Some (rm_preorder m))"
      "map_of (rm_preorder m) ''sender'' = Some (VStr sender)"
    by auto
  have op: "map_of op k = map_of op1 k" if "k \<notin> set decorator_tags" for k
    using same_fieldsD [OF op1(2) that] .
  have "getitem op ''name'' = Inr (VStr (rm_name m))"
    using o1(1) n(1) by (simp add: getitem_eq_Inr op decorator_tags_def)
  then have "check_collision st ''name'' (VStr (rm_name m)) b ops OPCODE_NAME_STATE_CREATIONS = Inr (False, st', ops')"
    using c by (auto simp: state_check_collisions_def check_name_collision_def split: if_splits)
  note coll = check_collision_False(1,3,4) [OF this] check_collision_seen(2) [OF this, THEN iffD2, OF disjI1, OF refl]
  obtain ns where ns: "ready_namespace st (get_namespace_from_name (rm_name m)) ns"
    using is_namespace_ready_True [OF n(6)] by blast
  obtain hash row where h: "\<nexists>n ns. live_name st (rm_name m) (lastblock st) n ns"
      "hash_name (hex_hash160 vc) (VStr (rm_name m)) sender (Some ra) = Inr hash" "row \<in> set (preorder_rows st)"
      "text_col row ''preorder_hash'' hash" "op_is row NAME_PREORDER"
    and p: "\<forall>k. plain_column k \<longrightarrow> k \<noteq> ''opcode'' \<longrightarrow> map_of (rm_preorder m) k = map_of row k"
    using name_preorder_found [OF n(9)] by blast
  have row: "text_col row ''sender'' sender"
    using p n(10) by (simp add: text_col_def column_classes)
  have "map_of op ''name'' = Some (VStr (rm_name m))" "map_of op ''sender'' = Some (VStr recipient)"
      "map_of op ''address'' = Some (VStr ra)" "map_of op ''preorder_hash'' = Some (VStr hash)"
      "map_of op ''revoked'' = Some (VBool False)" "map_of op ''last_renewed'' = Some (VInt b)"
    using o1 n(1,3,4) h(4) p by (simp_all add: op decorator_tags_def text_col_def column_classes)
  note facts = this n(1-5,7,8) ns h row coll
  show ?thesis
    by (intro exI conjI) (rule facts)+
qed

text \<open>
  C2: The preorder of an accepted registration paid for the name: its fee, in bitcoin, or its tokens
  cover the price of the name in its namespace at the block of the preorder, and the bitcoin output went to the burn
  address or, in a namespace of the second version, to the namespace's creator.
\<close>

theorem registration_paid:
  assumes "check_registration vc st nameop b ops = Inr (Some op, st', ops')"
  shows "\<exists>name sender ra ns preorder block fee ba paid units.
    map_of nameop ''name'' = Some (VStr name) \<and> map_of nameop ''sender'' = Some (VStr sender) \<and>
    map_of nameop ''recipient_address'' = Some (VStr ra) \<and>
    get_name_preorder vc st name sender ra False = Inr (Some preorder) \<and> get_int preorder ''block_number'' = Inr block \<and>
    map_of preorder ''op_fee'' = Some fee \<and> map_of preorder ''burn_address'' = Some ba \<and>
    covers_price st ''NAME_REGISTRATION'' (state_create_put_preorder nameop (Some preorder)) block fee paid units name ns \<and>
    fee_address vc ns ba"
proof -
  from state_create_accepts [OF assms [unfolded check_registration_def]] obtain op1
    where "register_check vc st nameop b ops = Inr (Some op1)"
    by auto
  then obtain m token_fee where m: "register_admit vc st nameop b ops = Inr (Some m)"
    and t: "register_tokens vc st (state_create_put_preorder nameop (Some (rm_preorder m))) b m = Inr (Some token_fee)"
    by (rule register_check_Some)
  have block: "get_int (rm_preorder m) ''block_number'' = Inr (rm_preorder_block m)"
    using m unfolding register_admit_def by (clarsimp simp: res_simps dict_simps)
  from t obtain fee ba ta paid units where f: "map_of (rm_preorder m) ''op_fee'' = Some fee"
    "map_of (rm_preorder m) ''burn_address'' = Some ba"
    and c: "check_payment vc st ''NAME_REGISTRATION'' (state_create_put_preorder nameop (Some (rm_preorder m)))
      (rm_preorder_block m) ta ba fee b = Inr (Some (paid, units))"
    by (rule register_tokens_Some)
  from register_admits [OF m] obtain sender ra where n: "map_of nameop ''name'' = Some (VStr (rm_name m))"
      "map_of nameop ''sender'' = Some (VStr sender)" "map_of nameop ''recipient_address'' = Some (VStr ra)"
      "get_name_preorder vc st (rm_name m) sender ra False = Inr (Some (rm_preorder m))"
    by blast
  from payment_covers [OF c] n(1) obtain ns where
    p: "covers_price st ''NAME_REGISTRATION'' (state_create_put_preorder nameop (Some (rm_preorder m)))
      (rm_preorder_block m) fee paid units (rm_name m) ns" "fee_address vc ns ba"
    by (auto simp: state_create_put_preorder_def)
  show ?thesis
    by (intro exI conjI) (rule n f block p)+
qed

text \<open>
  C11: An accepted renewal is sent by the owner of a live name in a launched namespace. It pays, in
  this block, at least the price of the name; its recipient, within the quota, becomes the owner; the time of the
  renewal is this block and the time of the first registration stays.
\<close>

theorem renewal_sound:
  assumes "check_renewal vc st nameop b ops = Inr (Some op, st', ops')"
  shows "\<exists>name sender recipient num fee ba paid units ns prev.
    map_of nameop ''name'' = Some (VStr name) \<and> map_of nameop ''sender'' = Some (VStr sender) \<and>
    map_of nameop ''recipient'' = Some (VStr recipient) \<and> owns st sender name \<and>
    (\<exists>ns. ready_namespace st (get_namespace_from_name name) ns) \<and>
    get_num_names_owned st ops recipient = Inr num \<and> num < MAX_NAMES_PER_SENDER \<and>
    map_of nameop ''op_fee'' = Some fee \<and> map_of nameop ''burn_address'' = Some ba \<and>
    covers_price st ''NAME_RENEWAL'' nameop b fee paid units name ns \<and> fee_address vc ns ba \<and>
    map_of op ''name'' = Some (VStr name) \<and> map_of op ''sender'' = Some (VStr recipient) \<and>
    map_of op ''last_renewed'' = Some (VInt b) \<and> get_name st name None False = Inr (Some prev) \<and>
    map_of op ''first_registered'' = map_of prev ''first_registered'' \<and> st' = st \<and> ops' = ops"
proof -
  from state_transition_accepts [OF assms [unfolded check_renewal_def]] obtain op1
    where op1: "renewal_check vc st nameop b ops = Inr (Some op1)" "same_fields op op1" "st' = st" "ops' = ops"
    by auto
  from op1(1) obtain name ns prev token_fee op2 where a: "renewal_admit vc st nameop b ops = Inr (Some (name, ns, prev))"
    and p: "renewal_pay vc st nameop b = Inr (Some (token_fee, op2))"
    and o1: "map_of op1 ''name'' = map_of nameop ''name''" "map_of op1 ''sender'' = map_of nameop ''recipient''"
      "map_of op1 ''last_renewed'' = Some (VInt b)" "map_of op1 ''first_registered'' = map_of prev ''first_registered''"
    by (rule renewal_check_Some)
  from p obtain fee ba ta paid units where
    f: "map_of nameop ''op_fee'' = Some fee" "map_of nameop ''burn_address'' = Some ba"
    and c: "check_payment vc st ''NAME_RENEWAL'' nameop b ta ba fee b = Inr (Some (paid, units))"
    by (rule renewal_pay_Some)
  have op: "map_of op k = map_of op1 k" if "k \<notin> set decorator_tags" for k
    using same_fieldsD [OF op1(2) that] .
  from renewal_admits [OF a] payment_covers [OF c] show ?thesis
    using f o1 op1(3,4) by (auto simp: op decorator_tags_def) (blast intro: is_name_owner_True is_namespace_ready_True)+
qed

section \<open>Accepted examples\<close>

lemma example_hash_name:
  "hash_name (hex_hash160 example_vc) (VStr ''cd.id'') ''76a9'' (Some ''1new'') = Inr ''c0ffee''"
proof -
  have "set ''cd.id'' \<subseteq> set B40_CHARS"
    by (simp add: B40_CHARS_def)
  then obtain bin where "b40_to_bin (VStr ''cd.id'') = Inr bin"
    using b40_to_bin_ok by blast
  moreover have "unhexlify ''76a9'' = Inr [CHR ''v'', CHR 0xA9]"
    by code_simp
  ultimately show ?thesis
    by (simp add: hash_name_def example_vc_def)
qed

definition example_preorder_row :: pydict where
  "example_preorder_row = [(''preorder_hash'', VStr ''c0ffee''), (''op'', VStr [NAME_PREORDER]),
     (''sender'', VStr ''76a9''), (''address'', VStr ''1me''), (''block_number'', VInt 589990), (''vtxindex'', VInt 1),
     (''op_fee'', VInt 100000000), (''burn_address'', VStr (BLOCKSTACK_BURN_ADDRESS example_vc)),
     (''token_fee'', VStr ''0''), (''token_units'', VStr ''BTC'')]"

definition example_registration :: pydict where
  "example_registration = [(''name'', VStr ''cd.id''), (''sender'', VStr ''76a9''), (''address'', VStr ''1me''),
     (''recipient'', VStr ''76aa''), (''recipient_address'', VStr ''1new''), (''vtxindex'', VInt 2), (''txid'', VStr ''dd''),
     (''op'', VStr [NAME_REGISTRATION]), (''opcode'', VStr ''NAME_REGISTRATION''), (''value_hash'', VNone),
     (''revoked'', VBool False), (''first_registered'', VInt 590001), (''last_renewed'', VInt 590001),
     (''sender_pubkey'', VNone)]"

abbreviation preordered_example :: state_engine where
  "preordered_example \<equiv> live_example ''76ff'' [example_preorder_row] []"

definition example_preorder_rec :: pydict where
  "example_preorder_rec = dset (dset example_preorder_row ''token_fee'' (VInt 0)) ''opcode'' (VStr ''NAME_PREORDER'')"

lemma preordered_example_free:
  "get_name preordered_example ''cd.id'' None include_expired = Inr None"
  by (simp add: get_name_def namedb_get_name_def join_namespaces_def example_with_def example_name_row_def text_col_def
      fetchone_def autofill_opcode_def)

lemma preordered_example_preorder:
  "get_name_preorder example_vc preordered_example ''cd.id'' ''76a9'' ''1new'' False = Inr (Some example_preorder_rec)"
proof -
  have row: "namedb_row_factory example_preorder_row = Inr (dset example_preorder_row ''token_fee'' (VInt 0))"
    by (simp add: namedb_row_factory_def example_preorder_row_def row_field_def flag_columns_def amount_columns_def dset_def)
  have "namedb_get_name_preorder preordered_example ''c0ffee'' 590000 = Inr (Some (dset example_preorder_row ''token_fee'' (VInt 0)))"
    by (simp add: namedb_get_name_preorder_def example_with_def fetchone_def row join_namespaces_def example_name_row_def text_col_def)
      (simp add: example_preorder_row_def text_col_def op_is_def int_col_def sql_cmp_def NAME_PREORDER_EXPIRE_def BLOCKS_PER_DAY_def)
  then show ?thesis
    by (simp add: get_name_preorder_def preordered_example_free example_hash_name live_example_get_namespace Let_def
        get_namespace_from_name_def autofill_opcode_def example_preorder_rec_def)
      (simp add: example_preorder_row_def example_namespace_rec_def example_namespace_row_def rules_at_def epoch_tables
        has_key_def dset_def get_str_def get_int_def getitem_def op_get_opcode_name_def OPCODE_NAMES_def opcode_defs assert_that_def)
qed

lemma preordered_example_quota: "get_num_names_owned preordered_example [] ''76aa'' = Inr 0"
  by (simp add: get_num_names_owned_def find_by_opcode_def get_names_owned_by_sender_def namedb_get_names_by_sender_def
      join_namespaces_def example_with_def example_name_row_def text_col_def)

lemmas example_dicts = example_registration_def example_preorder_rec_def example_preorder_row_def example_namespace_rec_def
  example_namespace_row_def has_key_def dset_def dget_def get_str_def get_int_def getitem_def

lemma example_name_valid: "is_name_valid (VStr ''cd.id'')" "is_b40 (VStr ''cd.id'')" "count_char CHR ''.'' ''cd.id'' = 1"
  by code_simp+

lemma example_register_admit:
  "register_admit example_vc preordered_example example_registration 590001 [] =
     Inr (Some \<lparr>rm_name = ''cd.id'', rm_namespace = dset example_namespace_rec ''opcode'' (VStr ''NAMESPACE_READY''),
       rm_preorder = example_preorder_rec, rm_preorder_block = 589990, rm_name_block = VInt 589990\<rparr>)"
  by (simp add: register_admit_def preordered_example_free example_registration_def preordered_example_quota
      preordered_example_preorder live_example_queries need_namespace_def live_example_get_namespace
      is_name_revoked_def is_name_registered_def get_namespace_from_name_def as_str_def
      get_str_def getitem_def dget_def example_name_valid epoch_of_def epoch_tables epoch_has_multisig_def MAX_NAMES_PER_SENDER_def)
    (simp add: example_dicts NAME_PREORDER_EXPIRE_def BLOCKS_PER_DAY_def)

abbreviation example_ns :: pydict where
  "example_ns \<equiv> dset example_namespace_rec ''opcode'' (VStr ''NAMESPACE_READY'')"

lemma example_price:
  assumes "547921 < h" and "l = ''cd'' \<or> l = ''ab''"
  shows "\<exists>p. price_name l example_ns h = Inr (VInt p) \<and> p \<le> 100000000"
proof -
  have "EPOCH_FEATURE_INT_DIVISION \<in> set (features (epoch_of h))"
    using assms(1) by (simp add: epoch_of_def epoch_tables)
  moreover have "price_params example_ns 1 4 250 [6, 5, 4, 3, 2, 1, 0, 0, 0, 0, 0, 0, 0, 0, 0, 0] 10 10"
    by (simp add: price_params_def example_namespace_rec_def example_namespace_row_def)
  moreover have "bucket_exponent l [6, 5, 4, 3, 2, 1, 0, 0, 0, 0, 0, 0, 0, 0, 0, 0] = Inr 5"
    using assms(2) by (auto simp: bucket_exponent_def)
  ultimately have "price_name l example_ns h = Inr (VInt (max (cost_unit_of 1)
      (250 * 4 ^ 5 * cost_unit_of 1 div discount_of l 10 10) div divisor_of 1))"
    by (rule price_name_int_epoch)
  moreover have "discount_of ''cd'' 10 10 = 10" "discount_of ''ab'' 10 10 = 1"
    by code_simp+
  ultimately show ?thesis
    using assms(2) by (auto simp: cost_unit_of_def divisor_of_def NAME_COST_UNIT_def NAMESPACE_VERSION_PAY_WITH_STACKS_def)
qed

abbreviation example_matched :: pydict where
  "example_matched \<equiv> state_create_put_preorder example_registration (Some example_preorder_rec)"

lemma example_stacks_payment: "get_stacks_payment preordered_example example_matched ''NAME_REGISTRATION'' = Inr None"
  by (simp add: get_stacks_payment_def live_example_get_namespace get_namespace_from_name_def state_create_put_preorder_def
      opt_int_def TOKEN_TYPE_STACKS_def example_dicts)

lemma example_payment:
  "check_payment example_vc preordered_example ''NAME_REGISTRATION'' example_matched 589990 (VStr ''1me'')
     (VStr (BLOCKSTACK_BURN_ADDRESS example_vc)) (VInt 100000000) 590001 = Inr (Some (VInt 100000000, ''BTC''))"
proof -
  obtain p where p: "price_name ''cd'' example_ns 589990 = Inr (VInt p)" "p \<le> 100000000"
    using example_price [of 589990 "''cd''"] by auto
  have "get_str example_matched ''name'' = Inr ''cd.id''"
    by (simp add: example_registration_def res_simps state_create_put_preorder_def)
  moreover have "getitem example_ns ''version'' = Inr (VInt 1)"
    by (simp add: dict_simps example_namespace_rec_def example_namespace_row_def)
  moreover have "need_label ''cd.id'' = Inr ''cd''"
    by code_simp
  ultimately show ?thesis
    using p by (simp add: check_payment_def check_payment_v1_def is_int_def need_namespace_def live_example_get_namespace
        get_namespace_from_name_def NAMESPACE_VERSION_PAY_TO_BURN_def example_stacks_payment)
qed

lemma example_register_tokens:
  "register_tokens example_vc preordered_example example_matched 590001 \<lparr>rm_name = ''cd.id'', rm_namespace = example_ns,
       rm_preorder = example_preorder_rec, rm_preorder_block = 589990, rm_name_block = VInt 589990\<rparr> = Inr (Some (VInt 0))"
proof -
  have "getitem example_preorder_rec ''op_fee'' = Inr (VInt 100000000)" "getitem example_preorder_rec ''vtxindex'' = Inr (VInt 1)"
    "getitem example_preorder_rec ''burn_address'' = Inr (VStr (BLOCKSTACK_BURN_ADDRESS example_vc))"
    "getitem example_preorder_rec ''address'' = Inr (VStr ''1me'')"
    by (simp_all add: dict_simps example_preorder_rec_def example_preorder_row_def)
  then show ?thesis
    by (simp add: register_tokens_def example_payment example_stacks_payment)
qed

lemma example_registration_accepted:
  obtains op st' ops' where
    "check_registration example_vc preordered_example example_registration 590001 [] = Inr (Some op, st', ops')"
proof -
  have "\<exists>op. register_check example_vc preordered_example example_registration 590001 [] = Inr (Some op) \<and>
      map_of op ''name'' = Some (VStr ''cd.id'') \<and> map_of op ''op'' = Some (VStr [NAME_REGISTRATION]) \<and>
      has_key op ''__preorder__'' \<and> has_keys op CONSENSUS_FIELDS_REQUIRED"
    by (simp add: register_check_def example_register_admit example_register_tokens Let_def)
      (simp add: example_dicts state_create_put_preorder_def py_str_def delitem_def has_keys_def CONSENSUS_FIELDS_REQUIRED_def)
  then obtain op where "register_check example_vc preordered_example example_registration 590001 [] = Inr (Some op)"
      "map_of op ''op'' = Some (VStr [NAME_REGISTRATION])" "has_key op ''__preorder__''" "has_keys op CONSENSUS_FIELDS_REQUIRED"
      "map_of op ''name'' = Some (VStr ''cd.id'')"
    by blast
  moreover have "op_get_opcode_name [NAME_REGISTRATION] = Inr ''NAME_REGISTRATION''" "''NAME_REGISTRATION'' \<in> set OPCODE_CREATION_OPS"
    by code_simp+
  ultimately have "\<exists>op' st'. state_create ''name'' ''name_records'' ''check_name_collision'' [] (register_check example_vc)
      preordered_example example_registration 590001 [] = Inr (Some op', st', [])"
    by (intro state_create_accepted [where opcode = "''NAME_REGISTRATION''"])
      (simp_all add: decorator_tags_def seen_id_def seen_at_def example_with_def)
  then show thesis
    using that by (auto simp: check_registration_def)
qed

theorem registration_sound_witness:
  "\<exists>op st' ops'. check_registration example_vc preordered_example example_registration 590001 [] = Inr (Some op, st', ops') \<and>
     map_of op ''sender'' = Some (VStr ''76aa'') \<and> seen_id (collisions st') (590001, ''name'', ''cd.id'')"
proof -
  obtain op st' ops' where
    "check_registration example_vc preordered_example example_registration 590001 [] = Inr (Some op, st', ops')"
    by (rule example_registration_accepted)
  then show ?thesis
    using registration_sound [of example_vc preordered_example example_registration 590001 "[]" op st' ops']
    by (auto simp: example_registration_def)
qed

theorem registration_paid_witness:
  "\<exists>op st' ops' ns block fee paid units preorder.
     check_registration example_vc preordered_example example_registration 590001 [] = Inr (Some op, st', ops') \<and>
     get_name_preorder example_vc preordered_example ''cd.id'' ''76a9'' ''1new'' False = Inr (Some preorder) \<and>
     covers_price preordered_example ''NAME_REGISTRATION''
        (state_create_put_preorder example_registration (Some preorder)) block fee paid units ''cd.id'' ns"
proof -
  obtain op st' ops' where a:
    "check_registration example_vc preordered_example example_registration 590001 [] = Inr (Some op, st', ops')"
    by (rule example_registration_accepted)
  have "map_of example_registration ''name'' = Some (VStr ''cd.id'')" "map_of example_registration ''sender'' = Some (VStr ''76a9'')"
    "map_of example_registration ''recipient_address'' = Some (VStr ''1new'')"
    by (simp_all add: example_registration_def)
  then show ?thesis
    using registration_paid [OF a] a by auto blast
qed

definition example_renewal :: pydict where
  "example_renewal = [(''name'', VStr ''ab.id''), (''sender'', VStr ''76a9''), (''address'', VStr ''1owner''),
     (''recipient'', VStr ''76a9''), (''recipient_address'', VStr ''1owner''), (''vtxindex'', VInt 2), (''txid'', VStr ''dd''),
     (''op'', VStr [NAME_RENEWAL, NAME_RENEWAL]), (''opcode'', VStr ''NAME_RENEWAL''), (''value_hash'', VNone),
     (''op_fee'', VInt 100000000), (''burn_address'', VStr (BLOCKSTACK_BURN_ADDRESS example_vc)),
     (''token_fee'', VNone), (''sender_pubkey'', VNone)]"

abbreviation owned_example :: state_engine where
  "owned_example \<equiv> live_example ''76a9'' [] []"

lemma owned_example_quota: "get_num_names_owned owned_example [] ''76a9'' = Inr 1"
  by (simp add: get_num_names_owned_def find_by_opcode_def get_names_owned_by_sender_def namedb_get_names_by_sender_def
      join_namespaces_def example_with_def live_example_unexpired)
    (simp add: example_name_row_def example_namespace_row_def text_col_def int_col_def sql_cmp_def getitem_def get_str_def)

lemma example_label: "need_label ''ab.id'' = Inr ''ab''" "is_name_valid (VStr ''ab.id'')" "is_b40 (VStr ''ab.id'')"
    "count_char CHR ''.'' ''ab.id'' = 1"
  by code_simp+

lemma example_renewal_payment:
  "check_payment example_vc owned_example ''NAME_RENEWAL'' example_renewal 590001 (VStr ''1owner'')
     (VStr (BLOCKSTACK_BURN_ADDRESS example_vc)) (VInt 100000000) 590001 = Inr (Some (VInt 100000000, ''BTC''))"
   "get_stacks_payment owned_example example_renewal ''NAME_RENEWAL'' = Inr None"
proof -
  obtain p where p: "price_name ''ab'' example_ns 590001 = Inr (VInt p)" "p \<le> 100000000"
    using example_price [of 590001 "''ab''"] by auto
  show none: "get_stacks_payment owned_example example_renewal ''NAME_RENEWAL'' = Inr None"
    by (simp add: get_stacks_payment_def live_example_get_namespace get_namespace_from_name_def
      opt_int_def dget_def example_renewal_def get_str_def getitem_def)
  have "get_str example_renewal ''name'' = Inr ''ab.id''"
    by (simp add: example_renewal_def res_simps)
  moreover have "getitem example_ns ''version'' = Inr (VInt 1)"
    by (simp add: dict_simps example_namespace_rec_def example_namespace_row_def)
  ultimately show "check_payment example_vc owned_example ''NAME_RENEWAL'' example_renewal 590001 (VStr ''1owner'')
     (VStr (BLOCKSTACK_BURN_ADDRESS example_vc)) (VInt 100000000) 590001 = Inr (Some (VInt 100000000, ''BTC''))"
    using p by (simp add: check_payment_def check_payment_v1_def is_int_def need_namespace_def live_example_get_namespace
        get_namespace_from_name_def NAMESPACE_VERSION_PAY_TO_BURN_def none example_label)
qed

lemma example_renewal_admit:
  "renewal_admit example_vc owned_example example_renewal 590001 [] = Inr (Some (''ab.id'', example_ns,
     dset (example_name_rec ''76a9'' 500000) ''opcode'' (VStr ''NAME_REGISTRATION'')))"
  by (simp add: renewal_admit_def example_renewal_def owned_example_quota live_example_queries need_namespace_def
      live_example_get_namespace live_example_get_name get_namespace_from_name_def as_str_def get_str_def getitem_def dget_def
      has_key_def example_label epoch_of_def epoch_tables MAX_NAMES_PER_SENDER_def)

lemma example_renewal_accepted:
  obtains op where "check_renewal example_vc owned_example example_renewal 590001 [] = Inr (Some op, owned_example, [])"
proof -
  have "renewal_pay example_vc owned_example example_renewal 590001 =
      Inr (Some (VInt 0, dset example_renewal ''__account_payment_info__'' (payment_info VNone VNone VNone)))"
    using example_renewal_payment by (simp add: renewal_pay_def example_renewal_def getitem_def
        state_transition_put_account_payment_info_def opt_int_def opt_str_def)
  then have "\<exists>op. renewal_check example_vc owned_example example_renewal 590001 [] = Inr (Some op) \<and>
      has_key op ''__account_payment_info__'' \<and> has_keys op CONSENSUS_FIELDS_REQUIRED"
    by (simp add: renewal_check_def example_renewal_admit Let_def)
      (simp add: example_renewal_def example_name_rec_def example_name_row_def example_namespace_rec_def example_namespace_row_def
        has_key_def dset_def dget_def getitem_def py_str_def delitem_def has_keys_def CONSENSUS_FIELDS_REQUIRED_def)
  then show thesis
    using that state_transition_accepted [of "renewal_check example_vc"] unfolding check_renewal_def by metis
qed

theorem renewal_sound_witness:
  "\<exists>op. check_renewal example_vc owned_example example_renewal 590001 [] = Inr (Some op, owned_example, []) \<and>
     owns owned_example ''76a9'' ''ab.id'' \<and> map_of op ''last_renewed'' = Some (VInt 590001)"
proof -
  obtain op where a: "check_renewal example_vc owned_example example_renewal 590001 [] = Inr (Some op, owned_example, [])"
    by (rule example_renewal_accepted)
  then show ?thesis
    using renewal_sound [OF a] by (auto simp: example_renewal_def)
qed

end
