(* ===== verification/OpOwner.thy ===== *)
theory OpOwner
  imports OpRegister
begin

text \<open>
  The operations of a name's owner: \<open>lib/operations/transfer.py\<close>, \<open>update.py\<close> and \<open>revoke.py\<close>.
  Each finds the name, requires that it is live, unrevoked, outside its grace period and owned by
  the sender, and rewrites the fields that the operation changes.
\<close>

section \<open>Transfers\<close>

definition transfer_FIELDS :: "string list" where
  "transfer_FIELDS = NAMEREC_FIELDS @ [''name_hash128'', ''consensus_hash'', ''keep_data'']"

definition transfer_MUTATE_FIELDS :: "string list" where
  "transfer_MUTATE_FIELDS = NAMEREC_MUTATE_FIELDS @ [''sender'', ''address'', ''sender_pubkey'', ''value_hash'']"

definition transfer_UNSTORED_CANONICAL_FIELDS :: "string list" where
  "transfer_UNSTORED_CANONICAL_FIELDS = [''keep_data'']"

definition get_transfer_recipient_from_outputs :: "tx_output list \<Rightarrow> string res" where
  "get_transfer_recipient_from_outputs outputs =
    (if length outputs < 2 then Inl (Exception ''No recipients found'') else Inr (out_script (outputs ! 1)))"

definition transfer_sanity_check :: "string option \<Rightarrow> string \<Rightarrow> bool res" where
  "transfer_sanity_check name consensus_hash = (case name of
     None \<Rightarrow> Inr True
   | Some n \<Rightarrow>
       if \<not> is_b40 (VStr n) \<or> CHR ''+'' \<in> set n \<or> count_char CHR ''.'' n > 1
       then Inl (Exception ''non-base-38 characters'')
       else if length n > LENGTHS ''blockchain_id_name'' then Inl (Exception ''too long'')
       else Inr True)"

text \<open>The states of a name, latest first, as the search for the consensus hash visits them.\<close>

definition latest_first :: "(int \<times> pydict list) list \<Rightarrow> pydict list" where
  "latest_first history = concat (map (\<lambda>b. rev (the (map_of history b))) (rev (sort (map fst history))))"

fun last_consensus_hash :: "pydict list \<Rightarrow> int \<Rightarrow> int \<Rightarrow> pyval \<Rightarrow> pyval res" where
  "last_consensus_hash [] block_id vtxindex nameop_consensus_hash = Inr nameop_consensus_hash"
| "last_consensus_hash (historic_state # states) block_id vtxindex nameop_consensus_hash =
    rbind (get_int historic_state ''block_number'') (\<lambda>block_number.
    rbind (if block_number > block_id then Inr True
           else if block_number = block_id then rbind (get_int historic_state ''vtxindex'') (\<lambda>v. Inr (v > vtxindex))
           else Inr False) (\<lambda>future.
      if future then last_consensus_hash states block_id vtxindex nameop_consensus_hash
      else rbind (getitem historic_state ''op'') (\<lambda>op.
        if op = VStr [NAME_REGISTRATION] \<or> op = VStr [NAME_IMPORT] then Inr nameop_consensus_hash
        else if op = VStr [NAME_UPDATE] then
          rbind (getitem historic_state ''consensus_hash'') (\<lambda>ch. assert_that (ch \<noteq> VNone) (Inr ch))
        else last_consensus_hash states block_id vtxindex nameop_consensus_hash)))"

definition find_transfer_consensus_hash :: "(int \<times> pydict list) list \<Rightarrow> int \<Rightarrow> int \<Rightarrow> pyval \<Rightarrow> pyval res" where
  "find_transfer_consensus_hash history block_id vtxindex nameop_consensus_hash =
    last_consensus_hash (latest_first history) block_id vtxindex nameop_consensus_hash"

definition transfer_admit :: "virtualchain \<Rightarrow> state_engine \<Rightarrow> pydict \<Rightarrow> int \<Rightarrow> (string \<times> pydict) option res" where
  "transfer_admit vc st nameop block_id =
    rbind (get_str nameop ''name_hash128'') (\<lambda>name_hash.
    rbind (get_name_from_name_hash128 st name_hash) (\<lambda>found.
    rbind (get_str nameop ''consensus_hash'') (\<lambda>consensus_hash.
    rbind (get_str nameop ''sender'') (\<lambda>sender.
    rbind (getitem nameop ''recipient_address'') (\<lambda>recipient_address.
    rbind (get_str nameop ''recipient'') (\<lambda>recipient.
    obind (Inr found) (\<lambda>name_value.
    rbind (as_str name_value) (\<lambda>name.
    obind (get_name st name None False) (\<lambda>name_rec.
    rbind (is_namespace_ready st (get_namespace_from_name name)) (\<lambda>ready. require ready (
    rbind (is_name_revoked st name) (\<lambda>revoked. require (\<not> revoked) (
    rbind (is_name_expired st name (lastblock st)) (\<lambda>expired. require (\<not> expired) (
    rbind (is_name_in_grace_period st name block_id) (\<lambda>grace. require (\<not> grace) (
    require (is_consensus_hash_valid vc block_id consensus_hash) (
    require (sender \<noteq> recipient) (
    rbind (is_name_registered st name) (\<lambda>registered. require registered (
    rbind (is_name_owner st name sender) (\<lambda>owner. require owner (
    rbind (get_names_owned_by_sender st recipient None) (\<lambda>names_owned.
    require (VStr name \<notin> set names_owned) (
    require (int (length names_owned) < MAX_NAMES_PER_SENDER) (
    rbind (epoch_has_multisig block_id) (\<lambda>multisig.
    require (\<not> is_multisig_script vc sender \<or> multisig) (
    require (get_block_from_consensus vc consensus_hash \<noteq> None)
      (Inr (Some (name, name_rec)))))))))))))))))))))))))))))))"

definition transfer_check :: "virtualchain \<Rightarrow> checker" where
  "transfer_check vc st nameop block_id checked_ops =
    obind (transfer_admit vc st nameop block_id) (\<lambda>(name, name_rec).
    rbind (namedb_get_history st name) (\<lambda>history.
    rbind (get_int nameop ''vtxindex'') (\<lambda>vtxindex.
    rbind (getitem nameop ''consensus_hash'') (\<lambda>nameop_consensus_hash.
    rbind (find_transfer_consensus_hash history block_id vtxindex nameop_consensus_hash) (\<lambda>transfer_consensus_hash.
    rbind (getitem nameop ''recipient'') (\<lambda>recipient.
    rbind (getitem nameop ''recipient_address'') (\<lambda>recipient_address.
    rbind (getitem nameop ''keep_data'') (\<lambda>keep_data.
    rbind (if truth keep_data then getitem name_rec ''value_hash'' else Inr VNone) (\<lambda>value_hash.
    let nameop = dupdate nameop [(''name'', VStr name), (''sender'', recipient), (''address'', recipient_address),
          (''sender_pubkey'', VNone), (''value_hash'', value_hash),
          (''op'', VStr [NAME_TRANSFER, if truth keep_data then TRANSFER_KEEP_DATA else TRANSFER_REMOVE_DATA])] in
    rbind (delitems nameop [''recipient'', ''recipient_address'', ''keep_data'', ''name_hash128'']) (\<lambda>nameop.
      Inr (Some (dset nameop ''consensus_hash'' transfer_consensus_hash))))))))))))"

definition check_transfer :: "virtualchain \<Rightarrow> decorated" where
  "check_transfer vc = state_transition ''name'' ''name_records'' [''consensus_hash''] False (transfer_check vc)"

definition transfer_parse :: "string \<Rightarrow> string \<Rightarrow> pydict option res" where
  "transfer_parse bin_payload recipient =
    (let at_ch = 1 + LENGTHS ''name_hash'' in
     if length bin_payload \<noteq> at_ch + LENGTHS ''consensus_hash'' then Inr None
     else let disposition_char = bin_payload ! 0; name_hash128 = slice 1 at_ch bin_payload;
              consensus_hash = drop at_ch bin_payload
     in if disposition_char \<notin> {TRANSFER_REMOVE_DATA, TRANSFER_KEEP_DATA} then Inr None
        else let disposition = (disposition_char \<noteq> TRANSFER_REMOVE_DATA)
        in case transfer_sanity_check None consensus_hash of
             Inl _ \<Rightarrow> Inr None
           | Inr rc \<Rightarrow> require rc (Inr (Some [(''opcode'', VStr ''NAME_TRANSFER''),
               (''name_hash128'', VStr (hexlify name_hash128)), (''consensus_hash'', VStr (hexlify consensus_hash)),
               (''recipient'', VStr recipient), (''keep_data'', VBool disposition)])))"

definition transfer_tx_extract ::
    "virtualchain \<Rightarrow> string \<Rightarrow> tx_sender list \<Rightarrow> tx_input list \<Rightarrow> tx_output list \<Rightarrow> int \<Rightarrow> int \<Rightarrow> string \<Rightarrow> pydict res" where
  "transfer_tx_extract vc payload senders inputs outputs block_id vtxindex txid =
    rbind (or_failed (rbind (check_tx_output_types vc (take 2 outputs) block_id) (\<lambda>ok.
      assert_that ok
        (rbind (get_transfer_recipient_from_outputs outputs) (\<lambda>recipient.
          case script_hex_to_address vc recipient of
            None \<Rightarrow> Inl AssertionError
          | Some recipient_address \<Rightarrow>
              rbind (extract_sender vc senders inputs) (\<lambda>s. Inr (recipient, recipient_address, s)))))))
      (\<lambda>(recipient, recipient_address, sender, sender_address, sender_pubkey).
    rbind (assert_some (transfer_parse payload recipient)) (\<lambda>parsed_payload.
      let ret = [(''sender'', VStr sender), (''address'', VStr sender_address), (''recipient'', VStr recipient),
            (''recipient_address'', VStr recipient_address), (''vtxindex'', VInt vtxindex), (''txid'', VStr txid),
            (''op'', VStr [NAME_TRANSFER])]
      in Inr (dset (dupdate ret parsed_payload) ''sender_pubkey'' sender_pubkey)))"

definition canonicalize_transfer :: "pydict \<Rightarrow> pydict res" where
  "canonicalize_transfer parsed_op =
    assert_that (has_key parsed_op ''op'')
      (rbind (get_str parsed_op ''op'') (\<lambda>op.
        assert_that (length op = 2)
          (if op ! 1 = TRANSFER_KEEP_DATA then Inr (dset parsed_op ''keep_data'' (VBool True))
           else if op ! 1 = TRANSFER_REMOVE_DATA then Inr (dset parsed_op ''keep_data'' (VBool False))
           else Inl ValueError)))"

section \<open>Updates\<close>

definition update_FIELDS :: "string list" where
  "update_FIELDS = NAMEREC_FIELDS @ [''name_consensus_hash'', ''consensus_hash'']"

definition update_MUTATE_FIELDS :: "string list" where
  "update_MUTATE_FIELDS = NAMEREC_MUTATE_FIELDS @ [''value_hash'', ''consensus_hash'']"

definition update_UNSTORED_CANONICAL_FIELDS :: "string list" where
  "update_UNSTORED_CANONICAL_FIELDS = [''name_consensus_hash'']"

definition update_sanity_test :: "virtualchain \<Rightarrow> string option \<Rightarrow> string \<Rightarrow> string \<Rightarrow> bool res" where
  "update_sanity_test vc name consensus_hash data_hash =
    (if (case name of None \<Rightarrow> False
         | Some n \<Rightarrow> \<not> is_b40 (VStr n) \<or> CHR ''+'' \<in> set n \<or> count_char CHR ''.'' n > 1)
     then Inl (Exception ''non-base-38 characters'')
     else if \<not> is_hex vc data_hash then Inl (Exception ''not hex'')
     else if length data_hash \<noteq> 2 * LENGTHS ''value_hash'' then Inl (Exception ''bad length'')
     else Inr True)"

definition update_admit :: "virtualchain \<Rightarrow> state_engine \<Rightarrow> pydict \<Rightarrow> int \<Rightarrow> (string \<times> string \<times> pydict) option res" where
  "update_admit vc st nameop block_id =
    rbind (get_str nameop ''name_consensus_hash'') (\<lambda>name_consensus_hash.
    rbind (get_str nameop ''sender'') (\<lambda>sender.
    rbind (get_names_owned_by_sender st sender None) (\<lambda>sender_names.
    require (int (length sender_names) \<le> MAX_NAMES_PER_SENDER) (
    obind (get_name_from_name_consensus_hash vc st name_consensus_hash sender block_id) (\<lambda>(name, consensus_hash).
    obind (get_name st name None False) (\<lambda>name_rec.
    rbind (is_namespace_ready st (get_namespace_from_name name)) (\<lambda>ready. require ready (
    rbind (is_name_revoked st name) (\<lambda>revoked. require (\<not> revoked) (
    rbind (get_namespace st (get_namespace_from_name name)) (\<lambda>ns. case ns of
      None \<Rightarrow> Inl Abort
    | Some namespace \<Rightarrow>
        rbind (getitem namespace ''lifetime'') (\<lambda>lifetime.
        rbind (if py_eq lifetime (VInt NAMESPACE_LIFE_INFINITE) then Inr True
               else rbind (is_name_expired st name (lastblock st)) (\<lambda>expired.
                 if expired then Inr False
                 else rbind (is_name_in_grace_period st name block_id) (\<lambda>grace. Inr (\<not> grace)))) (\<lambda>live. require live (
        rbind (is_name_registered st name) (\<lambda>registered. require registered (
        rbind (is_name_owner st name sender) (\<lambda>owner. require owner
          (Inr (Some (name, consensus_hash, name_rec))))))))))))))))))))"

definition update_check :: "virtualchain \<Rightarrow> checker" where
  "update_check vc st nameop block_id checked_ops =
    obind (update_admit vc st nameop block_id) (\<lambda>(name, consensus_hash, name_rec).
    rbind (getitem name_rec ''sender_pubkey'') (\<lambda>sender_pubkey.
    rbind (delitems (dupdate nameop [(''name'', VStr name), (''consensus_hash'', VStr consensus_hash),
        (''sender_pubkey'', sender_pubkey)]) [''name_consensus_hash'']) (\<lambda>nameop.
      Inr (Some nameop))))"

definition check_update :: "virtualchain \<Rightarrow> decorated" where
  "check_update vc = state_transition ''name'' ''name_records'' [] False (update_check vc)"

definition update_parse :: "virtualchain \<Rightarrow> string \<Rightarrow> pydict option res" where
  "update_parse vc bin_payload =
    (let at_vh = LENGTHS ''name_consensus_hash'' in
     if length bin_payload \<noteq> at_vh + LENGTHS ''value_hash'' then Inr None
     else let name_consensus_hash = hexlify (take at_vh bin_payload); value_hash = hexlify (drop at_vh bin_payload)
     in case update_sanity_test vc None name_consensus_hash value_hash of
          Inl _ \<Rightarrow> Inr None
        | Inr rc \<Rightarrow> require rc (Inr (Some [(''opcode'', VStr ''NAME_UPDATE''),
            (''name_consensus_hash'', VStr name_consensus_hash), (''value_hash'', VStr value_hash)])))"

definition update_tx_extract ::
    "virtualchain \<Rightarrow> string \<Rightarrow> tx_sender list \<Rightarrow> tx_input list \<Rightarrow> tx_output list \<Rightarrow> int \<Rightarrow> int \<Rightarrow> string \<Rightarrow> pydict res" where
  "update_tx_extract vc payload senders inputs outputs block_id vtxindex txid =
    rbind (or_failed (extract_sender vc senders inputs)) (\<lambda>(sender_script, sender_address, sender_pubkey).
    rbind (assert_some (update_parse vc payload)) (\<lambda>parsed_payload.
      let ret = [(''sender'', VStr sender_script), (''address'', VStr sender_address), (''vtxindex'', VInt vtxindex),
            (''txid'', VStr txid), (''op'', VStr [NAME_UPDATE])];
          ret = dupdate ret parsed_payload
      in Inr (if sender_pubkey \<noteq> VNone then dset ret ''sender_pubkey'' sender_pubkey else ret)))"

definition canonicalize_update :: "virtualchain \<Rightarrow> pydict \<Rightarrow> pydict res" where
  "canonicalize_update vc parsed_op =
    rbind (get_str parsed_op ''name'') (\<lambda>name.
    rbind (get_str parsed_op ''consensus_hash'') (\<lambda>consensus_hash.
      Inr (dset parsed_op ''name_consensus_hash''
        (VStr (hash256_trunc128 (bin_sha256 vc) (name @ consensus_hash))))))"

section \<open>Revocations\<close>

definition revoke_FIELDS :: "string list" where
  "revoke_FIELDS = NAMEREC_FIELDS"

definition revoke_MUTATE_FIELDS :: "string list" where
  "revoke_MUTATE_FIELDS = NAMEREC_MUTATE_FIELDS @ [''revoked'', ''value_hash'']"

definition revoke_check :: "checker" where
  "revoke_check st nameop block_id checked_ops =
    rbind (get_str nameop ''name'') (\<lambda>name.
    rbind (get_str nameop ''sender'') (\<lambda>sender.
    require (is_b40 (VStr name) \<and> CHR ''+'' \<notin> set name \<and> count_char CHR ''.'' name \<le> 1) (
    obind (get_name st name None False) (\<lambda>name_rec.
    rbind (is_namespace_ready st (get_namespace_from_name name)) (\<lambda>ready. require ready (
    rbind (is_name_revoked st name) (\<lambda>revoked. require (\<not> revoked) (
    rbind (is_name_expired st name block_id) (\<lambda>expired. require (\<not> expired) (
    rbind (is_name_in_grace_period st name block_id) (\<lambda>grace. require (\<not> grace) (
    rbind (is_name_registered st name) (\<lambda>registered. require registered (
    rbind (is_name_owner st name sender) (\<lambda>owner. require owner
      (Inr (Some (dupdate nameop [(''revoked'', VBool True), (''value_hash'', VNone)]))))))))))))))))))"

definition check_revoke :: "decorated" where
  "check_revoke = state_transition ''name'' ''name_records'' [] False revoke_check"

definition revoke_parse :: "string \<Rightarrow> pydict option" where
  "revoke_parse bin_payload =
    (if \<not> is_name_valid (VStr bin_payload) then None
     else Some [(''opcode'', VStr ''NAME_REVOKE''), (''name'', VStr bin_payload)])"

definition revoke_tx_extract ::
    "virtualchain \<Rightarrow> string \<Rightarrow> tx_sender list \<Rightarrow> tx_input list \<Rightarrow> tx_output list \<Rightarrow> int \<Rightarrow> int \<Rightarrow> string \<Rightarrow> pydict res" where
  "revoke_tx_extract vc payload senders inputs outputs block_id vtxindex txid =
    rbind (or_failed (extract_sender vc senders inputs)) (\<lambda>(sender_script, sender_address, sender_pubkey).
    rbind (assert_some (Inr (revoke_parse payload))) (\<lambda>parsed_payload.
      Inr (dupdate [(''sender'', VStr sender_script), (''address'', VStr sender_address), (''txid'', VStr txid),
            (''vtxindex'', VInt vtxindex), (''op'', VStr [NAME_REVOKE])] parsed_payload)))"

section \<open>Only the owner acts\<close>

lemma transfer_admits:
  assumes "transfer_admit vc st nameop b = Inr (Some (name, name_rec))"
  shows "\<exists>sender recipient hash names ch. map_of nameop ''sender'' = Some (VStr sender) \<and>
    map_of nameop ''recipient'' = Some (VStr recipient) \<and> map_of nameop ''name_hash128'' = Some (VStr hash) \<and>
    map_of nameop ''consensus_hash'' = Some (VStr ch) \<and>
    get_name_from_name_hash128 st hash = Inr (Some (VStr name)) \<and> get_name st name None False = Inr (Some name_rec) \<and>
    is_name_owner st name sender = Inr True \<and>
    is_namespace_ready st (get_namespace_from_name name) = Inr True \<and>
    is_name_in_grace_period st name b = Inr False \<and> is_consensus_hash_valid vc b ch \<and> sender \<noteq> recipient \<and>
    get_names_owned_by_sender st recipient None = Inr names \<and> VStr name \<notin> set names \<and>
    int (length names) < MAX_NAMES_PER_SENDER"
  using assms unfolding transfer_admit_def by (auto simp: res_simps)

lemma update_admits:
  assumes "update_admit vc st nameop b = Inr (Some (name, ch, name_rec))"
  shows "\<exists>sender hash. map_of nameop ''sender'' = Some (VStr sender) \<and>
    map_of nameop ''name_consensus_hash'' = Some (VStr hash) \<and>
    get_name_from_name_consensus_hash vc st hash sender b = Inr (Some (name, ch)) \<and>
    is_name_owner st name sender = Inr True \<and> is_namespace_ready st (get_namespace_from_name name) = Inr True"
  using assms unfolding update_admit_def by (auto simp: res_simps split: option.splits)

lemma revoke_admits:
  assumes "revoke_check st nameop b ops = Inr (Some op)"
  shows "\<exists>sender name. map_of nameop ''sender'' = Some (VStr sender) \<and> map_of nameop ''name'' = Some (VStr name) \<and>
    is_name_owner st name sender = Inr True \<and> is_namespace_ready st (get_namespace_from_name name) = Inr True \<and>
    is_name_expired st name b = Inr False \<and> is_name_in_grace_period st name b = Inr False \<and>
    op = dset (dset nameop ''revoked'' (VBool True)) ''value_hash'' VNone"
  using assms unfolding revoke_check_def by (auto simp: res_simps)

lemma find_SomeD: "List.find P xs = Some x \<Longrightarrow> x \<in> set xs \<and> P x"
  by (auto simp: find_Some_iff)

lemma name_consensus_hash_found:
  assumes "get_name_from_name_consensus_hash vc st hash sender b = Inr (Some (name, ch))"
  shows "ch \<in> set (recent_consensus_hashes vc b) \<and> hash = hash256_trunc128 (bin_sha256 vc) (name @ ch)"
  using assms by (auto simp: get_name_from_name_consensus_hash_def res_simps dest!: find_SomeD split: pyval.splits)

text \<open>What an accepted transfer rewrites.\<close>

lemma transfer_check_Some:
  assumes "transfer_check vc st nameop b ops = Inr (Some op)"
  obtains name name_rec recipient keep_data where "transfer_admit vc st nameop b = Inr (Some (name, name_rec))"
    and "map_of nameop ''recipient'' = Some recipient" and "map_of nameop ''keep_data'' = Some keep_data"
    and "map_of op ''name'' = Some (VStr name)" and "map_of op ''sender'' = Some recipient"
    and "map_of op ''address'' = map_of nameop ''recipient_address''"
    and "map_of op ''value_hash'' = (if truth keep_data then map_of name_rec ''value_hash'' else Some VNone)"
proof -
  from assms obtain name name_rec where admit: "transfer_admit vc st nameop b = Inr (Some (name, name_rec))"
    by (auto simp: transfer_check_def obind_eq_Some simp del: edits)
  with assms obtain recipient recipient_address keep_data value_hash op1 ch where
    f: "map_of nameop ''recipient'' = Some recipient" "map_of nameop ''recipient_address'' = Some recipient_address"
      "map_of nameop ''keep_data'' = Some keep_data"
      "(if truth keep_data then getitem name_rec ''value_hash'' else Inr VNone) = Inr value_hash"
    and d: "delitems (dupdate nameop [(''name'', VStr name), (''sender'', recipient), (''address'', recipient_address),
          (''sender_pubkey'', VNone), (''value_hash'', value_hash),
          (''op'', VStr [NAME_TRANSFER, if truth keep_data then TRANSFER_KEEP_DATA else TRANSFER_REMOVE_DATA])])
        [''recipient'', ''recipient_address'', ''keep_data'', ''name_hash128''] = Inr op1"
    and op: "op = dset op1 ''consensus_hash'' ch"
    by (auto simp: transfer_check_def res_simps dict_simps Let_def simp del: edits split del: if_split)
  show thesis
  proof (rule that [OF admit f(1,3)])
    show "map_of op ''value_hash'' = (if truth keep_data then map_of name_rec ''value_hash'' else Some VNone)"
      using f(4) by (cases "truth keep_data") (simp_all add: op map_of_delitems [OF d] getitem_eq_Inr)
  qed (simp_all add: op map_of_delitems [OF d] f)
qed

lemma update_check_Some:
  assumes "update_check vc st nameop b ops = Inr (Some op)"
  obtains name consensus_hash name_rec where "update_admit vc st nameop b = Inr (Some (name, consensus_hash, name_rec))"
    and "map_of op ''name'' = Some (VStr name)" and "map_of op ''consensus_hash'' = Some (VStr consensus_hash)"
    and "map_of op ''value_hash'' = map_of nameop ''value_hash''" and "map_of op ''sender'' = map_of nameop ''sender''"
  using assms unfolding update_check_def
  by (auto simp: res_simps simp del: delitems.simps dest!: map_of_delitems)

text \<open>
  The contract of an operation on an existing name: when it is accepted, its sender owns the name
  that the accepted operation carries, and neither the state nor the operations accepted before
  change.
\<close>

locale owner_operation =
  fixes chk :: decorated
  assumes by_owner: "chk st nameop b ops = Inr (Some op, st', ops') \<Longrightarrow>
    \<exists>name sender. map_of nameop ''sender'' = Some (VStr sender) \<and> map_of op ''name'' = Some (VStr name) \<and>
      owns st sender name \<and> st' = st \<and> ops' = ops"
begin

lemma stranger_rejected:
  assumes "map_of nameop ''sender'' = Some (VStr sender)" and "\<And>name. \<not> owns st sender name"
  shows "chk st nameop b ops \<noteq> Inr (Some op, st', ops')"
  using by_owner [of st nameop b ops op st' ops'] assms by auto

end

lemma decorated_by_owner:
  assumes "state_transition key table always_set spends check st nameop b ops = Inr (Some op, st', ops')"
    and "\<And>op. check st nameop b ops = Inr (Some op) \<Longrightarrow> \<exists>name sender. map_of nameop ''sender'' = Some (VStr sender) \<and>
      map_of op ''name'' = Some (VStr name) \<and> owns st sender name"
  shows "\<exists>name sender. map_of nameop ''sender'' = Some (VStr sender) \<and> map_of op ''name'' = Some (VStr name) \<and>
      owns st sender name \<and> st' = st \<and> ops' = ops"
  using state_transition_accepts [OF assms(1)] assms(2) by (fastforce simp: same_fields_def decorator_tags_def)

interpretation transfer: owner_operation "check_transfer vc"
  unfolding check_transfer_def
  by unfold_locales (erule decorated_by_owner, elim transfer_check_Some, fastforce dest!: transfer_admits is_name_owner_True)

interpretation update: owner_operation "check_update vc"
  unfolding check_update_def
  by unfold_locales (erule decorated_by_owner, elim update_check_Some, fastforce dest!: update_admits is_name_owner_True)

interpretation revoke: owner_operation check_revoke
  unfolding check_revoke_def
  by unfold_locales (erule decorated_by_owner, fastforce dest!: revoke_admits is_name_owner_True)

lemma renewal_by_owner:
  assumes "renewal_check vc st nameop b ops = Inr (Some op)"
  shows "\<exists>name sender. map_of nameop ''sender'' = Some (VStr sender) \<and>
      map_of op ''name'' = Some (VStr name) \<and> owns st sender name"
  using assms by (elim renewal_check_Some) (auto dest!: renewal_admits is_name_owner_True)

interpretation renewal: owner_operation "check_renewal vc"
  unfolding check_renewal_def
  by unfold_locales (erule decorated_by_owner, erule renewal_by_owner)



text \<open>
  C13: An accepted transfer is sent by the owner of a live, unrevoked name outside its grace period,
  in a launched namespace, with a valid consensus hash, to another party that holds fewer names than
  the quota allows. The recipient becomes the owner; the name keeps its value hash if the transfer
  says so and loses it otherwise.
\<close>

theorem name_transfer_effect:
  assumes "check_transfer vc st nameop b ops = Inr (Some op, st', ops')"
  shows "\<exists>name sender recipient ch names prev keep_data.
    map_of nameop ''sender'' = Some (VStr sender) \<and> map_of nameop ''recipient'' = Some (VStr recipient) \<and>
    map_of nameop ''consensus_hash'' = Some (VStr ch) \<and> map_of nameop ''keep_data'' = Some keep_data \<and>
    owns st sender name \<and> (\<exists>ns. ready_namespace st (get_namespace_from_name name) ns) \<and>
    is_name_in_grace_period st name b = Inr False \<and> is_consensus_hash_valid vc b ch \<and> sender \<noteq> recipient \<and>
    get_names_owned_by_sender st recipient None = Inr names \<and> int (length names) < MAX_NAMES_PER_SENDER \<and>
    get_name st name None False = Inr (Some prev) \<and>
    map_of op ''name'' = Some (VStr name) \<and> map_of op ''sender'' = Some (VStr recipient) \<and>
    map_of op ''address'' = map_of nameop ''recipient_address'' \<and>
    map_of op ''value_hash'' = (if truth keep_data then map_of prev ''value_hash'' else Some VNone) \<and>
    st' = st \<and> ops' = ops"
proof -
  from state_transition_accepts [OF assms [unfolded check_transfer_def]] obtain op1
    where op1: "transfer_check vc st nameop b ops = Inr (Some op1)" "same_fields op op1" "st' = st" "ops' = ops"
    by auto
  have op: "map_of op k = map_of op1 k" if "k \<notin> set decorator_tags" for k
    using same_fieldsD [OF op1(2) that] .
  from op1(1) show ?thesis
  proof (rule transfer_check_Some)
    fix name prev recipient keep_data
    assume a: "transfer_admit vc st nameop b = Inr (Some (name, prev))"
      and f: "map_of nameop ''recipient'' = Some recipient" "map_of nameop ''keep_data'' = Some keep_data"
        "map_of op1 ''name'' = Some (VStr name)" "map_of op1 ''sender'' = Some recipient"
        "map_of op1 ''address'' = map_of nameop ''recipient_address''"
        "map_of op1 ''value_hash'' = (if truth keep_data then map_of prev ''value_hash'' else Some VNone)"
    from transfer_admits [OF a] show ?thesis
      using f op1(3,4) by (auto simp: op decorator_tags_def) (blast intro: is_name_owner_True is_namespace_ready_True)+
  qed
qed

definition example_transfer :: pydict where
  "example_transfer = [(''sender'', VStr ''76a9''), (''address'', VStr ''1owner''), (''recipient'', VStr ''76aa''),
     (''recipient_address'', VStr ''1new''), (''vtxindex'', VInt 2), (''txid'', VStr ''dd''), (''op'', VStr [NAME_TRANSFER]),
     (''opcode'', VStr ''NAME_TRANSFER''), (''name_hash128'', VStr ''abcd''), (''consensus_hash'', VStr ''ch''),
     (''keep_data'', VBool True), (''sender_pubkey'', VNone)]"

lemma example_transfer_admit:
  "transfer_admit example_vc owned_example example_transfer 590001 = Inr (Some (''ab.id'',
     dset (example_name_rec ''76a9'' 500000) ''opcode'' (VStr ''NAME_REGISTRATION'')))"
proof -
  have "get_name_from_name_hash128 owned_example ''abcd'' = Inr (Some (VStr ''ab.id''))"
    by (simp add: get_name_from_name_hash128_def namedb_get_name_from_name_hash128_def join_namespaces_def example_with_def
        live_example_unexpired)
      (simp add: example_name_row_def example_namespace_row_def text_col_def int_col_def sql_cmp_def dget_def)
  moreover have "get_names_owned_by_sender owned_example ''76aa'' None = Inr []"
    by (simp add: get_names_owned_by_sender_def namedb_get_names_by_sender_def join_namespaces_def example_with_def
        example_name_row_def text_col_def)
  ultimately show ?thesis
    by (simp add: transfer_admit_def example_transfer_def live_example_queries live_example_deadlines
      live_example_get_name get_namespace_from_name_def as_str_def get_str_def getitem_def
      epoch_has_multisig_def epoch_of_def epoch_tables MAX_NAMES_PER_SENDER_def)
qed

lemma example_transfer_accepted:
  obtains op where "check_transfer example_vc owned_example example_transfer 590001 [] = Inr (Some op, owned_example, [])"
proof -
  have "namedb_get_history owned_example ''ab.id'' = Inr []"
    by (simp add: namedb_get_history_def namedb_get_history_rows_def namedb_history_extract_def example_with_def history_order_def)
  then have "\<exists>op. transfer_check example_vc owned_example example_transfer 590001 [] = Inr (Some op) \<and>
      has_keys op CONSENSUS_FIELDS_REQUIRED"
    by (simp add: transfer_check_def example_transfer_admit Let_def)
      (simp add: example_transfer_def example_name_rec_def example_name_row_def find_transfer_consensus_hash_def latest_first_def
        has_key_def dset_def dget_def getitem_def get_int_def delitem_def has_keys_def CONSENSUS_FIELDS_REQUIRED_def)
  then show thesis
    using that state_transition_accepted [of "transfer_check example_vc" _ _ _ _ _ False] unfolding check_transfer_def by metis
qed

theorem name_transfer_effect_witness:
  "\<exists>op. check_transfer example_vc owned_example example_transfer 590001 [] = Inr (Some op, owned_example, []) \<and>
     map_of op ''sender'' = Some (VStr ''76aa'') \<and>
     (\<exists>name. owns owned_example ''76a9'' name \<and> map_of op ''name'' = Some (VStr name))"
proof -
  obtain op where a: "check_transfer example_vc owned_example example_transfer 590001 [] = Inr (Some op, owned_example, [])"
    by (rule example_transfer_accepted)
  then show ?thesis
    using name_transfer_effect [OF a] by (auto simp: example_transfer_def)
qed


definition example_update :: pydict where
  "example_update = [(''sender'', VStr ''76a9''), (''address'', VStr ''1owner''), (''vtxindex'', VInt 2), (''txid'', VStr ''dd''),
     (''op'', VStr [NAME_UPDATE]), (''opcode'', VStr ''NAME_UPDATE''),
     (''name_consensus_hash'', VStr (hexlify ''ab.idch'')), (''value_hash'', VStr ''00ff'')]"

lemma owned_example_names: "namedb_get_names_by_sender owned_example ''76a9'' 590000 = Inr [VStr ''ab.id'']"
  by (simp add: namedb_get_names_by_sender_def join_namespaces_def example_with_def live_example_unexpired)
    (simp add: example_name_row_def example_namespace_row_def text_col_def int_col_def sql_cmp_def dget_def getitem_def)

lemma example_recent: "recent_consensus_hashes example_vc 590001 = [''ch'']"
  by code_simp

lemma example_update_accepted:
  obtains op where "check_update example_vc owned_example example_update 590001 [] = Inr (Some op, owned_example, [])"
proof -
  have "get_name_from_name_consensus_hash example_vc owned_example (hexlify ''ab.idch'') ''76a9'' 590001 = Inr (Some (''ab.id'', ''ch''))"
    by (simp add: get_name_from_name_consensus_hash_def owned_example_names example_recent hash256_trunc128_def)
  then have "update_admit example_vc owned_example example_update 590001 = Inr (Some (''ab.id'', ''ch'',
     dset (example_name_rec ''76a9'' 500000) ''opcode'' (VStr ''NAME_REGISTRATION'')))"
    by (simp add: update_admit_def example_update_def get_names_owned_by_sender_def owned_example_names live_example_queries
      live_example_deadlines live_example_get_name live_example_get_namespace get_namespace_from_name_def as_str_def
      get_str_def getitem_def MAX_NAMES_PER_SENDER_def)
     (simp add: example_namespace_rec_def example_namespace_row_def NAMESPACE_LIFE_INFINITE_def live_example_deadlines)
  then have "\<exists>op. update_check example_vc owned_example example_update 590001 [] = Inr (Some op) \<and>
      has_keys op CONSENSUS_FIELDS_REQUIRED"
    by (simp add: update_check_def Let_def)
      (simp add: example_update_def example_name_rec_def example_name_row_def
        has_key_def dset_def dget_def getitem_def get_int_def delitem_def has_keys_def CONSENSUS_FIELDS_REQUIRED_def)
  then show thesis
    using that state_transition_accepted [of "update_check example_vc" _ _ _ _ _ False] unfolding check_update_def by metis
qed


text \<open>
  C15: An accepted revocation is sent by the owner of a live name outside its grace period; it marks
  the name revoked and clears its value hash, and changes no other field.
\<close>

theorem name_revoke_effect:
  assumes "check_revoke st nameop b ops = Inr (Some op, st', ops')"
  shows "\<exists>name sender. map_of nameop ''sender'' = Some (VStr sender) \<and> map_of nameop ''name'' = Some (VStr name) \<and>
    owns st sender name \<and> (\<exists>ns. ready_namespace st (get_namespace_from_name name) ns) \<and>
    (\<exists>n ns. live_name st name b n ns) \<and> is_name_in_grace_period st name b = Inr False \<and>
    map_of op ''revoked'' = Some (VBool True) \<and> map_of op ''value_hash'' = Some VNone \<and>
    (\<forall>k. k \<notin> set decorator_tags \<union> {''revoked'', ''value_hash''} \<longrightarrow> map_of op k = map_of nameop k) \<and>
    st' = st \<and> ops' = ops"
proof -
  from state_transition_accepts [OF assms [unfolded check_revoke_def]] obtain op1
    where op1: "revoke_check st nameop b ops = Inr (Some op1)" "same_fields op op1" "st' = st" "ops' = ops"
    by auto
  from revoke_admits [OF op1(1)] obtain sender name where n: "map_of nameop ''sender'' = Some (VStr sender)"
    "map_of nameop ''name'' = Some (VStr name)" "is_name_in_grace_period st name b = Inr False"
    and q: "is_name_owner st name sender = Inr True" "is_namespace_ready st (get_namespace_from_name name) = Inr True"
      "is_name_expired st name b = Inr False"
    and f: "op1 = dset (dset nameop ''revoked'' (VBool True)) ''value_hash'' VNone"
    by auto
  have "\<forall>k. k \<notin> set decorator_tags \<longrightarrow> map_of op k = map_of op1 k"
    using op1(2) by (simp add: same_fields_def)
  then show ?thesis
    using n f op1(3,4) is_name_owner_True [OF q(1)] is_namespace_ready_True [OF q(2)] is_name_expired_False [OF q(3)]
    by (intro exI [of _ name] exI [of _ sender]) (simp add: decorator_tags_def)
qed

definition example_revoke :: pydict where
  "example_revoke = [(''name'', VStr ''ab.id''), (''sender'', VStr ''76a9''), (''address'', VStr ''1owner''),
     (''vtxindex'', VInt 2), (''txid'', VStr ''dd''), (''op'', VStr [NAME_REVOKE]), (''opcode'', VStr ''NAME_REVOKE'')]"

lemma example_revoke_accepted:
  obtains op where "check_revoke owned_example example_revoke 590001 [] = Inr (Some op, owned_example, [])"
proof -
  have "\<exists>op. revoke_check owned_example example_revoke 590001 [] = Inr (Some op) \<and> has_keys op CONSENSUS_FIELDS_REQUIRED"
    by (simp add: revoke_check_def example_revoke_def live_example_queries live_example_deadlines live_example_get_name
      example_label get_namespace_from_name_def get_str_def getitem_def has_keys_def has_key_def CONSENSUS_FIELDS_REQUIRED_def)
  then show thesis
    using that state_transition_accepted [of revoke_check _ _ _ _ _ False] unfolding check_revoke_def by metis
qed

theorem name_revoke_effect_witness:
  "\<exists>op. check_revoke owned_example example_revoke 590001 [] = Inr (Some op, owned_example, []) \<and>
     map_of op ''revoked'' = Some (VBool True) \<and> owns owned_example ''76a9'' ''ab.id''"
proof -
  obtain op where a: "check_revoke owned_example example_revoke 590001 [] = Inr (Some op, owned_example, [])"
    by (rule example_revoke_accepted)
  then show ?thesis
    using name_revoke_effect [OF a] by (auto simp: example_revoke_def)
qed

end
