(* ===== verification/OpNamespace.thy ===== *)
theory OpNamespace
  imports OpPreorder
begin

text \<open>
  The life of a namespace after its preorder: \<open>lib/operations/namespacereveal.py\<close>, which fixes the
  rules of the namespace and opens it for the import of names, and \<open>namespaceready.py\<close>, which
  launches it.
\<close>

section \<open>Reveals\<close>

definition namespacereveal_FIELDS :: "string list" where
  "namespacereveal_FIELDS = [''namespace_id'', ''preorder_hash'', ''version'', ''sender'', ''sender_pubkey'', ''address'',
     ''recipient'', ''recipient_address'', ''block_number'', ''reveal_block'', ''op'', ''txid'', ''vtxindex'', ''lifetime'',
     ''coeff'', ''base'', ''buckets'', ''nonalpha_discount'', ''no_vowel_discount'']"

definition namespacereveal_MUTATE_FIELDS :: "string list" where
  "namespacereveal_MUTATE_FIELDS = filter (\<lambda>f. f \<notin> {''block_number''}) namespacereveal_FIELDS @ [''token_fee'']"

definition well_formed_namespace_id :: "string \<Rightarrow> bool" where
  "well_formed_namespace_id namespace_id \<longleftrightarrow>
     is_b40 (VStr namespace_id) \<and> CHR ''+'' \<notin> set namespace_id \<and> count_char CHR ''.'' namespace_id = 0"

definition namespacereveal_sanity_check ::
    "string \<Rightarrow> int \<Rightarrow> int \<Rightarrow> int \<Rightarrow> int \<Rightarrow> int list \<Rightarrow> int \<Rightarrow> int \<Rightarrow> bool res" where
  "namespacereveal_sanity_check namespace_id version lifetime coeff base bucket_exponents nonalpha_discount no_vowel_discount =
    (if \<not> well_formed_namespace_id namespace_id then Inl (Exception ''non-base-38 characters'')
     else if length namespace_id > LENGTHS ''blockchain_id_namespace_id'' then Inl (Exception ''Invalid namespace ID length'')
     else if version \<notin> {NAMESPACE_VERSION_PAY_TO_BURN, NAMESPACE_VERSION_PAY_TO_CREATOR, NAMESPACE_VERSION_PAY_WITH_STACKS}
     then Inl (Exception ''Invalid namespace version bits'')
     else if coeff < 0 \<or> coeff > 255 then Inl (Exception ''Invalid cost multiplier'')
     else if base < 0 \<or> base > 255 then Inl (Exception ''Invalid base price'')
     else if length bucket_exponents \<noteq> 16 then Inl (Exception ''Exactly 16 buckets required'')
     else if list_ex (\<lambda>e. e < 0 \<or> e > 15) bucket_exponents then Inl (Exception ''Invalid bucket exponent'')
     else if nonalpha_discount \<le> 0 \<or> nonalpha_discount > 15 then Inl (Exception ''Invalid non-alpha discount'')
     else if no_vowel_discount \<le> 0 \<or> no_vowel_discount > 15 then Inl (Exception ''Invalid no-vowel discount'')
     else Inr True)"

definition version_supported :: "int \<Rightarrow> feature list \<Rightarrow> bool" where
  "version_supported namespace_version_bits epoch_features =
    (if namespace_version_bits = NAMESPACE_VERSION_PAY_TO_CREATOR then
       EPOCH_FEATURE_NAMESPACE_BURN_TO_CREATOR \<in> set epoch_features
     else if namespace_version_bits = NAMESPACE_VERSION_PAY_WITH_STACKS then
       EPOCH_FEATURE_NAMESPACE_PAY_WITH_STACKS \<in> set epoch_features
     else namespace_version_bits = NAMESPACE_VERSION_PAY_TO_BURN)"

text \<open>The tokens that the preorder paid, or \<open>None\<close> when it did not pay enough.\<close>

definition namespace_tokens_paid :: "string \<Rightarrow> pydict \<Rightarrow> int \<Rightarrow> feature list \<Rightarrow> int option res" where
  "namespace_tokens_paid namespace_id namespace_preorder block_id epoch_features =
    rbind (getitem namespace_preorder ''token_units'') (\<lambda>units.
      if py_eq units (VStr ''STACKS'') then
        if EPOCH_FEATURE_STACKS_BUY_NAMESPACES \<notin> set epoch_features then Inl Abort
        else require (has_key namespace_preorder ''token_fee'') (
          rbind (getitem namespace_preorder ''token_fee'') (\<lambda>tokens_paid.
            case py_int tokens_paid of
              None \<Rightarrow> Inl AssertionError
            | Some paid \<Rightarrow>
                rbind (price_namespace namespace_id block_id ''STACKS'') (\<lambda>token_namespace_fee.
                  require (token_namespace_fee \<noteq> VNone \<and> \<not> py_lt tokens_paid token_namespace_fee) (Inr (Some paid)))))
      else if py_eq units (VStr ''BTC'') then
        require (has_key namespace_preorder ''op_fee'') (
          rbind (getitem namespace_preorder ''op_fee'') (\<lambda>namespace_fee.
          rbind (price_namespace namespace_id block_id ''BTC'') (\<lambda>price.
            require (\<not> py_lt namespace_fee price) (Inr (Some 0)))))
      else Inl Abort)"

definition namespacereveal_check :: "checker" where
  "namespacereveal_check st nameop block_id checked_ops =
    rbind (get_epoch_features block_id) (\<lambda>epoch_features.
    rbind (get_str nameop ''namespace_id'') (\<lambda>namespace_id.
    rbind (get_str nameop ''preorder_hash'') (\<lambda>namespace_id_hash.
    rbind (get_str nameop ''sender'') (\<lambda>sender.
    require (has_key nameop ''sender_pubkey'' \<and> has_key nameop ''recipient'' \<and> has_key nameop ''recipient_address'') (
    require (well_formed_namespace_id namespace_id) (
    rbind (is_namespace_revealed st namespace_id) (\<lambda>revealed. require (\<not> revealed) (
    rbind (is_namespace_ready st namespace_id) (\<lambda>ready. require (\<not> ready) (
    obind (get_namespace_preorder st namespace_id_hash) (\<lambda>namespace_preorder.
    rbind (getitem namespace_preorder ''sender'') (\<lambda>preorderer. require (py_eq preorderer (VStr sender)) (
    rbind (getitem nameop ''version'') (\<lambda>version.
    rbind (to_int version) (\<lambda>namespace_version_bits.
    require (version_supported namespace_version_bits epoch_features) (
    obind (namespace_tokens_paid namespace_id namespace_preorder block_id epoch_features) (\<lambda>tokens_paid.
    rbind (get_namespace_op_state st namespace_id block_id True) (\<lambda>old_namespace.
    rbind (getitem namespace_preorder ''block_number'') (\<lambda>preorder_block_number.
    rbind (getitem (case old_namespace of None \<Rightarrow> namespace_preorder | Some ns \<Rightarrow> ns) ''block_number'')
      (\<lambda>namespace_block_number.
    rbind (getitem namespace_preorder ''op_fee'') (\<lambda>op_fee.
      let nameop = dupdate nameop [(''block_number'', namespace_block_number), (''reveal_block'', VInt block_id)];
          nameop = state_create_put_preorder nameop (Some namespace_preorder)
      in Inr (Some (dupdate nameop [(''ready_block'', VInt 0), (''op_fee'', op_fee),
           (''token_fee'', VStr (str_of_int tokens_paid))])))))))))))))))))))))))"

definition check_namespace_reveal :: "decorated" where
  "check_namespace_reveal = state_create ''namespace_id'' ''namespaces'' ''check_namespace_collision'' [] namespacereveal_check"

definition get_reveal_recipient_from_outputs :: "tx_output list \<Rightarrow> string res" where
  "get_reveal_recipient_from_outputs outputs =
    (if length outputs \<noteq> 3 then Inl (Exception ''Outputs are not from a namespace reveal'')
     else Inr (out_script (outputs ! 1)))"

text \<open>
  The payload after the opcode: lifetime (4 bytes), coefficient, base, sixteen 4-bit price buckets,
  two 4-bit discounts, version (2 bytes) and the namespace itself.
\<close>

definition hex_digits :: "string \<Rightarrow> int list" where
  "hex_digits s = map (\<lambda>c. int (the (hexval c))) s"

definition namespacereveal_parse :: "virtualchain \<Rightarrow> string \<Rightarrow> string \<Rightarrow> string \<Rightarrow> pydict option res" where
  "namespacereveal_parse vc bin_payload sender_script recipient_address =
    (if length bin_payload < MIN_OP_LENGTHS ''namespace_reveal'' then Inl AssertionError
     else
       let at_coeff = LENGTHS ''blockchain_id_namespace_life'';
           at_base = at_coeff + LENGTHS ''blockchain_id_namespace_coeff'';
           at_buckets = at_base + LENGTHS ''blockchain_id_namespace_base'';
           at_discounts = at_buckets + LENGTHS ''blockchain_id_namespace_buckets'';
           at_version = at_discounts + LENGTHS ''blockchain_id_namespace_discounts'';
           at_id = at_version + LENGTHS ''blockchain_id_namespace_version'';
           life = big_endian (slice 0 at_coeff bin_payload);
           coeff = big_endian (slice at_coeff at_base bin_payload);
           base = big_endian (slice at_base at_buckets bin_payload);
           buckets = hex_digits (hexlify (slice at_buckets at_discounts bin_payload));
           discounts = hex_digits (hexlify (slice at_discounts at_version bin_payload));
           version = big_endian (slice at_version at_id bin_payload);
           namespace_id = drop at_id bin_payload
       in case hash_name (hex_hash160 vc) (VStr namespace_id) sender_script (Some recipient_address) of
            Inl _ \<Rightarrow> Inr None
          | Inr namespace_id_hash \<Rightarrow>
              (case namespacereveal_sanity_check namespace_id version life coeff base buckets (discounts ! 0) (discounts ! 1) of
                 Inl _ \<Rightarrow> Inr None
               | Inr rc \<Rightarrow> require rc (Inr (Some [(''opcode'', VStr ''NAMESPACE_REVEAL''), (''lifetime'', VInt life),
                   (''coeff'', VInt coeff), (''base'', VInt base), (''buckets'', VList (map VInt buckets)),
                   (''version'', VInt version), (''nonalpha_discount'', VInt (discounts ! 0)),
                   (''no_vowel_discount'', VInt (discounts ! 1)), (''namespace_id'', VStr namespace_id),
                   (''preorder_hash'', VStr namespace_id_hash)]))))"

definition namespacereveal_tx_extract ::
    "virtualchain \<Rightarrow> string \<Rightarrow> tx_sender list \<Rightarrow> tx_input list \<Rightarrow> tx_output list \<Rightarrow> int \<Rightarrow> int \<Rightarrow> string \<Rightarrow> pydict res" where
  "namespacereveal_tx_extract vc payload senders inputs outputs block_id vtxindex txid =
    rbind (or_failed (rbind (check_tx_output_types vc (take 2 outputs) block_id) (\<lambda>ok.
      assert_that ok
        (rbind (get_reveal_recipient_from_outputs outputs) (\<lambda>recipient_script.
          case script_hex_to_address vc recipient_script of
            None \<Rightarrow> Inl AssertionError
          | Some recipient_address \<Rightarrow>
              rbind (extract_sender vc senders inputs) (\<lambda>s. Inr (recipient_script, recipient_address, s)))))))
      (\<lambda>(recipient_script, recipient_address, sender_script, sender_address, sender_pubkey).
    rbind (assert_some (namespacereveal_parse vc payload sender_script recipient_address)) (\<lambda>parsed_payload.
      let ret = [(''sender'', VStr sender_script), (''address'', VStr sender_address), (''recipient'', VStr recipient_script),
            (''recipient_address'', VStr recipient_address), (''reveal_block'', VInt block_id), (''vtxindex'', VInt vtxindex),
            (''txid'', VStr txid), (''op'', VStr [NAMESPACE_REVEAL])]
      in Inr (dset (dupdate ret parsed_payload) ''sender_pubkey'' sender_pubkey)))"

section \<open>Launches\<close>

definition namespaceready_FIELDS :: "string list" where
  "namespaceready_FIELDS = namespacereveal_FIELDS @ [''ready_block'']"

definition namespaceready_MUTATE_FIELDS :: "string list" where
  "namespaceready_MUTATE_FIELDS = NAMEREC_MUTATE_FIELDS @ [''ready_block'', ''sender'']"

definition namespaceready_check :: "checker" where
  "namespaceready_check st nameop block_id checked_ops =
    rbind (get_str nameop ''namespace_id'') (\<lambda>namespace_id.
    rbind (get_str nameop ''sender'') (\<lambda>sender.
    rbind (is_namespace_revealed st namespace_id) (\<lambda>revealed. require revealed (
    rbind (get_namespace_reveal st namespace_id) (\<lambda>rec. case rec of
      None \<Rightarrow> Inl TypeError
    | Some revealed_namespace \<Rightarrow>
        rbind (getitem revealed_namespace ''recipient'') (\<lambda>recipient. require (py_eq recipient (VStr sender)) (
        rbind (is_namespace_ready st namespace_id) (\<lambda>ready. require (\<not> ready) (
        rbind (getitem revealed_namespace ''sender_pubkey'') (\<lambda>sender_pubkey.
        rbind (getitem revealed_namespace ''address'') (\<lambda>address.
          Inr (Some (dupdate nameop [(''sender_pubkey'', sender_pubkey), (''address'', address)])))))))))))))"

definition check_namespace_ready :: "decorated" where
  "check_namespace_ready = state_transition ''namespace_id'' ''namespaces'' [] False namespaceready_check"

definition namespaceready_parse :: "string \<Rightarrow> pydict option" where
  "namespaceready_parse bin_payload =
    (if bin_payload = [] \<or> hd bin_payload \<noteq> CHR ''.'' then None
     else let namespace_id = tl bin_payload
     in if \<not> well_formed_namespace_id namespace_id then None
        else if length namespace_id = 0 \<or> length namespace_id > LENGTHS ''blockchain_id_namespace_id'' then None
        else Some [(''opcode'', VStr ''NAMESPACE_READY''), (''namespace_id'', VStr namespace_id)])"

definition namespaceready_tx_extract ::
    "virtualchain \<Rightarrow> string \<Rightarrow> tx_sender list \<Rightarrow> tx_input list \<Rightarrow> tx_output list \<Rightarrow> int \<Rightarrow> int \<Rightarrow> string \<Rightarrow> pydict res" where
  "namespaceready_tx_extract vc payload senders inputs outputs block_id vtxindex txid =
    rbind (or_failed (extract_sender vc senders inputs)) (\<lambda>(sender_script, sender_address, sender_pubkey).
    rbind (assert_some (Inr (namespaceready_parse payload))) (\<lambda>parsed_payload.
      let ret = dupdate [(''sender'', VStr sender_script), (''address'', VStr sender_address), (''ready_block'', VInt block_id),
            (''vtxindex'', VInt vtxindex), (''txid'', VStr txid), (''op'', VStr [NAMESPACE_READY])] parsed_payload
      in Inr (if sender_pubkey \<noteq> VNone then dset ret ''sender_pubkey'' sender_pubkey else ret)))"

section \<open>What an accepted reveal has met\<close>

text \<open>
  The preorder \<open>p\<close> paid for the namespace, in tokens or in bitcoin. (Where the table of bitcoin
  prices is empty the price is \<open>None\<close>, and any fee passes.)
\<close>

definition namespace_paid :: "string \<Rightarrow> pydict \<Rightarrow> int \<Rightarrow> bool" where
  "namespace_paid namespace_id p b \<longleftrightarrow>
     (\<exists>fee price. map_of p ''token_units'' = Some (VStr ''STACKS'') \<and> map_of p ''token_fee'' = Some fee \<and>
        price_namespace namespace_id b ''STACKS'' = Inr price \<and> price \<noteq> VNone \<and> \<not> py_lt fee price) \<or>
     (\<exists>fee price. map_of p ''token_units'' = Some (VStr ''BTC'') \<and> map_of p ''op_fee'' = Some fee \<and>
        price_namespace namespace_id b ''BTC'' = Inr price \<and> \<not> py_lt fee price)"

lemma namespace_tokens_paid_Some:
  assumes "namespace_tokens_paid namespace_id p b fs = Inr (Some paid)"
  shows "namespace_paid namespace_id p b"
  using assms unfolding namespace_tokens_paid_def namespace_paid_def
  by (clarsimp simp: res_simps dict_simps split: if_splits) (elim disjE; fastforce simp: res_simps)

lemma namespace_preorder_found:
  assumes "get_namespace_preorder st hash = Inr (Some p)"
  shows "\<exists>row. row \<in> set (preorder_rows st) \<and> text_col row ''preorder_hash'' hash \<and> op_is row NAMESPACE_PREORDER \<and>
    (\<forall>k. plain_column k \<longrightarrow> k \<noteq> ''opcode'' \<longrightarrow> map_of p k = map_of row k)"
proof -
  let ?P = "\<lambda>p. text_col p ''preorder_hash'' hash \<and> op_is p NAMESPACE_PREORDER \<and>
    sql_cmp (<) (int_col p ''block_number'') (Some (lastblock st + NAMESPACE_PREORDER_EXPIRE))"
  from assms obtain r opcode row rest where p: "p = dset r ''opcode'' opcode"
    and row: "filter ?P (preorder_rows st) = row # rest" and f: "namedb_row_factory row = Inr r"
    by (auto simp: get_namespace_preorder_def namedb_get_namespace_preorder_def res_simps)
  have "row \<in> set (filter ?P (preorder_rows st))"
    using row by simp
  then show ?thesis
    using row_factory_plain [OF f] by (auto simp: p)
qed

lemma namespacereveal_check_Some:
  assumes "namespacereveal_check st nameop b ops = Inr (Some op)"
  obtains namespace_id hash sender version v p where "map_of nameop ''namespace_id'' = Some (VStr namespace_id)"
    and "map_of nameop ''preorder_hash'' = Some (VStr hash)" and "map_of nameop ''sender'' = Some (VStr sender)"
    and "well_formed_namespace_id namespace_id" and "is_namespace_revealed st namespace_id = Inr False"
    and "is_namespace_ready st namespace_id = Inr False" and "get_namespace_preorder st hash = Inr (Some p)"
    and "map_of p ''sender'' = Some (VStr sender)" and "map_of nameop ''version'' = Some version"
    and "to_int version = Inr v" and "version_supported v (features (epoch_of b))"
    and "namespace_paid namespace_id p b" and "map_of op ''namespace_id'' = Some (VStr namespace_id)"
    and "map_of op ''reveal_block'' = Some (VInt b)" and "map_of op ''ready_block'' = Some (VInt 0)"
    and "map_of op ''__preorder__'' = Some (VDict p)" and "map_of op ''op'' = map_of nameop ''op''"
  using assms unfolding namespacereveal_check_def
  by (clarsimp simp: res_simps dict_simps Let_def state_create_put_preorder_def)
    (drule namespace_tokens_paid_Some, blast)

text \<open>The ranges of the rules that a reveal fixes: all fit the fields of the payload, and no discount is zero.\<close>

definition rules_in_range :: "pydict \<Rightarrow> bool" where
  "rules_in_range d \<longleftrightarrow> (\<exists>life coeff base buckets nonalpha no_vowel.
     map_of d ''lifetime'' = Some (VInt life) \<and> 0 \<le> life \<and> life < 2 ^ 32 \<and>
     map_of d ''coeff'' = Some (VInt coeff) \<and> 0 \<le> coeff \<and> coeff < 256 \<and>
     map_of d ''base'' = Some (VInt base) \<and> 0 \<le> base \<and> base < 256 \<and>
     map_of d ''buckets'' = Some (VList (map VInt buckets)) \<and> length buckets = 16 \<and> (\<forall>e \<in> set buckets. 0 \<le> e \<and> e < 16) \<and>
     map_of d ''nonalpha_discount'' = Some (VInt nonalpha) \<and> 0 < nonalpha \<and> nonalpha < 16 \<and>
     map_of d ''no_vowel_discount'' = Some (VInt no_vowel) \<and> 0 < no_vowel \<and> no_vowel < 16)"

lemma sanity_check_True:
  assumes "namespacereveal_sanity_check i v life coeff base buckets nonalpha no_vowel = Inr rc"
  shows "rc \<and> well_formed_namespace_id i \<and> length i \<le> 19 \<and> 0 \<le> coeff \<and> coeff < 256 \<and> 0 \<le> base \<and> base < 256 \<and>
    length buckets = 16 \<and> (\<forall>e \<in> set buckets. 0 \<le> e \<and> e < 16) \<and> 0 < nonalpha \<and> nonalpha < 16 \<and> 0 < no_vowel \<and> no_vowel < 16"
  using assms by (auto simp: namespacereveal_sanity_check_def list_ex_iff not_less split: if_splits)

lemma namespacereveal_parse_Some:
  assumes "namespacereveal_parse vc payload sender ra = Inr (Some d)"
  shows "rules_in_range d \<and> (\<exists>i hash. map_of d ''namespace_id'' = Some (VStr i) \<and> map_of d ''preorder_hash'' = Some (VStr hash) \<and>
    hash_name (hex_hash160 vc) (VStr i) sender (Some ra) = Inr hash \<and> well_formed_namespace_id i \<and> length i \<le> 19) \<and>
    map_of d ''sender'' = None \<and> map_of d ''recipient_address'' = None"
proof -
  have life: "0 \<le> big_endian (slice 0 4 payload) \<and> big_endian (slice 0 4 payload) < 2 ^ 32"
    if "18 \<le> length payload"
    using big_endian_bounds [of "slice 0 4 payload"] that by (simp add: slice_def)
  show ?thesis
    using assms life unfolding namespacereveal_parse_def Let_def rules_in_range_def
    by (auto simp: res_simps not_less dest!: sanity_check_True split: if_splits sum.splits)
qed

lemma namespacereveal_extracted:
  assumes "namespacereveal_tx_extract vc payload senders inputs outputs b vtxindex txid = Inr nameop"
  shows "rules_in_range nameop \<and> (\<exists>sender ra i hash. map_of nameop ''sender'' = Some (VStr sender) \<and>
    map_of nameop ''recipient_address'' = Some (VStr ra) \<and> map_of nameop ''namespace_id'' = Some (VStr i) \<and>
    map_of nameop ''preorder_hash'' = Some (VStr hash) \<and> length i \<le> 19 \<and>
    hash_name (hex_hash160 vc) (VStr i) sender (Some ra) = Inr hash)"
proof -
  from assms obtain recipient ra sender addr pubkey d where
    d: "namespacereveal_parse vc payload sender ra = Inr (Some d)"
    and nameop: "nameop = dset (dupdate [(''sender'', VStr sender), (''address'', VStr addr), (''recipient'', VStr recipient),
      (''recipient_address'', VStr ra), (''reveal_block'', VInt b), (''vtxindex'', VInt vtxindex), (''txid'', VStr txid),
      (''op'', VStr [NAMESPACE_REVEAL])] d) ''sender_pubkey'' pubkey"
    by (auto simp: namespacereveal_tx_extract_def assert_some_def res_simps Let_def simp del: edits)
  have "distinct (map fst d)"
    using d by (auto simp: namespacereveal_parse_def Let_def res_simps split: if_splits sum.splits)
  then have m: "map_of nameop k = (if k = ''sender_pubkey'' then Some pubkey else case map_of d k of Some v \<Rightarrow> Some v
      | None \<Rightarrow> map_of [(''sender'', VStr sender), (''address'', VStr addr), (''recipient'', VStr recipient),
      (''recipient_address'', VStr ra), (''reveal_block'', VInt b), (''vtxindex'', VInt vtxindex), (''txid'', VStr txid),
      (''op'', VStr [NAMESPACE_REVEAL])] k)" for k
    by (simp add: nameop map_of_dupdate map_add_def split: option.splits)
  show ?thesis
    using namespacereveal_parse_Some [OF d] by (auto simp: m rules_in_range_def)
qed


text \<open>
  C18: An accepted launch is sent by the recipient of the reveal, of a namespace that is revealed,
  within the time to import names, and not launched.
\<close>

theorem ready_sound:
  assumes "check_namespace_ready st nameop b ops = Inr (Some op, st', ops')"
  shows "\<exists>i sender row. map_of nameop ''namespace_id'' = Some (VStr i) \<and> map_of nameop ''sender'' = Some (VStr sender) \<and>
    row \<in> set (namespace_rows st) \<and> text_col row ''namespace_id'' i \<and> op_is row NAMESPACE_REVEAL \<and>
    text_col row ''recipient'' sender \<and>
    sql_cmp (<) (Some (lastblock st)) (sql_arith (+) (int_col row ''reveal_block'') (Some NAMESPACE_REVEAL_EXPIRE)) \<and>
    is_namespace_ready st i = Inr False \<and> map_of op ''namespace_id'' = Some (VStr i) \<and>
    map_of op ''sender'' = Some (VStr sender) \<and> map_of op ''address'' = map_of row ''address'' \<and> st' = st \<and> ops' = ops"
proof -
  from state_transition_accepts [OF assms [unfolded check_namespace_ready_def]] obtain op1
    where op1: "namespaceready_check st nameop b ops = Inr (Some op1)" "same_fields op op1" "st' = st" "ops' = ops"
    by auto
  from op1(1) obtain i sender rec pubkey address where
    n: "map_of nameop ''namespace_id'' = Some (VStr i)" "map_of nameop ''sender'' = Some (VStr sender)"
      "get_namespace_reveal st i = Inr (Some rec)" "map_of rec ''recipient'' = Some (VStr sender)"
      "is_namespace_ready st i = Inr False" "map_of rec ''address'' = Some address"
    and f: "op1 = dset (dset nameop ''sender_pubkey'' pubkey) ''address'' address"
    unfolding namespaceready_check_def by (auto simp: res_simps dict_simps)
  let ?P = "\<lambda>r. text_col r ''namespace_id'' i \<and> op_is r NAMESPACE_REVEAL \<and>
      sql_cmp (\<le>) (int_col r ''reveal_block'') (Some (lastblock st)) \<and>
      sql_cmp (<) (Some (lastblock st)) (sql_arith (+) (int_col r ''reveal_block'') (Some NAMESPACE_REVEAL_EXPIRE))"
  from n(3) obtain row rest d d' opcode where row: "filter ?P (namespace_rows st) = row # rest"
      and r: "namedb_row_factory row = Inr d" "op_decanonicalize ''NAMESPACE_REVEAL'' d = Inr d'" "rec = dset d' ''opcode'' opcode"
    by (auto simp: get_namespace_reveal_def namedb_get_namespace_reveal_def res_simps)
  have "row \<in> set (filter ?P (namespace_rows st))"
    using row by simp
  moreover have "map_of row k = map_of rec k" if "plain_column k" "k \<noteq> ''buckets''" "k \<noteq> ''opcode''" for k
    using row_factory_plain [OF r(1) that(1)] op_decanonicalize_other [OF r(2) that(2)] that(3) by (simp add: r(3))
  ultimately show ?thesis
    using n f op1(3,4) same_fieldsD [OF op1(2)]
    by (intro exI [of _ i] exI [of _ sender] exI [of _ row]) (simp add: decorator_tags_def text_col_def column_classes)
qed

section \<open>Accepted examples\<close>

definition example_reveal_payload :: string where
  "example_reveal_payload = [CHR 0x00, CHR 0x00, CHR 0xCD, CHR 0x73, CHR 0x04, CHR 0x04] @ replicate 8 CHR 0x11 @
     [CHR 0xAA, CHR 0x00, CHR 0x01] @ ''ex''"

definition example_reveal :: pydict where
  "example_reveal = [(''sender'', VStr ''76a9''), (''address'', VStr ''1me''), (''recipient'', VStr ''76ab''),
     (''recipient_address'', VStr ''76ab''), (''reveal_block'', VInt 590001), (''vtxindex'', VInt 3), (''txid'', VStr ''ab''),
     (''op'', VStr [NAMESPACE_REVEAL]), (''opcode'', VStr ''NAMESPACE_REVEAL''), (''lifetime'', VInt 52595),
     (''coeff'', VInt 4), (''base'', VInt 4), (''buckets'', VList (replicate 16 (VInt 1))),
     (''version'', VInt 1), (''nonalpha_discount'', VInt 10), (''no_vowel_discount'', VInt 10), (''namespace_id'', VStr ''ex''),
     (''preorder_hash'', VStr ''c0ffee''), (''sender_pubkey'', VNone)]"

definition example_reveal_sender :: tx_sender where
  "example_reveal_sender = \<lparr>script_pubkey = ''76a9'', script_type = ''pubkeyhash'', addresses = [''1me'']\<rparr>"

definition example_reveal_outputs :: "tx_output list" where
  "example_reveal_outputs = [\<lparr>out_script = ''6a'', out_value = 0\<rparr>, \<lparr>out_script = ''76ab'', out_value = 5500\<rparr>,
     \<lparr>out_script = ''76a9'', out_value = 5500\<rparr>]"

lemma example_namespace_hash:
  "hash_name (hex_hash160 example_vc) (VStr ''ex'') ''76a9'' (Some ''76ab'') = Inr ''c0ffee''"
proof -
  have "set ''ex'' \<subseteq> set B40_CHARS"
    by (simp add: B40_CHARS_def)
  then obtain bin where "b40_to_bin (VStr ''ex'') = Inr bin"
    using b40_to_bin_ok by blast
  moreover have "unhexlify ''76a9'' = Inr [CHR ''v'', CHR 0xA9]"
    by code_simp
  ultimately show ?thesis
    by (simp add: hash_name_def)
qed

lemma example_reveal_extracted:
  "namespacereveal_tx_extract example_vc example_reveal_payload [example_reveal_sender] [] example_reveal_outputs 590001 3 ''ab'' =
     Inr example_reveal"
proof -
  have "well_formed_namespace_id ''ex''"
    by code_simp
  moreover have "big_endian [CHR 0x00, CHR 0x00, CHR 0xCD, CHR 0x73] = 52595" "big_endian [CHR 0x04] = 4"
      "big_endian [CHR 0x00, CHR 0x01] = 1"
    by (simp_all add: big_endian_def bytenum_def horner_Cons)
  moreover have "hex_digits (hexlify (replicate 8 CHR 0x11)) = replicate 16 1" "hex_digits (hexlify [CHR 0xAA]) = [10, 10]"
    by code_simp+
  moreover have "slice 6 14 example_reveal_payload = replicate 8 CHR 0x11" "slice 14 15 example_reveal_payload = [CHR 0xAA]"
      "slice 0 4 example_reveal_payload = [CHR 0x00, CHR 0x00, CHR 0xCD, CHR 0x73]" "slice 4 5 example_reveal_payload = [CHR 0x04]"
      "slice 5 6 example_reveal_payload = [CHR 0x04]" "slice 15 17 example_reveal_payload = [CHR 0x00, CHR 0x01]"
      "drop 17 example_reveal_payload = ''ex''" "length example_reveal_payload = 19"
    by (simp_all add: example_reveal_payload_def slice_def numeral_eq_Suc)
  ultimately have "namespacereveal_parse example_vc example_reveal_payload ''76a9'' ''76ab'' = Inr (Some
      [(''opcode'', VStr ''NAMESPACE_REVEAL''), (''lifetime'', VInt 52595),
       (''coeff'', VInt 4), (''base'', VInt 4), (''buckets'', VList (replicate 16 (VInt 1))),
       (''version'', VInt 1), (''nonalpha_discount'', VInt 10), (''no_vowel_discount'', VInt 10), (''namespace_id'', VStr ''ex''),
       (''preorder_hash'', VStr ''c0ffee'')])"
    using example_namespace_hash
    by (simp add: namespacereveal_parse_def Let_def namespacereveal_sanity_check_def NAMESPACE_VERSION_PAY_TO_BURN_def
        list_ex_iff)
  then show ?thesis
    by (simp add: namespacereveal_tx_extract_def or_failed_def catching_def check_tx_output_types_def get_epoch_btc_script_types_def
        get_reveal_recipient_from_outputs_def extract_sender_def assert_some_def example_reveal_outputs_def
        example_reveal_sender_def example_reveal_def epoch_of_def epoch_tables dset_def opt_val_def)
      (simp add: example_vc_def dset_def)
qed

definition example_namespace_preorder_row :: pydict where
  "example_namespace_preorder_row = [(''preorder_hash'', VStr ''c0ffee''), (''op'', VStr [NAMESPACE_PREORDER]),
     (''sender'', VStr ''76a9''), (''block_number'', VInt 589990), (''op_fee'', VInt 5500), (''token_fee'', VStr ''64000000000''),
     (''token_units'', VStr ''STACKS'')]"

definition example_namespace_preorder_rec :: pydict where
  "example_namespace_preorder_rec = dset (dset example_namespace_preorder_row ''token_fee'' (VInt 64000000000)) ''opcode''
     (VStr ''NAMESPACE_PREORDER'')"

abbreviation revealing_example :: state_engine where
  "revealing_example \<equiv> live_example ''76ff'' [example_namespace_preorder_row] []"

lemma revealing_example_preorder: "get_namespace_preorder revealing_example ''c0ffee'' = Inr (Some example_namespace_preorder_rec)"
proof -
  have "int_of_str ''64000000000'' = Inr 64000000000"
    by (simp add: int_of_str_def nat_of_str_def decval_def horner_Cons)
  then have "namedb_row_factory example_namespace_preorder_row = Inr (dset example_namespace_preorder_row ''token_fee'' (VInt 64000000000))"
    by (simp add: namedb_row_factory_def example_namespace_preorder_row_def row_field_def flag_columns_def amount_columns_def dset_def)
  then have "namedb_get_namespace_preorder revealing_example ''c0ffee'' 590000 =
      Inr (Some (dset example_namespace_preorder_row ''token_fee'' (VInt 64000000000)))"
    by (simp add: namedb_get_namespace_preorder_def example_with_def fetchone_def example_namespace_row_def text_col_def)
      (simp add: example_namespace_preorder_row_def text_col_def op_is_def int_col_def sql_cmp_def NAMESPACE_PREORDER_EXPIRE_def
        BLOCKS_PER_DAY_def)
  moreover have "op_get_opcode_name [NAMESPACE_PREORDER] = Inr ''NAMESPACE_PREORDER''"
    by code_simp
  ultimately show ?thesis
    by (simp add: get_namespace_preorder_def autofill_opcode_def example_namespace_preorder_rec_def
        example_namespace_preorder_row_def has_key_def dset_def get_str_def getitem_def)
qed

lemma revealing_example_fresh:
  "is_namespace_revealed revealing_example ''ex'' = Inr False" "is_namespace_ready revealing_example ''ex'' = Inr False"
  "get_namespace_op_state revealing_example ''ex'' 590001 True = Inr None"
  by (simp_all add: is_namespace_revealed_def get_namespace_reveal_def namedb_get_namespace_reveal_def is_namespace_ready_def
      get_namespace_def namedb_get_namespace_ready_def get_namespace_op_state_def namedb_get_namespace_def example_with_def
      example_namespace_row_def text_col_def fetchone_def autofill_opcode_def decanonicalized_def)

lemma example_reveal_accepted:
  obtains op st' where "check_namespace_reveal revealing_example example_reveal 590001 [] = Inr (Some op, st', [])"
proof -
  have "well_formed_namespace_id ''ex''" "price_namespace ''ex'' 590001 ''STACKS'' = Inr (VInt 64000000000)"
    by code_simp+
  then have "\<exists>op. namespacereveal_check revealing_example example_reveal 590001 [] = Inr (Some op) \<and>
      map_of op ''op'' = Some (VStr [NAMESPACE_REVEAL]) \<and> has_key op ''__preorder__'' \<and> has_keys op CONSENSUS_FIELDS_REQUIRED \<and>
      map_of op ''namespace_id'' = Some (VStr ''ex'')"
    by (simp add: namespacereveal_check_def revealing_example_fresh revealing_example_preorder example_reveal_def
        get_str_def getitem_def has_key_def to_int_def version_supported_def NAMESPACE_VERSION_PAY_TO_BURN_def
        NAMESPACE_VERSION_PAY_TO_CREATOR_def NAMESPACE_VERSION_PAY_WITH_STACKS_def epoch_of_def epoch_tables Let_def
        namespace_tokens_paid_def)
      (simp add: example_namespace_preorder_rec_def example_namespace_preorder_row_def dset_def
        has_key_def has_keys_def CONSENSUS_FIELDS_REQUIRED_def state_create_put_preorder_def getitem_def)
  then obtain op where "namespacereveal_check revealing_example example_reveal 590001 [] = Inr (Some op)"
      "map_of op ''op'' = Some (VStr [NAMESPACE_REVEAL])" "has_key op ''__preorder__''" "has_keys op CONSENSUS_FIELDS_REQUIRED"
      "map_of op ''namespace_id'' = Some (VStr ''ex'')"
    by blast
  moreover have "op_get_opcode_name [NAMESPACE_REVEAL] = Inr ''NAMESPACE_REVEAL''" "''NAMESPACE_REVEAL'' \<in> set OPCODE_CREATION_OPS"
    by code_simp+
  ultimately have "\<exists>op' st'. state_create ''namespace_id'' ''namespaces'' ''check_namespace_collision'' [] namespacereveal_check
      revealing_example example_reveal 590001 [] = Inr (Some op', st', [])"
    by (intro state_create_accepted [where opcode = "''NAMESPACE_REVEAL''"])
      (simp_all add: decorator_tags_def seen_id_def seen_at_def example_with_def)
  then show thesis
    using that by (auto simp: check_namespace_reveal_def)
qed


definition example_revealed_row :: pydict where
  "example_revealed_row = [(''namespace_id'', VStr ''ex''), (''op'', VStr [NAMESPACE_REVEAL]), (''reveal_block'', VInt 589000),
     (''recipient'', VStr ''76ab''), (''address'', VStr ''1me''), (''sender_pubkey'', VNone),
     (''buckets'', VStr ''[1, 1, 1, 1, 1, 1, 1, 1, 1, 1, 1, 1, 1, 1, 1, 1]'')]"

definition revealed_example :: state_engine where
  "revealed_example = (live_example ''76ff'' [] [])\<lparr>namespace_rows := [example_revealed_row]\<rparr>"

definition example_ready :: pydict where
  "example_ready = [(''sender'', VStr ''76ab''), (''address'', VStr ''1x''), (''ready_block'', VInt 590001), (''vtxindex'', VInt 1),
     (''txid'', VStr ''ac''), (''op'', VStr [NAMESPACE_READY]), (''opcode'', VStr ''NAMESPACE_READY''), (''namespace_id'', VStr ''ex'')]"

theorem ready_sound_witness:
  "\<exists>op. check_namespace_ready revealed_example example_ready 590001 [] = Inr (Some op, revealed_example, []) \<and>
     map_of op ''namespace_id'' = Some (VStr ''ex'') \<and> map_of op ''address'' = Some (VStr ''1me'')"
proof -
  have "json_loads_ints ''[1, 1, 1, 1, 1, 1, 1, 1, 1, 1, 1, 1, 1, 1, 1, 1]'' = Inr (VList (replicate 16 (VInt 1)))"
    by code_simp
  then have reveal: "get_namespace_reveal revealed_example ''ex'' =
      Inr (Some (dset (dset example_revealed_row ''buckets'' (VList (replicate 16 (VInt 1)))) ''opcode'' (VStr ''NAMESPACE_REVEAL'')))"
    by (simp add: get_namespace_reveal_def namedb_get_namespace_reveal_def revealed_example_def example_with_def fetchone_def
        example_revealed_row_def text_col_def op_is_def int_col_def sql_cmp_def sql_arith_def NAMESPACE_REVEAL_EXPIRE_def
        BLOCKS_PER_YEAR_def namedb_row_factory_def row_field_def flag_columns_def amount_columns_def op_decanonicalize_def
        decanonicalize_namespace_reveal_def has_key_def buckets_of_text_def get_str_def getitem_def dset_def autofill_opcode_def
        op_get_opcode_name_def OPCODE_NAMES_def opcode_defs)
  have "is_namespace_ready revealed_example ''ex'' = Inr False"
    by (simp add: is_namespace_ready_def get_namespace_def namedb_get_namespace_ready_def revealed_example_def example_with_def
      fetchone_def autofill_opcode_def example_revealed_row_def text_col_def op_is_def opcode_defs)
  then have "\<exists>op. namespaceready_check revealed_example example_ready 590001 [] = Inr (Some op) \<and>
      has_keys op CONSENSUS_FIELDS_REQUIRED"
    by (simp add: namespaceready_check_def is_namespace_revealed_def reveal example_ready_def example_revealed_row_def get_str_def
        getitem_def dset_def has_keys_def has_key_def CONSENSUS_FIELDS_REQUIRED_def)
  then obtain op where a: "check_namespace_ready revealed_example example_ready 590001 [] = Inr (Some op, revealed_example, [])"
    using state_transition_accepted [of namespaceready_check _ _ _ _ _ False] unfolding check_namespace_ready_def by metis
  then show ?thesis
    using ready_sound [OF a] by (auto simp: example_ready_def revealed_example_def example_revealed_row_def)
qed

end
