(* ===== verification/OpToken.thy ===== *)
theory OpToken
  imports OpNamespace
begin

text \<open>
  Token transfers (\<open>lib/operations/tokentransfer.py\<close>), with the log of rejected transactions that
  their check writes, and announcements (\<open>lib/operations/announce.py\<close>).
\<close>

section \<open>The log of rejected transactions\<close>

definition rejected_at :: "state_engine \<Rightarrow> int \<Rightarrow> int \<Rightarrow> (string \<times> string \<times> string option) option" where
  "rejected_at st block_id vtxindex = map_of (map (\<lambda>(b, v, e). ((b, v), e)) (rejected st)) (block_id, vtxindex)"

definition put_rejected :: "state_engine \<Rightarrow> int \<Rightarrow> int \<Rightarrow> string \<times> string \<times> string option \<Rightarrow> state_engine" where
  "put_rejected st block_id vtxindex e =
    st\<lparr>rejected := (block_id, vtxindex, e) # filter (\<lambda>(b, v, _). (b, v) \<noteq> (block_id, vtxindex)) (rejected st)\<rparr>"

definition log_reject_reason :: "state_engine \<Rightarrow> int \<Rightarrow> int \<Rightarrow> string \<Rightarrow> string \<Rightarrow> string \<Rightarrow> state_engine" where
  "log_reject_reason st block_id vtxindex op txid reason = put_rejected st block_id vtxindex (op, txid, Some reason)"

text \<open>\<open>log_reject\<close> keeps a reason that was logged before.\<close>

definition log_reject :: "state_engine \<Rightarrow> int \<Rightarrow> int \<Rightarrow> string \<Rightarrow> pydict \<Rightarrow> state_engine res" where
  "log_reject st block_id vtxindex op op_data =
    rbind (get_str op_data ''txid'') (\<lambda>txid.
      Inr (put_rejected st block_id vtxindex (op, txid,
        case rejected_at st block_id vtxindex of Some (_, _, reason) \<Rightarrow> reason | None \<Rightarrow> None)))"

section \<open>Token transfers\<close>

definition tokentransfer_FIELDS :: "string list" where
  "tokentransfer_FIELDS = [''sender'', ''address'', ''recipient'', ''recipient_address'', ''token_units'', ''token_fee'',
     ''block_id'', ''op'', ''txid'', ''vtxindex'', ''consensus_hash'', ''scratch_area'']"

definition tokentransfer_MUTATE_FIELDS :: "string list" where
  "tokentransfer_MUTATE_FIELDS = []"

text \<open>Rejects with a reason, unless the condition holds.\<close>

definition permit :: "bool \<Rightarrow> state_engine \<Rightarrow> pydict \<Rightarrow> int \<Rightarrow> string \<Rightarrow> (pydict option \<times> state_engine) res \<Rightarrow>
    (pydict option \<times> state_engine) res" where
  "permit ok st token_op block_id reason r =
    (if ok then r
     else rbind (get_int token_op ''vtxindex'') (\<lambda>vtxindex.
          rbind (get_str token_op ''txid'') (\<lambda>txid.
            Inr (None, log_reject_reason st block_id vtxindex [TOKEN_TRANSFER] txid reason))))"

definition tokentransfer_check ::
    "virtualchain \<Rightarrow> state_engine \<Rightarrow> pydict \<Rightarrow> int \<Rightarrow> pydict list \<Rightarrow> (pydict option \<times> state_engine) res" where
  "tokentransfer_check vc st token_op block_id checked_ops =
    rbind (get_epoch_features block_id) (\<lambda>epoch_features.
    permit (EPOCH_FEATURE_TOKEN_TRANSFER \<in> set epoch_features) st token_op block_id
      ''Token transfers are not enabled in this epoch'' (
    rbind (get_str token_op ''consensus_hash'') (\<lambda>consensus_hash.
    rbind (get_str token_op ''address'') (\<lambda>address.
    rbind (get_str token_op ''recipient_address'') (\<lambda>recipient_address.
    rbind (get_str token_op ''token_units'') (\<lambda>token_type.
    rbind (get_int token_op ''token_fee'') (\<lambda>token_value.
    permit (token_value > 0) st token_op block_id (''Zero-value token transfer from '' @ address) (
    permit (address \<noteq> recipient_address) st token_op block_id
      (''Cannot transfer token from the account to itself ('' @ address @ '')'') (
    permit (is_consensus_hash_valid vc block_id consensus_hash \<or>
        EPOCH_FEATURE_TOKEN_TRANSFER_CONSENSUS_HASH_OPTIONAL \<in> set epoch_features \<and>
        consensus_hash = concat (replicate (LENGTHS ''consensus_hash'') ''00'')) st token_op block_id
      (''Invalid consensus hash '' @ consensus_hash) (
    case get_account st address token_type of
      None \<Rightarrow> permit False st token_op block_id (''No account for '' @ address @ '' ('' @ token_type @ '')'') (Inr (None, st))
    | Some account_info \<Rightarrow>
        permit (lock_transfer_block_id account_info \<le> block_id) st token_op block_id
          (''Account '' @ address @ '' is blocked from transferring tokens until block height '' @
           str_of_int (lock_transfer_block_id account_info)) (
        rbind (get_account_balance account_info) (\<lambda>account_balance.
        permit (token_value \<le> account_balance) st token_op block_id
          (''Account '' @ address @ '' has '' @ str_of_int account_balance @ '' '' @ token_type @ ''; tried to send '' @
           str_of_int token_value) (
        permit (case get_account st recipient_address token_type of None \<Rightarrow> True | Some r \<Rightarrow> receive_whitelisted r)
          st token_op block_id (''Receiver account '' @ recipient_address @ '' is not whitelisted'') (
        rbind (token_operation_put_account_payment_info token_op (VStr address) (VStr token_type) (VInt token_value)) (\<lambda>token_op.
        rbind (token_operation_put_account_credit_info token_op (VStr recipient_address) (VStr token_type) (VInt token_value)) (\<lambda>token_op.
          Inr (Some (dset token_op ''token_fee'' (VStr (str_of_int token_value))), st)))))))))))))))))"

definition check_token_transfer :: "virtualchain \<Rightarrow> decorated" where
  "check_token_transfer vc = token_operation ''accounts'' (tokentransfer_check vc)"

definition get_token_transfer_recipient_from_outputs :: "tx_output list \<Rightarrow> string res" where
  "get_token_transfer_recipient_from_outputs outputs =
    (if length outputs < 2 then Inl (Exception ''Malformed token transfer outputs: less than 2'')
     else Inr (out_script (outputs ! 1)))"

definition tokentransfer_parse :: "string \<Rightarrow> int \<Rightarrow> pydict option res" where
  "tokentransfer_parse bin_payload block_height =
    rbind (get_epoch_features block_height) (\<lambda>epoch_features.
      let at_type = LENGTHS ''consensus_hash''; at_amount = at_type + LENGTHS ''namespace_id'';
          at_scratch = at_amount + LENGTHS ''tokens_burnt''
      in if EPOCH_FEATURE_TOKEN_TRANSFER \<notin> set epoch_features then Inr None
         else if length bin_payload < at_scratch then Inr None
         else Inr (Some [(''opcode'', VStr ''TOKEN_TRANSFER''),
           (''consensus_hash'', VStr (hexlify (slice 0 at_type bin_payload))),
           (''token_units'', VStr (strip_zeros (slice at_type at_amount bin_payload))),
           (''token_fee'', VInt (big_endian (slice at_amount at_scratch bin_payload))),
           (''scratch_area'', VStr (hexlify (drop at_scratch bin_payload)))]))"

definition tokentransfer_tx_extract ::
    "virtualchain \<Rightarrow> string \<Rightarrow> tx_sender list \<Rightarrow> tx_input list \<Rightarrow> tx_output list \<Rightarrow> int \<Rightarrow> int \<Rightarrow> string \<Rightarrow> pydict res" where
  "tokentransfer_tx_extract vc payload senders inputs outputs block_id vtxindex txid =
    rbind (or_failed (rbind (check_tx_output_types vc (take 2 outputs) block_id) (\<lambda>ok.
      assert_that ok
        (rbind (extract_sender vc senders inputs) (\<lambda>s.
         rbind (get_token_transfer_recipient_from_outputs outputs) (\<lambda>recipient_script.
          case script_hex_to_address vc recipient_script of
            None \<Rightarrow> Inl AssertionError
          | Some recipient_address \<Rightarrow> Inr (recipient_script, recipient_address, s)))))))
      (\<lambda>(recipient_script, recipient_address, sender_script, sender_address, _).
    rbind (assert_some (tokentransfer_parse payload block_id)) (\<lambda>parsed_payload.
      Inr (dupdate parsed_payload [(''address'', VStr sender_address), (''sender'', VStr sender_script),
        (''recipient_address'', VStr recipient_address), (''recipient'', VStr recipient_script), (''op'', VStr [TOKEN_TRANSFER]),
        (''block_id'', VInt block_id), (''txid'', VStr txid), (''vtxindex'', VInt vtxindex)])))"

section \<open>Announcements\<close>

definition announce_FIELDS :: "string list" where
  "announce_FIELDS = []"

definition announce_MUTATE_FIELDS :: "string list" where
  "announce_MUTATE_FIELDS = []"

definition announce_parse :: "virtualchain \<Rightarrow> string \<Rightarrow> pydict option" where
  "announce_parse vc bin_payload =
    (let message_hash = hexlify bin_payload in
     if \<not> is_hex vc message_hash then None
     else if length message_hash \<noteq> 40 then None
     else Some [(''opcode'', VStr ''ANNOUNCE''), (''message_hash'', VStr message_hash)])"

definition announce_tx_extract ::
    "virtualchain \<Rightarrow> string \<Rightarrow> tx_sender list \<Rightarrow> tx_input list \<Rightarrow> tx_output list \<Rightarrow> int \<Rightarrow> int \<Rightarrow> string \<Rightarrow> pydict res" where
  "announce_tx_extract vc payload senders inputs outputs block_id vtxindex txid =
    rbind (or_failed (extract_sender vc senders inputs)) (\<lambda>(sender_script, sender_address, sender_pubkey).
    rbind (assert_some (Inr (announce_parse vc payload))) (\<lambda>parsed_payload.
      let ret = dupdate [(''sender'', VStr sender_script), (''address'', VStr sender_address), (''block_number'', VInt block_id),
            (''vtxindex'', VInt vtxindex), (''txid'', VStr txid), (''op'', VStr [ANNOUNCE])] parsed_payload
      in Inr (if sender_pubkey \<noteq> VNone then dset ret ''sender_pubkey'' sender_pubkey else ret)))"

text \<open>
  The first followed name whose owner sent the announcement. What \<open>process_announcement\<close> then does
  (to read a zone file and store its text for the operator) has no effect on the name database.
\<close>

fun find_announcer :: "state_engine \<Rightarrow> string \<Rightarrow> string list \<Rightarrow> string option res" where
  "find_announcer st sender [] = Inr None"
| "find_announcer st sender (blockchain_id # ids) =
    rbind (get_name st blockchain_id None False) (\<lambda>namerec. case namerec of
      None \<Rightarrow> find_announcer st sender ids
    | Some r \<Rightarrow> rbind (getitem r ''sender'') (\<lambda>owner.
        if py_eq owner (VStr sender) then Inr (Some blockchain_id) else find_announcer st sender ids))"

definition announce_check :: "decorated" where
  "announce_check st nameop block_id checked_ops =
    rbind (get_str nameop ''sender'') (\<lambda>sender.
    rbind (find_announcer st sender (announce_ids st)) (\<lambda>found.
      Inr (case found of None \<Rightarrow> None | Some i \<Rightarrow> Some (dset nameop ''announcer_id'' (VStr i)), st, checked_ops)))"

end
