(* ===== verification/OpImport.thy ===== *)
theory OpImport
  imports OpToken
begin

text \<open>
  Imports of names into a revealed namespace: \<open>lib/operations/nameimport.py\<close>, and the import keychain
  of a namespace (class \<open>BlockstackDB\<close> of \<open>lib/nameset/namedb.py\<close>), the file of addresses that may
  send imports. The first import, from the revealer's address, creates the file.
\<close>

section \<open>The import keychain\<close>

definition NAME_IMPORT_KEYRING_SIZE :: nat where
  "NAME_IMPORT_KEYRING_SIZE = 300"

text \<open>White space as \<open>str.strip\<close> removes it.\<close>

definition py_strip :: "string \<Rightarrow> string" where
  "py_strip s = (let ws = (\<lambda>c. c \<in> set [CHR 0x20, CHR 0x09, CHR 0x0A, CHR 0x0B, CHR 0x0C, CHR 0x0D]) in
     rev (dropWhile ws (rev (dropWhile ws s))))"

definition load_import_keychain :: "state_engine \<Rightarrow> string \<Rightarrow> string list option" where
  "load_import_keychain st namespace_id = map_option (map py_strip) (map_of (import_keychains st) namespace_id)"

definition pubkey_to_address :: "virtualchain \<Rightarrow> string \<Rightarrow> string res" where
  "pubkey_to_address vc pubkey_hex = (case pubkey_address vc pubkey_hex of
     None \<Rightarrow> Inl (Exception ''Invalid public key'') | Some a \<Rightarrow> Inr a)"

definition build_import_keychain :: "virtualchain \<Rightarrow> state_engine \<Rightarrow> string \<Rightarrow> string \<Rightarrow> (string list \<times> state_engine) res" where
  "build_import_keychain vc st namespace_id pubkey_hex =
    rbind (pubkey_to_address vc pubkey_hex) (\<lambda>pubkey_addr.
      case load_import_keychain st namespace_id of
        Some child_addrs \<Rightarrow> Inr (child_addrs, st)
      | None \<Rightarrow>
          let reencode = (\<lambda>a. if version_byte vc = 111 then hex_hash160_to_address vc (address_to_hex_hash160 vc a) else a);
              child_addrs = map (\<lambda>i. reencode (child_address vc pubkey_hex i)) [0..<NAME_IMPORT_KEYRING_SIZE] @ [pubkey_addr]
          in Inr (child_addrs, st\<lparr>import_keychains := (namespace_id, child_addrs) # import_keychains st\<rparr>))"

section \<open>Imports\<close>

definition nameimport_FIELDS :: "string list" where
  "nameimport_FIELDS = NAMEREC_FIELDS @ [''sender'', ''address'']"

definition nameimport_MUTATE_FIELDS :: "string list" where
  "nameimport_MUTATE_FIELDS = NAMEREC_MUTATE_FIELDS @ [''value_hash'', ''sender'', ''sender_pubkey'', ''address'', ''importer'',
     ''importer_address'', ''preorder_hash'', ''preorder_block_number'', ''first_registered'', ''last_renewed'', ''revoked'',
     ''block_number'', ''namespace_block_number'', ''op_fee'', ''last_creation_op'']"

definition get_import_recipient_from_outputs :: "tx_output list \<Rightarrow> string res" where
  "get_import_recipient_from_outputs outputs =
    (if length outputs < 2 then Inl (Exception ''No recipients found'') else Inr (out_script (outputs ! 1)))"

definition get_import_update_hash_from_outputs :: "virtualchain \<Rightarrow> tx_output list \<Rightarrow> string res" where
  "get_import_update_hash_from_outputs vc outputs =
    (if length outputs < 3 then Inl (Exception ''No update hash found'')
     else case script_hex_to_address vc (out_script (outputs ! 2)) of
       None \<Rightarrow> Inl (Exception ''No update hash found'')
     | Some update_addr \<Rightarrow>
         if update_addr = [] then Inl (Exception ''No update hash found'')
         else case b58check_decode vc update_addr of
           None \<Rightarrow> Inl (Exception ''base58'') | Some b \<Rightarrow> Inr (hexlify b))"

definition get_prev_imported :: "state_engine \<Rightarrow> pydict list \<Rightarrow> string \<Rightarrow> pydict option res" where
  "get_prev_imported st checked_ops name = get_name st name None False"

definition is_earlier_than :: "pydict \<Rightarrow> int \<Rightarrow> int \<Rightarrow> bool res" where
  "is_earlier_than nameop1 block_id vtxindex =
    rbind (get_int nameop1 ''block_number'') (\<lambda>b.
      if b < block_id then Inr True
      else if b = block_id then rbind (get_int nameop1 ''vtxindex'') (\<lambda>v. Inr (v < vtxindex))
      else Inr False)"

text \<open>\<open>permit_import\<close>: who may send an import, and the keychain that the first import creates.\<close>

definition permit_import :: "virtualchain \<Rightarrow> state_engine \<Rightarrow> pydict \<Rightarrow> string \<Rightarrow> string \<Rightarrow> (bool \<times> state_engine) res" where
  "permit_import vc st namespace sender_pubkey_hex sender_address =
    rbind (get_str namespace ''namespace_id'') (\<lambda>namespace_id.
      case load_import_keychain st namespace_id of
        Some import_addresses \<Rightarrow> Inr (sender_address \<in> set import_addresses, st)
      | None \<Rightarrow> rbind (getitem namespace ''recipient_address'') (\<lambda>revealer.
          if \<not> py_eq revealer (VStr sender_address) then Inr (False, st)
          else rbind (build_import_keychain vc st namespace_id sender_pubkey_hex) (\<lambda>(import_addresses, st).
            Inr (sender_address \<in> set import_addresses, st))))"

text \<open>The fee in bitcoin and the fee in tokens, at the price of the name.\<close>

definition import_fees :: "string \<Rightarrow> pydict \<Rightarrow> int \<Rightarrow> (pyval \<times> int) res" where
  "import_fees name_without_namespace namespace block_id =
    rbind (getitem namespace ''version'') (\<lambda>version.
      if py_eq version (VInt NAMESPACE_VERSION_PAY_WITH_STACKS) then
        rbind (get_epoch_features block_id) (\<lambda>epoch_features.
          if EPOCH_FEATURE_STACKS_BUY_NAMESPACES \<notin> set epoch_features \<or> EPOCH_FEATURE_NAMEOPS_COST_TOKENS \<notin> set epoch_features
          then Inl Abort
          else rbind (price_name name_without_namespace namespace block_id) (\<lambda>price.
               rbind (to_int price) (\<lambda>stacks_price. Inr (VInt 0, stacks_price))))
      else rbind (price_name name_without_namespace namespace block_id) (\<lambda>price.
        case price of
          VInt p \<Rightarrow> Inr (VFloat (float_of_int p), 0)
        | VFloat p \<Rightarrow> Inr (VFloat p, 0)
        | _ \<Rightarrow> Inl TypeError))"

text \<open>
  The block numbers and the preorder hash of the record: those of the name's earlier import, if it
  precedes this one.
\<close>

definition import_origin :: "state_engine \<Rightarrow> pydict \<Rightarrow> int \<Rightarrow> pydict list \<Rightarrow> string \<Rightarrow> string \<Rightarrow>
    (pyval \<times> pyval \<times> pyval \<times> pyval \<times> pyval) res" where
  "import_origin st nameop block_id checked_ops name preorder_hash =
    rbind (get_prev_imported st checked_ops name) (\<lambda>prev.
    rbind (case prev of None \<Rightarrow> Inr None
           | Some r \<Rightarrow> rbind (get_int nameop ''vtxindex'') (\<lambda>v. rbind (is_earlier_than r block_id v) (\<lambda>e.
               Inr (if e then Some r else None)))) (\<lambda>earlier.
      case earlier of
        None \<Rightarrow> Inr (VInt block_id, VInt block_id, VInt block_id, VInt block_id, VStr preorder_hash)
      | Some r \<Rightarrow>
          rbind (getitem r ''preorder_block_number'') (\<lambda>a. rbind (getitem r ''block_number'') (\<lambda>b.
          rbind (getitem r ''first_registered'') (\<lambda>c. rbind (getitem r ''last_renewed'') (\<lambda>d.
          rbind (getitem r ''preorder_hash'') (\<lambda>h. Inr (a, b, c, d, h))))))))"

definition nameimport_apply :: "pydict \<Rightarrow> pydict \<Rightarrow> string \<Rightarrow> string \<Rightarrow> string \<Rightarrow> string \<Rightarrow> pyval \<times> int \<Rightarrow>
    pyval \<times> pyval \<times> pyval \<times> pyval \<times> pyval \<Rightarrow> pydict option res" where
  "nameimport_apply nameop namespace sender sender_address recipient recipient_address fees origin =
    (case (fees, origin) of ((bitcoin_price, stacks_price),
        (preorder_block_number, name_block_number, name_first_registered, name_last_renewed, preorder_hash)) \<Rightarrow>
      rbind (getitem namespace ''block_number'') (\<lambda>namespace_block.
      rbind (delitems (state_create_put_preorder nameop None) [''recipient'', ''recipient_address'']) (\<lambda>nameop.
        Inr (Some (dupdate nameop [(''sender'', VStr recipient), (''address'', VStr recipient_address),
          (''importer'', VStr sender), (''importer_address'', VStr sender_address), (''op_fee'', bitcoin_price),
          (''token_fee'', VStr (str_of_int stacks_price)), (''namespace_block_number'', namespace_block),
          (''consensus_hash'', VNone), (''preorder_hash'', preorder_hash), (''block_number'', name_block_number),
          (''first_registered'', name_first_registered), (''last_renewed'', name_last_renewed),
          (''preorder_block_number'', preorder_block_number), (''opcode'', VStr ''NAME_IMPORT''),
          (''last_creation_op'', VStr [NAME_IMPORT])])))))"

definition nameimport_check ::
    "virtualchain \<Rightarrow> state_engine \<Rightarrow> pydict \<Rightarrow> int \<Rightarrow> pydict list \<Rightarrow> (pydict option \<times> state_engine) res" where
  "nameimport_check vc st nameop block_id checked_ops =
    rbind (get_str nameop ''name'') (\<lambda>name.
    rbind (get_str nameop ''sender'') (\<lambda>sender.
    rbind (get_str nameop ''recipient'') (\<lambda>recipient.
    rbind (get_str nameop ''recipient_address'') (\<lambda>recipient_address.
    rbind (hash_name (hex_hash160 vc) (VStr name) sender (Some recipient_address)) (\<lambda>preorder_hash.
      if \<not> has_key nameop ''sender_pubkey'' \<or> \<not> is_name_valid (VStr name) then Inr (None, st)
      else
        let namespace_id = get_namespace_from_name name in
        rbind (is_namespace_revealed st namespace_id) (\<lambda>revealed.
          if \<not> revealed then Inr (None, st)
          else
            rbind (get_namespace_reveal st namespace_id) (\<lambda>rec. case rec of
              None \<Rightarrow> Inl TypeError
            | Some namespace \<Rightarrow>
                rbind (get_str nameop ''sender_pubkey'') (\<lambda>sender_pubkey_hex.
                rbind (pubkey_to_address vc sender_pubkey_hex) (\<lambda>sender_address.
                rbind (permit_import vc st namespace sender_pubkey_hex sender_address) (\<lambda>(permitted, st).
                  if \<not> permitted then Inr (None, st)
                  else
                    rbind (import_origin st nameop block_id checked_ops name preorder_hash) (\<lambda>origin.
                    rbind (case get_name_from_fq_name name of None \<Rightarrow> Inl TypeError | Some l \<Rightarrow> Inr l) (\<lambda>label.
                    rbind (import_fees label namespace block_id) (\<lambda>fees.
                    rbind (nameimport_apply nameop namespace sender sender_address recipient recipient_address fees origin)
                      (\<lambda>op. Inr (op, st)))))))))))))))"

definition check_name_import :: "virtualchain \<Rightarrow> decorated" where
  "check_name_import vc =
    state_create_st ''name'' ''name_records'' ''check_noop_collision'' [''consensus_hash''] (nameimport_check vc)"

definition nameimport_parse :: "string \<Rightarrow> string \<Rightarrow> string \<Rightarrow> pydict option" where
  "nameimport_parse bin_payload recipient update_hash =
    (if \<not> is_name_valid (VStr bin_payload) then None
     else Some [(''opcode'', VStr ''NAME_IMPORT''), (''name'', VStr bin_payload), (''recipient'', VStr recipient),
       (''value_hash'', VStr update_hash)])"

definition nameimport_tx_extract ::
    "virtualchain \<Rightarrow> string \<Rightarrow> tx_sender list \<Rightarrow> tx_input list \<Rightarrow> tx_output list \<Rightarrow> int \<Rightarrow> int \<Rightarrow> string \<Rightarrow> pydict res" where
  "nameimport_tx_extract vc payload senders inputs outputs block_id vtxindex txid =
    rbind (or_failed (rbind (check_tx_output_types vc (take 3 outputs) block_id) (\<lambda>ok.
      assert_that ok
        (rbind (get_import_recipient_from_outputs outputs) (\<lambda>recipient.
          case script_hex_to_address vc recipient of
            None \<Rightarrow> Inl AssertionError
          | Some recipient_address \<Rightarrow>
              rbind (get_import_update_hash_from_outputs vc outputs) (\<lambda>import_update_hash.
              assert_that (is_hex vc import_update_hash)
                (rbind (extract_sender vc senders inputs) (\<lambda>s.
                  Inr (recipient, recipient_address, import_update_hash, s)))))))))
      (\<lambda>(recipient, recipient_address, import_update_hash, sender, sender_address, sender_pubkey).
    rbind (assert_some (Inr (nameimport_parse payload recipient import_update_hash))) (\<lambda>parsed_payload.
      let ret = dupdate [(''sender'', VStr sender), (''address'', VStr sender_address), (''recipient'', VStr recipient),
            (''recipient_address'', VStr recipient_address), (''value_hash'', VStr import_update_hash), (''revoked'', VBool False),
            (''vtxindex'', VInt vtxindex), (''txid'', VStr txid), (''first_registered'', VInt block_id),
            (''last_renewed'', VInt block_id), (''op'', VStr [NAME_IMPORT]), (''opcode'', VStr ''NAME_IMPORT'')] parsed_payload
      in Inr (if sender_pubkey \<noteq> VNone then dset ret ''sender_pubkey'' sender_pubkey else ret)))"

definition canonicalize_import :: "pydict \<Rightarrow> pydict res" where
  "canonicalize_import parsed_op =
    assert_that (has_key parsed_op ''op_fee'')
      (rbind (getitem parsed_op ''op_fee'') (\<lambda>fee. case fee of
         VFloat p \<Rightarrow> Inr parsed_op
       | VInt p \<Rightarrow> Inr (dset parsed_op ''op_fee'' (VFloat (float_of_int p)))
       | _ \<Rightarrow> Inl TypeError))"

end
