(* ===== verification/Operations.thy ===== *)
theory Operations
  imports OpOwner OpImport
begin

text \<open>
  The dispatch of operations (\<open>lib/operations/__init__.py\<close>): the tables that give each operation its
  consensus fields, the fields it changes and its methods, and the entry points \<open>op_extract\<close>,
  \<open>op_check\<close>, \<open>op_canonicalize\<close> and \<open>op_canonicalize_quirks\<close> over them.
\<close>

section \<open>Tables\<close>

definition SERIALIZE_FIELDS :: "(string \<times> string list) list" where
  "SERIALIZE_FIELDS = [
     (''NAME_PREORDER'', preorder_FIELDS), (''NAME_REGISTRATION'', register_FIELDS), (''NAME_RENEWAL'', register_FIELDS),
     (''NAME_UPDATE'', update_FIELDS), (''NAME_TRANSFER'', transfer_FIELDS), (''NAME_REVOKE'', revoke_FIELDS),
     (''NAME_IMPORT'', nameimport_FIELDS), (''NAMESPACE_PREORDER'', namespacepreorder_FIELDS),
     (''NAMESPACE_REVEAL'', namespacereveal_FIELDS), (''NAMESPACE_READY'', namespaceready_FIELDS),
     (''ANNOUNCE'', announce_FIELDS), (''TOKEN_TRANSFER'', tokentransfer_FIELDS)]"

definition MUTATE_FIELDS :: "(string \<times> string list) list" where
  "MUTATE_FIELDS = [
     (''NAME_PREORDER'', preorder_MUTATE_FIELDS), (''NAME_REGISTRATION'', REGISTER_MUTATE_FIELDS),
     (''NAME_RENEWAL'', RENEWAL_MUTATE_FIELDS), (''NAME_UPDATE'', update_MUTATE_FIELDS),
     (''NAME_TRANSFER'', transfer_MUTATE_FIELDS), (''NAME_REVOKE'', revoke_MUTATE_FIELDS),
     (''NAME_IMPORT'', nameimport_MUTATE_FIELDS), (''NAMESPACE_PREORDER'', namespacepreorder_MUTATE_FIELDS),
     (''NAMESPACE_REVEAL'', namespacereveal_MUTATE_FIELDS), (''NAMESPACE_READY'', namespaceready_MUTATE_FIELDS),
     (''ANNOUNCE'', announce_MUTATE_FIELDS), (''TOKEN_TRANSFER'', tokentransfer_MUTATE_FIELDS)]"

definition UNSTORED_CANONICAL_FIELDS :: "(string \<times> string list) list" where
  "UNSTORED_CANONICAL_FIELDS = [
     (''NAME_PREORDER'', []), (''NAME_REGISTRATION'', []), (''NAME_RENEWAL'', []),
     (''NAME_UPDATE'', update_UNSTORED_CANONICAL_FIELDS), (''NAME_TRANSFER'', transfer_UNSTORED_CANONICAL_FIELDS),
     (''NAME_REVOKE'', []), (''NAME_IMPORT'', []), (''NAMESPACE_PREORDER'', []), (''NAMESPACE_REVEAL'', []),
     (''NAMESPACE_READY'', []), (''ANNOUNCE'', []), (''TOKEN_TRANSFER'', [])]"

type_synonym extractor =
  "string \<Rightarrow> tx_sender list \<Rightarrow> tx_input list \<Rightarrow> tx_output list \<Rightarrow> int \<Rightarrow> int \<Rightarrow> string \<Rightarrow> pydict res"

definition EXTRACT_METHODS :: "virtualchain \<Rightarrow> (string \<times> extractor) list" where
  "EXTRACT_METHODS vc = [
     (''NAME_PREORDER'', preorder_tx_extract vc), (''NAME_REGISTRATION'', register_tx_extract vc),
     (''NAME_RENEWAL'', register_tx_extract vc), (''NAME_UPDATE'', update_tx_extract vc),
     (''NAME_TRANSFER'', transfer_tx_extract vc), (''NAME_REVOKE'', revoke_tx_extract vc),
     (''NAME_IMPORT'', nameimport_tx_extract vc), (''NAMESPACE_PREORDER'', namespacepreorder_tx_extract vc),
     (''NAMESPACE_REVEAL'', namespacereveal_tx_extract vc), (''NAMESPACE_READY'', namespaceready_tx_extract vc),
     (''ANNOUNCE'', announce_tx_extract vc), (''TOKEN_TRANSFER'', tokentransfer_tx_extract vc)]"

definition CHECK_METHODS :: "virtualchain \<Rightarrow> (string \<times> decorated) list" where
  "CHECK_METHODS vc = [
     (''NAME_PREORDER'', check_preorder vc), (''NAME_REGISTRATION'', check_registration vc),
     (''NAME_RENEWAL'', check_renewal vc), (''NAME_UPDATE'', check_update vc), (''NAME_TRANSFER'', check_transfer vc),
     (''NAME_REVOKE'', check_revoke), (''NAME_IMPORT'', check_name_import vc),
     (''NAMESPACE_PREORDER'', check_namespace_preorder vc), (''NAMESPACE_REVEAL'', check_namespace_reveal),
     (''NAMESPACE_READY'', check_namespace_ready), (''ANNOUNCE'', announce_check),
     (''TOKEN_TRANSFER'', check_token_transfer vc)]"

definition CANONICALIZE_METHODS :: "virtualchain \<Rightarrow> (string \<times> (pydict \<Rightarrow> pydict res)) list" where
  "CANONICALIZE_METHODS vc = [
     (''NAME_UPDATE'', canonicalize_update vc), (''NAME_TRANSFER'', canonicalize_transfer),
     (''NAME_IMPORT'', canonicalize_import), (''NAMESPACE_PREORDER'', canonicalize_namespace_preorder),
     (''NAMESPACE_REVEAL'', canonicalize_namespace_reveal), (''NAMESPACE_READY'', canonicalize_namespace_ready)]"

text \<open>The checks made when the package is imported; a failed one makes the import raise.\<close>

definition field_tables_consistent :: bool where
  "field_tables_consistent \<longleftrightarrow>
     list_all (\<lambda>(opcode, serialize_set). serialize_set = [] \<or>
       list_all (\<lambda>f. f \<in> set serialize_set) CONSENSUS_FIELDS_REQUIRED) SERIALIZE_FIELDS \<and>
     list_all (\<lambda>(opcode, mutate_set). mutate_set = [] \<or>
       list_all (\<lambda>f. f \<in> set mutate_set) NAMEREC_MUTATE_FIELDS) MUTATE_FIELDS"

section \<open>Entry points\<close>

definition table_entry :: "(string \<times> 'a) list \<Rightarrow> string \<Rightarrow> 'a res" where
  "table_entry table op_name = (case map_of table op_name of
     None \<Rightarrow> Inl (Exception ''No such operation'') | Some x \<Rightarrow> Inr x)"

definition op_extract :: "virtualchain \<Rightarrow> string \<Rightarrow> extractor" where
  "op_extract vc op_name data senders inputs outputs block_id vtxindex txid =
    rbind (table_entry (EXTRACT_METHODS vc) op_name) (\<lambda>method.
      method data senders inputs outputs block_id vtxindex txid)"

definition op_canonicalize :: "virtualchain \<Rightarrow> string \<Rightarrow> pydict \<Rightarrow> pydict res" where
  "op_canonicalize vc op_name parsed_op = (case map_of (CANONICALIZE_METHODS vc) op_name of
     None \<Rightarrow> Inr parsed_op | Some method \<Rightarrow> method parsed_op)"

definition op_get_mutate_fields :: "string \<Rightarrow> string list res" where
  "op_get_mutate_fields op_name = table_entry MUTATE_FIELDS op_name"

definition op_get_consensus_fields :: "string \<Rightarrow> string list res" where
  "op_get_consensus_fields op_name = table_entry SERIALIZE_FIELDS op_name"

definition op_get_quirk_fields :: "string \<Rightarrow> string list" where
  "op_get_quirk_fields op_name =
    (if op_name \<in> {''NAME_REGISTRATION'', ''NAME_UPDATE'', ''NAME_TRANSFER'', ''NAME_RENEWAL'', ''NAME_REVOKE'', ''NAME_IMPORT''}
     then [''last_creation_op''] else [])"

text \<open>\<open>float(v)\<close> of a number.\<close>

definition to_float :: "pyval \<Rightarrow> rat res" where
  "to_float v = (case v of
     VFloat r \<Rightarrow> Inr r
   | _ \<Rightarrow> (case py_int v of Some i \<Rightarrow> Inr (float_of_int i) | None \<Rightarrow> Inl TypeError))"

text \<open>The value of a quirky field: the new record's, or else the current record's.\<close>

definition quirk_value :: "pydict \<Rightarrow> pydict option \<Rightarrow> string \<Rightarrow> pyval res" where
  "quirk_value new_record current_record f =
    (let new_val = dget new_record f VNone;
         val = (if new_val = VNone then (case current_record of None \<Rightarrow> VNone | Some r \<Rightarrow> dget r f VNone) else new_val)
     in assert_that (val \<noteq> VNone) (Inr val))"

definition token_fee_text :: "pydict \<Rightarrow> pydict" where
  "token_fee_text ret = (case map_of ret ''token_fee'' of
     None \<Rightarrow> ret
   | Some v \<Rightarrow> (case py_int v of None \<Rightarrow> ret | Some i \<Rightarrow> dset ret ''token_fee'' (VStr (str_of_int i))))"

definition op_canonicalize_quirks :: "string \<Rightarrow> pydict \<Rightarrow> pydict option \<Rightarrow> pydict res" where
  "op_canonicalize_quirks op_name new_record current_record =
    (if op_name \<in> set OPCODE_NAME_NAMEOPS \<and> op_name \<in> set OPCODE_NAME_STATE_TRANSITIONS then
       assert_that (op_name \<noteq> ''NAME_IMPORT'' \<longrightarrow> (case current_record of None \<Rightarrow> False | Some r \<Rightarrow> r \<noteq> []))
        (assert_that (case current_record of None \<Rightarrow> True
             | Some r \<Rightarrow> r = [] \<or> has_key r ''op_fee'' \<and> has_key r ''last_creation_op'')
          (rbind (quirk_value new_record current_record ''op_fee'') (\<lambda>op_fee.
           rbind (quirk_value new_record current_record ''last_creation_op'') (\<lambda>last_creation_op.
           rbind (if py_eq last_creation_op (VStr [NAME_IMPORT])
                  then rbind (to_float op_fee) (\<lambda>r. Inr (VFloat r))
                  else rbind (to_int op_fee) (\<lambda>i. Inr (VInt i))) (\<lambda>op_fee.
             Inr (token_fee_text (dset (dset new_record ''op_fee'' op_fee) ''last_creation_op'' last_creation_op)))))))
     else Inr (token_fee_text new_record))"

text \<open>\<open>if f in d: del d[f]\<close>.\<close>

definition discard :: "pydict \<Rightarrow> string \<Rightarrow> pydict" where
  "discard d f = AList.delete f d"

text \<open>An accepted operation is canonicalized in place, and loses the fields for which the database has no column.\<close>

definition clean_accepted :: "virtualchain \<Rightarrow> pydict \<Rightarrow> pydict res" where
  "clean_accepted vc nameop =
    rbind (get_str nameop ''opcode'') (\<lambda>opcode.
    rbind (op_canonicalize vc opcode nameop) (\<lambda>nameop.
      case map_of UNSTORED_CANONICAL_FIELDS opcode of
        None \<Rightarrow> Inl AssertionError
      | Some unstored \<Rightarrow> Inr (foldl discard nameop unstored)))"

definition nameop_opcode :: "pydict \<Rightarrow> string res" where
  "nameop_opcode nameop =
    (if has_key nameop ''opcode'' then get_str nameop ''opcode''
     else (case rbind (get_str nameop ''op'') op_get_opcode_name of Inl _ \<Rightarrow> Inl Abort | Inr n \<Rightarrow> Inr n))"

text \<open>The check method of the operation, on a copy.\<close>

definition op_check :: "virtualchain \<Rightarrow> decorated" where
  "op_check vc st nameop block_id checked_ops =
    rbind (nameop_opcode nameop) (\<lambda>opcode.
      case map_of (CHECK_METHODS vc) opcode of
        None \<Rightarrow> Inl Abort
      | Some check_method \<Rightarrow>
          rbind (check_method st nameop block_id checked_ops) (\<lambda>(rc, st, checked_ops). case rc of
            None \<Rightarrow> Inr (None, st, checked_ops)
          | Some nameop \<Rightarrow> rbind (clean_accepted vc nameop) (\<lambda>nameop. Inr (Some nameop, st, checked_ops))))"

lemma op_check_method:
  assumes "op_check vc st op b ops = Inr (rc, st', ops')"
  obtains n m rc1 where "nameop_opcode op = Inr n" and "map_of (CHECK_METHODS vc) n = Some m"
    and "m st op b ops = Inr (rc1, st', ops')"
    and "(case rc1 of None \<Rightarrow> rc = None | Some op1 \<Rightarrow> \<exists>op2. clean_accepted vc op1 = Inr op2 \<and> rc = Some op2)"
  using assms unfolding op_check_def by (auto simp: res_simps split: option.splits)

end
