(* ===== verification/Statements.thy ===== *)
theory Statements
  imports Operations
begin

text \<open>
  The statements of \<open>lib/nameset/db.py\<close> that insert, update and delete rows of the tables
  \<open>preorders\<close>, \<open>namespaces\<close>, \<open>name_records\<close> and \<open>history\<close>, with the schema of these tables. A statement
  that violates a constraint of the schema makes the node abort.
\<close>

section \<open>The schema\<close>

text \<open>A column: its name, its type and whether \<open>NULL\<close> is excluded.\<close>

datatype coltype = Text | Integer

type_synonym column = "string \<times> coltype \<times> bool"

definition preorders_columns :: "column list" where
  "preorders_columns = [(''preorder_hash'', Text, True), (''consensus_hash'', Text, True), (''sender'', Text, True),
     (''sender_pubkey'', Text, False), (''address'', Text, False), (''block_number'', Integer, True), (''op'', Text, True),
     (''op_fee'', Integer, True), (''txid'', Text, True), (''vtxindex'', Integer, False), (''burn_address'', Text, True),
     (''token_fee'', Text, True), (''token_units'', Text, True)]"

definition namespaces_columns :: "column list" where
  "namespaces_columns = [(''namespace_id'', Text, True), (''preorder_hash'', Text, True), (''version'', Integer, False),
     (''sender'', Text, True), (''sender_pubkey'', Text, False), (''address'', Text, False), (''recipient'', Text, True),
     (''recipient_address'', Text, False), (''block_number'', Integer, True), (''reveal_block'', Integer, True), (''op'', Text, True),
     (''op_fee'', Integer, True), (''txid'', Text, True), (''vtxindex'', Integer, True), (''lifetime'', Integer, True),
     (''coeff'', Integer, True), (''base'', Integer, True), (''buckets'', Text, True), (''nonalpha_discount'', Integer, True),
     (''no_vowel_discount'', Integer, True), (''ready_block'', Integer, True), (''token_fee'', Text, True)]"

definition name_records_columns :: "column list" where
  "name_records_columns = [(''name'', Text, True), (''preorder_hash'', Text, True), (''name_hash128'', Text, True),
     (''namespace_id'', Text, True), (''namespace_block_number'', Integer, True), (''value_hash'', Text, False),
     (''sender'', Text, True), (''sender_pubkey'', Text, False), (''address'', Text, False), (''block_number'', Integer, True),
     (''preorder_block_number'', Integer, True), (''first_registered'', Integer, True), (''last_renewed'', Integer, True),
     (''revoked'', Integer, True), (''op'', Text, True), (''txid'', Text, True), (''vtxindex'', Integer, True),
     (''op_fee'', Integer, True), (''importer'', Text, False), (''importer_address'', Text, False),
     (''consensus_hash'', Text, False), (''token_fee'', Text, True), (''last_creation_op'', Text, True)]"

definition table_columns :: "string \<Rightarrow> column list" where
  "table_columns table_name =
    (if table_name = ''preorders'' then preorders_columns
     else if table_name = ''namespaces'' then namespaces_columns
     else if table_name = ''name_records'' then name_records_columns else [])"

definition primary_key :: "string \<Rightarrow> string list" where
  "primary_key table_name =
    (if table_name = ''preorders'' then [''preorder_hash'', ''block_number'', ''txid'']
     else if table_name = ''namespaces'' then [''namespace_id'', ''block_number'']
     else [''name'', ''block_number''])"

definition table_rows :: "state_engine \<Rightarrow> string \<Rightarrow> pydict list" where
  "table_rows st table_name =
    (if table_name = ''preorders'' then preorder_rows st
     else if table_name = ''namespaces'' then namespace_rows st else name_rows st)"

definition put_rows :: "state_engine \<Rightarrow> string \<Rightarrow> pydict list \<Rightarrow> state_engine" where
  "put_rows st table_name rows =
    (if table_name = ''preorders'' then st\<lparr>preorder_rows := rows\<rparr>
     else if table_name = ''namespaces'' then st\<lparr>namespace_rows := rows\<rparr> else st\<lparr>name_rows := rows\<rparr>)"

text \<open>
  What a column stores for a value. A whole number written to an integer column is stored as an
  integer, an integer written to a text column as text. Integers have 64 bits; a larger one, a list
  or a dictionary cannot be bound to a statement. (No float is ever written to a text column.)
\<close>

definition stored :: "coltype \<Rightarrow> pyval \<Rightarrow> pyval res" where
  "stored t v = (case v of
     VNone \<Rightarrow> Inr VNone
   | VBool b \<Rightarrow> Inr (VInt (if b then 1 else 0))
   | VStr s \<Rightarrow> (if t = Text then Inr (VStr s) else case int_of_str s of Inr i \<Rightarrow> Inr (VInt i) | Inl _ \<Rightarrow> Inr (VStr s))
   | VInt i \<Rightarrow> (if - (2 ^ 63) \<le> i \<and> i < 2 ^ 63
                then Inr (if t = Text then VStr (str_of_int i) else VInt i) else Inl Abort)
   | VFloat r \<Rightarrow> Inr (if t = Integer \<and> of_int \<lfloor>r\<rfloor> = r then VInt \<lfloor>r\<rfloor> else VFloat r)
   | _ \<Rightarrow> Inl Abort)"

definition stored_column :: "column \<Rightarrow> pyval \<Rightarrow> (string \<times> pyval) res" where
  "stored_column c v = (case c of (name, t, not_null) \<Rightarrow>
     rbind (stored t v) (\<lambda>w. if not_null \<and> w = VNone then Inl Abort else Inr (name, w)))"

section \<open>Preparing and executing statements\<close>

definition column_names :: "string \<Rightarrow> string list" where
  "column_names table_name = map fst (table_columns table_name)"

definition namedb_find_missing_and_extra :: "pydict \<Rightarrow> string \<Rightarrow> string list \<times> string list" where
  "namedb_find_missing_and_extra record table_name =
    (filter (\<lambda>f. f \<notin> set (dkeys record)) (column_names table_name),
     filter (\<lambda>k. k \<notin> set (column_names table_name)) (dkeys record))"

definition namedb_assert_fields_match :: "pydict \<Rightarrow> string \<Rightarrow> bool \<Rightarrow> bool \<Rightarrow> bool res" where
  "namedb_assert_fields_match record table_name record_matches_columns columns_match_record =
    (case namedb_find_missing_and_extra record table_name of (rec_missing, rec_extra) \<Rightarrow>
       if length rec_missing > 0 \<and> columns_match_record \<or> length rec_extra > 0 \<and> record_matches_columns
       then Inl (Exception ''Invalid record'') else Inr True)"

text \<open>\<open>False\<close> and \<open>True\<close> (and the numbers equal to them) are written as 0 and 1.\<close>

definition sql_value :: "pyval \<Rightarrow> pyval" where
  "sql_value v = (if py_eq v (VBool False) then VInt 0 else if py_eq v (VBool True) then VInt 1 else v)"

definition namedb_insert_prepare :: "pydict \<Rightarrow> string \<Rightarrow> pydict res" where
  "namedb_insert_prepare record table_name =
    rbind (namedb_assert_fields_match record table_name True True) (\<lambda>_.
      Inr (map (\<lambda>(k, v). (k, sql_value v)) record))"

text \<open>\<open>INSERT INTO\<close>: the row has the table's columns; a duplicate primary key is refused.\<close>

definition same_key :: "string \<Rightarrow> pydict \<Rightarrow> pydict \<Rightarrow> bool" where
  "same_key table_name r s = list_all (\<lambda>c. map_of r c = map_of s c) (primary_key table_name)"

definition insert_into :: "state_engine \<Rightarrow> string \<Rightarrow> pydict \<Rightarrow> state_engine res" where
  "insert_into st table_name values =
    rbind (rmap (\<lambda>c. stored_column c (dget values (fst c) VNone)) (table_columns table_name)) (\<lambda>row.
      if list_ex (same_key table_name row) (table_rows st table_name) then Inl Abort
      else Inr (put_rows st table_name (table_rows st table_name @ [row])))"

text \<open>
  The parts of an \<open>UPDATE\<close> statement: the columns to set and the conditions. A condition on \<open>None\<close>
  is \<open>IS NULL\<close>.
\<close>

definition namedb_update_prepare ::
    "string list \<Rightarrow> pydict \<Rightarrow> string \<Rightarrow> string list \<Rightarrow> pydict \<Rightarrow> (pydict \<times> (string \<times> pyval) list) res" where
  "namedb_update_prepare primary_keys record table_name must_equal only_if =
    assert_that (list_all (\<lambda>k. dget record k VNone \<noteq> VNone \<and> k \<in> set must_equal) primary_keys \<and> length must_equal > 0)
     (rbind (namedb_assert_fields_match record table_name True False) (\<lambda>_.
      rbind (namedb_assert_fields_match (map (\<lambda>c. (c, VNone)) must_equal) table_name True False) (\<lambda>_.
      rbind (namedb_assert_fields_match only_if table_name True False) (\<lambda>_.
      assert_that (set must_equal \<inter> set (dkeys only_if) = {})
       (rbind (rmap (\<lambda>c. rbind (getitem record c) (\<lambda>v. Inr (c, sql_value v))) must_equal) (\<lambda>where_set.
        rbind (rmap (\<lambda>(c, w). if w = VNone then Inr (c, VNone) else rbind (getitem record c) (\<lambda>v.
            Inr (c, if py_eq v (VBool True) then VInt 1 else if py_eq v (VBool False) then VInt 0 else w))) only_if) (\<lambda>only_if_set.
          Inr (map (\<lambda>(k, v). (k, sql_value v)) (filter (\<lambda>(k, v). k \<notin> set must_equal) record),
               where_set @ only_if_set))))))))"

definition where_holds :: "(string \<times> pyval) list \<Rightarrow> pydict \<Rightarrow> bool" where
  "where_holds where_set row = list_all (\<lambda>(c, v). let w = dget row c VNone in
     if v = VNone then w = VNone else w \<noteq> VNone \<and> py_eq w v) where_set"

definition column_of :: "string \<Rightarrow> string \<Rightarrow> column" where
  "column_of table_name c = (case List.find (\<lambda>(n, _). n = c) (table_columns table_name) of
     None \<Rightarrow> (c, Text, False) | Some col \<Rightarrow> col)"

text \<open>
  \<open>UPDATE\<close>: the rows after it and the number of rows it changed. (The primary key is never set.)
  A statement that sets nothing is a syntax error.
\<close>

definition update_rows :: "state_engine \<Rightarrow> string \<Rightarrow> pydict \<Rightarrow> (string \<times> pyval) list \<Rightarrow> (state_engine \<times> nat) res" where
  "update_rows st table_name update_set where_set =
    (if update_set = [] then Inl Abort
     else
       let rows = table_rows st table_name; n = length (filter (where_holds where_set) rows) in
       if n = 0 then Inr (st, 0)
       else rbind (rmap (\<lambda>(k, v). stored_column (column_of table_name k) v) update_set) (\<lambda>cells.
         Inr (put_rows st table_name (map (\<lambda>r. if where_holds where_set r then dupdate r cells else r) rows), n)))"

definition namedb_update_must_equal :: "pydict \<Rightarrow> string list \<Rightarrow> string list" where
  "namedb_update_must_equal rec change_fields =
    (if length change_fields \<noteq> 0 then filter (\<lambda>k. k \<notin> set change_fields) (dkeys rec) else [])"

text \<open>\<open>DELETE FROM preorders WHERE preorder_hash = ?\<close>.\<close>

definition delete_from :: "state_engine \<Rightarrow> string \<Rightarrow> string \<Rightarrow> pyval \<Rightarrow> state_engine" where
  "delete_from st table_name c v = put_rows st table_name
     (filter (\<lambda>r. v = VNone \<or> dget r c VNone = VNone \<or> \<not> py_eq (dget r c VNone) v) (table_rows st table_name))"

text \<open>\<open>except Exception: os.abort()\<close>.\<close>

definition or_abort :: "'a res \<Rightarrow> 'a res" where
  "or_abort r = catching r (\<lambda>_. Inl Abort)"

section \<open>Rows of preorders, names and namespaces\<close>

definition namedb_preorder_insert :: "state_engine \<Rightarrow> pydict \<Rightarrow> state_engine res" where
  "namedb_preorder_insert st preorder_rec =
    assert_that (has_key preorder_rec ''preorder_hash'')
      (rbind (or_abort (namedb_insert_prepare preorder_rec ''preorders'')) (insert_into st ''preorders''))"

definition namedb_preorder_remove :: "state_engine \<Rightarrow> pyval \<Rightarrow> state_engine" where
  "namedb_preorder_remove st preorder_hash = delete_from st ''preorders'' ''preorder_hash'' preorder_hash"

definition namedb_name_fields_check :: "virtualchain \<Rightarrow> pydict \<Rightarrow> pydict res" where
  "namedb_name_fields_check vc name_rec =
    (if \<not> has_key name_rec ''name'' then Inl (Exception ''BUG: name record has no name'')
     else rbind (get_str name_rec ''name'') (\<lambda>name.
       let name_rec = (if has_key name_rec ''namespace_id'' then name_rec
             else dset name_rec ''namespace_id'' (VStr (get_namespace_from_name name)))
       in Inr (if has_key name_rec ''name_hash128'' then name_rec
             else dset name_rec ''name_hash128'' (VStr (hash256_trunc128 (bin_sha256 vc) name)))))"

definition namedb_name_insert :: "virtualchain \<Rightarrow> state_engine \<Rightarrow> pydict \<Rightarrow> state_engine res" where
  "namedb_name_insert vc st name_rec =
    rbind (namedb_name_fields_check vc name_rec) (\<lambda>name_rec.
    rbind (or_abort (namedb_insert_prepare name_rec ''name_records'')) (insert_into st ''name_records''))"

text \<open>An update of a table must change exactly one row.\<close>

definition update_one :: "state_engine \<Rightarrow> string \<Rightarrow> string list \<Rightarrow> pydict \<Rightarrow> string list \<Rightarrow> pydict \<Rightarrow> state_engine res" where
  "update_one st table_name primary_keys opdata must_equal only_if =
    rbind (or_abort (namedb_update_prepare primary_keys opdata table_name must_equal only_if)) (\<lambda>(update_set, where_set).
    rbind (update_rows st table_name update_set where_set) (\<lambda>(st', rowcount).
      if rowcount = 1 then Inr st' else Inl Abort))"

text \<open>The fields that keep their values in an update, less the constraints to ignore.\<close>

definition kept_fields :: "pydict \<Rightarrow> string list \<Rightarrow> string list \<Rightarrow> string list \<Rightarrow> string list" where
  "kept_fields opdata mutate_fields key constraints_ignored =
    foldl (\<lambda>must_equal ignored. remove1 ignored must_equal)
      (namedb_update_must_equal opdata mutate_fields @ key) constraints_ignored"

definition namedb_name_update ::
    "virtualchain \<Rightarrow> state_engine \<Rightarrow> string \<Rightarrow> pydict \<Rightarrow> pydict \<Rightarrow> string list \<Rightarrow> state_engine res" where
  "namedb_name_update vc st opcode opdata only_if constraints_ignored =
    rbind (namedb_name_fields_check vc opdata) (\<lambda>opdata.
    rbind (op_get_mutate_fields opcode) (\<lambda>mutate_fields.
      assert_that (opcode \<in> set OPCODE_CREATION_OPS \<or> ''name'' \<notin> set mutate_fields)
        (update_one st ''name_records'' [''name'', ''block_number''] opdata
          (kept_fields opdata mutate_fields [''name'', ''block_number''] constraints_ignored) only_if)))"

definition namedb_namespace_fields_check :: "pydict \<Rightarrow> pydict res" where
  "namedb_namespace_fields_check namespace_rec =
    assert_that (has_key namespace_rec ''namespace_id'' \<and> has_key namespace_rec ''buckets'' \<and>
      is_str (dget namespace_rec ''buckets'' VNone)) (Inr namespace_rec)"

definition namedb_namespace_insert :: "state_engine \<Rightarrow> pydict \<Rightarrow> state_engine res" where
  "namedb_namespace_insert st namespace_rec =
    rbind (namedb_namespace_fields_check namespace_rec) (\<lambda>namespace_rec.
    rbind (or_abort (namedb_insert_prepare namespace_rec ''namespaces'')) (insert_into st ''namespaces''))"

definition namedb_namespace_update :: "state_engine \<Rightarrow> string \<Rightarrow> pydict \<Rightarrow> string list \<Rightarrow> state_engine res" where
  "namedb_namespace_update st opcode opdata constraints_ignored =
    assert_that (has_key opdata ''namespace_id'')
     (rbind (op_get_mutate_fields opcode) (\<lambda>mutate_fields.
      rbind (if opcode \<notin> set OPCODE_CREATION_OPS
             then assert_that (''namespace_id'' \<notin> set mutate_fields) (Inr opdata)
             else namedb_namespace_fields_check opdata) (\<lambda>_.
        update_one st ''namespaces'' [''namespace_id'', ''block_number''] opdata
          (kept_fields opdata mutate_fields [''namespace_id'', ''block_number''] constraints_ignored) [])))"

section \<open>History\<close>

definition namedb_is_history_snapshot :: "pydict \<Rightarrow> bool res" where
  "namedb_is_history_snapshot history_snapshot =
    assert_that (has_key history_snapshot ''op'')
     (rbind (get_str history_snapshot ''op'') (\<lambda>op.
      rbind (op_get_opcode_name op) (\<lambda>opcode.
      rbind (op_get_consensus_fields opcode) (\<lambda>consensus_fields.
        assert_that (has_keys history_snapshot consensus_fields) (Inr True)))))"

text \<open>
  Saves the canonical form of the record, and returns it: \<open>op_canonicalize\<close> changes the record of the
  caller in place.
\<close>

definition namedb_history_save :: "virtualchain \<Rightarrow> state_engine \<Rightarrow> string \<Rightarrow> string \<Rightarrow> pyval \<Rightarrow> pyval \<Rightarrow> pyval \<Rightarrow> pyval \<Rightarrow>
    pyval \<Rightarrow> pydict \<Rightarrow> (pydict \<times> state_engine) res" where
  "namedb_history_save vc st opcode hid creator value_hash block_id vtxindex txid accepted_rec =
    assert_that (has_key accepted_rec ''op'')
     (rbind (get_str accepted_rec ''op'') (\<lambda>op.
      rbind (op_canonicalize vc opcode accepted_rec) (\<lambda>record_data.
      case (py_int block_id, py_int vtxindex, txid) of
        (Some b, Some v, VStr t) \<Rightarrow>
          if list_ex (\<lambda>r. (h_txid r, h_block_id r, h_vtxindex r) = (t, b, v)) (history_rows st) then Inl Abort
          else Inr (record_data, st\<lparr>history_rows := history_rows st @ [\<lparr>h_txid = t, h_history_id = hid,
            creator_address = creator, h_block_id = b, h_vtxindex = v, h_op = op, h_opcode = opcode,
            h_value_hash = value_hash, history_data = record_data\<rparr>]\<rparr>)
      | _ \<Rightarrow> Inl Abort)))"

lemma namedb_history_save_Inr:
  assumes "namedb_history_save vc st opcode hid creator value_hash block_id vtxindex txid rec = Inr (d, st')"
  shows "\<exists>op b v t. map_of rec ''op'' = Some (VStr op) \<and> op_canonicalize vc opcode rec = Inr d \<and> py_int block_id = Some b \<and>
    py_int vtxindex = Some v \<and> txid = VStr t \<and> (\<forall>r \<in> set (history_rows st). (h_txid r, h_block_id r, h_vtxindex r) \<noteq> (t, b, v)) \<and>
    st' = st\<lparr>history_rows := history_rows st @ [\<lparr>h_txid = t, h_history_id = hid, creator_address = creator, h_block_id = b,
      h_vtxindex = v, h_op = op, h_opcode = opcode, h_value_hash = value_hash, history_data = d\<rparr>]\<rparr>"
proof -
  obtain t b v where "txid = VStr t" "py_int block_id = Some b" "py_int vtxindex = Some v"
    using assms by (cases txid; cases "py_int block_id"; cases "py_int vtxindex") (auto simp: namedb_history_save_def res_simps)
  with assms show ?thesis
    by (auto simp: namedb_history_save_def res_simps list_ex_iff)
qed

end
