(* ===== verification/Commit.thy ===== *)
theory Commit
  imports Statements
begin

text \<open>
  Committing accepted operations: the creations, imports and transitions of records of
  \<open>lib/nameset/db.py\<close>, and the \<open>commit_\<close> methods of the class \<open>BlockstackDB\<close>
  (\<open>lib/nameset/namedb.py\<close>) that call them, debit and credit accounts and return the consensus fields.
\<close>

section \<open>Sanity checks\<close>

definition namedb_op_sanity_check :: "string \<Rightarrow> pydict \<Rightarrow> pydict \<Rightarrow> bool res" where
  "namedb_op_sanity_check opcode op_data record =
    assert_that (has_key record ''address'' \<and> has_key op_data ''op'')
     (rbind (rbind (get_str op_data ''op'') op_get_opcode_name) (\<lambda>op_data_opcode.
      assert_that (has_key record ''op'')
       (rbind (rbind (get_str record ''op'') op_get_opcode_name) (\<lambda>cur_opcode.
        assert_that (op_data_opcode = opcode \<or>
            map_of NAME_OPCODES op_data_opcode \<noteq> None \<and> map_of NAME_OPCODES op_data_opcode = map_of NAME_OPCODES opcode)
          (assert_that (opcode \<in> set (map fst OPCODE_SEQUENCE_GRAPH))
            (case map_of OPCODE_SEQUENCE_GRAPH cur_opcode of
               None \<Rightarrow> Inl AssertionError
             | Some reachable \<Rightarrow> assert_that (opcode \<in> set reachable) (Inr True)))))))"

definition namedb_state_mutation_sanity_check :: "string \<Rightarrow> pydict \<Rightarrow> bool res" where
  "namedb_state_mutation_sanity_check opcode op_data =
    rbind (op_get_mutate_fields opcode) (\<lambda>mutate_fields. assert_that (has_keys op_data mutate_fields) (Inr True))"

definition namedb_state_transition_sanity_check :: "string \<Rightarrow> pydict \<Rightarrow> string \<Rightarrow> pydict \<Rightarrow> string \<Rightarrow> bool res" where
  "namedb_state_transition_sanity_check opcode op_data hid cur_record record_table =
    rbind (namedb_op_sanity_check opcode op_data cur_record) (\<lambda>_.
    assert_that (opcode \<in> set OPCODE_NAME_STATE_TRANSITIONS \<longrightarrow>
        record_table = ''name_records'' \<and> map_of cur_record ''name'' = Some (VStr hid) \<and> map_of op_data ''name'' = Some (VStr hid))
     (assert_that (opcode \<notin> set OPCODE_NAME_STATE_TRANSITIONS \<and> opcode \<in> set OPCODE_NAMESPACE_STATE_TRANSITIONS \<longrightarrow>
        record_table = ''namespaces'' \<and> map_of cur_record ''namespace_id'' = Some (VStr hid) \<and>
        map_of op_data ''namespace_id'' = Some (VStr hid))
      (rbind (if has_key cur_record ''block_number'' then getitem cur_record ''block_number'' else Inl AssertionError) (\<lambda>cur_block.
        assert_that (case map_of op_data ''block_number'' of None \<Rightarrow> True | Some b \<Rightarrow> py_eq b cur_block) (Inr True)))))"

section \<open>State transitions\<close>

definition namedb_state_transition :: "virtualchain \<Rightarrow> state_engine \<Rightarrow> string \<Rightarrow> pydict \<Rightarrow> int \<Rightarrow> pyval \<Rightarrow> pyval \<Rightarrow> string \<Rightarrow>
    pydict \<Rightarrow> string \<Rightarrow> string list \<Rightarrow> (pydict \<times> state_engine) res" where
  "namedb_state_transition vc st opcode op_data block_id vtxindex txid hid cur_record record_table constraints_ignored =
    (if opcode \<notin> set (OPCODE_NAME_STATE_TRANSITIONS @ OPCODE_NAMESPACE_STATE_TRANSITIONS) \<or> has_key op_data ''opcode''
     then Inl Abort
     else
       let is_name = (opcode \<in> set OPCODE_NAME_STATE_TRANSITIONS);
           op_data_name = dset op_data (if is_name then ''name'' else ''namespace_id'') (VStr hid)
       in rbind (or_abort (
             assert_that (has_key cur_record ''block_number'')
              (rbind (getitem cur_record ''block_number'') (\<lambda>b.
               let op_data_name = dset op_data_name ''block_number'' b in
               rbind (namedb_state_transition_sanity_check opcode op_data_name hid cur_record record_table) (\<lambda>_.
               rbind (namedb_state_mutation_sanity_check opcode op_data_name) (\<lambda>_. Inr op_data_name)))))) (\<lambda>op_data_name.
          let new_record = dset (dupdate cur_record op_data_name) ''opcode'' (VStr opcode) in
          rbind (op_canonicalize_quirks opcode new_record (Some cur_record)) (\<lambda>canonicalized_record.
          rbind (namedb_history_save vc st opcode hid VNone (dget new_record ''value_hash'' VNone) (VInt block_id) vtxindex txid
              (dset canonicalized_record ''opcode'' (VStr opcode))) (\<lambda>(canonicalized_record, st).
          let stored_op_data = foldl discard op_data_name (snd (namedb_find_missing_and_extra op_data_name record_table)) in
          rbind (if is_name then namedb_name_update vc st opcode stored_op_data [] constraints_ignored
                 else namedb_namespace_update st opcode stored_op_data constraints_ignored) (\<lambda>st.
          rbind (if is_name then namedb_get_name st hid block_id True True
                 else namedb_get_namespace st hid (Some block_id) True True) (\<lambda>merged. case merged of
            None \<Rightarrow> Inl TypeError
          | Some merged_new_record \<Rightarrow>
              if has_keys canonicalized_record (dkeys merged_new_record) then Inr (canonicalized_record, st)
              else Inl (Exception ''canonicalized record is missing a field'')))))))"

section \<open>State creations\<close>

definition namedb_state_create_sanity_check :: "string \<Rightarrow> pydict \<Rightarrow> pydict \<Rightarrow> string \<Rightarrow> bool res" where
  "namedb_state_create_sanity_check opcode op_data preorder_record record_table =
    rbind (namedb_op_sanity_check opcode op_data preorder_record) (\<lambda>_.
    rbind (rbind (get_str preorder_record ''op'') op_get_opcode_name) (\<lambda>preorder_opcode.
      if opcode \<in> set OPCODE_NAME_STATE_CREATIONS then
        assert_that (record_table = ''name_records'' \<and> preorder_opcode \<in> set OPCODE_NAME_STATE_PREORDER \<and>
          has_key op_data ''name'' \<and> has_key op_data ''block_number'') (Inr True)
      else if opcode \<in> set OPCODE_NAMESPACE_STATE_CREATIONS then
        assert_that (record_table = ''namespaces'' \<and> preorder_opcode \<in> set OPCODE_NAMESPACE_STATE_PREORDER \<and>
          has_key op_data ''namespace_id'' \<and> has_key op_data ''block_number'') (Inr True)
      else Inr True))"

definition preorder_history_fields :: "string list" where
  "preorder_history_fields = [''op'', ''preorder_hash'', ''block_number'', ''vtxindex'', ''txid'', ''burn_address'',
     ''token_fee'', ''op_fee'']"

definition namedb_state_create :: "virtualchain \<Rightarrow> state_engine \<Rightarrow> string \<Rightarrow> pydict \<Rightarrow> int \<Rightarrow> pyval \<Rightarrow> pyval \<Rightarrow> string \<Rightarrow>
    pydict \<Rightarrow> string \<Rightarrow> string list \<Rightarrow> (pydict \<times> state_engine) res" where
  "namedb_state_create vc st opcode new_record block_id vtxindex txid hid preorder_record record_table constraints_ignored =
    (if opcode \<notin> set (OPCODE_NAME_STATE_CREATIONS @ OPCODE_NAMESPACE_STATE_CREATIONS) \<or> opcode \<in> set OPCODE_NAME_STATE_IMPORTS
     then Inl Abort
     else
       let is_name = (opcode \<in> set OPCODE_NAME_STATE_CREATIONS) in
       rbind (if is_name then namedb_get_name st hid block_id True True
              else namedb_get_namespace st hid (Some block_id) True True) (\<lambda>prev_rec.
       rbind (or_abort (assert_that (has_keys preorder_record preorder_history_fields)
          (case prev_rec of
             None \<Rightarrow> Inr (token_fee_text preorder_record)
           | Some prev \<Rightarrow>
               rbind (getitem prev ''block_number'') (\<lambda>b. rbind (getitem new_record ''block_number'') (\<lambda>b'.
                 assert_that (py_eq b b') (Inr (token_fee_text preorder_record))))))) (\<lambda>preorder_record_history.
       rbind (or_abort (
          rbind (if prev_rec = None then namedb_state_create_sanity_check opcode new_record preorder_record record_table
                 else Inr True) (\<lambda>_.
          rbind (namedb_state_mutation_sanity_check opcode new_record) (\<lambda>_.
            assert_that (\<not> has_key new_record ''opcode'') (Inr True))))) (\<lambda>_.
       rbind (get_str preorder_record ''opcode'') (\<lambda>preorder_opcode.
       rbind (getitem preorder_record ''block_number'') (\<lambda>preorder_block.
       rbind (getitem preorder_record ''vtxindex'') (\<lambda>preorder_vtxindex.
       rbind (getitem preorder_record ''txid'') (\<lambda>preorder_txid.
       rbind (namedb_history_save vc st preorder_opcode hid VNone VNone preorder_block preorder_vtxindex preorder_txid
          preorder_record_history) (\<lambda>(_, st).
       let history_data = dset new_record ''opcode'' (VStr opcode) in
       rbind (op_canonicalize_quirks opcode history_data prev_rec) (\<lambda>canonicalized_record.
       rbind (getitem history_data ''address'') (\<lambda>creator.
       rbind (namedb_history_save vc st opcode hid creator (dget history_data ''value_hash'' VNone) (VInt block_id) vtxindex txid
          (dset canonicalized_record ''opcode'' (VStr opcode))) (\<lambda>(canonicalized_record, st).
       rbind (if is_name then
                (if prev_rec \<noteq> None then namedb_name_update vc st opcode new_record [] constraints_ignored
                 else namedb_name_insert vc st new_record)
              else
                (if prev_rec \<noteq> None then namedb_namespace_update st opcode new_record constraints_ignored
                 else namedb_namespace_insert st new_record)) (\<lambda>st.
       rbind (getitem preorder_record ''preorder_hash'') (\<lambda>preorder_hash.
         Inr (canonicalized_record, namedb_preorder_remove st preorder_hash)))))))))))))))"

section \<open>Imports\<close>

definition namedb_name_import_sanity_check ::
    "state_engine \<Rightarrow> string \<Rightarrow> pydict \<Rightarrow> string \<Rightarrow> int \<Rightarrow> int \<Rightarrow> pydict option \<Rightarrow> string \<Rightarrow> bool res" where
  "namedb_name_import_sanity_check st opcode op_data hid block_id vtxindex prior_import record_table =
    assert_that (opcode \<in> set OPCODE_NAME_STATE_IMPORTS \<and> record_table = ''name_records'')
     (rbind (namedb_is_history_snapshot op_data) (\<lambda>_.
      rbind (namedb_op_sanity_check opcode op_data op_data) (\<lambda>_.
      rbind (namedb_get_name st hid block_id False True) (\<lambda>name_rec. case prior_import of
        None \<Rightarrow> assert_that (name_rec = None) (Inr True)
      | Some prior \<Rightarrow>
          assert_that (name_rec \<noteq> None)
           (rbind (getitem prior ''name'') (\<lambda>n. assert_that (py_eq n (VStr hid))
             (rbind (get_int prior ''block_number'') (\<lambda>b. 
              rbind (if b = block_id then get_int prior ''vtxindex'' else Inr 0) (\<lambda>v.
               assert_that (b < block_id \<or> b = block_id \<and> v < vtxindex) (Inr True)))))))))) "

definition namedb_state_create_as_import :: "virtualchain \<Rightarrow> state_engine \<Rightarrow> string \<Rightarrow> pydict \<Rightarrow> int \<Rightarrow> pyval \<Rightarrow> pyval \<Rightarrow> string \<Rightarrow>
    string \<Rightarrow> string list \<Rightarrow> (pydict \<times> state_engine) res" where
  "namedb_state_create_as_import vc st opcode new_record block_id vtxindex txid hid record_table constraints_ignored =
    (if opcode \<notin> set OPCODE_NAME_STATE_IMPORTS then Inl Abort
     else rbind (case py_int vtxindex of None \<Rightarrow> Inl Abort | Some v \<Rightarrow> Inr v) (\<lambda>v.
       let prior_import = namedb_get_last_name_import st hid block_id v in
       rbind (or_abort (
          rbind (namedb_name_import_sanity_check st opcode new_record hid block_id v prior_import record_table) (\<lambda>_.
          rbind (namedb_state_mutation_sanity_check opcode new_record) (\<lambda>_.
            assert_that (\<not> has_key new_record ''opcode'') (Inr True))))) (\<lambda>_.
       rbind (if prior_import = None then getitem new_record ''address'' else Inr VNone) (\<lambda>creator.
       rbind (op_canonicalize_quirks opcode new_record prior_import) (\<lambda>canonicalized_record.
       rbind (namedb_history_save vc st opcode hid creator (dget new_record ''value_hash'' VNone) (VInt block_id) vtxindex txid
          (dset canonicalized_record ''opcode'' (VStr opcode))) (\<lambda>(canonicalized_record, st).
       rbind (if prior_import = None then namedb_name_insert vc st new_record
              else namedb_name_update vc st opcode new_record [] constraints_ignored) (\<lambda>st.
         Inr (canonicalized_record, st))))))))"

section \<open>The class BlockstackDB\<close>

text \<open>\<open>sanitize_op\<close>: without the tags and the opcode, and with every field that the operation changes.\<close>

definition sanitize_op :: "virtualchain \<Rightarrow> pydict \<Rightarrow> pydict res" where
  "sanitize_op vc op_data =
    (let op_data = foldl discard (engine_sanitize_op vc op_data) get_state_invariant_tags in
     rbind (get_str op_data ''op'') (\<lambda>op.
     rbind (op_get_opcode_name op) (\<lambda>opcode_family.
     rbind (op_get_mutate_fields opcode_family) (\<lambda>mutate_fields.
       Inr (discard (foldl (\<lambda>d mf. if has_key d mf then d else dset d mf VNone) op_data mutate_fields) ''opcode'')))))"

definition extract_consensus_op :: "string \<Rightarrow> pydict \<Rightarrow> pydict res" where
  "extract_consensus_op opcode processed_op_data =
    rbind (op_get_consensus_fields opcode) (\<lambda>consensus_fields.
      rfold (\<lambda>ret field. case map_of processed_op_data field of
        None \<Rightarrow> Inl Abort | Some v \<Rightarrow> Inr (dset ret field v)) [] (consensus_fields @ op_get_quirk_fields opcode))"

text \<open>The account, the token type and the amount of a payment, unless one of them is \<open>None\<close>.\<close>

definition payment_of :: "pyval \<Rightarrow> (string \<times> string \<times> int) option res" where
  "payment_of info = (case info of
     VDict d \<Rightarrow>
       rbind (getitem d ''address'') (\<lambda>a. rbind (getitem d ''amount'') (\<lambda>n. rbind (getitem d ''type'') (\<lambda>t.
         case (a, t, py_int n) of
           (VStr a, VStr t, Some i) \<Rightarrow> Inr (Some (a, t, i))
         | _ \<Rightarrow> if a = VNone \<or> n = VNone \<or> t = VNone then Inr None else Inl TypeError)))
   | _ \<Rightarrow> Inl TypeError)"

definition commit_account_debit :: "state_engine \<Rightarrow> pyval \<Rightarrow> int \<Rightarrow> int \<Rightarrow> string \<Rightarrow> state_engine res" where
  "commit_account_debit st account_payment_info current_block_number current_vtxindex current_txid =
    rbind (payment_of account_payment_info) (\<lambda>p. case p of
      None \<Rightarrow> Inr st
    | Some (address, token_type, amount) \<Rightarrow>
        if amount < 0 \<or> \<not> is_token_type_supported token_type then Inl Abort
        else rbind (namedb_account_debit (account_rows st) address token_type amount current_block_number
               current_vtxindex current_txid) (\<lambda>rows. Inr (st\<lparr>account_rows := rows\<rparr>)))"

definition commit_account_credit :: "state_engine \<Rightarrow> pyval \<Rightarrow> int \<Rightarrow> int \<Rightarrow> string \<Rightarrow> state_engine res" where
  "commit_account_credit st account_credit_info current_block_number current_vtxindex current_txid =
    rbind (payment_of account_credit_info) (\<lambda>p. case p of
      None \<Rightarrow> Inr st
    | Some (address, token_type, amount) \<Rightarrow>
        if amount < 0 \<or> \<not> is_token_type_supported token_type then Inl Abort
        else rbind (namedb_account_credit (account_rows st) address token_type amount current_block_number
               current_vtxindex current_txid) (\<lambda>rows. Inr (st\<lparr>account_rows := rows\<rparr>)))"

text \<open>The point in the chain of an operation: its \<open>vtxindex\<close> and its \<open>txid\<close>.\<close>

definition op_point :: "pydict \<Rightarrow> (int \<times> string) res" where
  "op_point op = rbind (get_int op ''vtxindex'') (\<lambda>v. rbind (get_str op ''txid'') (\<lambda>t. Inr (v, t)))"

definition reject_collided :: "state_engine \<Rightarrow> pydict \<Rightarrow> int \<Rightarrow> (pydict \<times> state_engine) res" where
  "reject_collided st nameop current_block_number =
    rbind (get_int nameop ''vtxindex'') (\<lambda>v.
    rbind (get_str nameop ''op'') (\<lambda>op.
    rbind (log_reject st current_block_number v op nameop) (\<lambda>st. Inr ([], st))))"

text \<open>The getters of the tags, which raise \<open>KeyError\<close> on an operation without the tag.\<close>

definition state_preorder_get_account_payment_info :: "pydict \<Rightarrow> pyval res" where
  "state_preorder_get_account_payment_info nameop = getitem nameop ''__account_payment_info__''"

definition state_create_get_preorder :: "pydict \<Rightarrow> pyval res" where
  "state_create_get_preorder nameop = getitem nameop ''__preorder__''"

definition state_create_get_table :: "pydict \<Rightarrow> string res" where
  "state_create_get_table nameop = get_str nameop ''__table__''"

definition state_create_get_history_id_key :: "pydict \<Rightarrow> string res" where
  "state_create_get_history_id_key nameop = get_str nameop ''__history_id_key__''"

definition str_list :: "pyval \<Rightarrow> string list res" where
  "str_list v = (case v of VList l \<Rightarrow> rmap as_str l | _ \<Rightarrow> Inl TypeError)"

definition state_create_get_always_set :: "pydict \<Rightarrow> string list res" where
  "state_create_get_always_set nameop = rbind (getitem nameop ''__always_set__'') str_list"

definition state_transition_get_table :: "pydict \<Rightarrow> string res" where
  "state_transition_get_table nameop = get_str nameop ''__table__''"

definition state_transition_get_account_payment_info :: "pydict \<Rightarrow> pyval res" where
  "state_transition_get_account_payment_info nameop = getitem nameop ''__account_payment_info__''"

definition state_transition_get_history_id_key :: "pydict \<Rightarrow> string res" where
  "state_transition_get_history_id_key nameop = get_str nameop ''__history_id_key__''"

definition state_transition_get_always_set :: "pydict \<Rightarrow> string list res" where
  "state_transition_get_always_set nameop = rbind (getitem nameop ''__always_set__'') str_list"

definition token_operation_get_account_payment_info :: "pydict \<Rightarrow> pyval res" where
  "token_operation_get_account_payment_info token_op =
    rbind (getitem token_op ''__account_payment_info__'') (\<lambda>v. assert_that (v \<noteq> VNone) (Inr v))"

definition token_operation_get_account_credit_info :: "pydict \<Rightarrow> pyval res" where
  "token_operation_get_account_credit_info token_op =
    rbind (getitem token_op ''__account_credit_info__'') (\<lambda>v. assert_that (v \<noteq> VNone) (Inr v))"

definition token_operation_get_table :: "pydict \<Rightarrow> pyval res" where
  "token_operation_get_table token_op = rbind (getitem token_op ''__table__'') (\<lambda>v. assert_that (v \<noteq> VNone) (Inr v))"

definition commit_state_preorder :: "virtualchain \<Rightarrow> state_engine \<Rightarrow> pydict \<Rightarrow> int \<Rightarrow> (pydict \<times> state_engine) res" where
  "commit_state_preorder vc st nameop current_block_number =
    (if dget nameop ''opcode'' VNone = VNone then Inl Abort
     else rbind (state_preorder_get_account_payment_info nameop) (\<lambda>account_payment_info.
       if nameop_is_collided nameop then reject_collided st nameop current_block_number
       else rbind (sanitize_op vc nameop) (\<lambda>commit_preorder.
         rbind (namedb_preorder_insert st commit_preorder) (\<lambda>st.
         rbind (op_point nameop) (\<lambda>(vtxindex, txid).
         rbind (commit_account_debit st account_payment_info current_block_number vtxindex txid) (\<lambda>st.
           Inr (commit_preorder, st)))))))"

definition commit_state_create :: "virtualchain \<Rightarrow> state_engine \<Rightarrow> pydict \<Rightarrow> int \<Rightarrow> (pydict \<times> state_engine) res" where
  "commit_state_create vc st nameop current_block_number =
    rbind (or_abort (
      rbind (state_create_is_valid nameop) (\<lambda>_.
      rbind (get_str nameop ''opcode'') (\<lambda>opcode.
      rbind (state_create_get_preorder nameop) (\<lambda>preorder. Inr (opcode, preorder)))))) (\<lambda>(opcode, preorder).
    rbind (sanitize_op vc nameop) (\<lambda>initial_state.
    rbind (state_create_get_table nameop) (\<lambda>table.
    rbind (state_create_get_history_id_key nameop) (\<lambda>history_id_key.
    rbind (get_str nameop history_id_key) (\<lambda>hid.
    rbind (state_create_get_always_set nameop) (\<lambda>constraints_ignored.
      if nameop_is_collided nameop then reject_collided st nameop current_block_number
      else
        rbind (getitem initial_state ''vtxindex'') (\<lambda>vtxindex.
        rbind (getitem initial_state ''txid'') (\<lambda>txid.
        rbind (case preorder of
            VNone \<Rightarrow>
              if opcode \<notin> set OPCODE_NAME_STATE_IMPORTS then Inl Abort
              else namedb_state_create_as_import vc st opcode initial_state current_block_number vtxindex txid hid table
                     constraints_ignored
          | VDict preorder \<Rightarrow>
              if \<not> has_key preorder ''preorder_hash'' then Inl Abort
              else namedb_state_create vc st opcode initial_state current_block_number vtxindex txid hid preorder table
                     constraints_ignored
          | _ \<Rightarrow> Inl Abort) (\<lambda>(canonical_opdata, st).
          if canonical_opdata = [] then Inl Abort else Inr (canonical_opdata, st))))))))))"

definition commit_state_transition :: "virtualchain \<Rightarrow> state_engine \<Rightarrow> pydict \<Rightarrow> int \<Rightarrow> (pydict \<times> state_engine) res" where
  "commit_state_transition vc st nameop current_block_number =
    rbind (state_transition_get_always_set nameop) (\<lambda>constraints_ignored.
    rbind (sanitize_op vc nameop) (\<lambda>transition.
    rbind (or_abort (rbind (state_transition_is_valid nameop) (\<lambda>_. get_str nameop ''opcode''))) (\<lambda>opcode.
    rbind (state_transition_get_table nameop) (\<lambda>table.
    rbind (state_transition_get_history_id_key nameop) (\<lambda>history_id_key.
    rbind (state_transition_get_account_payment_info nameop) (\<lambda>account_payment_info.
    rbind (get_str nameop history_id_key) (\<lambda>hid.
    rbind (if history_id_key = ''name'' then namedb_get_name st hid current_block_number True True
           else if history_id_key = ''namespace_id'' then namedb_get_namespace st hid (Some current_block_number) True True
           else Inl (Exception ''Unknown history ID key'')) (\<lambda>rec. case rec of
      None \<Rightarrow> Inl Abort
    | Some cur_record \<Rightarrow>
        rbind (getitem transition ''vtxindex'') (\<lambda>vtxindex.
        rbind (getitem transition ''txid'') (\<lambda>txid.
        rbind (namedb_state_transition vc st opcode transition current_block_number vtxindex txid hid cur_record table
            constraints_ignored) (\<lambda>(canonical_op, st).
          if canonical_op = [] then Inl Abort
          else rbind (op_point transition) (\<lambda>(vtxindex, txid).
            rbind (commit_account_debit st account_payment_info current_block_number vtxindex txid) (\<lambda>st.
              Inr (canonical_op, st))))))))))))))"

text \<open>\<open>for key in info: assert info[key] is not None\<close>.\<close>

definition fully_set :: "pyval \<Rightarrow> bool" where
  "fully_set info = (case info of VDict d \<Rightarrow> list_all (\<lambda>(_, v). v \<noteq> VNone) d | _ \<Rightarrow> False)"

definition commit_token_operation :: "virtualchain \<Rightarrow> state_engine \<Rightarrow> pydict \<Rightarrow> int \<Rightarrow> (pydict \<times> state_engine) res" where
  "commit_token_operation vc st token_op current_block_number =
    rbind (sanitize_op vc token_op) (\<lambda>clean_token_op.
    rbind (or_abort (rbind (token_operation_is_valid token_op) (\<lambda>_.
      rbind (get_str token_op ''opcode'') (\<lambda>opcode.
      assert_that (has_key token_op ''txid'' \<and> has_key token_op ''vtxindex'') (Inr opcode))))) (\<lambda>opcode.
    rbind (token_operation_get_table token_op) (\<lambda>_.
    rbind (token_operation_get_account_payment_info token_op) (\<lambda>account_payment_info.
    rbind (token_operation_get_account_credit_info token_op) (\<lambda>account_credit_info.
      if \<not> fully_set account_payment_info \<or> \<not> fully_set account_credit_info then Inl Abort
      else
        rbind (op_point token_op) (\<lambda>(vtxindex, txid).
        rbind (commit_account_debit st account_payment_info current_block_number vtxindex txid) (\<lambda>st.
        rbind (commit_account_credit st account_credit_info current_block_number vtxindex txid) (\<lambda>st.
        rbind (get_str token_op ''address'') (\<lambda>address.
          namedb_history_save vc st opcode address VNone VNone (VInt current_block_number) (VInt vtxindex) (VStr txid)
            clean_token_op)))))))))"

definition commit_operation :: "virtualchain \<Rightarrow> state_engine \<Rightarrow> pydict \<Rightarrow> int \<Rightarrow> (pydict \<times> state_engine) res" where
  "commit_operation vc st accepted_nameop current_block_number =
    (case dget accepted_nameop ''opcode'' VNone of
       VStr opcode \<Rightarrow>
         rbind (if opcode \<in> set OPCODE_PREORDER_OPS then commit_state_preorder vc st accepted_nameop current_block_number
                else if opcode \<in> set OPCODE_CREATION_OPS then commit_state_create vc st accepted_nameop current_block_number
                else if opcode \<in> set OPCODE_TRANSITION_OPS then commit_state_transition vc st accepted_nameop current_block_number
                else if opcode \<in> set OPCODE_TOKEN_OPS then commit_token_operation vc st accepted_nameop current_block_number
                else Inl (Exception ''Unknown operation'')) (\<lambda>(canonical_op, st).
         rbind (extract_consensus_op opcode canonical_op) (\<lambda>consensus_op. Inr (consensus_op, st)))
     | _ \<Rightarrow> Inl Abort)"

section \<open>The end of a block\<close>

definition commit_account_vesting :: "virtualchain \<Rightarrow> state_engine \<Rightarrow> int \<Rightarrow> state_engine res" where
  "commit_account_vesting vc st block_height =
    (if block_height \<in> set (vesting st) then Inl Abort
     else rbind (namedb_accounts_vest vc (account_rows st) (vesting_rows st) block_height) (\<lambda>rows.
       Inr (st\<lparr>account_rows := rows, vesting := block_height # vesting st\<rparr>)))"

definition clear_vesting :: "state_engine \<Rightarrow> int \<Rightarrow> state_engine" where
  "clear_vesting st block_id = st\<lparr>vesting := filter (\<lambda>b. b \<noteq> block_id) (vesting st)\<rparr>"

definition clear_rejected :: "state_engine \<Rightarrow> int \<Rightarrow> state_engine" where
  "clear_rejected st block_id = st\<lparr>rejected := filter (\<lambda>(b, _). b \<noteq> block_id) (rejected st)\<rparr>"

definition commit_finished :: "state_engine \<Rightarrow> int \<Rightarrow> state_engine res" where
  "commit_finished st block_id =
    assert_that (block_id + 1 \<in> set (vesting st))
      (Inr (clear_vesting (clear_rejected (clear_collisions st block_id) block_id) (block_id + 1)))"

end
