(* ===== verification/GenesisPatch.thy ===== *)
theory GenesisPatch
  imports Accounts
begin

text \<open>
  Patches of the genesis allocation (\<open>lib/nameset/db.py\<close>, \<open>namedb_patch_genesis\<close> and the functions it
  calls): at a given block, new tokens and new vesting schedules are merged into accounts as if
  they had been there from the first block, and unspendable accounts are removed.
\<close>

section \<open>Vesting schedules\<close>

text \<open>
  The vesting schedule of a genesis row is a JSON object, so the block heights are text. Their order
  is the order of strings.
\<close>

definition str_le :: "string \<Rightarrow> string \<Rightarrow> bool" where
  "str_le s t = (s = t \<or> str_lt s t)"

fun insert_str :: "string \<times> int \<Rightarrow> (string \<times> int) list \<Rightarrow> (string \<times> int) list" where
  "insert_str x [] = [x]"
| "insert_str x (y # ys) = (if str_le (fst x) (fst y) then x # y # ys else y # insert_str x ys)"

definition sort_str :: "(string \<times> int) list \<Rightarrow> (string \<times> int) list" where
  "sort_str xs = foldr insert_str xs []"

fun vesting_total_loop :: "(string \<times> int) list \<Rightarrow> int \<Rightarrow> int \<Rightarrow> int res" where
  "vesting_total_loop [] block_height acc = Inr acc"
| "vesting_total_loop ((ks, v) # rest) block_height acc =
    rbind (int_of_str ks) (\<lambda>k. if k > block_height then Inr acc else vesting_total_loop rest block_height (acc + v))"

definition namedb_cumulative_vesting_at :: "(string \<times> int) list \<Rightarrow> int \<Rightarrow> int res" where
  "namedb_cumulative_vesting_at vesting block_height = vesting_total_loop (sort_str vesting) block_height 0"

definition vesting_text :: "(int \<times> int) list \<Rightarrow> (string \<times> int) list" where
  "vesting_text vs = map (\<lambda>(b, v). (str_of_int b, v)) vs"

definition namedb_get_account_vesting :: "vesting_row list \<Rightarrow> string \<Rightarrow> string \<Rightarrow> (int \<times> int) list" where
  "namedb_get_account_vesting vs address token_type =
    map (\<lambda>r. (vest_block_id r, vesting_value r))
      (sort_key (\<lambda>r. - vest_block_id r) (filter (\<lambda>r. vest_address r = address \<and> vest_type r = token_type) vs))"

text \<open>The sum of two schedules, by block height.\<close>

definition merged_vesting :: "(int \<times> int) list \<Rightarrow> (int \<times> int) list \<Rightarrow> (int \<times> int) list" where
  "merged_vesting cur_vesting new_vesting =
    (let at_block = (\<lambda>vs b. case map_of vs b of None \<Rightarrow> 0 | Some v \<Rightarrow> v) in
     map (\<lambda>b. (b, at_block cur_vesting b + at_block new_vesting b))
       (sort (remdups (map fst cur_vesting @ map fst new_vesting))))"

section \<open>Histories of accounts\<close>

definition namedb_get_token_history_at :: "accounts \<Rightarrow> string \<Rightarrow> string \<Rightarrow> int \<Rightarrow> accounts res" where
  "namedb_get_token_history_at accts address token_type tail_block_height =
    rbind (namedb_get_account_history_at accts address tail_block_height None None) (\<lambda>rows.
      Inr (filter (\<lambda>r. acc_type r = token_type) rows))"

definition namedb_account_info_normalize :: "virtualchain \<Rightarrow> genesis_account \<Rightarrow> (string \<times> string \<times> bool) res" where
  "namedb_account_info_normalize vc g =
    (let r = rbind (if is_c32_address (gen_address g) then address_as_b58 vc (gen_address g) else Inr (gen_address g))
               (\<lambda>a. case address_reencode vc a of Some b \<Rightarrow> Inr b | None \<Rightarrow> Inl ValueError);
         meta = (case gen_metadata g of Some m \<Rightarrow> m | None \<Rightarrow> [])
     in case r of
          Inr a \<Rightarrow> Inr (a, meta, True)
        | Inl ValueError \<Rightarrow> assert_that (gen_receive_whitelisted g = Some False) (Inr (gen_address g, meta, False))
        | Inl e \<Rightarrow> Inl e)"

text \<open>Account histories by block.\<close>

definition by_block :: "accounts \<Rightarrow> int \<Rightarrow> accounts" where
  "by_block history b = filter (\<lambda>r. acc_block_id r = b) history"

definition in_order :: "accounts \<Rightarrow> accounts" where
  "in_order = sort_key (\<lambda>r. (acc_block_id r, acc_vtxindex r))"

definition blank_row :: "genesis_account \<Rightarrow> string \<Rightarrow> string \<Rightarrow> int \<Rightarrow> int \<Rightarrow> int \<Rightarrow> int \<Rightarrow> account_row" where
  "blank_row g address meta lock_send block credit debit =
    \<lparr>acc_address = address, acc_type = gen_type g, credit_value = credit, debit_value = debit,
     lock_transfer_block_id = lock_send, receive_whitelisted = True, metadata = VStr meta,
     acc_block_id = block, acc_txid = ''new'', acc_vtxindex = 0\<rparr>"

text \<open>
  A placeholder row for an unlock of tokens that the history lacks: the state of the account at the
  last earlier block of the original history. (The rows of an earlier block are appended in order,
  so its last state is the last one.)
\<close>

definition placeholder :: "genesis_account \<Rightarrow> string \<Rightarrow> string \<Rightarrow> int \<Rightarrow> accounts \<Rightarrow> int \<Rightarrow> account_row" where
  "placeholder g address meta lock_send history unlock_block =
    (let prior = filter (\<lambda>b. b < unlock_block) (map acc_block_id history);
         greatest = (if prior = [] then -1 else Max (set prior));
         state = (if greatest > 0 then Some (last (by_block history greatest)) else None)
     in blank_row g address meta lock_send unlock_block
          (case state of None \<Rightarrow> 0 | Some r \<Rightarrow> credit_value r) (case state of None \<Rightarrow> 0 | Some r \<Rightarrow> debit_value r))"

definition have_unlock :: "accounts \<Rightarrow> int \<Rightarrow> bool" where
  "have_unlock history unlock_block = list_ex (\<lambda>r. acc_vtxindex r = 0) (by_block history unlock_block)"

definition namedb_expand_account_history ::
    "virtualchain \<Rightarrow> accounts \<Rightarrow> genesis_account \<Rightarrow> (int \<times> int) list \<Rightarrow> int \<Rightarrow> int \<Rightarrow> accounts res" where
  "namedb_expand_account_history vc history g all_vesting lock_send merge_block_height =
    rbind (namedb_account_info_normalize vc g) (\<lambda>(address, meta, _).
      let unlocks = filter (\<lambda>b. b < merge_block_height \<and> \<not> have_unlock history b) (sort (map fst all_vesting));
          added = map (placeholder g address meta lock_send history) unlocks;
          first = (if FIRST_BLOCK_MAINNET \<in> set (map acc_block_id (history @ added)) then []
                   else [blank_row g address meta lock_send FIRST_BLOCK_MAINNET 0 0])
      in Inr (in_order (added @ first @ history)))"

section \<open>Merging an account\<close>

text \<open>The credit of a row grows by the new value and by the new tokens unlocked so far.\<close>

definition grant :: "virtualchain \<Rightarrow> genesis_account \<Rightarrow> string \<Rightarrow> (string \<times> int) list \<Rightarrow> account_row \<Rightarrow> account_row res" where
  "grant vc g address vesting r =
    rbind (namedb_cumulative_vesting_at vesting (acc_block_id r)) (\<lambda>unlocked.
      let r = r\<lparr>credit_value := credit_value r + gen_value g + unlocked\<rparr>
      in Inr (if acc_vtxindex r = 0
              then r\<lparr>acc_txid := namedb_vesting_txid vc address (gen_type g) (credit_value r) (acc_block_id r)\<rparr> else r))"

definition put_account :: "genesis_account \<Rightarrow> string \<Rightarrow> string \<Rightarrow> bool \<Rightarrow> int \<Rightarrow> accounts \<Rightarrow> account_row \<Rightarrow> accounts res" where
  "put_account g address meta whitelisted lock_send accts r =
    (if \<not> (- (2 ^ 63) \<le> credit_value r \<and> credit_value r < 2 ^ 63) then Inl Abort
     else case namedb_get_account_tokens_at accts address (gen_type g) (acc_block_id r) (acc_vtxindex r) of
       Some _ \<Rightarrow> Inr (map (\<lambda>a. if acc_block_id a = acc_block_id r \<and> acc_vtxindex a = acc_vtxindex r \<and>
           acc_address a = address \<and> acc_type a = gen_type g
         then a\<lparr>credit_value := credit_value r, lock_transfer_block_id := lock_send,
                receive_whitelisted := whitelisted, metadata := VStr meta\<rparr> else a) accts)
     | None \<Rightarrow> accounts_insert accts (r\<lparr>acc_address := address, acc_type := TOKEN_TYPE_STACKS,
         lock_transfer_block_id := lock_send, receive_whitelisted := whitelisted, metadata := VStr meta\<rparr>))"

text \<open>\<open>INSERT OR REPLACE INTO account_vesting\<close>.\<close>

definition put_vesting :: "genesis_account \<Rightarrow> string \<Rightarrow> vesting_row list \<Rightarrow> int \<times> int \<Rightarrow> vesting_row list" where
  "put_vesting g address vs bv =
    filter (\<lambda>w. \<not> (vest_address w = address \<and> vest_type w = gen_type g \<and> vest_block_id w = fst bv)) vs @
      [\<lparr>vest_address = address, vest_type = gen_type g, vesting_value = snd bv, vest_block_id = fst bv\<rparr>]"

definition namedb_merge_account_at ::
    "virtualchain \<Rightarrow> int \<Rightarrow> accounts \<times> vesting_row list \<Rightarrow> genesis_account \<Rightarrow> (accounts \<times> vesting_row list) res" where
  "namedb_merge_account_at vc merge_block_height tables g =
    rbind (namedb_account_info_normalize vc g) (\<lambda>(address, meta, whitelisted).
      let lock_send = (case gen_lock_send g of Some l \<Rightarrow> l | None \<Rightarrow> 0) in
      assert_that (lock_send \<ge> 0)
       (rbind (namedb_get_token_history_at (fst tables) address TOKEN_TYPE_STACKS merge_block_height) (\<lambda>rows.
        let history = in_order rows;
            lock_send = fold (\<lambda>r l. max l (lock_transfer_block_id r)) history lock_send in
        case gen_vesting g of
          None \<Rightarrow> Inl (KeyError ''vesting'')
        | Some new_vesting \<Rightarrow>
            let all_vesting = merged_vesting (namedb_get_account_vesting (snd tables) address TOKEN_TYPE_STACKS) new_vesting in
            rbind (namedb_expand_account_history vc history g all_vesting lock_send merge_block_height) (\<lambda>history.
            rbind (rmap (grant vc g address (vesting_text new_vesting)) history) (\<lambda>history.
            rbind (rfold (put_account g address meta whitelisted lock_send) (fst tables) history) (\<lambda>accts.
              Inr (accts, foldl (put_vesting g address) (snd tables) all_vesting)))))))"

text \<open>
  Only an address that is not valid may be removed. The conversion of a c32 address may succeed
  where the re-encoding then fails, and the rows of the converted address are deleted.
\<close>

definition namedb_remove_account ::
    "virtualchain \<Rightarrow> accounts \<times> vesting_row list \<Rightarrow> string \<Rightarrow> (accounts \<times> vesting_row list) res" where
  "namedb_remove_account vc tables account_address =
    (let remove = (\<lambda>address. Inr (filter (\<lambda>a. acc_address a \<noteq> address) (fst tables),
                                  filter (\<lambda>w. vest_address w \<noteq> address) (snd tables)))
     in case (if is_c32_address account_address then address_as_b58 vc account_address else Inr account_address) of
          Inl ValueError \<Rightarrow> remove account_address
        | Inl e \<Rightarrow> Inl e
        | Inr address \<Rightarrow> (case address_reencode vc address of
            None \<Rightarrow> remove address
          | Some _ \<Rightarrow> Inl (Exception ''Tried to remove legitimate account'')))"

text \<open>The history of the patch enters as the hash of its serialisation.\<close>

definition namedb_patch_genesis :: "virtualchain \<Rightarrow> string \<Rightarrow> accounts \<times> vesting_row list \<Rightarrow> int \<Rightarrow> genesis_account list \<Rightarrow>
    string list \<Rightarrow> (accounts \<times> vesting_row list) res" where
  "namedb_patch_genesis vc genesis_hash tables merge_block_height genesis_block_add genesis_block_delete =
    (if list_ex (\<lambda>g. gen_address g \<in> set genesis_block_delete) genesis_block_add
     then Inl (Exception ''Tried to add and delete'')
     else rbind (rfold (namedb_merge_account_at vc merge_block_height) tables genesis_block_add) (\<lambda>tables.
       rbind (rfold (namedb_remove_account vc) tables genesis_block_delete) (\<lambda>(accts, vs).
       rbind (accounts_insert accts
         \<lparr>acc_address = BLOCKSTACK_BURN_ADDRESS vc, acc_type = ''PATCH'', credit_value = 0, debit_value = 0,
          lock_transfer_block_id = 1, receive_whitelisted = False, metadata = VStr genesis_hash,
          acc_block_id = merge_block_height, acc_txid = genesis_hash, acc_vtxindex = 0\<rparr>) (\<lambda>accts.
         Inr (accts, vs)))))"

end
