(* ===== verification/Hooks.thy ===== *)
theory Hooks
  imports Commit GenesisPatch
begin

text \<open>
  The hooks through which the virtual chain drives the node (\<open>lib/nameset/virtualchain_hooks.py\<close>): a
  transaction is parsed (\<open>db_parse\<close>), a block is scanned for collisions (\<open>db_scan_block\<close>), each operation
  is checked (\<open>db_check\<close>) and, if it is accepted, committed (\<open>db_commit\<close>), and the block is saved
  (\<open>db_save\<close>). The calling order belongs to the package \<open>virtualchain\<close>.
\<close>

section \<open>Constants of the virtual chain\<close>

definition get_opcodes :: "char list" where
  "get_opcodes = OPCODES"

text \<open>\<open>opfields[NAME_OPCODES[opname]] = SERIALIZE_FIELDS[opname]\<close>, for every operation.\<close>

definition make_opfields :: "(char \<times> string list) list res" where
  "make_opfields = rfold (\<lambda>opfields (opname, fields). case map_of NAME_OPCODES opname of
     None \<Rightarrow> Inl (KeyError opname) | Some opcode \<Rightarrow> Inr (AList.update opcode fields opfields)) [] SERIALIZE_FIELDS"

definition get_magic_bytes :: string where
  "get_magic_bytes = MAGIC_BYTES"

definition get_first_block_id :: int where
  "get_first_block_id = FIRST_BLOCK_MAINNET"

section \<open>Parsing\<close>

text \<open>
  \<open>raw_tx\<close> is the hint that the engine has to give; \<open>reserialize\<close> is the serialization, by
  \<open>virtualchain\<close>, of the inputs and outputs with the lock time and version of the raw transaction.
\<close>

definition db_parse :: "virtualchain \<Rightarrow> (string \<Rightarrow> tx_input list \<Rightarrow> tx_output list \<Rightarrow> string) \<Rightarrow> int \<Rightarrow> string \<Rightarrow> int \<Rightarrow> string \<Rightarrow>
    string \<Rightarrow> tx_sender list \<Rightarrow> tx_input list \<Rightarrow> tx_output list \<Rightarrow> string option \<Rightarrow> pydict option res" where
  "db_parse vc reserialize block_id txid vtxindex op data senders inputs outputs raw_tx =
    (if senders = [] then Inl (Exception ''No senders given'')
     else rbind (check_tx_sender_types vc senders block_id) (\<lambda>ok. require ok (
       case raw_tx of
         None \<Rightarrow> Inl AssertionError
       | Some raw \<Rightarrow>
           assert_that (raw = reserialize raw inputs outputs)
             (case op_get_opcode_name op of
                Inl _ \<Rightarrow> Inr None
              | Inr opcode \<Rightarrow>
                  obind (catching (rbind (op_extract vc opcode data senders inputs outputs block_id vtxindex txid)
                           (\<lambda>d. Inr (Some d))) (\<lambda>_. Inr None)) (\<lambda>op_data.
                    if \<not> has_key op_data ''op'' then Inl Abort
                    else Inr (Some (dupdate op_data [(''vtxindex'', VInt vtxindex), (''txid'', VStr txid),
                           (''__original_op_data__'', VDict op_data)])))))))"

section \<open>Scanning a block\<close>

text \<open>The operations scanned so far that create a state, and the state with its table of identifiers.\<close>

definition scan_op :: "virtualchain \<Rightarrow> int \<Rightarrow> state_engine \<times> pydict list \<Rightarrow> pydict \<Rightarrow> (state_engine \<times> pydict list) res" where
  "scan_op vc block_id s op_data = (case s of (st, checked_ops) \<Rightarrow>
    rbind (or_abort (rbind (get_str op_data ''op'') op_get_opcode_name)) (\<lambda>opcode.
      if opcode \<notin> set OPCODE_CREATION_OPS then Inr (st, checked_ops)
      else rbind (op_check vc st op_data block_id checked_ops) (\<lambda>(rc, st, checked_ops).
        Inr (st, checked_ops @ [case rc of None \<Rightarrow> op_data | Some op \<Rightarrow> op]))))"

definition db_scan_block :: "virtualchain \<Rightarrow> int \<Rightarrow> pydict list \<Rightarrow> state_engine \<Rightarrow> state_engine res" where
  "db_scan_block vc block_id op_list st =
    rbind (rfold (scan_op vc block_id) (st, []) op_list) (\<lambda>(st, checked_ops).
    rbind (find_collisions checked_ops) (\<lambda>table. Inr (put_collisions st block_id table)))"

section \<open>Checking an operation\<close>

definition check_mutate_fields :: "string \<Rightarrow> pydict \<Rightarrow> bool res" where
  "check_mutate_fields op op_data =
    rbind (op_get_mutate_fields op) (\<lambda>mutate_fields. assert_that (has_keys op_data mutate_fields) (Inr True))"

text \<open>The accepted operation, or \<open>None\<close>; the state; and the operations checked so far, as collisions mark them.\<close>

definition db_check :: "virtualchain \<Rightarrow> int \<Rightarrow> string \<Rightarrow> pydict \<Rightarrow> int \<Rightarrow> pydict list \<Rightarrow> state_engine \<Rightarrow> verdict res" where
  "db_check vc block_id op op_data vtxindex checked_ops st =
    (if \<not> has_key op_data ''txid'' \<or> \<not> has_key op_data ''vtxindex'' then Inl Abort
     else rbind (or_abort (op_get_opcode_name op)) (\<lambda>_.
       rbind (op_check vc st op_data block_id checked_ops) (\<lambda>(rc, st, checked_ops). case rc of
         Some op_data \<Rightarrow>
           (case dget op_data ''opcode'' VNone of
              VStr opcode \<Rightarrow> rbind (check_mutate_fields opcode op_data) (\<lambda>_. Inr (Some op_data, st, checked_ops))
            | _ \<Rightarrow> Inl Abort)
       | None \<Rightarrow> rbind (log_reject st block_id vtxindex op op_data) (\<lambda>st. Inr (None, st, checked_ops)))))"

section \<open>Committing an operation\<close>

definition check_quirks :: "pydict \<Rightarrow> bool res" where
  "check_quirks block_op =
    rbind (rbind (get_str block_op ''op'') op_get_opcode_name) (\<lambda>opcode.
      if opcode \<in> set OPCODE_NAME_NAMEOPS \<and> opcode \<notin> set OPCODE_NAME_STATE_PREORDER then
        assert_that (has_key block_op ''last_creation_op'')
         (rbind (getitem block_op ''last_creation_op'') (\<lambda>creation.
            if py_eq creation (VStr [NAME_IMPORT]) then
              rbind (getitem block_op ''op_fee'') (\<lambda>fee. case fee of VFloat _ \<Rightarrow> Inr True | _ \<Rightarrow> Inl AssertionError)
            else Inr True))
      else Inr True)"

definition categorized_opcodes :: "string list" where
  "categorized_opcodes = OPCODE_PREORDER_OPS @ OPCODE_CREATION_OPS @ OPCODE_TRANSITION_OPS @ OPCODE_STATELESS_OPS @
     OPCODE_TOKEN_OPS"

definition db_commit :: "virtualchain \<Rightarrow> int \<Rightarrow> string \<Rightarrow> pydict \<Rightarrow> string \<Rightarrow> int \<Rightarrow> state_engine \<Rightarrow>
    (pydict list option \<times> state_engine) res" where
  "db_commit vc block_id op op_data txid vtxindex st =
    (if op = ''virtualchain_final'' then Inr (None, st)
     else if \<not> (has_key op_data ''__original_op_data__'' \<and> py_eq (dget op_data ''txid'' VNone) (VStr txid) \<and>
         py_eq (dget op_data ''vtxindex'' VNone) (VInt vtxindex)) then Inl Abort
     else (case dget op_data ''opcode'' VNone of
       VStr opcode \<Rightarrow>
         if opcode \<notin> set categorized_opcodes then Inl Abort
         else if opcode \<in> set OPCODE_STATELESS_OPS then Inr (Some [], st)
         else rbind (commit_operation vc st (discard op_data ''__original_op_data__'') block_id) (\<lambda>(consensus_op, st).
              rbind (check_quirks consensus_op) (\<lambda>_. Inr (Some [consensus_op], st)))
     | _ \<Rightarrow> Inl Abort))"

section \<open>Saving a block\<close>

text \<open>
  A patch of the genesis block, if there is one for the block: the rows to add, the addresses to
  delete and the hash of both. (The table of patches is data of \<open>lib/genesis_block.py\<close>.)
\<close>

type_synonym genesis_patches = "int \<Rightarrow> (genesis_account list \<times> string list \<times> string) option"

definition commit_genesis_patch :: "virtualchain \<Rightarrow> genesis_patches \<Rightarrow> state_engine \<Rightarrow> int \<Rightarrow> state_engine res" where
  "commit_genesis_patch vc patches st block_height =
    (if block_height \<in> set (vesting st) then Inl Abort
     else case patches block_height of
       None \<Rightarrow> Inr st
     | Some (add, del, genesis_hash) \<Rightarrow>
         rbind (namedb_patch_genesis vc genesis_hash (account_rows st, vesting_rows st) block_height add del)
           (\<lambda>(accts, vs). Inr (st\<lparr>account_rows := accts, vesting_rows := vs\<rparr>)))"

text \<open>\<open>INSERT OR REPLACE\<close>, on the key \<open>txid\<close>.\<close>

definition store_rejected :: "state_engine \<Rightarrow> int \<Rightarrow> state_engine" where
  "store_rejected st block_id =
    (if \<not> save_rejected st then st
     else st\<lparr>rejected_table := foldl (\<lambda>t (b, v, op, txid, reason). AList.update txid (b, v, op, reason) t)
       (rejected_table st) (filter (\<lambda>(b, _). b = block_id) (rejected st))\<rparr>)"

text \<open>
  What \<open>db_save\<close> does to the state; it then synchronizes the databases of the Atlas network and of
  subdomains, which are not part of this state.
\<close>

definition db_save :: "virtualchain \<Rightarrow> genesis_patches \<Rightarrow> int \<Rightarrow> state_engine \<Rightarrow> state_engine res" where
  "db_save vc patches block_height st =
    rbind (or_abort (commit_genesis_patch vc patches st (block_height + 1))) (\<lambda>st.
    rbind (or_abort (commit_account_vesting vc st (block_height + 1))) (\<lambda>st.
      or_abort (commit_finished (store_rejected st block_height) block_height)))"

definition namedb_get_history_by_txid :: "state_engine \<Rightarrow> string \<Rightarrow> history_row option" where
  "namedb_get_history_by_txid st txid = List.find (\<lambda>r. h_txid r = txid) (history_rows st)"

datatype tx_status = Accepted int int string | Rejected int int string "string option" | Ignored

definition get_transaction_status :: "state_engine \<Rightarrow> string \<Rightarrow> tx_status" where
  "get_transaction_status st txid = (case namedb_get_history_by_txid st txid of
     Some r \<Rightarrow> Accepted (h_block_id r) (h_vtxindex r) (h_op r)
   | None \<Rightarrow>
       if \<not> save_rejected st then Ignored
       else (case map_of (rejected_table st) txid of
         None \<Rightarrow> Ignored | Some (b, v, op, reason) \<Rightarrow> Rejected b v op reason))"

end
