(* ===== verification/Frames.thy ===== *)
theory Frames
  imports Hooks
begin

text \<open>
  What the hooks of the virtual chain leave alone: a check keeps the tables of the database and
  forgets no identifier of its block; a commit keeps the identifiers of the block.
\<close>

section \<open>What the hooks leave alone\<close>

text \<open>The tables of the database, and the part of the state that commits leave alone.\<close>

definition tables :: "state_engine \<Rightarrow> pydict list \<times> pydict list \<times> pydict list \<times> history_row list \<times> accounts \<times> vesting_row list" where
  "tables st = (name_rows st, namespace_rows st, preorder_rows st, history_rows st, account_rows st, vesting_rows st)"

definition block_state :: "state_engine \<Rightarrow> int \<times> (int \<times> collision_table) list \<times> int list \<times> vesting_row list" where
  "block_state st = (lastblock st, collisions st, vesting st, vesting_rows st)"

text \<open>A check keeps the tables and forgets no identifier of the block.\<close>

definition check_keeps :: "state_engine \<Rightarrow> state_engine \<Rightarrow> bool" where
  "check_keeps st st' \<longleftrightarrow> tables st' = tables st \<and> lastblock st' = lastblock st \<and> vesting st' = vesting st \<and>
     (\<forall>b k. set (seen_at (collisions st) b k) \<subseteq> set (seen_at (collisions st') b k))"

lemma check_keeps_refl [simp]: "check_keeps st st"
  by (simp add: check_keeps_def)

lemma check_keeps_trans: "check_keeps a b \<Longrightarrow> check_keeps b c \<Longrightarrow> check_keeps a c"
  by (simp add: check_keeps_def) blast

lemma check_collision_keeps:
  "check_collision st k h b ops affected = Inr (rc, st', ops') \<Longrightarrow> check_keeps st st'"
  by (auto simp: check_collision_def check_collision_state_def res_simps check_keeps_def tables_def
      seen_at_note_seen split: if_splits)

lemma state_check_collisions_keeps:
  assumes "state_check_collisions st op k b ops ck = Inr (rc, st', ops')"
  shows "check_keeps st st'"
proof -
  from assms obtain h where h: "(if ck = ''check_preorder_collision'' then check_preorder_collision st h b ops
      else if ck = ''check_name_collision'' then check_name_collision st h b ops
      else if ck = ''check_namespace_collision'' then check_namespace_collision st h b ops
      else if ck = ''check_noop_collision'' then check_noop_collision st h b ops else Inl Abort) = Inr (rc, st', ops')"
    unfolding state_check_collisions_def if_Inl_eq_Inr rbind_eq_Inr by blast
  show ?thesis
    using h unfolding check_preorder_collision_def check_name_collision_def
      check_namespace_collision_def check_noop_collision_def
    by (simp only: split: if_split_asm) (auto intro: check_collision_keeps)
qed

lemma state_preorder_keeps:
  assumes "state_preorder ck check st op b ops = Inr (rc, st', ops')"
  shows "check_keeps st st'"
  using assms unfolding state_preorder_def rbind_eq_Inr
  by (auto simp: rbind_eq_Inr assert_that_eq_Inr split: option.split_asm intro: state_check_collisions_keeps)

lemma state_create_st_keeps:
  assumes "state_create_st k t ck as check st op b ops = Inr (rc, st', ops')"
    and "\<And>rc st1. check st op b ops = Inr (rc, st1) \<Longrightarrow> check_keeps st st1"
  shows "check_keeps st st'"
  using assms by (auto simp: state_create_st_def res_simps Let_def intro: check_keeps_trans
      dest!: state_check_collisions_keeps split: option.splits if_splits)

lemma state_create_keeps: "state_create k t ck as check st op b ops = Inr (rc, st', ops') \<Longrightarrow> check_keeps st st'"
  unfolding state_create_def by (erule state_create_st_keeps) (auto simp: res_simps)

lemma state_transition_keeps: "state_transition k t as sp check st op b ops = Inr (rc, st', ops') \<Longrightarrow> check_keeps st st'"
  by (auto simp: state_transition_def res_simps Let_def split: option.splits if_splits)

lemma put_rejected_keeps [simp]: "check_keeps st (put_rejected st b v e)"
  by (simp add: put_rejected_def check_keeps_def tables_def)

lemma post_permit:
  assumes "post (\<lambda>(_, st'). check_keeps st st') r"
  shows "post (\<lambda>(_, st'). check_keeps st st') (permit ok st op b reason r)"
  using assms by (auto simp: permit_def log_reject_reason_def intro!: post_rbind)

lemma tokentransfer_check_keeps: "post (\<lambda>(_, st'). check_keeps st st') (tokentransfer_check vc st op b ops)"
  unfolding tokentransfer_check_def by (intro post_intros post_permit) simp_all

lemma permit_import_keeps: "permit_import vc st ns pk a = Inr (rc, st') \<Longrightarrow> check_keeps st st'"
  by (auto simp: permit_import_def build_import_keychain_def res_simps Let_def check_keeps_def tables_def
      split: option.splits if_splits)

lemma nameimport_check_keeps: "post (\<lambda>(_, st'). check_keeps st st') (nameimport_check vc st op b ops)"
  unfolding nameimport_check_def Let_def by (intro post_intros) (simp_all add: permit_import_keeps)

lemma check_token_transfer_keeps: "check_token_transfer vc st op b ops = Inr (rc, st', ops') \<Longrightarrow> check_keeps st st'"
  unfolding check_token_transfer_def token_operation_def
  by (auto simp: res_simps Let_def split: option.splits dest: postD [OF tokentransfer_check_keeps])

lemma check_name_import_keeps: "check_name_import vc st op b ops = Inr (rc, st', ops') \<Longrightarrow> check_keeps st st'"
  unfolding check_name_import_def by (erule state_create_st_keeps) (auto dest: postD [OF nameimport_check_keeps])

lemma announce_check_keeps: "announce_check st op b ops = Inr (rc, st', ops') \<Longrightarrow> check_keeps st st'"
  by (auto simp: announce_check_def res_simps)

lemma check_method_keeps:
  assumes "map_of (CHECK_METHODS vc) n = Some m" and "m st op b ops = Inr (rc, st', ops')"
  shows "check_keeps st st'"
proof -
  have "m \<in> snd ` set (CHECK_METHODS vc)"
    using map_of_SomeD [OF assms(1)] by force
  then show ?thesis
    unfolding CHECK_METHODS_def list.set image_insert image_empty snd_conv
  proof (elim insertE emptyE)
    show "m = check_preorder vc \<Longrightarrow> ?thesis" "m = check_namespace_preorder vc \<Longrightarrow> ?thesis"
      using assms(2) unfolding check_preorder_def check_namespace_preorder_def by (auto intro: state_preorder_keeps)
    show "m = check_registration vc \<Longrightarrow> ?thesis" "m = check_namespace_reveal \<Longrightarrow> ?thesis"
      using assms(2) unfolding check_registration_def check_namespace_reveal_def by (auto intro: state_create_keeps)
    show "m = check_renewal vc \<Longrightarrow> ?thesis" "m = check_update vc \<Longrightarrow> ?thesis" "m = check_transfer vc \<Longrightarrow> ?thesis"
      "m = check_revoke \<Longrightarrow> ?thesis" "m = check_namespace_ready \<Longrightarrow> ?thesis"
      using assms(2) unfolding check_renewal_def check_update_def check_transfer_def check_revoke_def
        check_namespace_ready_def by (auto intro: state_transition_keeps)
    show "m = check_name_import vc \<Longrightarrow> ?thesis" "m = announce_check \<Longrightarrow> ?thesis" "m = check_token_transfer vc \<Longrightarrow> ?thesis"
      using assms(2) by (auto intro: check_name_import_keeps announce_check_keeps check_token_transfer_keeps)
  qed
qed

lemma op_check_keeps: "op_check vc st op b ops = Inr (rc, st', ops') \<Longrightarrow> check_keeps st st'"
  by (erule op_check_method) (rule check_method_keeps)

section \<open>What commits rely on\<close>

text \<open>The names under which an operation may store its record.\<close>

definition allowed :: "(string \<Rightarrow> pyval \<Rightarrow> bool) \<Rightarrow> virtualchain \<Rightarrow> pydict \<Rightarrow> bool" where
  "allowed writes vc op \<longleftrightarrow>
     (\<forall>r k. sanitize_op vc op = Inr r \<longrightarrow> k \<in> {''name'', ''namespace_id''} \<longrightarrow> writes k (dget r k VNone)) \<and>
     (\<forall>opcode hid k. map_of op ''opcode'' = Some (VStr opcode) \<longrightarrow> opcode \<in> set OPCODE_TRANSITION_OPS \<longrightarrow> map_of op ''__history_id_key__'' = Some (VStr k) \<longrightarrow>
       map_of op k = Some (VStr hid) \<longrightarrow>
       writes (if opcode \<in> set OPCODE_NAME_STATE_TRANSITIONS then ''name'' else ''namespace_id'') (VStr hid))"

lemma or_abort_eq_Inr [res_simps]: "or_abort r = Inr x \<longleftrightarrow> r = Inr x"
  by (cases r) (auto simp: or_abort_def catching_def)

lemma stored_key:
  assumes "snd (namedb_find_missing_and_extra d table) = extra" and "k \<in> set (column_names table)"
  shows "dget (foldl discard d' extra) k VNone = dget d' k VNone"
proof -
  have "k \<notin> set extra"
    using assms by (auto simp: namedb_find_missing_and_extra_def)
  then show ?thesis
    by (induction extra arbitrary: d') (auto simp: discard_def dget_def)
qed

lemma transition_key:
  assumes opcode: "opcode \<in> set (OPCODE_NAME_STATE_TRANSITIONS @ OPCODE_NAMESPACE_STATE_TRANSITIONS)"
    and key: "key = (if opcode \<in> set OPCODE_NAME_STATE_TRANSITIONS then ''name'' else ''namespace_id'')"
    and sanity: "or_abort (assert_that (has_key cur ''block_number'') (rbind (getitem cur ''block_number'') (\<lambda>b.
       rbind (namedb_state_transition_sanity_check opcode (dset (dset d key (VStr hid)) ''block_number'' b) hid cur table) (\<lambda>_.
       rbind (namedb_state_mutation_sanity_check opcode (dset (dset d key (VStr hid)) ''block_number'' b)) (\<lambda>_.
         Inr (dset (dset d key (VStr hid)) ''block_number'' b)))))) = Inr d'"
  shows "dget (foldl discard d' (snd (namedb_find_missing_and_extra d' table))) key VNone = VStr hid"
proof -
  obtain b where b: "namedb_state_transition_sanity_check opcode d' hid cur table = Inr b" and "dget d' key VNone = VStr hid"
    using sanity key unfolding or_abort_eq_Inr by (auto simp: res_simps dget_def)
  moreover have "key \<in> set (column_names table)"
    using b opcode key unfolding namedb_state_transition_sanity_check_def
    by (auto simp: res_simps column_names_def table_columns_def name_records_columns_def namespaces_columns_def)
  ultimately show ?thesis
    by (simp only: stored_key [OF refl])
qed

text \<open>
  The interface of the statements to the commits that execute them. A predicate on the state that
  every statement keeps is kept by every commit. Statements write records of names and of
  namespaces; \<open>writes\<close> says under which names and namespaces they may be stored.
\<close>

locale commit_kept =
  fixes kept :: "state_engine \<Rightarrow> bool"
    and writes :: "string \<Rightarrow> pyval \<Rightarrow> bool"
  assumes preorder_insert: "namedb_preorder_insert st r = Inr st' \<Longrightarrow> kept st \<Longrightarrow> kept st'"
    and preorder_remove: "kept st \<Longrightarrow> kept (namedb_preorder_remove st h)"
    and name_insert: "namedb_name_insert vc st r = Inr st' \<Longrightarrow> kept st \<Longrightarrow> writes ''name'' (dget r ''name'' VNone) \<Longrightarrow> kept st'"
    and name_update: "namedb_name_update vc st opcode r [] ignored = Inr st' \<Longrightarrow> kept st \<Longrightarrow>
      writes ''name'' (dget r ''name'' VNone) \<Longrightarrow> kept st'"
    and namespace_insert: "namedb_namespace_insert st r = Inr st' \<Longrightarrow> kept st \<Longrightarrow>
      writes ''namespace_id'' (dget r ''namespace_id'' VNone) \<Longrightarrow> kept st'"
    and namespace_update: "namedb_namespace_update st opcode r ignored = Inr st' \<Longrightarrow> kept st \<Longrightarrow>
      writes ''namespace_id'' (dget r ''namespace_id'' VNone) \<Longrightarrow> kept st'"
    and history_save: "namedb_history_save vc st opcode hid creator vh b v t r = Inr (d, st') \<Longrightarrow> kept st \<Longrightarrow> kept st'"
    and account_debit: "commit_account_debit st payment height vtxindex txid = Inr st' \<Longrightarrow> kept st \<Longrightarrow> kept st'"
    and account_credit: "commit_account_credit st payment height vtxindex txid = Inr st' \<Longrightarrow> kept st \<Longrightarrow> kept st'"
    and reject_collided: "reject_collided st op height = Inr (d, st') \<Longrightarrow> kept st \<Longrightarrow> kept st'"
begin

lemmas statements_kept = preorder_insert preorder_remove name_insert name_update namespace_insert namespace_update history_save
  account_debit account_credit reject_collided

lemma state_transition_kept:
  assumes "namedb_state_transition vc st opcode d b v t hid cur table ignored = Inr (r, st')" and "kept st"
    and "opcode \<in> set OPCODE_TRANSITION_OPS \<Longrightarrow>
      writes (if opcode \<in> set OPCODE_NAME_STATE_TRANSITIONS then ''name'' else ''namespace_id'') (VStr hid)"
  shows "kept st'"
proof -
  note key = transition_key [OF _ refl, of opcode cur d hid table]
  have "post (\<lambda>(_, st'). kept st') (namedb_state_transition vc st opcode d b v t hid cur table ignored)"
    unfolding namedb_state_transition_def Let_def
  proof (intro post_intros, goal_cases)
    case (1 d1 v2 v3 x st1 st2 v4 merged)
    then have "kept st1"
      using assms(2) history_save by blast
    then have "kept st2"
      using 1 assms(3) key unfolding OPCODE_TRANSITION_OPS_def by (auto dest: name_update namespace_update split: if_split_asm)
    then show ?case by simp
  qed
  with assms(1) show ?thesis by (auto dest: postD)
qed

lemma state_create_kept:
  assumes "namedb_state_create vc st opcode d b v t hid p table ignored = Inr (r, st')" and "kept st"
    and "\<And>k. k \<in> {''name'', ''namespace_id''} \<Longrightarrow> writes k (dget d k VNone)"
  shows "kept st'"
proof -
  have "post (\<lambda>(_, st'). kept st') (namedb_state_create vc st opcode d b v t hid p table ignored)"
    unfolding namedb_state_create_def Let_def using assms(2) assms(3) [of "''name''"] assms(3) [of "''namespace_id''"]
    by (intro post_intros) (auto dest: history_save intro: name_insert name_update namespace_insert namespace_update
        intro!: preorder_remove split: if_split_asm)
  with assms(1) show ?thesis by (auto dest: postD)
qed

lemma state_create_as_import_kept:
  assumes "namedb_state_create_as_import vc st opcode d b v t hid table ignored = Inr (r, st')" and "kept st"
    and "\<And>k. k \<in> {''name'', ''namespace_id''} \<Longrightarrow> writes k (dget d k VNone)"
  shows "kept st'"
proof -
  have "post (\<lambda>(_, st'). kept st') (namedb_state_create_as_import vc st opcode d b v t hid table ignored)"
    unfolding namedb_state_create_as_import_def Let_def using assms(2) assms(3) [of "''name''"]
    by (intro post_intros) (auto dest: history_save intro: name_insert name_update split: if_split_asm)
  with assms(1) show ?thesis by (auto dest: postD)
qed

lemma commit_state_preorder_kept:
  assumes "commit_state_preorder vc st op b = Inr (r, st')" and "kept st"
  shows "kept st'"
proof -
  have "post (\<lambda>(_, st'). kept st') (commit_state_preorder vc st op b)"
    unfolding commit_state_preorder_def using assms(2)
    by (intro post_intros) (auto dest: preorder_insert account_debit reject_collided intro!: postI)
  with assms(1) show ?thesis by (auto dest: postD)
qed

lemma commit_token_operation_kept:
  assumes "commit_token_operation vc st op b = Inr (r, st')" and "kept st"
  shows "kept st'"
proof -
  have "post (\<lambda>(_, st'). kept st') (commit_token_operation vc st op b)"
    unfolding commit_token_operation_def using assms(2)
    by (intro post_intros) (auto dest: account_debit account_credit history_save intro!: postI)
  with assms(1) show ?thesis by (auto dest: postD)
qed

lemma commit_state_create_kept:
  assumes "commit_state_create vc st op b = Inr (r, st')" and "kept st" and "allowed writes vc op"
  shows "kept st'"
proof -
  have w: "writes k (dget d k VNone)" if "sanitize_op vc op = Inr d" "k \<in> {''name'', ''namespace_id''}" for d k
    using assms(3) that unfolding allowed_def by blast
  have "post (\<lambda>(_, st'). kept st') (commit_state_create vc st op b)"
    unfolding commit_state_create_def using assms(2)
    by (intro post_intros) (auto dest: state_create_kept [OF _ _ w] state_create_as_import_kept [OF _ _ w] reject_collided intro!: postI split: pyval.split_asm if_split_asm)
  with assms(1) show ?thesis by (auto dest: postD)
qed

lemma commit_state_transition_kept:
  assumes "commit_state_transition vc st op b = Inr (r, st')" and "kept st" and "allowed writes vc op"
  shows "kept st'"
proof -
  have w: "writes (if opcode \<in> set OPCODE_NAME_STATE_TRANSITIONS then ''name'' else ''namespace_id'') (VStr hid)"
    if "get_str op ''opcode'' = Inr opcode" "opcode \<in> set OPCODE_TRANSITION_OPS" "state_transition_get_history_id_key op = Inr k" "get_str op k = Inr hid" for opcode k hid
    using assms(3) that unfolding allowed_def state_transition_get_history_id_key_def get_str_eq_Inr by blast
  have "post (\<lambda>(_, st'). kept st') (commit_state_transition vc st op b)"
    unfolding commit_state_transition_def using assms(2)
    by (intro post_intros) (auto simp: res_simps dest: state_transition_kept [OF _ _ w] account_debit)
  with assms(1) show ?thesis by (auto dest: postD)
qed

lemma commit_operation_kept:
  assumes "commit_operation vc st op b = Inr (r, st')" and "kept st" and "allowed writes vc op"
  shows "kept st'"
  using assms unfolding commit_operation_def
  by (auto simp: res_simps dest: commit_state_preorder_kept commit_state_create_kept commit_state_transition_kept
      commit_token_operation_kept split: pyval.split_asm if_split_asm)

lemma db_commit_kept:
  assumes "db_commit vc b op d t v st = Inr (r, st')" and "kept st" and "allowed writes vc (discard d ''__original_op_data__'')"
  shows "kept st'"
  using assms unfolding db_commit_def
  by (auto simp: res_simps dest: commit_operation_kept split: pyval.split_asm if_split_asm)

end

section \<open>Commits keep the state of the block\<close>

named_theorems frames \<open>calls that keep the state of the block\<close>

lemma put_rows_frame [simp]: "block_state (put_rows st t rows) = block_state st"
  by (simp add: put_rows_def block_state_def)

lemma insert_into_frame [frames]: "insert_into st t values = Inr st' \<Longrightarrow> block_state st' = block_state st"
  by (auto simp: insert_into_def res_simps split: if_splits)

lemma update_rows_frame [frames]: "update_rows st t us ws = Inr (st', n) \<Longrightarrow> block_state st' = block_state st"
  by (auto simp: update_rows_def res_simps Let_def split: if_splits)

lemma update_one_frame [frames]: "update_one st t pk d me oi = Inr st' \<Longrightarrow> block_state st' = block_state st"
  by (auto simp: update_one_def res_simps dest: frames split: if_splits)

lemma preorder_insert_frame [frames]: "namedb_preorder_insert st r = Inr st' \<Longrightarrow> block_state st' = block_state st"
  by (auto simp: namedb_preorder_insert_def res_simps dest: frames)

lemma preorder_remove_frame [simp]: "block_state (namedb_preorder_remove st h) = block_state st"
  by (simp add: namedb_preorder_remove_def delete_from_def)

lemma name_insert_frame [frames]: "namedb_name_insert vc st r = Inr st' \<Longrightarrow> block_state st' = block_state st"
  by (auto simp: namedb_name_insert_def res_simps dest: frames)

lemma name_update_frame [frames]: "namedb_name_update vc st opc r oi ci = Inr st' \<Longrightarrow> block_state st' = block_state st"
  by (auto simp: namedb_name_update_def res_simps dest: frames)

lemma namespace_insert_frame [frames]: "namedb_namespace_insert st r = Inr st' \<Longrightarrow> block_state st' = block_state st"
  by (auto simp: namedb_namespace_insert_def res_simps dest: frames)

lemma namespace_update_frame [frames]: "namedb_namespace_update st opc r ci = Inr st' \<Longrightarrow> block_state st' = block_state st"
  by (auto simp: namedb_namespace_update_def res_simps dest: frames split: if_splits)

lemma history_save_frame [frames]:
  "namedb_history_save vc st opc hid ca vh b v t r = Inr (d, st') \<Longrightarrow> block_state st' = block_state st"
  by (auto simp: block_state_def dest!: namedb_history_save_Inr)

lemma account_debit_frame [frames]: "commit_account_debit st p b v t = Inr st' \<Longrightarrow> block_state st' = block_state st"
  by (auto simp: commit_account_debit_def res_simps block_state_def split: option.split_asm if_split_asm)

lemma account_credit_frame [frames]: "commit_account_credit st p b v t = Inr st' \<Longrightarrow> block_state st' = block_state st"
  by (auto simp: commit_account_credit_def res_simps block_state_def split: option.split_asm if_split_asm)

lemma reject_collided_frame [frames]: "reject_collided st op b = Inr (r, st') \<Longrightarrow> block_state st' = block_state st"
  by (auto simp: reject_collided_def log_reject_def put_rejected_def res_simps block_state_def)

interpretation block_kept: commit_kept "\<lambda>st'. block_state st' = block_state st" "\<lambda>_ _. True" for st
  by unfold_locales (auto dest: frames)

lemma db_commit_frame: "db_commit vc b op d t v st = Inr (r, st') \<Longrightarrow> block_state st' = block_state st"
  by (erule block_kept.db_commit_kept) (simp_all add: allowed_def)

section \<open>Checks\<close>

lemma db_check_op_check:
  assumes "db_check vc b op d v ops st = Inr (rc, st', ops')"
  obtains st1 where "op_check vc st d b ops = Inr (rc, st1, ops')" and "check_keeps st st'"
    and "rc \<noteq> None \<Longrightarrow> st' = st1" and "check_keeps st1 st'"
proof -
  obtain st1 where st1: "op_check vc st d b ops = Inr (rc, st1, ops')" "rc \<noteq> None \<Longrightarrow> st' = st1" "check_keeps st1 st'"
    using assms unfolding db_check_def if_Inl_eq_Inr
    by (auto simp: res_simps log_reject_def split: option.split_asm)
  moreover have "check_keeps st st'"
    using check_keeps_trans [OF op_check_keeps [OF st1(1)] st1(3)] .
  ultimately show ?thesis using that by blast
qed

end
