(* ===== verification/Blocks.thy ===== *)
theory Blocks
  imports Frames
begin

text \<open>
  The processing of a block as a sequence of hooks: operations are checked and committed one after
  the other. An identifier is taken at most once in a block, and the identifiers that collide in
  the scan of the block are taken by nobody.
\<close>

section \<open>One operation per identifier\<close>

text \<open>The operations whose identifier is exclusive in a block, with the field of the identifier.\<close>

definition exclusive :: "(string \<times> string) list" where
  "exclusive = [(''NAME_PREORDER'', ''preorder_hash''), (''NAMESPACE_PREORDER'', ''preorder_hash''),
     (''NAME_REGISTRATION'', ''name''), (''NAMESPACE_REVEAL'', ''namespace_id'')]"

inductive block_step :: "virtualchain \<Rightarrow> int \<Rightarrow> state_engine \<Rightarrow> state_engine \<Rightarrow> bool" for vc b where
  step_check: "db_check vc b op op_data vtxindex ops st = Inr (rc, st', ops') \<Longrightarrow> block_step vc b st st'"
| step_commit: "db_commit vc b op op_data txid vtxindex st = Inr (cs, st') \<Longrightarrow> block_step vc b st st'"

abbreviation block_run :: "virtualchain \<Rightarrow> int \<Rightarrow> state_engine \<Rightarrow> state_engine \<Rightarrow> bool" where
  "block_run vc b \<equiv> (block_step vc b)\<^sup>*\<^sup>*"

lemma block_run_seen:
  assumes "block_run vc b st st'"
  shows "set (seen_at (collisions st) b k) \<subseteq> set (seen_at (collisions st') b k)"
  using assms
proof (induction rule: rtranclp_induct)
  case (step st' st'')
  from step.hyps(2) have "set (seen_at (collisions st') b k) \<subseteq> set (seen_at (collisions st'') b k)"
  proof cases
    case (step_check op op_data vtxindex ops rc ops')
    then show ?thesis
      by (rule db_check_op_check) (auto simp: check_keeps_def)
  next
    case (step_commit op op_data txid vtxindex cs)
    then show ?thesis
      using db_commit_frame by (auto simp: block_state_def)
  qed
  with step.IH show ?case by blast
qed simp

text \<open>An accepted operation took its identifier, which was free.\<close>

definition takes :: "int \<Rightarrow> string \<Rightarrow> state_engine \<Rightarrow> pydict \<Rightarrow> state_engine \<Rightarrow> bool" where
  "takes b k st op st' \<longleftrightarrow> (\<exists>h. map_of op k = Some h \<and> h \<in> set (seen_at (collisions st') b k) \<and>
     (\<forall>x \<in> set (seen_at (collisions st) b k). \<not> py_eq h x))"

lemma check_collision_takes:
  assumes "check_collision st k h b ops affected = Inr (False, st', ops')" and "map_of op k = Some h"
  shows "takes b k st op st'"
  using assms by (auto simp: takes_def check_collision_def check_collision_state_def res_simps seen_at_note_seen list_ex_iff
      split: if_splits)

lemma state_check_collisions_takes:
  assumes "state_check_collisions st op k b ops ck = Inr (False, st', ops')"
    and "(k, ck) \<in> {(''preorder_hash'', ''check_preorder_collision''), (''name'', ''check_name_collision''),
      (''namespace_id'', ''check_namespace_collision'')}"
  shows "takes b k st op st'"
  using assms unfolding state_check_collisions_def check_preorder_collision_def check_name_collision_def
    check_namespace_collision_def
  by (auto simp: rbind_eq_Inr if_Inl_eq_Inr getitem_eq_Inr intro: check_collision_takes)

lemma state_preorder_takes:
  "state_preorder ''check_preorder_collision'' check st op b ops = Inr (Some op', st', ops') \<Longrightarrow>
     takes b ''preorder_hash'' st op' st'"
  by (rule state_check_collisions_takes [OF state_preorder_accepts(2)]) auto

lemma state_create_takes:
  assumes "state_create k t ck as check st op b ops = Inr (Some op', st', ops')"
    and "(k, ck) \<in> {(''name'', ''check_name_collision''), (''namespace_id'', ''check_namespace_collision'')}"
  shows "takes b k st op' st'"
  using state_create_accepts [OF assms(1)] assms(2) state_check_collisions_takes [of st op' k b ops ck st' ops'] by blast

lemma canonicalize_import_keeps:
  "canonicalize_import op = Inr op' \<Longrightarrow> k \<noteq> ''op_fee'' \<Longrightarrow> map_of op' k = map_of op k"
  unfolding canonicalize_import_def assert_that_eq_Inr rbind_eq_Inr by (elim conjE exE) (auto split: pyval.split_asm)

lemma clean_accepted_keeps:
  assumes "clean_accepted vc op = Inr op'" and "k \<notin> {''name_consensus_hash'', ''keep_data'', ''op_fee'', ''buckets''}"
  shows "map_of op' k = map_of op k"
proof -
  obtain opcode d unstored where d: "op_canonicalize vc opcode op = Inr d" "op' = foldl discard d unstored"
    and u: "map_of UNSTORED_CANONICAL_FIELDS opcode = Some unstored"
    using assms(1) unfolding clean_accepted_def by (auto simp: res_simps split: option.split_asm)
  have "set unstored \<subseteq> {''name_consensus_hash'', ''keep_data''}"
    using map_of_SomeD [OF u] by (auto simp: UNSTORED_CANONICAL_FIELDS_def update_UNSTORED_CANONICAL_FIELDS_def
        transfer_UNSTORED_CANONICAL_FIELDS_def)
  then have "map_of (foldl discard d unstored) k = map_of d k"
    using assms(2) by (induction unstored arbitrary: d) (auto simp: discard_def)
  moreover have "map_of d k = map_of op k"
    using d(1) assms(2) unfolding op_canonicalize_def CANONICALIZE_METHODS_def
    by (auto simp: canonicalize_update_def canonicalize_transfer_def 
        canonicalize_namespace_preorder_def canonicalize_namespace_reveal_def canonicalize_namespace_ready_def
        buckets_to_text_def res_simps split: option.split_asm if_split_asm pyval.split_asm intro: canonicalize_import_keeps)
  ultimately show ?thesis
    using d(2) by simp
qed


lemma exclusive_cases:
  assumes "(n, k) \<in> set exclusive"
  obtains "n = ''NAME_PREORDER''" "k = ''preorder_hash''" | "n = ''NAMESPACE_PREORDER''" "k = ''preorder_hash''"
    | "n = ''NAME_REGISTRATION''" "k = ''name''" | "n = ''NAMESPACE_REVEAL''" "k = ''namespace_id''"
proof -
  from assms have "(n = ''NAME_PREORDER'' \<and> k = ''preorder_hash'') \<or> (n = ''NAMESPACE_PREORDER'' \<and> k = ''preorder_hash'') \<or>
     (n = ''NAME_REGISTRATION'' \<and> k = ''name'') \<or> (n = ''NAMESPACE_REVEAL'' \<and> k = ''namespace_id'')"
    unfolding exclusive_def by simp
  then show thesis
    by (elim disjE conjE) (rule that, assumption, assumption)+
qed

lemma exclusive_method_takes:
  assumes "(n, k) \<in> set exclusive" and "map_of (CHECK_METHODS vc) n = Some m" and "m st op b ops = Inr (Some op', st', ops')"
  shows "takes b k st op' st'"
  using assms(1)
proof (cases rule: exclusive_cases)
  case 1
  then have "check_preorder vc = m"
    using assms(2) by (simp add: CHECK_METHODS_def)
  with assms(3) show ?thesis
    unfolding 1 check_preorder_def by (metis state_preorder_takes)
next
  case 2
  then have "check_namespace_preorder vc = m"
    using assms(2) by (simp add: CHECK_METHODS_def)
  with assms(3) show ?thesis
    unfolding 2 check_namespace_preorder_def by (metis state_preorder_takes)
next
  case 3
  then have "check_registration vc = m"
    using assms(2) by (simp add: CHECK_METHODS_def)
  with assms(3) show ?thesis
    unfolding 3 check_registration_def by (auto intro: state_create_takes)
next
  case 4
  then have "check_namespace_reveal = m"
    using assms(2) by (simp add: CHECK_METHODS_def)
  with assms(3) show ?thesis
    unfolding 4 check_namespace_reveal_def by (auto intro: state_create_takes)
qed

lemma exclusive_takes:
  assumes "op_check vc st op b ops = Inr (Some op', st', ops')" and "nameop_opcode op = Inr n" and "(n, k) \<in> set exclusive"
  shows "takes b k st op' st'"
proof -
  obtain n' m rc1 where n': "nameop_opcode op = Inr n'" and m': "map_of (CHECK_METHODS vc) n' = Some m" and m_rc: "m st op b ops = Inr (rc1, st', ops')"
    and rc1: "case rc1 of None \<Rightarrow> Some op' = None | Some op1 \<Rightarrow> \<exists>op2. clean_accepted vc op1 = Inr op2 \<and> Some op' = Some op2"
    using assms(1) by (rule op_check_method)
  then obtain op1 where op1: "m st op b ops = Inr (Some op1, st', ops')" and op': "clean_accepted vc op1 = Inr op'"
    by (cases rc1) auto
  have m: "map_of (CHECK_METHODS vc) n = Some m"
    using m' n' assms(2) by simp
  have "takes b k st op1 st'"
    using assms(3) m op1 by (rule exclusive_method_takes)
  moreover have "map_of op' k = map_of op1 k"
    using op' by (rule clean_accepted_keeps) (rule exclusive_cases [OF assms(3)]; simp)
  ultimately show ?thesis
    by (simp add: takes_def)
qed

lemma py_eq_refl [simp]: "py_eq v v"
  by (simp add: py_eq_def split: option.split)

text \<open>
  C3: Within a block, a preorder hash is preordered, a name registered and a namespace revealed at
  most once: once an operation is accepted, every operation accepted later in the same block,
  after any number of checks and commits, has another identifier.
\<close>

theorem one_creation_per_block:
  assumes "db_check vc b op1 d1 v1 ops1 st1 = Inr (Some r1, st1', ops1')" and "block_run vc b st1' st2"
    and "db_check vc b op2 d2 v2 ops2 st2 = Inr (Some r2, st2', ops2')"
    and "nameop_opcode d1 = Inr n1" and "nameop_opcode d2 = Inr n2"
    and "(n1, k) \<in> set exclusive" and "(n2, k) \<in> set exclusive"
  shows "map_of r1 k \<noteq> None \<and> map_of r2 k \<noteq> map_of r1 k"
proof -
  have "takes b k st1 r1 st1'"
    using assms(1) by (rule db_check_op_check) (use assms(4,6) in \<open>auto intro: exclusive_takes\<close>)
  moreover have "takes b k st2 r2 st2'"
    using assms(3) by (rule db_check_op_check) (use assms(5,7) in \<open>auto intro: exclusive_takes\<close>)
  ultimately show ?thesis
    using block_run_seen [OF assms(2), of k] by (fastforce simp: takes_def)
qed

section \<open>An example block\<close>

definition example_preorder_of :: "string \<Rightarrow> pydict" where
  "example_preorder_of h = dset example_name_preorder ''preorder_hash'' (VStr h)"

definition example_preordered :: "string \<Rightarrow> pydict" where
  "example_preordered h = dset (dset (example_preorder_of h) ''__account_payment_info__''
     (payment_info (VStr ''1me'') (VStr TOKEN_TYPE_STACKS) (VInt 640000))) ''token_fee'' (VStr (str_of_int 640000))"

lemmas example_preorder_defs = example_preorder_of_def example_preordered_def example_name_preorder_def dset_def

abbreviation funded_block :: "string list \<Rightarrow> state_engine" where
  "funded_block hs \<equiv> funded_example\<lparr>collisions := (case hs of [] \<Rightarrow> [] | _ \<Rightarrow> [(590001, [(''preorder_hash'', map VStr hs)])])\<rparr>"

lemma example_preordered_check:
  "preorder_check example_vc (funded_block hs) (example_preorder_of h) 590001 [] = Inr (Some (example_preordered h))"
proof -
  have "get_num_names_owned (funded_block hs) [] ''76a9'' = Inr 0"
    by (simp add: get_num_names_owned_def find_by_opcode_def get_names_owned_by_sender_def namedb_get_names_by_sender_def
      join_namespaces_def example_with_def example_name_row_def text_col_def)
  moreover have "is_new_preorder (funded_block hs) h None = Inr True"
    by (simp add: is_new_preorder_def namedb_get_name_preorder_def example_with_def fetchone_def)
  moreover have "get_account (funded_block hs) ''1me'' TOKEN_TYPE_STACKS = Some example_funds"
    by (simp add: get_account_def namedb_get_account_def example_with_def example_funds_def TOKEN_TYPE_STACKS_def order_desc_def)
  moreover have "get_account_balance example_funds = Inr 1000000"
    by (simp add: get_account_balance_def namedb_get_account_balance_def example_funds_def)
  ultimately show ?thesis
    by (simp add: preorder_check_def example_preorder_defs get_str_def getitem_def has_key_def epoch_of_def epoch_tables
      MAX_NAMES_PER_SENDER_def as_str_def can_pay_def state_preorder_put_account_payment_info_def opt_int_def opt_str_def
      py_str_def TOKEN_TYPE_STACKS_def)
qed

lemma example_preordered_accepted:
  assumes "h \<notin> set hs"
  shows "check_preorder example_vc (funded_block hs) (example_preorder_of h) 590001 [] =
    Inr (Some (example_preordered h), funded_block (hs @ [h]), [])"
  unfolding check_preorder_def state_preorder_def example_preordered_check using assms
  by (cases hs; simp add: state_check_collisions_def check_preorder_collision_def check_collision_def check_collision_state_def
      example_preorder_defs has_key_def getitem_def has_keys_def state_preorder_invariant_tags_def CONSENSUS_FIELDS_REQUIRED_def
      seen_at_def note_seen_def list_ex_iff split: list.split)

lemma example_preorder_opcode: "nameop_opcode (example_preorder_of h) = Inr ''NAME_PREORDER''"
  by (simp add: nameop_opcode_def example_preorder_defs get_str_def getitem_def has_key_def as_str_def)

lemma example_preordered_db_check:
  assumes "h \<notin> set hs"
  shows "db_check example_vc 590001 [NAME_PREORDER] (example_preorder_of h) 1 [] (funded_block hs) =
    Inr (Some (example_preordered h), funded_block (hs @ [h]), [])"
proof -
  have m: "map_of (CHECK_METHODS vc) ''NAME_PREORDER'' = Some (check_preorder vc)" for vc
    by (simp add: CHECK_METHODS_def)
  have c: "clean_accepted example_vc (example_preordered h) = Inr (example_preordered h)"
    by (simp add: clean_accepted_def example_preorder_defs get_str_def getitem_def op_canonicalize_def CANONICALIZE_METHODS_def
        as_str_def UNSTORED_CANONICAL_FIELDS_def)
  have f: "check_mutate_fields ''NAME_PREORDER'' (example_preordered h) = Inr True"
    by (simp add: check_mutate_fields_def op_get_mutate_fields_def table_entry_def MUTATE_FIELDS_def preorder_MUTATE_FIELDS_def
        preorder_FIELDS_def has_keys_def has_key_def example_preorder_defs)
  have g: "op_get_opcode_name [NAME_PREORDER] = Inr ''NAME_PREORDER''"
    by code_simp
  have h: "has_key (example_preorder_of h) ''txid''" "has_key (example_preorder_of h) ''vtxindex''"
    "dget (example_preordered h) ''opcode'' VNone = VStr ''NAME_PREORDER''"
    by (simp_all add: example_preorder_defs has_key_def dget_def)
  show ?thesis
    by (simp add: db_check_def op_check_def example_preorder_opcode m c f g h example_preordered_accepted [OF assms]
        or_abort_def catching_def)
qed

theorem one_creation_per_block_witness:
  "map_of (example_preordered ''f00d'') ''preorder_hash'' \<noteq> map_of (example_preordered ''beef'') ''preorder_hash''"
  using one_creation_per_block [OF example_preordered_db_check [of "''beef''" "[]"] _
      example_preordered_db_check [of "''f00d''" "[''beef'']"] example_preorder_opcode example_preorder_opcode,
      of "''preorder_hash''"]
  by (simp add: exclusive_def)

end
