(* ===== verification/Invariants.thy ===== *)
theory Invariants
  imports Blocks
begin

text \<open>
  The invariant of the database: the rows of every table have the columns of the schema, keys are
  unique and no account is overdrawn. Every hook of the virtual chain keeps it, and the records of
  the past, which are the history and the states of accounts, are never rewritten.
\<close>

section \<open>Rows of a table\<close>

definition row_ok :: "string \<Rightarrow> pydict \<Rightarrow> bool" where
  "row_ok table_name r \<longleftrightarrow> map fst r = column_names table_name \<and>
     (\<forall>(c, t, not_null) \<in> set (table_columns table_name). not_null \<longrightarrow> dget r c VNone \<noteq> VNone)"

definition row_key :: "string \<Rightarrow> pydict \<Rightarrow> pyval option list" where
  "row_key table_name r = map (map_of r) (primary_key table_name)"

definition table_ok :: "string \<Rightarrow> pydict list \<Rightarrow> bool" where
  "table_ok table_name rows \<longleftrightarrow> (\<forall>r \<in> set rows. row_ok table_name r) \<and> distinct (map (row_key table_name) rows)"

lemma same_key_iff: "same_key t r s \<longleftrightarrow> row_key t r = row_key t s"
  by (simp add: same_key_def row_key_def list_all_iff)

lemma stored_column_Inr:
  "stored_column (c, t, not_null) v = Inr x \<Longrightarrow> \<exists>w. x = (c, w) \<and> (not_null \<longrightarrow> w \<noteq> VNone)"
  by (auto simp: stored_column_def res_simps split: if_splits)

lemma distinct_columns: "distinct (column_names t)"
  by (simp add: column_names_def table_columns_def preorders_columns_def namespaces_columns_def name_records_columns_def)

lemma stored_row:
  assumes "rmap (\<lambda>c. stored_column c (f c)) cols = Inr row" and "distinct (map fst cols)"
  shows "map fst row = map fst cols \<and> (\<forall>(c, t, not_null) \<in> set cols. not_null \<longrightarrow> dget row c VNone \<noteq> VNone)"
  using assms
proof (induction cols arbitrary: row)
  case (Cons col cols)
  obtain c t n where col: "col = (c, t, n)" by (cases col)
  obtain w row' where row: "row = (c, w) # row'" "n \<longrightarrow> w \<noteq> VNone" "rmap (\<lambda>c. stored_column c (f c)) cols = Inr row'"
    using Cons.prems(1) unfolding col by (auto simp: res_simps dest!: stored_column_Inr)
  have IH: "map fst row' = map fst cols" "\<forall>(c, t, not_null) \<in> set cols. not_null \<longrightarrow> dget row' c VNone \<noteq> VNone"
    using Cons.IH [OF row(3)] Cons.prems(2) by simp_all
  have "c' \<noteq> c" if "(c', t', n') \<in> set cols" for c' t' n'
    using Cons.prems(2) that unfolding col by force
  with IH row(1,2) show ?case
    unfolding col by (fastforce simp: dget_def)
qed simp

lemma insert_into_ok:
  assumes "insert_into st t values = Inr st'" and "table_ok t (table_rows st t)"
  shows "\<exists>row. st' = put_rows st t (table_rows st t @ [row]) \<and> table_ok t (table_rows st t @ [row])"
proof -
  obtain row where row: "rmap (\<lambda>c. stored_column c (dget values (fst c) VNone)) (table_columns t) = Inr row"
    and new: "\<not> list_ex (same_key t row) (table_rows st t)" and st': "st' = put_rows st t (table_rows st t @ [row])"
    using assms(1) by (auto simp: insert_into_def res_simps split: if_splits)
  have "row_ok t row"
    using stored_row [OF row] distinct_columns by (simp add: row_ok_def column_names_def)
  with new assms(2) st' show ?thesis
    by (auto simp: table_ok_def list_ex_iff same_key_iff)
qed

section \<open>Updates\<close>

lemma dupdate_Nil [simp]: "dupdate d [] = d"
  by (simp add: dupdate_def)

lemma dupdate_Cons [simp]: "dupdate d ((k, v) # e) = dupdate (dset d k v) e"
  by (simp add: dupdate_def)

lemma dset_keys: "k \<in> set (map fst d) \<Longrightarrow> map fst (dset d k v) = map fst d"
  unfolding dset_def by (induction d) auto

lemma dupdate_keys: "set (map fst e) \<subseteq> set (map fst d) \<Longrightarrow> map fst (dupdate d e) = map fst d"
proof (induction e arbitrary: d)
  case (Cons kv e)
  obtain k v where kv: "kv = (k, v)" by (cases kv)
  have "map fst (dset d k v) = map fst d"
    by (rule dset_keys) (use Cons.prems kv in simp)
  then show ?case
    using Cons.IH [of "dset d k v"] Cons.prems kv by (metis dupdate_Cons list.simps(9) set_subset_Cons subset_trans)
qed simp

lemma dupdate_other: "k \<notin> set (map fst e) \<Longrightarrow> map_of (dupdate d e) k = map_of d k"
proof (induction e arbitrary: d)
  case (Cons kv e)
  then show ?case by (cases kv) simp
qed simp

lemma dupdate_not_null:
  "(\<And>v. (k, v) \<in> set e \<Longrightarrow> v \<noteq> VNone) \<Longrightarrow> dget d k VNone \<noteq> VNone \<Longrightarrow> dget (dupdate d e) k VNone \<noteq> VNone"
proof (induction e arbitrary: d)
  case (Cons kv e)
  obtain k' v where kv: "kv = (k', v)" by (cases kv)
  have "dget (dset d k' v) k VNone \<noteq> VNone"
    using Cons.prems by (auto simp: dget_def kv)
  then show ?case
    using Cons.IH [of "dset d k' v"] Cons.prems(1) by (simp add: kv)
qed simp

lemma row_ok_dupdate:
  assumes "row_ok t r" and "set (map fst cells) \<subseteq> set (column_names t)"
    and "\<And>c v ty. (c, v) \<in> set cells \<Longrightarrow> (c, ty, True) \<in> set (table_columns t) \<Longrightarrow> v \<noteq> VNone"
  shows "row_ok t (dupdate r cells)"
  using assms dupdate_keys [of cells r] dupdate_not_null [of _ cells r] unfolding row_ok_def
  by (auto split: prod.split)

lemma row_key_dupdate:
  assumes "set (map fst cells) \<inter> set (primary_key t) = {}"
  shows "row_key t (dupdate r cells) = row_key t r"
  unfolding row_key_def by (rule map_cong [OF refl], rule dupdate_other) (use assms in auto)

lemma column_of_in:
  assumes "k \<in> set (column_names t)"
  shows "\<exists>ty n. column_of t k = (k, ty, n) \<and> (k, ty, n) \<in> set (table_columns t)"
proof -
  obtain ty n where "(k, ty, n) \<in> set (table_columns t)"
    using assms by (auto simp: column_names_def)
  then obtain col where col: "List.find (\<lambda>(n, _). n = k) (table_columns t) = Some col"
    by (cases "List.find (\<lambda>(n, _). n = k) (table_columns t)") (auto simp: find_None_iff)
  then have "col \<in> set (table_columns t)" "fst col = k"
    by (metis (no_types, lifting) find_Some_iff nth_mem, cases col) (auto simp: find_Some_iff dest: sym)
  with col show ?thesis
    by (cases col) (auto simp: column_of_def)
qed

lemma column_unique:
  "(c, ty, n) \<in> set (table_columns t) \<Longrightarrow> (c, ty', n') \<in> set (table_columns t) \<Longrightarrow> n' = n"
  using distinct_columns [of t] unfolding column_names_def by (metis Pair_inject eq_key_imp_eq_value)

lemma stored_cells:
  assumes "rmap (\<lambda>(k, v). stored_column (column_of t k) v) update_set = Inr cells"
    and "set (map fst update_set) \<subseteq> set (column_names t)"
  shows "map fst cells = map fst update_set \<and>
    (\<forall>c v ty. (c, v) \<in> set cells \<longrightarrow> (c, ty, True) \<in> set (table_columns t) \<longrightarrow> v \<noteq> VNone)"
  using assms
proof (induction update_set arbitrary: cells)
  case (Cons kv update_set)
  obtain k v where kv: "kv = (k, v)" by (cases kv)
  obtain ty n where col: "column_of t k = (k, ty, n)" "(k, ty, n) \<in> set (table_columns t)"
    using column_of_in [of k t] Cons.prems(2) kv by auto
  obtain w cells' where cells: "cells = (k, w) # cells'" "n \<longrightarrow> w \<noteq> VNone"
    and rest: "rmap (\<lambda>(k, v). stored_column (column_of t k) v) update_set = Inr cells'"
    using Cons.prems(1) unfolding kv by (auto simp: res_simps col(1) dest!: stored_column_Inr)
  have IH: "map fst cells' = map fst update_set"
    "\<forall>c v ty. (c, v) \<in> set cells' \<longrightarrow> (c, ty, True) \<in> set (table_columns t) \<longrightarrow> v \<noteq> VNone"
    using Cons.IH [OF rest] Cons.prems(2) by simp_all
  then show ?case
    using cells column_unique [OF col(2)] by (auto simp: kv)
qed simp

lemma put_rows_id [simp]: "put_rows st t (table_rows st t) = st"
  by (simp add: put_rows_def table_rows_def)

lemma update_rows_ok:
  assumes "update_rows st t update_set where_set = Inr (st', n)" and "table_ok t (table_rows st t)"
    and "set (map fst update_set) \<subseteq> set (column_names t)" and "set (map fst update_set) \<inter> set (primary_key t) = {}"
  shows "\<exists>rows. st' = put_rows st t rows \<and> table_ok t rows"
proof (cases "n = 0")
  case True
  then have "st' = st"
    using assms(1) by (auto simp: update_rows_def Let_def res_simps split: if_splits)
  then show ?thesis
    using assms(2) by (metis put_rows_id)
next
  case False
  obtain cells where cells: "rmap (\<lambda>(k, v). stored_column (column_of t k) v) update_set = Inr cells"
    and st': "st' = put_rows st t (map (\<lambda>r. if where_holds where_set r then dupdate r cells else r) (table_rows st t))"
    using assms(1) False by (auto simp: update_rows_def Let_def res_simps split: if_splits)
  let ?f = "\<lambda>r. if where_holds where_set r then dupdate r cells else r"
  note c = stored_cells [OF cells assms(3)]
  have "map (row_key t) (map ?f (table_rows st t)) = map (row_key t) (table_rows st t)"
    using row_key_dupdate [of cells t] c assms(4) by simp
  moreover have "row_ok t (?f r)" if "r \<in> set (table_rows st t)" for r
    using row_ok_dupdate [of t r cells] c assms(2,3) that unfolding table_ok_def by auto
  ultimately have "table_ok t (map ?f (table_rows st t))"
    using assms(2) unfolding table_ok_def by (auto simp only: list.set_map)
  then show ?thesis
    using st' by blast
qed

lemma fields_match_record:
  "namedb_assert_fields_match d t True False = Inr x \<longleftrightarrow> x \<and> fst ` set d \<subseteq> set (column_names t)"
  by (auto simp: namedb_assert_fields_match_def namedb_find_missing_and_extra_def dkeys_def filter_empty_conv)

lemma update_one_ok:
  assumes "update_one st t pk d must_equal only_if = Inr st'" and "table_ok t (table_rows st t)"
    and "set (primary_key t) \<subseteq> set pk"
  shows "\<exists>rows. st' = put_rows st t rows \<and> table_ok t rows"
proof -
  obtain us ws where us: "namedb_update_prepare pk d t must_equal only_if = Inr (us, ws)"
    and st': "update_rows st t us ws = Inr (st', 1)"
    using assms(1) by (auto simp: update_one_def or_abort_eq_Inr res_simps split: if_splits)
  have pk: "set pk \<subseteq> set must_equal" and d: "set (map fst d) \<subseteq> set (column_names t)"
    and us_eq: "us = map (\<lambda>(k, v). (k, sql_value v)) (filter (\<lambda>(k, v). k \<notin> set must_equal) d)"
    using us by (auto simp: namedb_update_prepare_def rbind_eq_Inr assert_that_eq_Inr list_all_iff fields_match_record)
  have "set (map fst us) \<subseteq> set (map fst d) - set must_equal"
    by (force simp: us_eq)
  with pk d assms(2,3) show ?thesis
    by (intro update_rows_ok [OF st']) (simp_all, blast+)
qed

section \<open>The database\<close>

definition history_ok :: "history_row list \<Rightarrow> bool" where
  "history_ok rows \<longleftrightarrow> distinct (map (\<lambda>r. (h_txid r, h_block_id r, h_vtxindex r)) rows)"

definition database_ok :: "state_engine \<Rightarrow> bool" where
  "database_ok st \<longleftrightarrow> table_ok ''preorders'' (preorder_rows st) \<and> table_ok ''namespaces'' (namespace_rows st) \<and>
     table_ok ''name_records'' (name_rows st) \<and> history_ok (history_rows st) \<and>
     accounts_ok (account_rows st) \<and> distinct (map account_key (account_rows st)) \<and>
     (\<forall>r \<in> set (vesting_rows st). 0 \<le> vesting_value r)"

lemma database_ok_tables: "database_ok st \<Longrightarrow> t \<in> {''preorders'', ''namespaces'', ''name_records''} \<Longrightarrow> table_ok t (table_rows st t)"
  by (auto simp: database_ok_def table_rows_def)

lemma put_rows_ok:
  "database_ok st \<Longrightarrow> t \<in> {''preorders'', ''namespaces'', ''name_records''} \<Longrightarrow> table_ok t rows \<Longrightarrow> database_ok (put_rows st t rows)"
  by (auto simp: database_ok_def put_rows_def)

lemma insert_into_database_ok:
  "insert_into st t d = Inr st' \<Longrightarrow> database_ok st \<Longrightarrow> t \<in> {''preorders'', ''namespaces'', ''name_records''} \<Longrightarrow> database_ok st'"
  by (metis insert_into_ok put_rows_ok database_ok_tables)

lemma update_one_database_ok:
  "update_one st t pk d me oi = Inr st' \<Longrightarrow> database_ok st \<Longrightarrow> t \<in> {''preorders'', ''namespaces'', ''name_records''} \<Longrightarrow>
     set (primary_key t) \<subseteq> set pk \<Longrightarrow> database_ok st'"
  by (metis update_one_ok put_rows_ok database_ok_tables)

lemma table_ok_filter: "table_ok t rows \<Longrightarrow> table_ok t (filter P rows)"
  by (auto simp: table_ok_def distinct_map_filter)

lemma accounts_insert_keys:
  "accounts_insert accts r = Inr accts' \<Longrightarrow> distinct (map account_key accts) \<Longrightarrow> distinct (map account_key accts')"
  by (auto simp: accounts_insert_def split: if_splits)

lemma account_debit_keys:
  "namedb_account_debit accts a t n b v txid = Inr accts' \<Longrightarrow> distinct (map account_key accts) \<Longrightarrow> distinct (map account_key accts')"
  by (auto simp: namedb_account_debit_def namedb_account_transaction_save_def Let_def accounts_insert_keys
      split: option.splits if_splits dest: accounts_insert_keys)

lemma account_credit_keys:
  "namedb_account_credit accts a t n b v txid = Inr accts' \<Longrightarrow> distinct (map account_key accts) \<Longrightarrow> distinct (map account_key accts')"
  by (auto simp: namedb_account_credit_def namedb_account_transaction_save_def Let_def
      split: option.splits if_splits dest: accounts_insert_keys)

lemma commit_account_debit_cases:
  assumes "commit_account_debit st payment b v txid = Inr st'"
  obtains "payment_of payment = Inr None" "st' = st"
  | a t n rows where "payment_of payment = Inr (Some (a, t, n))" "0 \<le> n"
    "debit_at (account_rows st) (a, t) n (b, v, txid) = Inr rows" "st' = st\<lparr>account_rows := rows\<rparr>"
  using assms that by (fastforce simp: commit_account_debit_def res_simps not_less split: option.split_asm if_split_asm)

lemma commit_account_credit_cases:
  assumes "commit_account_credit st payment b v txid = Inr st'"
  obtains "payment_of payment = Inr None" "st' = st"
  | a t n rows where "payment_of payment = Inr (Some (a, t, n))" "0 \<le> n"
    "credit_at (account_rows st) (a, t) n (b, v, txid) = Inr rows" "st' = st\<lparr>account_rows := rows\<rparr>"
  using assms that by (fastforce simp: commit_account_credit_def res_simps not_less split: option.split_asm if_split_asm)

interpretation database_kept: commit_kept database_ok "\<lambda>_ _. True"
proof
  fix st st' r h vc opcode ignored hid creator vh b v t d payment and height vtxindex :: int and txid op
  show "database_ok st'" if "namedb_preorder_insert st r = Inr st'" "database_ok st"
    using that by (auto simp: namedb_preorder_insert_def res_simps intro: insert_into_database_ok)
  show "database_ok (namedb_preorder_remove st h)" if "database_ok st"
    using that by (auto simp: namedb_preorder_remove_def delete_from_def intro!: put_rows_ok table_ok_filter dest: database_ok_tables)
  show "database_ok st'" if "namedb_name_insert vc st r = Inr st'" "database_ok st"
    using that by (auto simp: namedb_name_insert_def res_simps intro: insert_into_database_ok)
  show "database_ok st'" if "namedb_namespace_insert st r = Inr st'" "database_ok st"
    using that by (auto simp: namedb_namespace_insert_def res_simps intro: insert_into_database_ok)
  show "database_ok st'" if "namedb_name_update vc st opcode r [] ignored = Inr st'" "database_ok st"
    using that by (auto simp: namedb_name_update_def res_simps primary_key_def intro: update_one_database_ok)
  show "database_ok st'" if "namedb_namespace_update st opcode r ignored = Inr st'" "database_ok st"
    using that by (auto simp: namedb_namespace_update_def res_simps primary_key_def intro: update_one_database_ok)
  show "database_ok st'" if "namedb_history_save vc st opcode hid creator vh b v t r = Inr (d, st')" "database_ok st"
    using that by (auto simp: database_ok_def history_ok_def dest!: namedb_history_save_Inr)
  show "database_ok st'" if "commit_account_debit st payment height vtxindex txid = Inr st'" "database_ok st"
    using that(1) by (rule commit_account_debit_cases)
      (use that(2) token_ledger.debit_inv account_debit_keys in \<open>auto simp: database_ok_def\<close>)
  show "database_ok st'" if "commit_account_credit st payment height vtxindex txid = Inr st'" "database_ok st"
    using that(1) by (rule commit_account_credit_cases)
      (use that(2) token_ledger.credit_inv account_credit_keys in \<open>auto simp: database_ok_def\<close>)
  show "database_ok st'" if "reject_collided st op height = Inr (d, st')" "database_ok st"
    using that by (auto simp: reject_collided_def log_reject_def put_rejected_def res_simps database_ok_def)
qed

text \<open>The records of the past are only added to.\<close>

definition extends :: "state_engine \<Rightarrow> state_engine \<Rightarrow> bool" where
  "extends st st' \<longleftrightarrow> (\<exists>hs. history_rows st' = history_rows st @ hs) \<and> (\<exists>as. account_rows st' = account_rows st @ as)"

lemma extends_refl [simp]: "extends st st"
  by (simp add: extends_def)

lemma extends_trans [trans]: "extends a b \<Longrightarrow> extends b c \<Longrightarrow> extends a c"
  by (auto simp: extends_def)

lemma put_rows_past [simp]: "history_rows (put_rows st t rows) = history_rows st" "account_rows (put_rows st t rows) = account_rows st"
  by (simp_all add: put_rows_def)

lemma insert_into_past: "insert_into st t d = Inr st' \<Longrightarrow> history_rows st' = history_rows st \<and> account_rows st' = account_rows st"
  by (auto simp: insert_into_def res_simps split: if_splits)

lemma update_one_past: "update_one st t pk d me oi = Inr st' \<Longrightarrow> history_rows st' = history_rows st \<and> account_rows st' = account_rows st"
  by (auto simp: update_one_def update_rows_def res_simps Let_def split: if_splits)

lemma debit_appends: "namedb_account_debit accts a t n b v txid = Inr rows \<Longrightarrow> \<exists>r. rows = accts @ [r]"
  using debit_row [of accts "(a, t)" n "(b, v, txid)" rows] by auto

lemma credit_appends: "namedb_account_credit accts a t n b v txid = Inr rows \<Longrightarrow> \<exists>r. rows = accts @ [r]"
  using credit_row [of accts "(a, t)" n "(b, v, txid)" rows] by auto

lemmas statement_past = namedb_preorder_insert_def namedb_preorder_remove_def delete_from_def namedb_name_insert_def
  namedb_name_update_def namedb_namespace_insert_def namedb_namespace_update_def

interpretation past_kept: commit_kept "extends st" "\<lambda>_ _. True" for st
proof
  fix st0 st st' r h vc opcode ignored hid creator vh b v t d payment and height vtxindex :: int and txid op
  show "extends st0 st'" if "namedb_preorder_insert st r = Inr st'" "extends st0 st"
    using that by (auto simp: statement_past res_simps extends_def dest!: insert_into_past)
  show "extends st0 (namedb_preorder_remove st h)" if "extends st0 st"
    using that by (auto simp: statement_past extends_def)
  show "extends st0 st'" if "namedb_name_insert vc st r = Inr st'" "extends st0 st"
    using that by (auto simp: statement_past res_simps extends_def dest!: insert_into_past)
  show "extends st0 st'" if "namedb_namespace_insert st r = Inr st'" "extends st0 st"
    using that by (auto simp: statement_past res_simps extends_def dest!: insert_into_past)
  show "extends st0 st'" if "namedb_name_update vc st opcode r [] ignored = Inr st'" "extends st0 st"
    using that by (auto simp: statement_past res_simps extends_def dest!: update_one_past)
  show "extends st0 st'" if "namedb_namespace_update st opcode r ignored = Inr st'" "extends st0 st"
    using that by (auto simp: statement_past res_simps extends_def dest!: update_one_past)
  show "extends st0 st'" if "namedb_history_save vc st opcode hid creator vh b v t r = Inr (d, st')" "extends st0 st"
    using that by (auto simp: extends_def dest!: namedb_history_save_Inr)
  show "extends st0 st'" if "commit_account_debit st payment height vtxindex txid = Inr st'" "extends st0 st"
    using that(1) by (rule commit_account_debit_cases) (use that(2) in \<open>auto simp: extends_def dest!: debit_appends\<close>)
  show "extends st0 st'" if "commit_account_credit st payment height vtxindex txid = Inr st'" "extends st0 st"
    using that(1) by (rule commit_account_credit_cases) (use that(2) in \<open>auto simp: extends_def dest!: credit_appends\<close>)
  show "extends st0 st'" if "reject_collided st op height = Inr (d, st')" "extends st0 st"
    using that by (auto simp: reject_collided_def log_reject_def put_rejected_def res_simps extends_def)
qed

section \<open>The life of a node\<close>

text \<open>
  The node creates its database from the genesis allocation and then runs the hooks that virtual
  chain calls. (The blocks at which a patch rewrites the genesis allocation are left out.)
\<close>

definition new_node :: "bool \<Rightarrow> accounts \<Rightarrow> vesting_row list \<Rightarrow> state_engine" where
  "new_node keep_rejected accts vs = \<lparr>name_rows = [], namespace_rows = [], preorder_rows = [], history_rows = [],
     account_rows = accts, vesting_rows = vs, lastblock = FIRST_BLOCK_MAINNET, collisions = [], vesting = [], rejected = [],
     import_keychains = [], announce_ids = [], save_rejected = keep_rejected, rejected_table = []\<rparr>"

inductive node_step :: "virtualchain \<Rightarrow> genesis_patches \<Rightarrow> state_engine \<Rightarrow> state_engine \<Rightarrow> bool" for vc patches where
  node_scan: "db_scan_block vc b ops st = Inr st' \<Longrightarrow> node_step vc patches st st'"
| node_block: "block_step vc b st st' \<Longrightarrow> node_step vc patches st st'"
| node_save: "patches (b + 1) = None \<Longrightarrow> db_save vc patches b st = Inr st' \<Longrightarrow>
    node_step vc patches st (st'\<lparr>lastblock := b\<rparr>)"

lemma scan_keeps_tables:
  assumes "db_scan_block vc b ops st = Inr st'"
  shows "tables st' = tables st"
proof -
  have "post (\<lambda>(st', _). tables st' = tables st) (rfold (scan_op vc b) (st, []) ops)"
    by (rule post_rfold) (auto simp: scan_op_def res_simps check_keeps_def dest!: op_check_keeps split: if_splits)
  with assms show ?thesis
    by (auto simp: db_scan_block_def res_simps put_collisions_def tables_def dest!: postD)
qed

lemma vest_kept:
  assumes "namedb_accounts_vest vc accts vs b = Inr accts'" and "accounts_ok accts" and "distinct (map account_key accts)"
    and "\<forall>r \<in> set vs. 0 \<le> vesting_value r"
  shows "accounts_ok accts' \<and> distinct (map account_key accts') \<and> (\<exists>as. accts' = accts @ as)"
proof -
  have "post (\<lambda>accts'. accounts_ok accts' \<and> distinct (map account_key accts') \<and> (\<exists>as. accts' = accts @ as))
      (namedb_accounts_vest vc accts vs b)"
    unfolding namedb_accounts_vest_def Let_def
  proof (rule post_rfold, goal_cases)
    case (2 s row s')
    note ok = token_ledger.credit_inv [of s "vesting_value row" "(vest_address row, vest_type row)" "(b, 0, _)" s']
    show ?case
      using 2 assms(4) ok account_credit_keys [OF 2(3)] credit_appends [OF 2(3)] by auto
  qed (use assms in simp)
  with assms(1) show ?thesis by (auto dest: postD)
qed

lemma db_save_tables:
  assumes "db_save vc patches b st = Inr st'" and "patches (b + 1) = None"
  obtains accts where "namedb_accounts_vest vc (account_rows st) (vesting_rows st) (b + 1) = Inr accts"
    and "tables st' = tables (st\<lparr>account_rows := accts\<rparr>)"
proof -
  obtain st1 where st1: "commit_account_vesting vc st (b + 1) = Inr st1"
    and st': "commit_finished (store_rejected st1 b) b = Inr st'"
    using assms by (auto simp: db_save_def commit_genesis_patch_def or_abort_eq_Inr rbind_eq_Inr split: if_split_asm)
  from st1 obtain accts where "namedb_accounts_vest vc (account_rows st) (vesting_rows st) (b + 1) = Inr accts"
    and "st1 = st\<lparr>account_rows := accts, vesting := (b + 1) # vesting st\<rparr>"
    by (auto simp: commit_account_vesting_def rbind_eq_Inr split: if_split_asm)
  moreover have "tables st' = tables st1"
    using st' by (auto simp: commit_finished_def assert_that_eq_Inr store_rejected_def clear_vesting_def clear_rejected_def
        clear_collisions_def tables_def)
  ultimately show ?thesis
    using that by (simp add: tables_def)
qed

lemma save_kept:
  assumes "db_save vc patches b st = Inr st'" and "patches (b + 1) = None" and "database_ok st"
  shows "database_ok st' \<and> extends st st'"
proof -
  obtain accts where accts: "namedb_accounts_vest vc (account_rows st) (vesting_rows st) (b + 1) = Inr accts"
    and st': "tables st' = tables (st\<lparr>account_rows := accts\<rparr>)"
    using assms(1,2) by (rule db_save_tables)
  have "accounts_ok accts \<and> distinct (map account_key accts) \<and> (\<exists>as. accts = account_rows st @ as)"
    using assms(3) by (intro vest_kept [OF accts]) (simp_all add: database_ok_def)
  with st' assms(3) show ?thesis
    by (simp add: database_ok_def extends_def tables_def)
qed

lemma node_step_kept:
  assumes "node_step vc patches st st'" and "database_ok st"
  shows "database_ok st' \<and> extends st st'"
  using assms(1)
proof cases
  case (node_scan b ops)
  then show ?thesis
    using assms(2) scan_keeps_tables by (fastforce simp: tables_def database_ok_def extends_def)
next
  case (node_block b)
  then show ?thesis
  proof cases
    case (step_check op op_data vtxindex ops rc ops')
    then have "check_keeps st st'"
      by (rule db_check_op_check)
    then show ?thesis
      using assms(2) by (simp add: check_keeps_def tables_def database_ok_def extends_def)
  next
    case (step_commit op op_data txid vtxindex cs)
    then show ?thesis
      using assms(2) by (auto simp: allowed_def intro: database_kept.db_commit_kept past_kept.db_commit_kept)
  qed
next
  case (node_save b st1)
  then show ?thesis
    using save_kept [of vc patches b st st1] assms(2) by (auto simp: database_ok_def extends_def)
qed

lemma node_run_kept:
  assumes "(node_step vc patches)\<^sup>*\<^sup>* st st'" and "database_ok st"
  shows "database_ok st' \<and> extends st st'"
  using assms by (induction rule: rtranclp_induct) (auto dest: node_step_kept intro: extends_trans)

lemma genesis_row_keys:
  assumes "genesis_row vc (accts, vs) g = Inr (accts', vs')" and "distinct (map account_key accts)"
  shows "distinct (map account_key accts')"
  using assms by (auto simp: genesis_row_def res_simps Let_def split: option.splits dest: accounts_insert_keys)

text \<open>The genesis allocation grants no negative amounts.\<close>

definition genesis_ok :: "genesis_account list \<Rightarrow> bool" where
  "genesis_ok gs \<longleftrightarrow> (\<forall>g \<in> set gs. 0 \<le> gen_value g \<and> (\<forall>v. gen_vesting g = Some v \<longrightarrow> (\<forall>(b, n) \<in> set v. 0 \<le> n)))"

lemma genesis_row_ok:
  assumes "genesis_row vc (accts, vs) g = Inr (accts', vs')" and "genesis_ok [g]"
    and "accounts_ok accts" and "\<forall>r \<in> set vs. 0 \<le> vesting_value r"
  shows "accounts_ok accts' \<and> (\<forall>r \<in> set vs'. 0 \<le> vesting_value r)"
proof -
  have "\<forall>r \<in> set ws. 0 \<le> vesting_value r"
    if "rfold (\<lambda>vs hv. vesting_insert vs \<lparr>vest_address = a, vest_type = t, vesting_value = snd hv, vest_block_id = fst hv\<rparr>) vs v = Inr ws"
      "\<forall>(b, n) \<in> set v. 0 \<le> n" for a t v ws
  proof -
    have "post (\<lambda>ws. \<forall>r \<in> set ws. 0 \<le> vesting_value r)
        (rfold (\<lambda>vs hv. vesting_insert vs \<lparr>vest_address = a, vest_type = t, vesting_value = snd hv, vest_block_id = fst hv\<rparr>) vs v)"
      using assms(4) that(2) by (intro post_rfold) (fastforce simp: vesting_insert_def split: if_splits)+
    with that(1) show ?thesis by (auto dest: postD)
  qed
  then show ?thesis
    using genesis_row_shape [OF assms(1)] assms(2-4) by (cases "gen_vesting g") (auto simp: genesis_ok_def accounts_ok_def)
qed

lemma genesis_database_ok:
  assumes "namedb_create_token_genesis vc ([], []) gs gh = Inr (accts, vs)" and "genesis_ok gs"
  shows "database_ok (new_node keep_rejected accts vs)"
proof -
  have "post (\<lambda>(accts, vs). accounts_ok accts \<and> distinct (map account_key accts) \<and> (\<forall>r \<in> set vs. 0 \<le> vesting_value r))
      (rfold (genesis_row vc) ([], []) gs)"
  proof (rule post_rfold, goal_cases)
    case (2 s g s')
    then have "genesis_ok [g]"
      using assms(2) by (simp add: genesis_ok_def)
    with 2 show ?case
      using genesis_row_ok [of vc "fst s" "snd s" g "fst s'" "snd s'"] genesis_row_keys [of vc "fst s" "snd s" g "fst s'" "snd s'"] by auto
  qed (simp add: accounts_ok_def)
  with assms(1) show ?thesis
    by (auto simp: namedb_create_token_genesis_def res_simps new_node_def database_ok_def table_ok_def history_ok_def
        accounts_insert_def accounts_ok_def split: if_splits dest!: postD)
qed

text \<open>
  C4: On every run of a node the database keeps its invariant. Starting from the database that the
  genesis allocation creates, after any sequence of scans, checks, commits and saves of blocks
  (without a patch of the genesis), the rows of the tables of preorders, namespaces and names have
  exactly the columns of the schema, no \<open>NOT NULL\<close> column is null, and primary keys are unique; no
  two rows of the history or of the accounts have the same key; and no account is overdrawn.
\<close>

theorem database_invariant:
  assumes "namedb_create_token_genesis vc ([], []) gs gh = Inr (accts, vs)" and "genesis_ok gs"
    and "(node_step vc patches)\<^sup>*\<^sup>* (new_node keep_rejected accts vs) st"
  shows "database_ok st"
  using node_run_kept [OF assms(3) genesis_database_ok [OF assms(1,2)]] by blast

lemma store_rejected_sel [simp]:
  "vesting (store_rejected st b) = vesting st" "account_rows (store_rejected st b) = account_rows st"
  by (simp_all add: store_rejected_def)

lemma clear_accounts [simp]: "account_rows (clear_vesting st b) = account_rows st" "account_rows (clear_rejected st b) = account_rows st"
  "account_rows (clear_collisions st b) = account_rows st"
  by (simp_all add: clear_vesting_def clear_rejected_def clear_collisions_def)

lemma save_succeeds:
  assumes "namedb_accounts_vest vc (account_rows st) (vesting_rows st) (b + 1) = Inr accts" and "b + 1 \<notin> set (vesting st)"
  obtains st' where "node_step vc (\<lambda>_. None) st st'" and "account_rows st' = accts"
proof -
  define s where "s = store_rejected (st\<lparr>account_rows := accts, vesting := (b + 1) # vesting st\<rparr>) b"
  have s: "vesting s = (b + 1) # vesting st" "account_rows s = accts"
    by (simp_all add: s_def)
  have "db_save vc (\<lambda>_. None) b st = Inr (clear_vesting (clear_rejected (clear_collisions s b) b) (b + 1))"
    using assms s(1) by (simp add: db_save_def commit_genesis_patch_def or_abort_def catching_def commit_account_vesting_def
        commit_finished_def assert_that_def flip: s_def)
  then have "node_step vc (\<lambda>_. None) st ((clear_vesting (clear_rejected (clear_collisions s b) b) (b + 1))\<lparr>lastblock := b\<rparr>)"
    by (intro node_save) simp_all
  then show ?thesis
    by (rule that) (simp add: s(2))
qed

theorem database_invariant_witness:
  "\<exists>accts vs st. namedb_create_token_genesis example_vc ([], []) [example_genesis] ''00'' = Inr (accts, vs) \<and>
     node_step example_vc (\<lambda>_. None) (new_node True accts vs) st \<and> length (account_rows st) = 3 \<and> database_ok st"
proof -
  have "genesis_address example_vc example_genesis = Inr ''burn''"
    by (simp add: genesis_address_def is_c32_address_def c32addressDecode_def example_genesis_def
        example_vc_def assert_that_def)
  then obtain accts vs where g: "namedb_create_token_genesis example_vc ([], []) [example_genesis] ''00'' = Inr (accts, vs)"
    and vest: "\<exists>rows. namedb_accounts_vest example_vc accts vs 400000 = Inr rows \<and> length rows = 3"
    by (auto simp: namedb_create_token_genesis_def genesis_row_def example_genesis_def assert_that_def
        accounts_insert_def account_key_def vesting_insert_def namedb_accounts_vest_def Let_def namedb_account_credit_def
        namedb_get_account_def order_desc_def namedb_account_transaction_save_def FIRST_BLOCK_MAINNET_def)
  obtain st where st: "node_step example_vc (\<lambda>_. None) (new_node True accts vs) st" "length (account_rows st) = 3"
    using vest save_succeeds [of example_vc "new_node True accts vs" 399999] by (auto simp: new_node_def)
  have "genesis_ok [example_genesis]"
    by (simp add: genesis_ok_def example_genesis_def)
  moreover have "(node_step example_vc (\<lambda>_. None))\<^sup>*\<^sup>* (new_node True accts vs) st"
    using st(1) by blast
  ultimately show ?thesis
    using database_invariant [OF g] g st by blast
qed

definition example_node :: state_engine where
  "example_node = new_node True [example_account] [example_vesting]"

lemma example_node_ok: "database_ok example_node"
  by (simp add: example_node_def new_node_def database_ok_def table_ok_def history_ok_def accounts_ok_def example_account_def
      example_vesting_def)

lemma example_node_step:
  obtains st where "node_step example_vc (\<lambda>_. None) example_node st" and "length (account_rows st) = 2"
proof -
  obtain accts where accts: "namedb_accounts_vest example_vc [example_account] [example_vesting] 600001 = Inr accts"
    and "length accts = 2"
    by (auto simp: namedb_accounts_vest_def example_vesting_def Let_def namedb_account_credit_def namedb_get_account_def
        example_account_def order_desc_def namedb_account_transaction_save_def accounts_insert_def account_key_def)
  obtain st where "node_step example_vc (\<lambda>_. None) example_node st" "account_rows st = accts"
    by (rule save_succeeds [of example_vc example_node 600000 accts]) (simp_all add: accts example_node_def new_node_def)
  with \<open>length accts = 2\<close> show ?thesis
    using that by simp
qed



end
