(* ===== verification/Registry.thy ===== *)
theory Registry
  imports Invariants
begin

text \<open>
  The registry that the database implements: names and namespaces with their records. A commit
  writes only under the name and the namespace of its operation; a transition of a name rewrites the
  fields that its operation may change, and no others.
\<close>

section \<open>What a commit may touch\<close>

text \<open>
  \<open>StateEngine.sanitize_op\<close> of the library virtualchain removes the fields that virtualchain added,
  whose names start with \<open>virtualchain_\<close>, and nothing else.
\<close>

definition sanitizes :: "virtualchain \<Rightarrow> bool" where
  "sanitizes vc \<longleftrightarrow> (\<forall>d k. map_of (engine_sanitize_op vc d) k = map_of d k \<or>
     take 13 k = ''virtualchain_'' \<and> map_of (engine_sanitize_op vc d) k = None)"

lemma sanitizesD: "sanitizes vc \<Longrightarrow> take 13 k \<noteq> ''virtualchain_'' \<Longrightarrow> map_of (engine_sanitize_op vc d) k = map_of d k"
  unfolding sanitizes_def by blast

definition rows_of :: "string \<Rightarrow> pyval \<Rightarrow> pydict list \<Rightarrow> pydict list" where
  "rows_of k v rows = filter (\<lambda>r. dget r k VNone = v) rows"

definition untouched :: "pydict \<Rightarrow> state_engine \<Rightarrow> state_engine \<Rightarrow> bool" where
  "untouched op st st' \<longleftrightarrow>
     (\<forall>v. v \<noteq> dget op ''name'' VNone \<longrightarrow> rows_of ''name'' v (name_rows st') = rows_of ''name'' v (name_rows st)) \<and>
     (\<forall>v. v \<noteq> dget op ''namespace_id'' VNone \<longrightarrow>
        rows_of ''namespace_id'' v (namespace_rows st') = rows_of ''namespace_id'' v (namespace_rows st))"

definition own_key :: "pydict \<Rightarrow> string \<Rightarrow> pyval \<Rightarrow> bool" where
  "own_key op k v \<longleftrightarrow> v = dget op k VNone \<and> (v = VNone \<or> (\<exists>s. v = VStr s))"

lemma untouched_refl [simp]: "untouched op st st"
  by (simp add: untouched_def)

lemma untouched_trans: "untouched op a b \<Longrightarrow> untouched op b c \<Longrightarrow> untouched op a c"
  by (simp add: untouched_def)

text \<open>Executed statements, and the key of the row that they write.\<close>

lemma insert_into_row:
  assumes "insert_into st t values = Inr st'" and "(c, Text, n) \<in> set (table_columns t)" and "dget values c VNone = VStr s"
  shows "\<exists>row. st' = put_rows st t (table_rows st t @ [row]) \<and> dget row c VNone = VStr s"
proof -
  obtain row where row: "rmap (\<lambda>c. stored_column c (dget values (fst c) VNone)) (table_columns t) = Inr row"
    and st': "st' = put_rows st t (table_rows st t @ [row])"
    using assms(1) by (auto simp: insert_into_def res_simps split: if_splits)
  have "dget row c VNone = VStr s" if "rmap (\<lambda>c. stored_column c (dget values (fst c) VNone)) cols = Inr row"
    "(c, Text, n) \<in> set cols" "distinct (map fst cols)" for cols row
    using that
  proof (induction cols arbitrary: row)
    case (Cons col cols)
    obtain c' w row' where row: "row = (c', w) # row'" "c' = fst col" "rmap (\<lambda>c. stored_column c (dget values (fst c) VNone)) cols = Inr row'"
      and w: "stored_column col (dget values (fst col) VNone) = Inr (c', w)"
      using Cons.prems(1) by (cases col) (auto simp: res_simps dest: stored_column_Inr)
    show ?case
    proof (cases "col = (c, Text, n)")
      case True
      then show ?thesis
        using w row assms(3) by (auto simp: stored_column_def stored_def res_simps dget_def split: if_splits)
    next
      case False
      then have "c \<noteq> c'"
        using Cons.prems(2,3) row(2) by (auto simp: image_iff)
      with False show ?thesis
        using Cons.IH [OF row(3)] Cons.prems(2,3) row(1) by (simp add: dget_def)
    qed
  qed simp
  then have "dget row c VNone = VStr s"
    using row assms(2) distinct_columns [of t] unfolding column_names_def by blast
  with st' show ?thesis
    by blast
qed

lemma rmap_domD: "rmap f xs = Inr ys \<Longrightarrow> x \<in> set xs \<Longrightarrow> \<exists>y \<in> set ys. f x = Inr y"
  by (induction xs arbitrary: ys) (fastforce simp: res_simps)+

lemma rmap_ranD: "rmap f xs = Inr ys \<Longrightarrow> y \<in> set ys \<Longrightarrow> \<exists>x \<in> set xs. f x = Inr y"
  by (induction xs arbitrary: ys) (fastforce simp: res_simps)+

lemma update_prepare_effect:
  assumes "namedb_update_prepare pk d t must_equal [] = Inr (us, ws)"
  shows "set pk \<subseteq> set must_equal" "set (map fst d) \<subseteq> set (column_names t)"
    "us = map (\<lambda>(k, v). (k, sql_value v)) (filter (\<lambda>(k, v). k \<notin> set must_equal) d)"
    "\<forall>c \<in> set must_equal. \<exists>v. map_of d c = Some v \<and> (c, sql_value v) \<in> set ws"
    "set (map fst us) = set (map fst d) - set must_equal"
proof -
  show "set pk \<subseteq> set must_equal" and "set (map fst d) \<subseteq> set (column_names t)"
    and us: "us = map (\<lambda>(k, v). (k, sql_value v)) (filter (\<lambda>(k, v). k \<notin> set must_equal) d)"
    using assms by (auto simp: namedb_update_prepare_def rbind_eq_Inr assert_that_eq_Inr list_all_iff fields_match_record)
  have "rmap (\<lambda>c. rbind (getitem d c) (\<lambda>v. Inr (c, sql_value v))) must_equal = Inr ws"
    using assms by (auto simp: namedb_update_prepare_def rbind_eq_Inr assert_that_eq_Inr)
  from rmap_domD [OF this] show "\<forall>c \<in> set must_equal. \<exists>v. map_of d c = Some v \<and> (c, sql_value v) \<in> set ws"
    by (fastforce simp: rbind_eq_Inr getitem_eq_Inr)
  show "set (map fst us) = set (map fst d) - set must_equal"
    by (force simp: us)
qed

definition row_update :: "(string \<times> pyval) list \<Rightarrow> pydict \<Rightarrow> pydict \<Rightarrow> pydict" where
  "row_update where_set cells r = (if where_holds where_set r then dupdate r cells else r)"

lemma update_one_effect:
  assumes "update_one st t pk d must_equal [] = Inr st'"
  shows "\<exists>where_set cells. st' = put_rows st t (map (row_update where_set cells) (table_rows st t)) \<and>
    length (filter (where_holds where_set) (table_rows st t)) = 1 \<and>
    (\<forall>c \<in> set must_equal. \<exists>v. map_of d c = Some v \<and> (c, sql_value v) \<in> set where_set) \<and>
    set (map fst cells) = set (map fst d) - set must_equal \<and>
    (\<forall>(c, w) \<in> set cells. \<exists>v. (c, v) \<in> set d \<and> stored_column (column_of t c) (sql_value v) = Inr (c, w)) \<and>
    set pk \<subseteq> set must_equal \<and> set (map fst d) \<subseteq> set (column_names t)"
proof -
  obtain us ws where us: "namedb_update_prepare pk d t must_equal [] = Inr (us, ws)"
    and st': "update_rows st t us ws = Inr (st', 1)"
    using assms by (auto simp: update_one_def or_abort_eq_Inr rbind_eq_Inr split: if_splits)
  note p = update_prepare_effect [OF us]
  obtain cells where cells: "rmap (\<lambda>(k, v). stored_column (column_of t k) v) us = Inr cells"
    and rows: "st' = put_rows st t (map (row_update ws cells) (table_rows st t))"
    and one: "length (filter (where_holds ws) (table_rows st t)) = 1"
    using st' unfolding row_update_def [abs_def] by (auto simp: update_rows_def Let_def rbind_eq_Inr split: if_splits)
  have names: "map fst cells = map fst us"
    using stored_cells [OF cells] p(2,5) by blast
  have "\<exists>v. (c, v) \<in> set d \<and> stored_column (column_of t c) (sql_value v) = Inr (c, w)" if cw: "(c, w) \<in> set cells" for c w
  proof -
    obtain k v where kv: "(k, v) \<in> set us" "stored_column (column_of t k) v = Inr (c, w)"
      using rmap_ranD [OF cells cw] by auto
    then have "k \<in> set (map fst us)"
      by force
    then have "k \<in> set (column_names t)"
      using p(2,5) by blast
    then have "k = c"
      using column_of_in [of k t] kv(2) by (auto dest: stored_column_Inr)
    with kv p(3) show ?thesis by auto
  qed
  then have "\<forall>(c, w) \<in> set cells. \<exists>v. (c, v) \<in> set d \<and> stored_column (column_of t c) (sql_value v) = Inr (c, w)"
    by blast
  with rows one p(1,2,4,5) show ?thesis
    by (intro exI [of _ ws] exI [of _ cells]) (simp only: names simp_thms)
qed

lemma where_holds_str:
  "where_holds ws r \<Longrightarrow> (c, VStr s) \<in> set ws \<Longrightarrow> dget r c VNone = VStr s"
  by (auto simp: where_holds_def list_all_iff Let_def)

lemma sql_value_str [simp]: "sql_value (VStr s) = VStr s"
  by (simp add: sql_value_def)

lemma update_one_row:
  assumes "update_one st t pk d must_equal [] = Inr st'" and "k \<in> set pk" and "dget d k VNone = VStr s"
  shows "\<exists>f. st' = put_rows st t (map f (table_rows st t)) \<and>
    (\<forall>r. f r = r \<or> dget r k VNone = VStr s \<and> dget (f r) k VNone = VStr s)"
proof -
  obtain ws cells where e: "st' = put_rows st t (map (row_update ws cells) (table_rows st t))"
    and w: "\<forall>c \<in> set must_equal. \<exists>v. map_of d c = Some v \<and> (c, sql_value v) \<in> set ws"
    and c: "set (map fst cells) = set (map fst d) - set must_equal" and pk: "set pk \<subseteq> set must_equal"
    using update_one_effect [OF assms(1)] by blast
  have ws: "(k, VStr s) \<in> set ws"
    using w pk assms(2,3) by (fastforce simp: dget_def)
  have "k \<notin> set (map fst cells)"
    using c pk assms(2) by auto
  then have "dget (dupdate r cells) k VNone = dget r k VNone" for r
    by (simp add: dget_def dupdate_other)
  then have "dget (dupdate r cells) k VNone = VStr s \<and> dget r k VNone = VStr s" if "where_holds ws r" for r
    using where_holds_str [OF that ws] by simp
  then show ?thesis
    using e by (intro exI [of _ "row_update ws cells"]) (auto simp: row_update_def)
qed

lemma rows_of_append [simp]: "rows_of k v (xs @ ys) = rows_of k v xs @ rows_of k v ys"
  by (simp add: rows_of_def)

lemma rows_of_map:
  assumes "\<forall>r. f r = r \<or> dget r k VNone = w \<and> dget (f r) k VNone = w" and "v \<noteq> w"
  shows "rows_of k v (map f rows) = rows_of k v rows"
proof (induction rows)
  case (Cons r rows)
  then show ?case
    using assms by (cases "f r = r") (auto simp: rows_of_def)
qed (simp add: rows_of_def)

section \<open>Commits write under their own keys\<close>

lemma dget_map [simp]: "dget (map (\<lambda>(k, v). (k, f v)) d) k VNone = (case map_of d k of None \<Rightarrow> VNone | Some v \<Rightarrow> f v)"
  by (simp add: dget_def map_of_map comp_def split: option.split)

lemma name_fields_check_name:
  assumes "namedb_name_fields_check vc r = Inr r'"
  shows "\<exists>s. map_of r ''name'' = Some (VStr s) \<and> map_of r' ''name'' = Some (VStr s)"
  using assms by (auto simp: namedb_name_fields_check_def res_simps Let_def split: if_splits)

lemma untouched_names:
  assumes "untouched op st0 st" and "\<And>v. v \<noteq> dget op ''name'' VNone \<Longrightarrow> rows_of ''name'' v rows = rows_of ''name'' v (name_rows st)"
  shows "untouched op st0 (st\<lparr>name_rows := rows\<rparr>)"
  using assms by (simp add: untouched_def)

lemma untouched_namespaces:
  assumes "untouched op st0 st"
    and "\<And>v. v \<noteq> dget op ''namespace_id'' VNone \<Longrightarrow> rows_of ''namespace_id'' v rows = rows_of ''namespace_id'' v (namespace_rows st)"
  shows "untouched op st0 (st\<lparr>namespace_rows := rows\<rparr>)"
  using assms by (simp add: untouched_def)

lemma name_columns: "(''name'', Text, True) \<in> set (table_columns ''name_records'')"
  "(''namespace_id'', Text, True) \<in> set (table_columns ''namespaces'')"
  by (simp_all add: table_columns_def name_records_columns_def namespaces_columns_def)

lemma name_insert_untouched:
  assumes "namedb_name_insert vc st r = Inr st'" and "untouched op st0 st" and "own_key op ''name'' (dget r ''name'' VNone)"
  shows "untouched op st0 st'"
proof -
  obtain r' where r': "namedb_name_fields_check vc r = Inr r'"
    and ins: "insert_into st ''name_records'' (map (\<lambda>(k, v). (k, sql_value v)) r') = Inr st'"
    using assms(1) by (auto simp: namedb_name_insert_def namedb_insert_prepare_def or_abort_eq_Inr rbind_eq_Inr)
  obtain s where s: "map_of r ''name'' = Some (VStr s)" "map_of r' ''name'' = Some (VStr s)"
    using name_fields_check_name [OF r'] by blast
  then obtain row where "st' = put_rows st ''name_records'' (name_rows st @ [row])" "dget row ''name'' VNone = VStr s"
    using insert_into_row [OF ins name_columns(1)] by (auto simp: table_rows_def)
  then show ?thesis
    using assms(2,3) s(1) by (auto simp: put_rows_def own_key_def dget_def rows_of_def intro!: untouched_names)
qed

lemma name_update_untouched:
  assumes "namedb_name_update vc st opcode r [] ignored = Inr st'" and "untouched op st0 st"
    and "own_key op ''name'' (dget r ''name'' VNone)"
  shows "untouched op st0 st'"
proof -
  obtain r' me where r': "namedb_name_fields_check vc r = Inr r'"
    and upd: "update_one st ''name_records'' [''name'', ''block_number''] r' me [] = Inr st'"
    using assms(1) by (auto simp: namedb_name_update_def rbind_eq_Inr assert_that_eq_Inr)
  obtain s where s: "map_of r ''name'' = Some (VStr s)" "map_of r' ''name'' = Some (VStr s)"
    using name_fields_check_name [OF r'] by blast
  then obtain f where "st' = put_rows st ''name_records'' (map f (name_rows st))"
    and f: "\<forall>r. f r = r \<or> dget r ''name'' VNone = VStr s \<and> dget (f r) ''name'' VNone = VStr s"
    using update_one_row [OF upd, of "''name''" s] by (auto simp: table_rows_def dget_def)
  then show ?thesis
    using assms(2,3) s(1) rows_of_map [OF f] by (auto simp: put_rows_def own_key_def dget_def intro!: untouched_names)
qed

lemma namespace_insert_untouched:
  assumes "namedb_namespace_insert st r = Inr st'" and "untouched op st0 st"
    and "own_key op ''namespace_id'' (dget r ''namespace_id'' VNone)"
  shows "untouched op st0 st'"
proof -
  have ins: "insert_into st ''namespaces'' (map (\<lambda>(k, v). (k, sql_value v)) r) = Inr st'" and k: "has_key r ''namespace_id''"
    using assms(1) by (auto simp: namedb_namespace_insert_def namedb_namespace_fields_check_def namedb_insert_prepare_def
        or_abort_eq_Inr rbind_eq_Inr assert_that_eq_Inr)
  have "dget r ''namespace_id'' VNone \<noteq> VNone"
  proof
    assume "dget r ''namespace_id'' VNone = VNone"
    then have "map_of r ''namespace_id'' = None \<or> map_of r ''namespace_id'' = Some VNone"
      by (auto simp: dget_def split: option.split_asm)
    moreover have "sql_value VNone = VNone"
      by (simp add: sql_value_def)
    ultimately have "dget (map (\<lambda>(k, v). (k, sql_value v)) r) ''namespace_id'' VNone = VNone"
      by (auto simp only: dget_map option.case)
    then have "stored_column (''namespace_id'', Text, True) (dget (map (\<lambda>(k, v). (k, sql_value v)) r) ''namespace_id'' VNone) = Inl Abort"
      by (simp only:) (simp add: stored_column_def stored_def)
    then show False
      using ins rmap_domD [OF _ name_columns(2)] by (fastforce simp: insert_into_def rbind_eq_Inr)
  qed
  then obtain s where s: "map_of r ''namespace_id'' = Some (VStr s)"
    using assms(3) by (auto simp: own_key_def dget_def split: option.split_asm)
  then obtain row where "st' = put_rows st ''namespaces'' (namespace_rows st @ [row])" "dget row ''namespace_id'' VNone = VStr s"
    using insert_into_row [OF ins name_columns(2)] by (auto simp: table_rows_def)
  then show ?thesis
    using assms(2,3) s by (auto simp: put_rows_def own_key_def dget_def rows_of_def intro!: untouched_namespaces)
qed

lemma namespace_update_untouched:
  assumes "namedb_namespace_update st opcode r ignored = Inr st'" and "untouched op st0 st"
    and "own_key op ''namespace_id'' (dget r ''namespace_id'' VNone)"
  shows "untouched op st0 st'"
proof -
  obtain me where upd: "update_one st ''namespaces'' [''namespace_id'', ''block_number''] r me [] = Inr st'"
    using assms(1) by (auto simp: namedb_namespace_update_def rbind_eq_Inr assert_that_eq_Inr)
  then have "dget r ''namespace_id'' VNone \<noteq> VNone"
    by (auto simp: update_one_def namedb_update_prepare_def or_abort_eq_Inr rbind_eq_Inr assert_that_eq_Inr)
  then obtain s where s: "dget r ''namespace_id'' VNone = VStr s"
    using assms(3) unfolding own_key_def by auto metis
  then obtain f where "st' = put_rows st ''namespaces'' (map f (namespace_rows st))"
    and f: "\<forall>r. f r = r \<or> dget r ''namespace_id'' VNone = VStr s \<and> dget (f r) ''namespace_id'' VNone = VStr s"
    using update_one_row [OF upd, of "''namespace_id''" s] by (auto simp: table_rows_def)
  then show ?thesis
    using assms(2,3) s rows_of_map [OF f] by (auto simp: put_rows_def own_key_def intro!: untouched_namespaces)
qed

lemma untouched_same_rows:
  "untouched op st0 st \<Longrightarrow> name_rows st' = name_rows st \<Longrightarrow> namespace_rows st' = namespace_rows st \<Longrightarrow> untouched op st0 st'"
  by (simp add: untouched_def)

interpretation registry_kept: commit_kept "untouched op st0" "own_key op" for op st0
proof
  fix op0 st0 st st' r h vc opcode ignored hid creator vh b v t d payment and height vtxindex :: int and txid op
  show "untouched op0 st0 st'" if "namedb_preorder_insert st r = Inr st'" "untouched op0 st0 st"
    using that by (auto simp: namedb_preorder_insert_def insert_into_def put_rows_def rbind_eq_Inr assert_that_eq_Inr
        split: if_splits intro: untouched_same_rows)
  show "untouched op0 st0 (namedb_preorder_remove st h)" if "untouched op0 st0 st"
    using that by (auto simp: namedb_preorder_remove_def delete_from_def put_rows_def intro: untouched_same_rows)
  show "untouched op0 st0 st'" if "namedb_history_save vc st opcode hid creator vh b v t r = Inr (d, st')" "untouched op0 st0 st"
    using that by (auto intro: untouched_same_rows dest!: namedb_history_save_Inr)
  show "untouched op0 st0 st'" if "commit_account_debit st payment height vtxindex txid = Inr st'" "untouched op0 st0 st"
    using that(1) by (rule commit_account_debit_cases) (use that(2) in \<open>auto intro: untouched_same_rows\<close>)
  show "untouched op0 st0 st'" if "commit_account_credit st payment height vtxindex txid = Inr st'" "untouched op0 st0 st"
    using that(1) by (rule commit_account_credit_cases) (use that(2) in \<open>auto intro: untouched_same_rows\<close>)
  show "untouched op0 st0 st'" if "reject_collided st op height = Inr (d, st')" "untouched op0 st0 st"
    using that by (auto simp: reject_collided_def log_reject_def put_rejected_def rbind_eq_Inr intro: untouched_same_rows)
qed (fact name_insert_untouched name_update_untouched namespace_insert_untouched namespace_update_untouched)+

lemma sanitize_op_keeps:
  assumes "sanitizes vc" and "sanitize_op vc op = Inr r" and "k \<in> {''name'', ''namespace_id''}"
  shows "dget r k VNone = dget op k VNone"
proof -
  have tags: "dget (foldl discard d ks) k VNone = dget d k VNone" if "k \<notin> set ks" for d ks
    using that by (induction ks arbitrary: d) (auto simp: discard_def dget_def)
  have fill: "dget (foldl (\<lambda>d mf. if has_key d mf then d else dset d mf VNone) d fs) k VNone = dget d k VNone" for d fs
    by (induction fs arbitrary: d) (auto simp: dget_def has_key_iff)
  have "map_of (engine_sanitize_op vc op) k = map_of op k"
    using assms(3) by (intro sanitizesD [OF assms(1)]) auto
  moreover have "k \<notin> set get_state_invariant_tags"
    using assms(3) by (auto simp: get_state_invariant_tags_def state_create_invariant_tags_def state_transition_invariant_tags_def
        state_preorder_invariant_tags_def token_operation_invariant_tags_def)
  ultimately show ?thesis
    using assms(2,3) tags [of get_state_invariant_tags] fill
    by (auto simp: sanitize_op_def Let_def rbind_eq_Inr discard_def dget_def [of "AList.delete _ _"]) (auto simp: dget_def)
qed

text \<open>The key of the record that a transition changes.\<close>

definition transition_key_of :: "string \<Rightarrow> string" where
  "transition_key_of opcode = (if opcode \<in> set OPCODE_NAME_STATE_TRANSITIONS then ''name'' else ''namespace_id'')"

text \<open>
  C8: A commit writes under its own name and its own namespace only. Whatever operation is
  committed, the rows of every other name and of every other namespace are the same after it, in
  the same order; an operation without a name (a preorder or a token transfer) changes no name at
  all. The hypotheses say that virtualchain removes its own fields and no others, that the name and
  the namespace of the operation are strings, and that a transition is tagged with the key that its
  decorator gives it.
\<close>

theorem commit_isolated:
  assumes "sanitizes vc" and "db_commit vc b op d txid vtxindex st = Inr (cs, st')"
    and "\<forall>k \<in> {''name'', ''namespace_id''}. \<forall>x. map_of d k = Some x \<longrightarrow> (\<exists>s. x = VStr s)"
    and "\<forall>n k. map_of d ''opcode'' = Some (VStr n) \<and> n \<in> set OPCODE_TRANSITION_OPS \<and>
      map_of d ''__history_id_key__'' = Some (VStr k) \<longrightarrow> k = transition_key_of n"
  shows "\<forall>x. (map_of d ''name'' \<noteq> Some x \<and> x \<noteq> VNone \<longrightarrow> rows_of ''name'' x (name_rows st') = rows_of ''name'' x (name_rows st)) \<and>
    (map_of d ''namespace_id'' \<noteq> Some x \<and> x \<noteq> VNone \<longrightarrow>
       rows_of ''namespace_id'' x (namespace_rows st') = rows_of ''namespace_id'' x (namespace_rows st))"
proof -
  let ?d = "discard d ''__original_op_data__''"
  have d: "map_of ?d k = map_of d k" if "k \<noteq> ''__original_op_data__''" for k
    using that by (simp add: discard_def)
  have "allowed (own_key d) vc ?d"
    unfolding allowed_def
  proof (intro conjI allI impI)
    show "own_key d k (dget r k VNone)" if "sanitize_op vc ?d = Inr r" "k \<in> {''name'', ''namespace_id''}" for r k
      using sanitize_op_keeps [OF assms(1) that] d [of k] assms(3) that(2) by (auto simp: own_key_def dget_def split: option.split)
    show "own_key d (if n \<in> set OPCODE_NAME_STATE_TRANSITIONS then ''name'' else ''namespace_id'') (VStr hid)"
      if "map_of ?d ''opcode'' = Some (VStr n)" "n \<in> set OPCODE_TRANSITION_OPS"
        "map_of ?d ''__history_id_key__'' = Some (VStr k)" "map_of ?d k = Some (VStr hid)" for n hid k
      using that assms(4) d unfolding transition_key_of_def own_key_def dget_def by (auto split: if_split_asm)
  qed
  then have "untouched d st st'"
    by (rule registry_kept.db_commit_kept [OF assms(2) untouched_refl])
  then show ?thesis
    by (auto simp: untouched_def dget_def split: option.split_asm)
qed

end
