(* ===== verification/Lifecycle.thy ===== *)
theory Lifecycle
  imports Registry
begin

text \<open>
  Operations from the transaction to the database: what is parsed from a transaction and accepted by
  the check is committed, and the commit does what the operation says.
\<close>

section \<open>Sanitized operations\<close>

lemma sanitize_op_fields:
  assumes "sanitizes vc" and "sanitize_op vc op = Inr r" and "map_of op k = Some v" and "take 13 k \<noteq> ''virtualchain_''"
    and "k \<notin> set (''opcode'' # get_state_invariant_tags)"
  shows "map_of r k = Some v"
proof -
  have tags: "map_of (foldl discard d ks) k = map_of d k" if "k \<notin> set ks" for d ks
    using that by (induction ks arbitrary: d) (auto simp: discard_def)
  have fill: "map_of (foldl (\<lambda>d mf. if has_key d mf then d else dset d mf VNone) d fs) k = Some v" if "map_of d k = Some v" for d fs
    using that
  proof (induction fs arbitrary: d)
    case (Cons f fs)
    have "map_of (if has_key d f then d else dset d f VNone) k = Some v"
      using Cons.prems by (auto simp: has_key_iff)
    then show ?case
      using Cons.IH by simp
  qed simp
  have "map_of (engine_sanitize_op vc op) k = Some v"
    using sanitizesD [OF assms(1,4)] assms(3) by simp
  then show ?thesis
    using assms(2,5) tags [of get_state_invariant_tags] fill
    by (auto simp: sanitize_op_def Let_def rbind_eq_Inr discard_def)
qed

section \<open>Token transfers\<close>

definition token_transfer_op :: "string \<Rightarrow> string \<Rightarrow> int \<Rightarrow> string \<Rightarrow> string \<Rightarrow> string \<Rightarrow> string \<Rightarrow> string \<Rightarrow>
    int \<Rightarrow> string \<Rightarrow> int \<Rightarrow> pydict" where
  "token_transfer_op ch units fee scratch_area address sender recipient_address recipient block_id txid vtxindex =
    [(''opcode'', VStr ''TOKEN_TRANSFER''), (''consensus_hash'', VStr ch), (''token_units'', VStr units), (''token_fee'', VInt fee),
     (''scratch_area'', VStr scratch_area), (''address'', VStr address), (''sender'', VStr sender),
     (''recipient_address'', VStr recipient_address), (''recipient'', VStr recipient), (''op'', VStr [TOKEN_TRANSFER]),
     (''block_id'', VInt block_id), (''txid'', VStr txid), (''vtxindex'', VInt vtxindex)]"

lemma db_parse_extract:
  assumes "db_parse vc reserialize b txid v op data senders inputs outputs raw = Inr (Some d)"
  obtains n d0 where "op_get_opcode_name op = Inr n" "op_extract vc n data senders inputs outputs b v txid = Inr d0"
    "d = dupdate d0 [(''vtxindex'', VInt v), (''txid'', VStr txid), (''__original_op_data__'', VDict d0)]"
  using assms
  by (auto simp: db_parse_def require_def obind_def catching_def rbind_eq_Inr assert_that_eq_Inr
      split: if_split_asm option.split_asm sum.split_asm)

lemma token_transfer_parsed:
  assumes "db_parse vc reserialize b txid v [TOKEN_TRANSFER] data senders inputs outputs raw = Inr (Some d)"
  obtains ch units fee scratch a s a' s' where
    "d = dset (token_transfer_op ch units fee scratch a s a' s' b txid v) ''__original_op_data__''
           (VDict (token_transfer_op ch units fee scratch a s a' s' b txid v))"
proof -
  obtain n d0 where n: "op_get_opcode_name [TOKEN_TRANSFER] = Inr n"
    and d0: "op_extract vc n data senders inputs outputs b v txid = Inr d0"
    and d: "d = dupdate d0 [(''vtxindex'', VInt v), (''txid'', VStr txid), (''__original_op_data__'', VDict d0)]"
    using assms by (rule db_parse_extract)
  have "n = ''TOKEN_TRANSFER''"
    using n by (simp add: op_get_opcode_name_def OPCODE_NAMES_def opcode_defs)
  then have "tokentransfer_tx_extract vc data senders inputs outputs b v txid = Inr d0"
    using d0 by (simp add: op_extract_def table_entry_def EXTRACT_METHODS_def)
  then obtain ch units fee scratch a s a' s' where "d0 = token_transfer_op ch units fee scratch a s a' s' b txid v"
    unfolding tokentransfer_tx_extract_def rbind_eq_Inr
    by (auto simp: assert_some_def rbind_eq_Inr tokentransfer_parse_def Let_def token_transfer_op_def
      dset_def split: option.split_asm if_split_asm)
  then show ?thesis
    using that [of ch units fee scratch a s a' s'] d by (simp add: token_transfer_op_def dset_def)
qed

lemma permit_eq_Some: "permit ok st op b reason r = Inr (Some x, st') \<longleftrightarrow> ok \<and> r = Inr (Some x, st')"
  by (auto simp: permit_def rbind_eq_Inr)

lemma db_check_method:
  assumes "db_check vc b opc d v ops st = Inr (Some r, st', ops')" and "nameop_opcode d = Inr n"
  obtains m d1 where "map_of (CHECK_METHODS vc) n = Some m" "m st d b ops = Inr (Some d1, st', ops')"
    "clean_accepted vc d1 = Inr r"
proof -
  obtain st1 where st1: "op_check vc st d b ops = Inr (Some r, st1, ops')" "st' = st1"
    using assms(1) by (rule db_check_op_check) blast
  obtain n' m rc1 where "nameop_opcode d = Inr n'" "map_of (CHECK_METHODS vc) n' = Some m" "m st d b ops = Inr (rc1, st1, ops')"
    "case rc1 of None \<Rightarrow> Some r = None | Some op1 \<Rightarrow> \<exists>op2. clean_accepted vc op1 = Inr op2 \<and> Some r = Some op2"
    using st1(1) by (rule op_check_method)
  with assms(2) st1(2) show ?thesis
    by (cases rc1) (auto intro: that)
qed

lemma token_transfer_accepted:
  fixes ch units fee scratch a s a' s' b txid v x
  defines "d \<equiv> dset (token_transfer_op ch units fee scratch a s a' s' b txid v) ''__original_op_data__'' x"
  assumes "db_check vc b opc d v ops st = Inr (Some r, st', ops')"
  shows "0 < fee" "a \<noteq> a'" "st' = st"
    "\<exists>ai. namedb_get_account (account_rows st) a units = Some ai \<and> fee \<le> credit_value ai - debit_value ai"
    "r = dset (dset (dset (dset d ''__account_payment_info__'' (payment_info (VStr a) (VStr units) (VInt fee)))
      ''__account_credit_info__'' (payment_info (VStr a') (VStr units) (VInt fee)))
      ''token_fee'' (VStr (str_of_int fee))) ''__table__'' (VStr ''accounts'')"
proof -
  have d: "map_of d ''opcode'' = Some (VStr ''TOKEN_TRANSFER'')" "map_of d ''address'' = Some (VStr a)"
    "map_of d ''recipient_address'' = Some (VStr a')" "map_of d ''token_units'' = Some (VStr units)"
    "map_of d ''token_fee'' = Some (VInt fee)"
    by (simp_all add: d_def token_transfer_op_def)
  then have n: "nameop_opcode d = Inr ''TOKEN_TRANSFER''"
    by (simp add: nameop_opcode_def has_key_iff get_str_def getitem_def as_str_def)
  obtain m d1 where m: "map_of (CHECK_METHODS vc) ''TOKEN_TRANSFER'' = Some m" "m st d b ops = Inr (Some d1, st', ops')"
    "clean_accepted vc d1 = Inr r"
    using db_check_method [OF assms(2) n] .
  then have "check_token_transfer vc st d b ops = Inr (Some d1, st', ops')"
    by (simp add: CHECK_METHODS_def)
  then obtain d2 where d2: "tokentransfer_check vc st d b ops = Inr (Some d2, st')" and d1: "d1 = dset d2 ''__table__'' (VStr ''accounts'')"
    unfolding check_token_transfer_def using token_operation_accepts by metis
  have c: "0 < fee \<and> a \<noteq> a' \<and> st' = st \<and>
      (\<exists>ai. namedb_get_account (account_rows st) a units = Some ai \<and> fee \<le> credit_value ai - debit_value ai) \<and>
      d2 = dset (dset (dset d ''__account_payment_info__'' (payment_info (VStr a) (VStr units) (VInt fee)))
      ''__account_credit_info__'' (payment_info (VStr a') (VStr units) (VInt fee)))
      ''token_fee'' (VStr (str_of_int fee))"
    using d2 unfolding tokentransfer_check_def
    by (auto simp: rbind_eq_Inr permit_eq_Some get_str_eq_Inr get_int_eq_Inr d get_account_def get_account_balance_def
        namedb_get_account_balance_def Let_def token_operation_put_account_payment_info_def assert_that_eq_Inr
        token_operation_put_account_credit_info_def split: option.split_asm if_split_asm)
  then show "0 < fee" "a \<noteq> a'" "st' = st"
    "\<exists>ai. namedb_get_account (account_rows st) a units = Some ai \<and> fee \<le> credit_value ai - debit_value ai"
    by blast+
  have "map_of d1 ''opcode'' = Some (VStr ''TOKEN_TRANSFER'')"
    using c d1 d(1) by simp
  then have "r = d1"
    using m(3) by (auto simp: clean_accepted_def rbind_eq_Inr get_str_eq_Inr op_canonicalize_def CANONICALIZE_METHODS_def
        UNSTORED_CANONICAL_FIELDS_def)
  with c d1 show "r = dset (dset (dset (dset d ''__account_payment_info__'' (payment_info (VStr a) (VStr units) (VInt fee)))
      ''__account_credit_info__'' (payment_info (VStr a') (VStr units) (VInt fee)))
      ''token_fee'' (VStr (str_of_int fee))) ''__table__'' (VStr ''accounts'')"
    by simp
qed

lemma extract_consensus_op_total:
  assumes "op_get_consensus_fields opcode = Inr fs" and "\<forall>f \<in> set (fs @ op_get_quirk_fields opcode). map_of d f \<noteq> None"
  shows "\<exists>c. extract_consensus_op opcode d = Inr c \<and> (\<forall>f \<in> set (fs @ op_get_quirk_fields opcode). map_of c f = map_of d f)"
proof -
  have "\<exists>c. rfold (\<lambda>ret f. case map_of d f of None \<Rightarrow> Inl Abort | Some v \<Rightarrow> Inr (dset ret f v)) ret gs = Inr c \<and>
      (\<forall>f. map_of c f = (if f \<in> set gs then map_of d f else map_of ret f))"
    if "\<forall>f \<in> set gs. map_of d f \<noteq> None" for ret gs
    using that
  proof (induction gs arbitrary: ret)
    case (Cons g gs)
    then obtain v where "map_of d g = Some v" by auto
    then show ?case
      using Cons.IH [of "dset ret g v"] Cons.prems by auto
  qed simp
  from this [OF assms(2), of "[]"] show ?thesis
    using assms(1) by (auto simp: extract_consensus_op_def)
qed

lemma sanitize_op_succeeds:
  assumes "sanitizes vc" and "map_of op ''op'' = Some (VStr c)" and "op_get_opcode_name c = Inr n" and "op_get_mutate_fields n = Inr fs"
  shows "\<exists>r. sanitize_op vc op = Inr r"
proof -
  have "map_of (engine_sanitize_op vc op) ''op'' = Some (VStr c)"
    using sanitizesD [OF assms(1), of "''op''" op] assms(2) by simp
  moreover have "map_of (foldl discard d ks) ''op'' = map_of d ''op''" if "''op'' \<notin> set ks" for d ks
    using that by (induction ks arbitrary: d) (auto simp: discard_def)
  moreover have "''op'' \<notin> set get_state_invariant_tags"
    by (simp add: get_state_invariant_tags_def state_create_invariant_tags_def state_transition_invariant_tags_def
        state_preorder_invariant_tags_def token_operation_invariant_tags_def)
  ultimately show ?thesis
    using assms(3,4) by (simp add: sanitize_op_def Let_def get_str_def getitem_def as_str_def)
qed

lemma token_op_tags [simp]: "set get_state_invariant_tags = {''__preorder__'', ''__table__'', ''__history_id_key__'', ''__state_create__'',
    ''__state_transition__'', ''__always_set__'', ''__account_payment_info__'', ''__account_credit_info__''}"
  by (auto simp: get_state_invariant_tags_def state_create_invariant_tags_def state_transition_invariant_tags_def
      state_preorder_invariant_tags_def token_operation_invariant_tags_def)

text \<open>The rest of a commit, once the operation itself is committed.\<close>

lemma db_commit_succeeds:
  assumes "commit_operation vc st (discard r ''__original_op_data__'') b = Inr (cs, st')" and "check_quirks cs = Inr q"
    and "has_key r ''__original_op_data__''" and "map_of r ''txid'' = Some (VStr txid)" and "map_of r ''vtxindex'' = Some (VInt v)"
    and "map_of r ''opcode'' = Some (VStr n)" and "n \<in> set categorized_opcodes" and "n \<notin> set OPCODE_STATELESS_OPS"
    and "op \<noteq> ''virtualchain_final''"
  shows "db_commit vc b op r txid v st = Inr (Some [cs], st')"
  using assms by (simp add: db_commit_def dget_def)

lemmas opcode_lists = OPCODE_PREORDER_OPS_def OPCODE_NAME_STATE_PREORDER_def OPCODE_NAMESPACE_STATE_PREORDER_def
  OPCODE_CREATION_OPS_def OPCODE_NAME_STATE_CREATIONS_def OPCODE_NAMESPACE_STATE_CREATIONS_def OPCODE_TRANSITION_OPS_def
  OPCODE_NAME_STATE_TRANSITIONS_def OPCODE_NAMESPACE_STATE_TRANSITIONS_def OPCODE_TOKEN_OPS_def OPCODE_STATELESS_OPS_def
  categorized_opcodes_def

text \<open>The operation of a token transfer as the check returns it.\<close>

definition accepted_transfer :: "pydict \<Rightarrow> string \<Rightarrow> string \<Rightarrow> string \<Rightarrow> int \<Rightarrow> pydict" where
  "accepted_transfer d a a' units fee =
    dset (dset (dset (dset d ''__account_payment_info__'' (payment_info (VStr a) (VStr units) (VInt fee)))
      ''__account_credit_info__'' (payment_info (VStr a') (VStr units) (VInt fee)))
      ''token_fee'' (VStr (str_of_int fee))) ''__table__'' (VStr ''accounts'')"

lemma payment_info_simps [simp]:
  "payment_of (payment_info (VStr c) (VStr units) (VInt fee)) = Inr (Some (c, units, fee))"
  "fully_set (payment_info (VStr c) (VStr units) (VInt fee))" "payment_info x y z \<noteq> VNone"
  by (simp_all add: payment_of_def payment_info_def int_value_def getitem_def fully_set_def)

lemma clean_transfer:
  assumes "sanitizes vc" and "map_of op ''op'' = Some (VStr [TOKEN_TRANSFER])" and "\<forall>k \<in> set tokentransfer_FIELDS. map_of op k \<noteq> None"
  obtains clean where "sanitize_op vc op = Inr clean" and "\<forall>k \<in> set tokentransfer_FIELDS. map_of clean k = map_of op k"
proof -
  obtain clean where clean: "sanitize_op vc op = Inr clean"
    using sanitize_op_succeeds [OF assms(1,2), of "''TOKEN_TRANSFER''" "[]"]
    by (auto simp: op_get_opcode_name_def OPCODE_NAMES_def opcode_defs op_get_mutate_fields_def
        table_entry_def MUTATE_FIELDS_def tokentransfer_MUTATE_FIELDS_def)
  have "map_of clean k = map_of op k" if k: "k \<in> set tokentransfer_FIELDS" for k
  proof -
    obtain w where "map_of op k = Some w"
      using assms(3) k by blast
    moreover have "take 13 k \<noteq> ''virtualchain_''" "k \<notin> set (''opcode'' # get_state_invariant_tags)"
      using k by (auto simp: tokentransfer_FIELDS_def)
    ultimately show ?thesis
      using sanitize_op_fields [OF assms(1) clean] by simp
  qed
  with clean show ?thesis
    using that by blast
qed

text \<open>Nothing has been recorded yet for the transaction at this point of the chain or for a later one.\<close>

definition unrecorded :: "state_engine \<Rightarrow> int \<Rightarrow> int \<Rightarrow> string \<Rightarrow> bool" where
  "unrecorded st b v txid \<longleftrightarrow> (\<forall>r \<in> set (account_rows st). (acc_block_id r, acc_vtxindex r) < (b, v)) \<and>
     (\<forall>h \<in> set (history_rows st). (h_txid h, h_block_id h, h_vtxindex h) \<noteq> (txid, b, v))"

lemma commit_transfer:
  assumes "sanitizes vc" and "is_token_type_supported units" and "0 < fee" and "a \<noteq> a'" and "accounts_ok (account_rows st)"
    and "has_account (account_rows st) (a, units)" and "fee \<le> balance_of (account_rows st) (a, units)"
    and "unrecorded st b v txid"
    and op: "map_of op ''op'' = Some (VStr [TOKEN_TRANSFER])" "map_of op ''txid'' = Some (VStr txid)"
      "map_of op ''vtxindex'' = Some (VInt v)" "map_of op ''address'' = Some (VStr a)" "map_of op ''opcode'' = Some (VStr ''TOKEN_TRANSFER'')"
      "map_of op ''__table__'' = Some (VStr ''accounts'')"
      "map_of op ''__account_payment_info__'' = Some (payment_info (VStr a) (VStr units) (VInt fee))"
      "map_of op ''__account_credit_info__'' = Some (payment_info (VStr a') (VStr units) (VInt fee))"
      "\<forall>k \<in> set tokentransfer_FIELDS. map_of op k \<noteq> None"
  obtains clean st' where "commit_token_operation vc st op b = Inr (clean, st')"
    and "\<forall>k \<in> set tokentransfer_FIELDS. map_of clean k = map_of op k"
    and "\<forall>c. balance_of (account_rows st') c = balance_of (account_rows st) c -
       (if c = (a, units) then fee else 0) + (if c = (a', units) then fee else 0)"
proof -
  obtain clean where clean: "sanitize_op vc op = Inr clean"
    and fields: "\<forall>k \<in> set tokentransfer_FIELDS. map_of clean k = map_of op k"
    using clean_transfer [OF assms(1) op(1,9)] .
  have fresh: "fresh_at (account_rows st) c (b, v, txid)" for c
    using assms(8) by (auto simp: unrecorded_def fresh_at_def)
  obtain t where t: "rbind (debit_at (account_rows st) (a, units) fee (b, v, txid)) (\<lambda>s. credit_at s (a', units) fee (b, v, txid)) = Inr t"
    using token_ledger.transfer_succeeds [OF assms(5) _ fresh fresh assms(6) _ assms(7), where b = "(a', units)"] assms(3,4) by auto
  then obtain t1 where t1: "namedb_account_debit (account_rows st) a units fee b v txid = Inr t1"
    "namedb_account_credit t1 a' units fee b v txid = Inr t"
    by (auto simp: rbind_eq_Inr)
  have debit: "commit_account_debit st (payment_info (VStr a) (VStr units) (VInt fee)) b v txid = Inr (st\<lparr>account_rows := t1\<rparr>)"
    and credit: "commit_account_credit (st\<lparr>account_rows := t1\<rparr>) (payment_info (VStr a') (VStr units) (VInt fee)) b v txid =
      Inr (st\<lparr>account_rows := t\<rparr>)"
    using t1 assms(2,3) by (simp_all add: commit_account_debit_def commit_account_credit_def)
  have "map_of clean ''op'' = Some (VStr [TOKEN_TRANSFER])"
    using fields op(1) by (simp add: tokentransfer_FIELDS_def)
  then obtain st' where st': "namedb_history_save vc (st\<lparr>account_rows := t\<rparr>) ''TOKEN_TRANSFER'' a VNone VNone (VInt b) (VInt v)
      (VStr txid) clean = Inr (clean, st')" "account_rows st' = t"
    using assms(8) by (force simp: namedb_history_save_def has_key_iff get_str_def getitem_def as_str_def
        op_canonicalize_def CANONICALIZE_METHODS_def list_ex_iff unrecorded_def)
  have "commit_token_operation vc st op b = Inr (clean, st')"
    using clean op debit credit st'(1) unfolding commit_token_operation_def
    by (simp add: or_abort_def catching_def token_operation_is_valid_def has_keys_def has_key_iff token_operation_invariant_tags_def
        get_str_def getitem_def as_str_def token_operation_get_table_def token_operation_get_account_payment_info_def
        token_operation_get_account_credit_info_def op_point_def get_int_def)
  moreover have "balance_of t c = balance_of (account_rows st) c - (if c = (a, units) then fee else 0) + (if c = (a', units) then fee else 0)" for c
    using token_ledger.transfer_effect [OF _ fresh fresh t] assms(4) by simp
  ultimately show ?thesis
    using that fields st'(2) by blast
qed

lemma token_transfer_commits:
  fixes ch units fee scratch a s a' s' b txid v x vc
  defines "r \<equiv> accepted_transfer (dset (token_transfer_op ch units fee scratch a s a' s' b txid v) ''__original_op_data__'' x) a a' units fee"
  assumes "sanitizes vc" and "is_token_type_supported units" and "0 < fee" and "a \<noteq> a'" and "accounts_ok (account_rows st)"
    and "has_account (account_rows st) (a, units)" and "fee \<le> balance_of (account_rows st) (a, units)"
    and "unrecorded st b v txid"
  shows "\<exists>cs st'. db_commit vc b [TOKEN_TRANSFER] r txid v st = Inr (Some [cs], st') \<and>
    (\<forall>c. balance_of (account_rows st') c = balance_of (account_rows st) c -
       (if c = (a, units) then fee else 0) + (if c = (a', units) then fee else 0))"
proof -
  define op where "op = discard r ''__original_op_data__''"
  have op: "map_of op = (map_of r)(''__original_op_data__'' := None)"
    by (simp add: op_def discard_def delete_conv')
  have f: "map_of op ''op'' = Some (VStr [TOKEN_TRANSFER])" "map_of op ''txid'' = Some (VStr txid)" "map_of op ''vtxindex'' = Some (VInt v)"
    "map_of op ''address'' = Some (VStr a)" "map_of op ''opcode'' = Some (VStr ''TOKEN_TRANSFER'')"
    "map_of op ''__table__'' = Some (VStr ''accounts'')"
    "map_of op ''__account_payment_info__'' = Some (payment_info (VStr a) (VStr units) (VInt fee))"
    "map_of op ''__account_credit_info__'' = Some (payment_info (VStr a') (VStr units) (VInt fee))"
    "\<forall>k \<in> set tokentransfer_FIELDS. map_of op k \<noteq> None"
    by (simp_all add: op r_def accepted_transfer_def token_transfer_op_def tokentransfer_FIELDS_def)
  obtain clean st' where commit: "commit_token_operation vc st op b = Inr (clean, st')"
    and fields: "\<forall>k \<in> set tokentransfer_FIELDS. map_of clean k = map_of op k"
    and balances: "\<forall>c. balance_of (account_rows st') c = balance_of (account_rows st) c -
       (if c = (a, units) then fee else 0) + (if c = (a', units) then fee else 0)"
    using commit_transfer [OF assms(2-9) f] .
  have "op_get_consensus_fields ''TOKEN_TRANSFER'' = Inr tokentransfer_FIELDS" "op_get_quirk_fields ''TOKEN_TRANSFER'' = []"
    by (simp_all add: op_get_consensus_fields_def table_entry_def SERIALIZE_FIELDS_def op_get_quirk_fields_def)
  then obtain cs where cs: "extract_consensus_op ''TOKEN_TRANSFER'' clean = Inr cs"
    and "\<forall>k \<in> set tokentransfer_FIELDS. map_of cs k = map_of clean k"
    using extract_consensus_op_total [of "''TOKEN_TRANSFER''" tokentransfer_FIELDS clean] fields f(9) by auto
  then have "map_of cs ''op'' = Some (VStr [TOKEN_TRANSFER])"
    using fields f(1) by (simp add: tokentransfer_FIELDS_def)
  then have quirks: "check_quirks cs = Inr True"
    by (simp add: check_quirks_def get_str_def getitem_def as_str_def op_get_opcode_name_def OPCODE_NAMES_def opcode_defs
        OPCODE_NAME_NAMEOPS_def)
  have "commit_operation vc st op b = Inr (cs, st')"
    using commit cs f(5) by (simp add: commit_operation_def dget_def opcode_lists)
  then have "db_commit vc b [TOKEN_TRANSFER] r txid v st = Inr (Some [cs], st')"
    unfolding op_def by (rule db_commit_succeeds [OF _ quirks, where n = "''TOKEN_TRANSFER''"])
      (simp_all add: r_def accepted_transfer_def has_key_iff token_transfer_op_def opcode_lists)
  with balances show ?thesis
    by blast
qed

text \<open>
  C6: A token transfer that a transaction carries and the check accepts is carried out. It moves a
  positive amount from the account of the sender of the transaction to another account: the commit
  returns, the sender has that much less, the recipient that much more, and every other balance is
  as before. The hypotheses say that virtualchain removes its own fields and no others, that the
  token is a supported one, that no account is overdrawn and that nothing has been recorded at this
  point of the chain yet.
\<close>

theorem token_transfer_live:
  assumes "sanitizes vc"
    and "db_parse vc reserialize b txid v [TOKEN_TRANSFER] data senders inputs outputs raw = Inr (Some d)"
    and "db_check vc b [TOKEN_TRANSFER] d v ops st = Inr (Some r, st1, ops')"
    and "\<forall>u. map_of d ''token_units'' = Some (VStr u) \<longrightarrow> is_token_type_supported u"
    and "accounts_ok (account_rows st)" and "unrecorded st b v txid"
  shows "\<exists>a a' u n cs st2. map_of d ''address'' = Some (VStr a) \<and> map_of d ''recipient_address'' = Some (VStr a') \<and>
    map_of d ''token_units'' = Some (VStr u) \<and> map_of d ''token_fee'' = Some (VInt n) \<and> a \<noteq> a' \<and> 0 < n \<and>
    db_commit vc b [TOKEN_TRANSFER] r txid v st1 = Inr (Some [cs], st2) \<and>
    (\<forall>c. balance_of (account_rows st2) c = balance_of (account_rows st) c -
       (if c = (a, u) then n else 0) + (if c = (a', u) then n else 0))"
proof -
  obtain ch u n scratch a s a' s' where d_eq: "d = dset (token_transfer_op ch u n scratch a s a' s' b txid v) ''__original_op_data__''
      (VDict (token_transfer_op ch u n scratch a s a' s' b txid v))"
    using assms(2) by (rule token_transfer_parsed)
  then obtain x where d: "d = dset (token_transfer_op ch u n scratch a s a' s' b txid v) ''__original_op_data__'' x"
    by blast
  note acc = token_transfer_accepted [OF assms(3) [unfolded d], folded d]
  have r: "r = accepted_transfer d a a' u n"
    using acc(5) by (simp only: accepted_transfer_def)
  have funds: "has_account (account_rows st) (a, u)" "n \<le> balance_of (account_rows st) (a, u)"
    using acc(4) by (auto simp: has_account_def balance_of_def)
  have fields: "map_of d ''token_units'' = Some (VStr u)" "map_of d ''address'' = Some (VStr a)"
    "map_of d ''recipient_address'' = Some (VStr a')" "map_of d ''token_fee'' = Some (VInt n)"
    by (simp_all add: d token_transfer_op_def)
  have "is_token_type_supported u"
    using assms(4) fields(1) by blast
  then obtain cs st2 where "db_commit vc b [TOKEN_TRANSFER] r txid v st1 = Inr (Some [cs], st2)"
    and "\<forall>c. balance_of (account_rows st2) c = balance_of (account_rows st) c - (if c = (a, u) then n else 0) + (if c = (a', u) then n else 0)"
    using token_transfer_commits [OF assms(1) _ acc(1,2) assms(5) funds assms(6), of ch scratch s s' x, folded d r] acc(3) by blast
  then show ?thesis
    using fields acc(1,2) by (intro exI [of _ a] exI [of _ a'] exI [of _ u] exI [of _ n] exI [of _ cs] exI [of _ st2]) simp
qed

section \<open>An example transfer\<close>

definition example_transfer_data :: string where
  "example_transfer_data = replicate 16 CHR 0x00 @ ''STACKS'' @ replicate 13 CHR 0x00 @ replicate 7 CHR 0x00 @ [CHR 0x32]"

abbreviation example_token_op :: pydict where
  "example_token_op \<equiv> token_transfer_op (hexlify (replicate 16 CHR 0x00)) ''STACKS'' 50 [] ''A'' ''76a9'' ''B'' ''B'' 600002 ''ab'' 3"

lemma example_transfer_data_parsed: "tokentransfer_parse example_transfer_data 600002 = Inr (Some [(''opcode'', VStr ''TOKEN_TRANSFER''),
           (''consensus_hash'', VStr (hexlify (replicate 16 CHR 0x00))),
           (''token_units'', VStr ''STACKS''),
           (''token_fee'', VInt 50),
           (''scratch_area'', VStr [])])"
proof -
  have "slice 0 16 example_transfer_data = replicate 16 CHR 0x00" 
    by (simp add: example_transfer_data_def slice_def)
  moreover have "strip_zeros (slice 16 35 example_transfer_data) = ''STACKS''"
    by code_simp
  moreover have "big_endian (slice 35 43 example_transfer_data) = 50"
    by code_simp
  moreover have "hexlify (drop 43 example_transfer_data) = []"
    by code_simp
  moreover have "length example_transfer_data = 43"
   by code_simp
  ultimately show ?thesis
   by (simp add: tokentransfer_parse_def Let_def epoch_of_def epoch_tables)
qed

lemma example_token_op_parsed: "db_parse example_vc (\<lambda>raw _ _. raw) 600002 ''ab'' 3 [TOKEN_TRANSFER] example_transfer_data
   [\<lparr>script_pubkey = ''76a9'', script_type = ''pubkeyhash'', addresses = [''A'']\<rparr>] []
   [\<lparr>out_script = [], out_value = 0\<rparr>, \<lparr>out_script = ''B'', out_value = 1\<rparr>] (Some []) =
  Inr (Some (dset example_token_op ''__original_op_data__'' (VDict example_token_op)))"
proof -
  have n: "op_get_opcode_name [TOKEN_TRANSFER] = Inr ''TOKEN_TRANSFER''" by code_simp
  have t: "get_epoch_btc_sender_types 600002 = Inr [''p2pkh'', ''p2sh'']"
    by code_simp
  have t': "get_epoch_btc_script_types 600002 = Inr [''nulldata'', ''p2pkh'', ''p2sh'', ''p2sh-p2wpkh'', ''p2sh-p2wsh'']"
    by code_simp
  have c: "btc_script_classify example_vc x = ''p2pkh''" for x by (simp add: example_vc_def)
  have "tokentransfer_tx_extract example_vc example_transfer_data
   [\<lparr>script_pubkey = ''76a9'', script_type = ''pubkeyhash'', addresses = [''A'']\<rparr>] []
   [\<lparr>out_script = [], out_value = 0\<rparr>, \<lparr>out_script = ''B'', out_value = 1\<rparr>] 600002 3 ''ab'' = Inr example_token_op"
   by (simp add: tokentransfer_tx_extract_def example_transfer_data_parsed assert_some_def or_failed_def catching_def check_tx_output_types_def t' c extract_sender_def
    get_token_transfer_recipient_from_outputs_def token_transfer_op_def dset_def)
  then show ?thesis
    by (simp add: db_parse_def check_tx_sender_types_def t c require_def n catching_def obind_def op_extract_def table_entry_def EXTRACT_METHODS_def
       token_transfer_op_def has_key_def dset_def)
qed

lemma example_token_op_accepted:
  "db_check example_vc 600002 [TOKEN_TRANSFER] (dset example_token_op ''__original_op_data__'' (VDict example_token_op)) 3 [] example_node =
     Inr (Some (accepted_transfer (dset example_token_op ''__original_op_data__'' (VDict example_token_op)) ''A'' ''B'' ''STACKS'' 50), example_node, [])"
proof -
  let ?d = "dset example_token_op ''__original_op_data__'' (VDict example_token_op)"
  let ?r = "accepted_transfer ?d ''A'' ''B'' ''STACKS'' 50"
  have acc: "get_account example_node ''A'' ''STACKS'' = Some example_account" "get_account example_node ''B'' ''STACKS'' = None"
    by (simp_all add: get_account_def namedb_get_account_def example_node_def new_node_def example_account_def order_desc_def)
  have "lock_transfer_block_id example_account \<le> 600002" "get_account_balance example_account = Inr 70"
    by (simp_all add: example_account_def get_account_balance_def namedb_get_account_balance_def)
  then have "tokentransfer_check example_vc example_node ?d 600002 [] =
      Inr (Some (dset (dset (dset ?d ''__account_payment_info__'' (payment_info (VStr ''A'') (VStr ''STACKS'') (VInt 50)))
      ''__account_credit_info__'' (payment_info (VStr ''B'') (VStr ''STACKS'') (VInt 50)))
      ''token_fee'' (VStr (str_of_int 50))), example_node)"
    using acc by (simp add: tokentransfer_check_def permit_def epoch_of_def epoch_tables get_str_def getitem_def as_str_def get_int_def
        token_transfer_op_def token_operation_put_account_payment_info_def token_operation_put_account_credit_info_def is_str_def)
  then have check: "check_token_transfer example_vc example_node ?d 600002 [] = Inr (Some ?r, example_node, [])"
    by (simp add: check_token_transfer_def token_operation_def Let_def accepted_transfer_def has_keys_def has_key_iff
        token_operation_invariant_tags_def CONSENSUS_FIELDS_REQUIRED_def CONSENSUS_FIELDS_REQUIRED_TOKENS_def token_transfer_op_def)
  have n: "nameop_opcode ?d = Inr ''TOKEN_TRANSFER''"
    by (simp add: nameop_opcode_def has_key_iff get_str_def getitem_def as_str_def token_transfer_op_def)
  have m: "map_of (CHECK_METHODS example_vc) ''TOKEN_TRANSFER'' = Some (check_token_transfer example_vc)"
    by (simp add: CHECK_METHODS_def)
  have c: "clean_accepted example_vc ?r = Inr ?r"
    by (simp add: clean_accepted_def get_str_def getitem_def as_str_def op_canonicalize_def CANONICALIZE_METHODS_def
        UNSTORED_CANONICAL_FIELDS_def accepted_transfer_def token_transfer_op_def)
  have f: "check_mutate_fields ''TOKEN_TRANSFER'' ?r = Inr True" "op_get_opcode_name [TOKEN_TRANSFER] = Inr ''TOKEN_TRANSFER''"
    by (simp_all add: check_mutate_fields_def op_get_mutate_fields_def table_entry_def MUTATE_FIELDS_def tokentransfer_MUTATE_FIELDS_def
        has_keys_def op_get_opcode_name_def OPCODE_NAMES_def opcode_defs)
  have k: "has_key example_token_op ''txid''" "has_key example_token_op ''vtxindex''" "dget ?r ''opcode'' VNone = VStr ''TOKEN_TRANSFER''"
    by (simp_all add: has_key_iff dget_def accepted_transfer_def token_transfer_op_def)
  show ?thesis
    by (simp add: db_check_def op_check_def n m c f k check or_abort_def catching_def)
qed

theorem token_transfer_live_witness:
  "\<exists>r cs st. db_check example_vc 600002 [TOKEN_TRANSFER] (dset example_token_op ''__original_op_data__'' (VDict example_token_op))
       3 [] example_node = Inr (Some r, example_node, []) \<and>
     db_commit example_vc 600002 [TOKEN_TRANSFER] r ''ab'' 3 example_node = Inr (Some [cs], st) \<and>
     balance_of (account_rows st) (''A'', ''STACKS'') = 20 \<and> balance_of (account_rows st) (''B'', ''STACKS'') = 50"
proof -
  have "sanitizes example_vc"
    by (simp add: sanitizes_def)
  moreover have "accounts_ok (account_rows example_node)" "unrecorded example_node 600002 3 ''ab''"
    "balance_of (account_rows example_node) (''A'', ''STACKS'') = 70" "balance_of (account_rows example_node) (''B'', ''STACKS'') = 0"
    by (simp_all add: accounts_ok_def unrecorded_def example_node_def new_node_def example_account_def balance_of_def
        namedb_get_account_def order_desc_def)
  moreover have "is_token_type_supported ''STACKS''"
    by (simp add: is_token_type_supported_def TOKEN_TYPE_STACKS_def)
  ultimately show ?thesis
    using token_transfer_live [OF _ example_token_op_parsed example_token_op_accepted] example_token_op_accepted
    by (fastforce simp: token_transfer_op_def)
qed

section \<open>Preorders\<close>

lemma foldl_discard: "map_of (foldl discard d ks) k = (if k \<in> set ks then None else map_of d k)"
  by (induction ks arbitrary: d) (auto simp: discard_def)

lemma fill_fields:
  "map_of (foldl (\<lambda>d mf. if has_key d mf then d else dset d mf VNone) d fs) k =
    (if map_of d k = None \<and> k \<in> set fs then Some VNone else map_of d k)"
proof (induction fs arbitrary: d)
  case (Cons f fs)
  show ?case
    unfolding foldl_Cons Cons.IH by (auto simp: has_key_iff)
qed simp

lemma sanitize_op_map:
  assumes "sanitizes vc" and "sanitize_op vc op = Inr r" and "\<forall>k. map_of op k \<noteq> None \<longrightarrow> take 13 k \<noteq> ''virtualchain_''"
    and "map_of op ''op'' = Some (VStr c)" and "op_get_opcode_name c = Inr n" and "op_get_mutate_fields n = Inr fs"
  shows "map_of r k = (if k \<in> set (''opcode'' # get_state_invariant_tags) then
      (if k \<noteq> ''opcode'' \<and> k \<in> set fs then Some VNone else None)
    else if map_of op k = None \<and> k \<in> set fs then Some VNone else map_of op k)"
proof -
  have e: "map_of (engine_sanitize_op vc op) k = map_of op k" for k
    using assms(1,3) unfolding sanitizes_def by metis
  have "map_of (foldl discard (engine_sanitize_op vc op) get_state_invariant_tags) ''op'' = Some (VStr c)"
    by (simp add: foldl_discard e assms(4))
  then have "r = discard (foldl (\<lambda>d mf. if has_key d mf then d else dset d mf VNone)
      (foldl discard (engine_sanitize_op vc op) get_state_invariant_tags) fs) ''opcode''"
    using assms(2,5,6) by (simp add: sanitize_op_def Let_def get_str_def getitem_def as_str_def)
  then show ?thesis
    by (simp only: discard_def delete_conv' fill_fields foldl_discard e fun_upd_apply list.set) auto
qed

text \<open>A record that can be stored: its columns, the values that they take.\<close>

lemma insert_into_succeeds:
  assumes "\<forall>(c, t, nn) \<in> set (table_columns table_name). \<exists>w. stored_column (c, t, nn) (dget values c VNone) = Inr (c, w) \<and> f c = w"
    and "\<forall>r \<in> set (table_rows st table_name). \<exists>c \<in> set (primary_key table_name). map_of r c \<noteq> Some (f c)"
    and "set (primary_key table_name) \<subseteq> set (column_names table_name)"
  shows "\<exists>row. insert_into st table_name values = Inr (put_rows st table_name (table_rows st table_name @ [row])) \<and>
    (\<forall>c \<in> set (column_names table_name). map_of row c = Some (f c))"
proof -
  define row where "row = map (\<lambda>c. (fst c, f (fst c))) (table_columns table_name)"
  have "stored_column col (dget values (fst col) VNone) = Inr (fst col, f (fst col))" if "col \<in> set (table_columns table_name)" for col
    using bspec [OF assms(1) that] by (cases col) simp
  then have stored: "rmap (\<lambda>c. stored_column c (dget values (fst c) VNone)) (table_columns table_name) = Inr row"
    unfolding row_def by (rule rmap_Inr_map)
  have row: "map_of row c = Some (f c)" if "c \<in> set (column_names table_name)" for c
  proof -
    have "map_of (map (\<lambda>c. (fst c, f (fst c))) cols) c = (if c \<in> fst ` set cols then Some (f c) else None)" for cols :: "column list"
      by (induction cols) auto
    then show ?thesis
      using that by (simp add: column_names_def row_def)
  qed
  have "\<not> same_key table_name row r" if r: "r \<in> set (table_rows st table_name)" for r
  proof
    assume same: "same_key table_name row r"
    obtain c where c: "c \<in> set (primary_key table_name)" "map_of r c \<noteq> Some (f c)"
      using assms(2) r by blast
    have "map_of row c = map_of r c"
      using same c(1) by (simp add: same_key_def list_all_iff)
    moreover have "c \<in> set (column_names table_name)"
      using c(1) assms(3) by blast
    ultimately show False
      using c(2) row [of c] by simp
  qed
  then have "\<not> list_ex (same_key table_name row) (table_rows st table_name)"
    by (simp add: list_ex_iff)
  with stored have "insert_into st table_name values = Inr (put_rows st table_name (table_rows st table_name @ [row]))"
    by (simp add: insert_into_def)
  then show ?thesis
    using row by (intro exI [of _ row]) simp
qed

definition preorder_op :: "string \<Rightarrow> string \<Rightarrow> pyval \<Rightarrow> pyval \<Rightarrow> string \<Rightarrow> string \<Rightarrow> pyval \<Rightarrow> int \<Rightarrow> string \<Rightarrow> int \<Rightarrow> string \<Rightarrow> int \<Rightarrow> pydict" where
  "preorder_op h ch fee units address sender sender_pubkey op_fee burn_address block_id txid vtxindex =
    [(''sender'', VStr sender), (''address'', VStr address), (''block_number'', VInt block_id), (''vtxindex'', VInt vtxindex),
     (''txid'', VStr txid), (''op'', VStr [NAME_PREORDER]), (''opcode'', VStr ''NAME_PREORDER''), (''preorder_hash'', VStr h),
     (''consensus_hash'', VStr ch), (''token_fee'', fee), (''token_units'', units), (''op_fee'', VInt op_fee),
     (''burn_address'', VStr burn_address), (''sender_pubkey'', sender_pubkey)]"

text \<open>The price in tokens that a parsed preorder offers.\<close>

definition offers :: "pyval \<Rightarrow> pyval \<Rightarrow> int \<Rightarrow> bool" where
  "offers fee units n \<longleftrightarrow> fee = VNone \<and> units = VNone \<and> n = 0 \<or> (\<exists>u. fee = VInt n \<and> units = VStr u \<and> 0 \<le> n)"

lemma preorder_parse_offers:
  assumes "preorder_parse data b = Inr (Some d0)"
  shows "\<exists>h ch fee units n. d0 = [(''opcode'', VStr ''NAME_PREORDER''), (''preorder_hash'', VStr h), (''consensus_hash'', VStr ch),
      (''token_fee'', fee), (''token_units'', units)] \<and> offers fee units n \<and>
      (fee \<noteq> VNone \<longrightarrow> EPOCH_FEATURE_NAMEOPS_COST_TOKENS \<in> set (features (epoch_of b)))"
  using assms big_endian_bounds unfolding preorder_parse_def Let_def offers_def by (auto split: if_split_asm)

lemma preorder_parsed:
  assumes "db_parse vc reserialize b txid v [NAME_PREORDER] data senders inputs outputs raw = Inr (Some d)"
  obtains h ch fee units n a s pk op_fee burn x where
    "d = dset (preorder_op h ch fee units a s pk op_fee burn b txid v) ''__original_op_data__'' x"
    "offers fee units n" "fee \<noteq> VNone \<longrightarrow> EPOCH_FEATURE_NAMEOPS_COST_TOKENS \<in> set (features (epoch_of b))"
    "pk = VNone \<or> (\<exists>p. pk = VStr p)" "\<exists>out \<in> set outputs. op_fee = out_value out"
proof -
  obtain n d1 where n: "op_get_opcode_name [NAME_PREORDER] = Inr n"
    and d1: "op_extract vc n data senders inputs outputs b v txid = Inr d1"
    and d: "d = dupdate d1 [(''vtxindex'', VInt v), (''txid'', VStr txid), (''__original_op_data__'', VDict d1)]"
    using assms by (rule db_parse_extract)
  have "n = ''NAME_PREORDER''"
    using n by (simp add: op_get_opcode_name_def OPCODE_NAMES_def opcode_defs)
  then have ext: "preorder_tx_extract vc data senders inputs outputs b v txid = Inr d1"
    using d1 by (simp add: op_extract_def table_entry_def EXTRACT_METHODS_def)
  obtain s a pk d0 burn_info where sender: "or_failed (rbind (check_tx_output_types vc (take 3 outputs) b) (\<lambda>ok.
        assert_that ok (extract_sender vc senders inputs))) = Inr (s, a, pk)"
    and d0: "preorder_parse data b = Inr (Some d0)" and burn: "get_preorder_burn_info vc outputs = Some burn_info"
    and d1_eq: "d1 = dset (dupdate (dupdate [(''sender'', VStr s), (''address'', VStr a), (''block_number'', VInt b),
                (''vtxindex'', VInt v), (''txid'', VStr txid), (''op'', VStr [NAME_PREORDER])] d0) burn_info) ''sender_pubkey'' pk"
    using ext by (auto simp: preorder_tx_extract_def rbind_eq_Inr assert_some_def Let_def split: option.split_asm)
  have pk: "pk = VNone \<or> (\<exists>p. pk = VStr p)"
    using sender by (auto simp: or_failed_def catching_def rbind_eq_Inr assert_that_eq_Inr extract_sender_def opt_val_def
        split: sum.split_asm list.split_asm if_split_asm option.split_asm)
  have burn_eq: "length outputs = 3 \<and> (\<exists>burn. burn_info = [(''op_fee'', VInt (out_value (outputs ! 2))), (''burn_address'', VStr burn)])"
    using burn by (auto simp: get_preorder_burn_info_def split: if_split_asm option.split_asm)
  then obtain burn where bi: "burn_info = [(''op_fee'', VInt (out_value (outputs ! 2))), (''burn_address'', VStr burn)]"
    by blast
  have fee: "\<exists>out \<in> set outputs. out_value (outputs ! 2) = out_value out"
    using burn_eq nth_mem [of 2 outputs] by auto
  obtain h ch fee units m where p: "d0 = [(''opcode'', VStr ''NAME_PREORDER''), (''preorder_hash'', VStr h), (''consensus_hash'', VStr ch),
      (''token_fee'', fee), (''token_units'', units)]" "offers fee units m"
      "fee \<noteq> VNone \<longrightarrow> EPOCH_FEATURE_NAMEOPS_COST_TOKENS \<in> set (features (epoch_of b))"
    using preorder_parse_offers [OF d0] by blast
  have "d = dset (preorder_op h ch fee units a s pk (out_value (outputs ! 2)) burn b txid v) ''__original_op_data__'' (VDict d1)"
    using d d1_eq unfolding bi p(1) by (simp add: preorder_op_def dset_def)
  then show ?thesis
    using p(2,3) pk fee by (rule that)
qed

definition accepted_preorder :: "pydict \<Rightarrow> pyval \<Rightarrow> string \<Rightarrow> string \<Rightarrow> pydict" where
  "accepted_preorder d info fee units = dset (dset (dset d ''__account_payment_info__'' info) ''token_fee'' (VStr fee)) ''token_units'' (VStr units)"

lemma preorder_accepted:
  fixes h ch fee units a s pk op_fee burn b txid v x
  defines "d \<equiv> dset (preorder_op h ch fee units a s pk op_fee burn b txid v) ''__original_op_data__'' x"
  assumes "db_check vc b opc d v ops st = Inr (Some r, st', ops')" and "offers fee units n"
    and "fee \<noteq> VNone \<longrightarrow> EPOCH_FEATURE_NAMEOPS_COST_TOKENS \<in> set (features (epoch_of b))"
  obtains info t u where "map_of r = map_of (accepted_preorder d info t u)" and
    "info = payment_info VNone VNone VNone \<and> n = 0 \<or>
     info = payment_info (VStr a) (VStr TOKEN_TYPE_STACKS) (VInt n) \<and> has_account (account_rows st) (a, TOKEN_TYPE_STACKS) \<and>
     n \<le> balance_of (account_rows st) (a, TOKEN_TYPE_STACKS)"
proof -
  have d: "map_of d ''opcode'' = Some (VStr ''NAME_PREORDER'')" "map_of d ''address'' = Some (VStr a)"
    "map_of d ''token_units'' = Some units" "map_of d ''token_fee'' = Some fee"
    by (simp_all add: d_def preorder_op_def)
  then have n: "nameop_opcode d = Inr ''NAME_PREORDER''"
    by (simp add: nameop_opcode_def has_key_iff get_str_def getitem_def as_str_def)
  obtain m d1 where m: "map_of (CHECK_METHODS vc) ''NAME_PREORDER'' = Some m" "m st d b ops = Inr (Some d1, st', ops')"
    and clean: "clean_accepted vc d1 = Inr r"
    using db_check_method [OF assms(2) n] .
  then have "check_preorder vc st d b ops = Inr (Some d1, st', ops')"
    by (simp add: CHECK_METHODS_def)
  then have check: "preorder_check vc st d b ops = Inr (Some d1)"
    unfolding check_preorder_def by (rule state_preorder_accepts(1))
  have c: "(fee = VNone \<and> n = 0 \<and> d1 = dset (dset (dset d ''__account_payment_info__'' (payment_info VNone VNone VNone))
        ''token_fee'' (VStr ''0'')) ''token_units'' (VStr ''BTC'')) \<or>
      (fee = VInt n \<and> units = VStr TOKEN_TYPE_STACKS \<and> d1 = dset (dset d ''__account_payment_info__'' (payment_info (VStr a) (VStr TOKEN_TYPE_STACKS) (VInt n)))
        ''token_fee'' (VStr (str_of_int n)) \<and> can_pay st a TOKEN_TYPE_STACKS (VInt n) = Inr True)"
    using check assms(3,4) unfolding preorder_check_def
    by (auto simp: rbind_eq_Inr require_eq_Some get_str_eq_Inr getitem_eq_Inr d offers_def as_str_def py_str_def
        state_preorder_put_account_payment_info_def assert_that_eq_Inr split: if_split_asm)
  then have "map_of d1 ''opcode'' = Some (VStr ''NAME_PREORDER'')"
    using d(1) by auto
  then have r: "r = d1"
    using clean by (auto simp: clean_accepted_def rbind_eq_Inr get_str_eq_Inr op_canonicalize_def CANONICALIZE_METHODS_def
        UNSTORED_CANONICAL_FIELDS_def)
  from c show ?thesis
  proof
    assume "fee = VNone \<and> n = 0 \<and> d1 = dset (dset (dset d ''__account_payment_info__'' (payment_info VNone VNone VNone))
        ''token_fee'' (VStr ''0'')) ''token_units'' (VStr ''BTC'')"
    then show ?thesis
      using that [of "payment_info VNone VNone VNone" "''0''" "''BTC''"] r by (simp add: accepted_preorder_def)
  next
    assume fee: "fee = VInt n \<and> units = VStr TOKEN_TYPE_STACKS \<and>
        d1 = dset (dset d ''__account_payment_info__'' (payment_info (VStr a) (VStr TOKEN_TYPE_STACKS) (VInt n)))
        ''token_fee'' (VStr (str_of_int n)) \<and> can_pay st a TOKEN_TYPE_STACKS (VInt n) = Inr True"
    then have "map_of r = map_of (accepted_preorder d (payment_info (VStr a) (VStr TOKEN_TYPE_STACKS) (VInt n)) (str_of_int n) TOKEN_TYPE_STACKS)"
      using r d(3) by (auto simp: accepted_preorder_def)
    moreover have "has_account (account_rows st) (a, TOKEN_TYPE_STACKS) \<and> n \<le> balance_of (account_rows st) (a, TOKEN_TYPE_STACKS)"
      using fee by (auto simp: can_pay_def get_account_def get_account_balance_def namedb_get_account_balance_def has_account_def
          balance_of_def Let_def rbind_eq_Inr split: option.split_asm if_split_asm)
    ultimately show ?thesis
      using that by blast
  qed
qed

text \<open>The record of a preorder, as the table of preorders stores it.\<close>

definition preorder_record :: "string \<Rightarrow> string \<Rightarrow> string \<Rightarrow> string \<Rightarrow> string \<Rightarrow> string \<Rightarrow> pyval \<Rightarrow> int \<Rightarrow> string \<Rightarrow> int \<Rightarrow> string \<Rightarrow> int \<Rightarrow> pydict" where
  "preorder_record h ch fee units address sender sender_pubkey op_fee burn_address block_id txid vtxindex =
    [(''preorder_hash'', VStr h), (''consensus_hash'', VStr ch), (''sender'', VStr sender), (''sender_pubkey'', sender_pubkey),
     (''address'', VStr address), (''block_number'', VInt block_id), (''op'', VStr [NAME_PREORDER]), (''op_fee'', VInt op_fee),
     (''txid'', VStr txid), (''vtxindex'', VInt vtxindex), (''burn_address'', VStr burn_address),
     (''token_fee'', VStr fee), (''token_units'', VStr units)]"

lemma preorder_column_names: "column_names ''preorders'' = [''preorder_hash'', ''consensus_hash'', ''sender'', ''sender_pubkey'',
    ''address'', ''block_number'', ''op'', ''op_fee'', ''txid'', ''vtxindex'', ''burn_address'', ''token_fee'', ''token_units'']"
  by (simp add: column_names_def table_columns_def preorders_columns_def)

definition int64 :: "int \<Rightarrow> bool" where
  "int64 i \<longleftrightarrow> - (2 ^ 63) \<le> i \<and> i < 2 ^ 63"

lemma sql_value_int [simp]: "sql_value (VInt i) = VInt i" "sql_value VNone = VNone"
  by (simp_all add: sql_value_def py_eq_def)

lemma stored_values [simp]: "stored t VNone = Inr VNone" "stored Text (VStr s) = Inr (VStr s)" "int64 i \<Longrightarrow> stored Integer (VInt i) = Inr (VInt i)"
  by (simp_all add: stored_def int64_def)

lemma preorder_insert_succeeds:
  fixes h ch fee units a s pk op_fee burn b txid v
  defines "rec \<equiv> preorder_record h ch fee units a s pk op_fee burn b txid v"
  assumes "map_of r = map_of rec" and "pk = VNone \<or> (\<exists>p. pk = VStr p)" and "int64 op_fee" and "int64 b" and "int64 v"
    and "\<forall>q \<in> set (preorder_rows st). map_of q ''txid'' \<noteq> Some (VStr txid)"
  shows "\<exists>row. namedb_preorder_insert st r = Inr (st\<lparr>preorder_rows := preorder_rows st @ [row]\<rparr>) \<and>
    (\<forall>k \<in> set (column_names ''preorders''). map_of row k = map_of rec k)"
proof -
  have keys: "set (dkeys r) = set (column_names ''preorders'')"
  proof -
    have "set (dkeys r) = dom (map_of rec)"
      by (simp add: dkeys_def dom_map_of_conv_image_fst flip: assms(2))
    then show ?thesis
      by (auto simp: rec_def preorder_record_def column_names_def table_columns_def preorders_columns_def split: if_split_asm)
  qed
  then have prep: "namedb_insert_prepare r ''preorders'' = Inr (map (\<lambda>(k, v). (k, sql_value v)) r)"
    by (simp add: namedb_insert_prepare_def namedb_assert_fields_match_def namedb_find_missing_and_extra_def filter_empty_conv)
  define f where "f c = dget rec c VNone" for c
  have cell: "dget (map (\<lambda>(k, v). (k, sql_value v)) r) c VNone = (case map_of rec c of None \<Rightarrow> VNone | Some v \<Rightarrow> sql_value v)" for c
    by (simp only: dget_map assms(2))
  have "\<exists>row. insert_into st ''preorders'' (map (\<lambda>(k, v). (k, sql_value v)) r) =
      Inr (put_rows st ''preorders'' (table_rows st ''preorders'' @ [row])) \<and>
    (\<forall>c \<in> set (column_names ''preorders''). map_of row c = Some (f c))"
  proof (rule insert_into_succeeds)
    show "\<forall>(c, t, nn) \<in> set (table_columns ''preorders''). \<exists>w. stored_column (c, t, nn)
        (dget (map (\<lambda>(k, v). (k, sql_value v)) r) c VNone) = Inr (c, w) \<and> f c = w"
      unfolding cell f_def using assms(3-6)
      by (auto simp: table_columns_def preorders_columns_def rec_def preorder_record_def dget_def stored_column_def)
    show "\<forall>q \<in> set (table_rows st ''preorders''). \<exists>c \<in> set (primary_key ''preorders''). map_of q c \<noteq> Some (f c)"
      using assms(7) by (auto simp: table_rows_def primary_key_def f_def rec_def preorder_record_def dget_def)
    show "set (primary_key ''preorders'') \<subseteq> set (column_names ''preorders'')"
      by (simp add: primary_key_def column_names_def table_columns_def preorders_columns_def)
  qed
  then obtain row where ins: "insert_into st ''preorders'' (map (\<lambda>(k, v). (k, sql_value v)) r) = Inr (st\<lparr>preorder_rows := preorder_rows st @ [row]\<rparr>)"
    and row: "\<forall>c \<in> set (column_names ''preorders''). map_of row c = Some (f c)"
    by (auto simp: put_rows_def table_rows_def)
  have "has_key r ''preorder_hash''"
    by (simp add: has_key_iff assms(2) rec_def preorder_record_def)
  moreover have "Some (f c) = map_of rec c" if "c \<in> set (column_names ''preorders'')" for c
    using that by (auto simp: f_def dget_def rec_def preorder_record_def column_names_def table_columns_def preorders_columns_def)
  ultimately show ?thesis
    using ins row prep by (intro exI [of _ row]) (simp add: namedb_preorder_insert_def or_abort_def catching_def)
qed

lemma commit_debit_succeeds:
  assumes "info = payment_info VNone VNone VNone \<and> n = 0 \<or>
     info = payment_info (VStr a) (VStr TOKEN_TYPE_STACKS) (VInt n) \<and> has_account (account_rows st) (a, TOKEN_TYPE_STACKS) \<and>
     n \<le> balance_of (account_rows st) (a, TOKEN_TYPE_STACKS)"
    and "0 \<le> n" and "fresh_at (account_rows st) (a, TOKEN_TYPE_STACKS) (b, v, txid)"
  shows "\<exists>rows. commit_account_debit st info b v txid = Inr (st\<lparr>account_rows := rows\<rparr>) \<and>
    (\<forall>c. balance_of rows c = balance_of (account_rows st) c - (if c = (a, TOKEN_TYPE_STACKS) then n else 0))"
  using assms(1)
proof
  assume "info = payment_info VNone VNone VNone \<and> n = 0"
  then show ?thesis
    by (intro exI [of _ "account_rows st"])
      (simp add: commit_account_debit_def payment_of_def payment_info_def getitem_def int_value_def)
next
  assume i: "info = payment_info (VStr a) (VStr TOKEN_TYPE_STACKS) (VInt n) \<and> has_account (account_rows st) (a, TOKEN_TYPE_STACKS) \<and>
     n \<le> balance_of (account_rows st) (a, TOKEN_TYPE_STACKS)"
  then obtain rows where rows: "debit_at (account_rows st) (a, TOKEN_TYPE_STACKS) n (b, v, txid) = Inr rows"
    using token_ledger.debit_succeeds [OF assms(3)] by blast
  have "is_token_type_supported TOKEN_TYPE_STACKS"
    by (simp add: is_token_type_supported_def)
  then show ?thesis
    using i rows assms(2) token_ledger.debit_effect [OF assms(3) rows]
    by (intro exI [of _ rows]) (auto simp: commit_account_debit_def)
qed

lemma preorder_sanitized:
  fixes h ch fee units a s pk op_fee burn b txid v x info t u
  defines "d \<equiv> dset (preorder_op h ch fee units a s pk op_fee burn b txid v) ''__original_op_data__'' x"
  defines "rec \<equiv> preorder_record h ch t u a s pk op_fee burn b txid v"
  assumes "sanitizes vc" and op: "map_of op = (map_of (accepted_preorder d info t u))(''__original_op_data__'' := None)"
  obtains r0 where "sanitize_op vc op = Inr r0" and "map_of r0 = map_of rec"
proof -
  have f: "map_of op ''op'' = Some (VStr [NAME_PREORDER])" "\<forall>k. map_of op k \<noteq> None \<longrightarrow> take 13 k \<noteq> ''virtualchain_''"
    by (simp_all add: op accepted_preorder_def d_def preorder_op_def)
  have n: "op_get_opcode_name [NAME_PREORDER] = Inr ''NAME_PREORDER''" "op_get_mutate_fields ''NAME_PREORDER'' = Inr preorder_MUTATE_FIELDS"
    by (simp_all add: op_get_opcode_name_def OPCODE_NAMES_def opcode_defs op_get_mutate_fields_def table_entry_def MUTATE_FIELDS_def)
  obtain r0 where r0: "sanitize_op vc op = Inr r0"
    using sanitize_op_succeeds [OF assms(3) f(1) n] by blast
  note san = sanitize_op_map [OF assms(3) r0 f(2,1) n]
  have columns: "set (column_names ''preorders'') = fst ` set rec"
    by (simp add: rec_def preorder_record_def preorder_column_names)
  have "map_of r0 k = map_of rec k" for k
  proof (cases "k \<in> set (column_names ''preorders'')")
    case True
    then show ?thesis
      unfolding preorder_column_names list.set
      by (elim insertE emptyE; hypsubst) (simp_all add: san op accepted_preorder_def d_def preorder_op_def rec_def preorder_record_def)
  next
    case False
    then have "map_of rec k = None"
      by (simp add: columns map_of_eq_None_iff)
    moreover have "k \<notin> set preorder_MUTATE_FIELDS"
      using False by (auto simp: preorder_column_names preorder_MUTATE_FIELDS_def preorder_FIELDS_def)
    moreover have "k \<in> set (''opcode'' # get_state_invariant_tags) \<or> map_of op k = None"
      using False by (auto simp: preorder_column_names op accepted_preorder_def d_def preorder_op_def)
    ultimately show ?thesis
      by (simp only: san) auto
  qed
  with r0 show ?thesis
    by (intro that [of r0]) auto
qed

lemma preorder_commits:
  fixes h ch fee units a s pk op_fee burn b txid v x info t u
  defines "d \<equiv> dset (preorder_op h ch fee units a s pk op_fee burn b txid v) ''__original_op_data__'' x"
  defines "rec \<equiv> preorder_record h ch t u a s pk op_fee burn b txid v"
  assumes "sanitizes vc" and r: "map_of r = map_of (accepted_preorder d info t u)"
    and "pk = VNone \<or> (\<exists>p. pk = VStr p)" and "int64 op_fee" and "int64 b" and "int64 v"
    and "\<forall>q \<in> set (preorder_rows st). map_of q ''txid'' \<noteq> Some (VStr txid)"
    and "info = payment_info VNone VNone VNone \<and> n = 0 \<or>
     info = payment_info (VStr a) (VStr TOKEN_TYPE_STACKS) (VInt n) \<and> has_account (account_rows st) (a, TOKEN_TYPE_STACKS) \<and>
     n \<le> balance_of (account_rows st) (a, TOKEN_TYPE_STACKS)"
    and "0 \<le> n" and "fresh_at (account_rows st) (a, TOKEN_TYPE_STACKS) (b, v, txid)"
  shows "\<exists>cs st' row. db_commit vc b [NAME_PREORDER] r txid v st = Inr (Some [cs], st') \<and> preorder_rows st' = preorder_rows st @ [row] \<and>
    (\<forall>k \<in> set (column_names ''preorders''). map_of row k = map_of rec k) \<and>
    (\<forall>c. balance_of (account_rows st') c = balance_of (account_rows st) c - (if c = (a, TOKEN_TYPE_STACKS) then n else 0))"
proof -
  define op where "op = discard r ''__original_op_data__''"
  have op: "map_of op = (map_of (accepted_preorder d info t u))(''__original_op_data__'' := None)"
    by (simp add: op_def discard_def delete_conv' r)
  have f: "map_of op ''opcode'' = Some (VStr ''NAME_PREORDER'')" "map_of op ''txid'' = Some (VStr txid)"
    "map_of op ''vtxindex'' = Some (VInt v)" "map_of op ''__account_payment_info__'' = Some info" "map_of op ''__collided__'' = None"
    by (simp_all add: op accepted_preorder_def d_def preorder_op_def)
  obtain r0 where r0: "sanitize_op vc op = Inr r0" and rec: "map_of r0 = map_of rec"
    using preorder_sanitized [OF assms(3) op [unfolded d_def]] unfolding rec_def .
  obtain row where ins: "namedb_preorder_insert st r0 = Inr (st\<lparr>preorder_rows := preorder_rows st @ [row]\<rparr>)"
    and row: "\<forall>k \<in> set (column_names ''preorders''). map_of row k = map_of rec k"
    using preorder_insert_succeeds [OF rec [unfolded rec_def] assms(5-9)] unfolding rec_def by blast
  obtain rows where debit: "commit_account_debit (st\<lparr>preorder_rows := preorder_rows st @ [row]\<rparr>) info b v txid =
      Inr (st\<lparr>preorder_rows := preorder_rows st @ [row], account_rows := rows\<rparr>)"
    and balances: "\<forall>c. balance_of rows c = balance_of (account_rows st) c - (if c = (a, TOKEN_TYPE_STACKS) then n else 0)"
    using commit_debit_succeeds [of info n a "st\<lparr>preorder_rows := preorder_rows st @ [row]\<rparr>" b v txid] assms(10-12) by auto
  let ?st = "st\<lparr>preorder_rows := preorder_rows st @ [row], account_rows := rows\<rparr>"
  have commit: "commit_state_preorder vc st op b = Inr (r0, ?st)"
    using f r0 ins debit by (simp add: commit_state_preorder_def dget_def state_preorder_get_account_payment_info_def getitem_def
        nameop_is_collided_def has_key_iff op_point_def get_int_def get_str_def as_str_def)
  have "op_get_consensus_fields ''NAME_PREORDER'' = Inr preorder_FIELDS" "op_get_quirk_fields ''NAME_PREORDER'' = []"
    by (simp_all add: op_get_consensus_fields_def table_entry_def SERIALIZE_FIELDS_def op_get_quirk_fields_def)
  then obtain cs where cs: "extract_consensus_op ''NAME_PREORDER'' r0 = Inr cs" and "map_of cs ''op'' = Some (VStr [NAME_PREORDER])"
    using extract_consensus_op_total [of "''NAME_PREORDER''" preorder_FIELDS r0] by (auto simp: rec rec_def preorder_record_def preorder_FIELDS_def)
  then have quirks: "check_quirks cs = Inr True"
    by (simp add: check_quirks_def get_str_def getitem_def as_str_def op_get_opcode_name_def OPCODE_NAMES_def opcode_defs
        OPCODE_NAME_NAMEOPS_def OPCODE_NAME_STATE_PREORDER_def)
  have "commit_operation vc st op b = Inr (cs, ?st)"
    using commit cs f(1) by (simp add: commit_operation_def dget_def opcode_lists)
  then have "db_commit vc b [NAME_PREORDER] r txid v st = Inr (Some [cs], ?st)"
    unfolding op_def by (rule db_commit_succeeds [OF _ quirks, where n = "''NAME_PREORDER''"])
      (simp_all add: r accepted_preorder_def has_key_iff d_def preorder_op_def opcode_lists)
  then show ?thesis
    using row balances by (intro exI [of _ cs] exI [of _ ?st] exI [of _ row]) simp
qed

text \<open>
  C7: A name preorder that a transaction carries and the check accepts is recorded and paid. The
  commit returns; one row is appended to the preorders, with the hash, the sender, the block and the
  transaction of the operation; and the account of the sender is debited by exactly the offered
  price, which is zero if no price in tokens is given, while every other balance is as before. The hypotheses
  say that virtualchain removes its own fields and no others, that the block height, the position
  and the amounts of the outputs fit into 64 bits, and that neither this transaction nor a later one
  has been recorded.
\<close>

theorem preorder_live:
  assumes "sanitizes vc"
    and "db_parse vc reserialize b txid v [NAME_PREORDER] data senders inputs outputs raw = Inr (Some d)"
    and "db_check vc b [NAME_PREORDER] d v ops st = Inr (Some r, st1, ops')"
    and "\<forall>out \<in> set outputs. int64 (out_value out)" and "int64 b" and "int64 v" and "unrecorded st b v txid"
    and "\<forall>q \<in> set (preorder_rows st). map_of q ''txid'' \<noteq> Some (VStr txid)"
  shows "\<exists>a n cs st2 row. map_of d ''address'' = Some (VStr a) \<and> 0 \<le> n \<and>
    map_of d ''token_fee'' = Some (if map_of d ''token_units'' = Some VNone then VNone else VInt n) \<and>
    (map_of d ''token_units'' = Some VNone \<longrightarrow> n = 0) \<and>
    db_commit vc b [NAME_PREORDER] r txid v st1 = Inr (Some [cs], st2) \<and> preorder_rows st2 = preorder_rows st @ [row] \<and>
    (\<forall>k \<in> {''preorder_hash'', ''sender'', ''address'', ''block_number'', ''txid'', ''burn_address''}. map_of row k = map_of d k) \<and>
    (\<forall>c. balance_of (account_rows st2) c = balance_of (account_rows st) c - (if c = (a, TOKEN_TYPE_STACKS) then n else 0))"
proof -
  obtain h ch fee units n a s pk op_fee burn x where
    d: "d = dset (preorder_op h ch fee units a s pk op_fee burn b txid v) ''__original_op_data__'' x"
    and offers: "offers fee units n" and feature: "fee \<noteq> VNone \<longrightarrow> EPOCH_FEATURE_NAMEOPS_COST_TOKENS \<in> set (features (epoch_of b))"
    and pk: "pk = VNone \<or> (\<exists>p. pk = VStr p)" and op_fee: "\<exists>out \<in> set outputs. op_fee = out_value out"
    using assms(2) by (rule preorder_parsed)
  obtain info t u where r: "map_of r = map_of (accepted_preorder d info t u)" and
    info: "info = payment_info VNone VNone VNone \<and> n = 0 \<or>
     info = payment_info (VStr a) (VStr TOKEN_TYPE_STACKS) (VInt n) \<and> has_account (account_rows st) (a, TOKEN_TYPE_STACKS) \<and>
     n \<le> balance_of (account_rows st) (a, TOKEN_TYPE_STACKS)"
    using preorder_accepted [OF assms(3) [unfolded d] offers feature] unfolding d .
  have "check_keeps st st1"
    using assms(3) by (rule db_check_op_check)
  then have st1: "account_rows st1 = account_rows st" "preorder_rows st1 = preorder_rows st"
    by (simp_all add: check_keeps_def tables_def)
  have "0 \<le> n" and tokens: "fee = (if units = VNone then VNone else VInt n)" "units = VNone \<longrightarrow> n = 0"
    using offers by (auto simp: offers_def)
  moreover have "fresh_at (account_rows st) c (b, v, txid)" for c
    using assms(7) by (auto simp: unrecorded_def fresh_at_def)
  moreover have "int64 op_fee"
    using op_fee assms(4) by blast
  ultimately obtain cs st2 row where "db_commit vc b [NAME_PREORDER] r txid v st1 = Inr (Some [cs], st2)"
    and "preorder_rows st2 = preorder_rows st @ [row]"
    and row: "\<forall>k \<in> set (column_names ''preorders''). map_of row k = map_of (preorder_record h ch t u a s pk op_fee burn b txid v) k"
    and "\<forall>c. balance_of (account_rows st2) c = balance_of (account_rows st) c - (if c = (a, TOKEN_TYPE_STACKS) then n else 0)"
    using preorder_commits [OF assms(1) r [unfolded d] pk _ assms(5,6), of st1 n] assms(8) info unfolding st1 by blast
  moreover have "\<forall>k \<in> {''preorder_hash'', ''sender'', ''address'', ''block_number'', ''txid'', ''burn_address''}. map_of row k = map_of d k"
    using row by (simp add: d preorder_op_def preorder_record_def preorder_column_names)
  moreover have "map_of d ''address'' = Some (VStr a)" "map_of d ''token_fee'' = Some fee" "map_of d ''token_units'' = Some units"
    by (simp_all add: d preorder_op_def)
  ultimately show ?thesis
    using \<open>0 \<le> n\<close> tokens by (intro exI [of _ a] exI [of _ n] exI [of _ cs] exI [of _ st2] exI [of _ row]) auto
qed

section \<open>An example preorder\<close>

abbreviation example_hash :: string where
  "example_hash \<equiv> hexlify (replicate 20 CHR 0x01)"

definition example_preorder_data :: string where
  "example_preorder_data = replicate 20 CHR 0x01 @ replicate 16 CHR 0x02 @ replicate 7 CHR 0x00 @ [CHR 0x64] @
     ''STACKS'' @ replicate 13 CHR 0x00"

definition example_parsed_preorder :: pydict where
  "example_parsed_preorder = preorder_op example_hash (hexlify (replicate 16 CHR 0x02)) (VInt 100) (VStr ''STACKS'') ''1me'' ''76a9'' VNone 5500
     (BLOCKSTACK_BURN_ADDRESS example_vc) 590001 ''ee'' 1"

definition example_preorder_outputs :: "tx_output list" where
  "example_preorder_outputs = [\<lparr>out_script = [], out_value = 0\<rparr>, \<lparr>out_script = ''76a9'', out_value = 1\<rparr>,
     \<lparr>out_script = BLOCKSTACK_BURN_ADDRESS example_vc, out_value = 5500\<rparr>]"

lemma example_preorder_data_parsed:
  "preorder_parse example_preorder_data 590001 = Inr (Some [(''opcode'', VStr ''NAME_PREORDER''), (''preorder_hash'', VStr example_hash),
     (''consensus_hash'', VStr (hexlify (replicate 16 CHR 0x02))), (''token_fee'', VInt 100), (''token_units'', VStr ''STACKS'')])"
proof -
  have "slice 0 20 example_preorder_data = replicate 20 CHR 0x01" "slice 20 36 example_preorder_data = replicate 16 CHR 0x02"
    by (simp_all add: example_preorder_data_def slice_def)
  moreover have "big_endian (slice 36 44 example_preorder_data) = 100"
    by code_simp
  moreover have "strip_zeros (slice 44 63 example_preorder_data) = ''STACKS''"
    by code_simp
  moreover have "length example_preorder_data = 63"
    by code_simp
  ultimately show ?thesis
    by (simp add: preorder_parse_def Let_def epoch_of_def epoch_tables)
qed

lemma example_preorder_parsed:
  "db_parse example_vc (\<lambda>raw _ _. raw) 590001 ''ee'' 1 [NAME_PREORDER] example_preorder_data
     [\<lparr>script_pubkey = ''76a9'', script_type = ''scripthash'', addresses = [''1me'']\<rparr>] [] example_preorder_outputs (Some []) =
   Inr (Some (dset example_parsed_preorder ''__original_op_data__'' (VDict example_parsed_preorder)))"
proof -
  have n: "op_get_opcode_name [NAME_PREORDER] = Inr ''NAME_PREORDER''"
    by code_simp
  have t: "get_epoch_btc_sender_types 590001 = Inr [''p2pkh'', ''p2sh'']"
    by code_simp
  have t': "get_epoch_btc_script_types 590001 = Inr [''nulldata'', ''p2pkh'', ''p2sh'', ''p2sh-p2wpkh'', ''p2sh-p2wsh'']"
    by code_simp
  have c: "btc_script_classify example_vc x = ''p2pkh''" for x
    by (simp add: example_vc_def)
  have burn: "BLOCKSTACK_BURN_ADDRESS example_vc \<noteq> []"
    by (simp add: BLOCKSTACK_BURN_ADDRESS_def example_vc_def)
  then have "preorder_tx_extract example_vc example_preorder_data
      [\<lparr>script_pubkey = ''76a9'', script_type = ''scripthash'', addresses = [''1me'']\<rparr>] [] example_preorder_outputs 590001 1 ''ee'' =
     Inr example_parsed_preorder"
    by (simp add: preorder_tx_extract_def example_preorder_data_parsed assert_some_def or_failed_def catching_def check_tx_output_types_def
        t' c extract_sender_def get_preorder_burn_info_def example_preorder_outputs_def example_parsed_preorder_def preorder_op_def dset_def)
  then show ?thesis
    by (simp add: db_parse_def check_tx_sender_types_def t c require_def n catching_def obind_def op_extract_def table_entry_def
        EXTRACT_METHODS_def example_parsed_preorder_def preorder_op_def has_key_def dset_def)
qed

lemma example_preorder_checked:
  fixes x
  defines "d \<equiv> dset example_parsed_preorder ''__original_op_data__'' x"
  shows "\<exists>r st1. db_check example_vc 590001 [NAME_PREORDER] d 1 [] funded_example = Inr (Some r, st1, [])"
proof -
  let ?r = "dset (dset d ''__account_payment_info__'' (payment_info (VStr ''1me'') (VStr ''STACKS'') (VInt 100))) ''token_fee'' (VStr (str_of_int 100))"
  have "get_num_names_owned funded_example [] ''76a9'' = Inr 0"
    by (simp add: get_num_names_owned_def find_by_opcode_def get_names_owned_by_sender_def namedb_get_names_by_sender_def
      join_namespaces_def example_with_def example_name_row_def text_col_def)
  moreover have "is_new_preorder funded_example example_hash None = Inr True"
    by (simp add: is_new_preorder_def namedb_get_name_preorder_def example_with_def fetchone_def)
  moreover have "get_account funded_example ''1me'' ''STACKS'' = Some example_funds"
    by (simp add: get_account_def namedb_get_account_def example_with_def example_funds_def order_desc_def)
  moreover have "get_account_balance example_funds = Inr 1000000"
    by (simp add: get_account_balance_def namedb_get_account_balance_def example_funds_def)
  ultimately have "preorder_check example_vc funded_example d 590001 [] = Inr (Some ?r)"
    by (simp add: preorder_check_def d_def example_parsed_preorder_def preorder_op_def get_str_def getitem_def has_key_def epoch_of_def
        epoch_tables MAX_NAMES_PER_SENDER_def as_str_def can_pay_def state_preorder_put_account_payment_info_def opt_int_def opt_str_def
        py_str_def TOKEN_TYPE_STACKS_def)
  then obtain st1 where check: "check_preorder example_vc funded_example d 590001 [] = Inr (Some ?r, st1, [])"
    by (auto simp: check_preorder_def state_preorder_def state_check_collisions_def check_preorder_collision_def check_collision_def
        check_collision_state_def d_def example_parsed_preorder_def preorder_op_def has_key_def getitem_def has_keys_def
        state_preorder_invariant_tags_def CONSENSUS_FIELDS_REQUIRED_def seen_at_def example_with_def)
  have n: "nameop_opcode d = Inr ''NAME_PREORDER''"
    by (simp add: nameop_opcode_def has_key_iff get_str_def getitem_def as_str_def d_def example_parsed_preorder_def preorder_op_def)
  have m: "map_of (CHECK_METHODS example_vc) ''NAME_PREORDER'' = Some (check_preorder example_vc)"
    by (simp add: CHECK_METHODS_def)
  have c: "clean_accepted example_vc ?r = Inr ?r"
    by (simp add: clean_accepted_def get_str_def getitem_def as_str_def op_canonicalize_def CANONICALIZE_METHODS_def
        UNSTORED_CANONICAL_FIELDS_def d_def example_parsed_preorder_def preorder_op_def)
  have f: "check_mutate_fields ''NAME_PREORDER'' ?r = Inr True" "op_get_opcode_name [NAME_PREORDER] = Inr ''NAME_PREORDER''"
    by (simp_all add: check_mutate_fields_def op_get_mutate_fields_def table_entry_def MUTATE_FIELDS_def preorder_MUTATE_FIELDS_def
        preorder_FIELDS_def has_keys_def has_key_iff op_get_opcode_name_def OPCODE_NAMES_def opcode_defs d_def
        example_parsed_preorder_def preorder_op_def)
  have k: "has_key d ''txid''" "has_key d ''vtxindex''" "dget d ''opcode'' VNone = VStr ''NAME_PREORDER''"
    by (simp_all add: has_key_iff dget_def d_def example_parsed_preorder_def preorder_op_def)
  show ?thesis
    by (simp add: db_check_def op_check_def n m c f k check or_abort_def catching_def)
qed

theorem preorder_live_witness:
  "\<exists>r st1 cs st2 row. db_check example_vc 590001 [NAME_PREORDER]
       (dset example_parsed_preorder ''__original_op_data__'' (VDict example_parsed_preorder)) 1 [] funded_example = Inr (Some r, st1, []) \<and>
     db_commit example_vc 590001 [NAME_PREORDER] r ''ee'' 1 st1 = Inr (Some [cs], st2) \<and> preorder_rows st2 = [row] \<and>
     map_of row ''preorder_hash'' = Some (VStr example_hash) \<and> balance_of (account_rows st2) (''1me'', ''STACKS'') = 999900"
proof -
  obtain r st1 where check: "db_check example_vc 590001 [NAME_PREORDER]
      (dset example_parsed_preorder ''__original_op_data__'' (VDict example_parsed_preorder)) 1 [] funded_example = Inr (Some r, st1, [])"
    using example_preorder_checked by blast
  have h: "sanitizes example_vc" "\<forall>out \<in> set example_preorder_outputs. int64 (out_value out)" "int64 590001" "int64 1"
    "unrecorded funded_example 590001 1 ''ee''" "\<forall>q \<in> set (preorder_rows funded_example). map_of q ''txid'' \<noteq> Some (VStr ''ee'')"
    by (simp_all add: sanitizes_def example_preorder_outputs_def int64_def unrecorded_def example_with_def example_funds_def)
  have b: "balance_of (account_rows funded_example) (''1me'', ''STACKS'') = 1000000"
    by (simp add: example_with_def example_funds_def balance_of_def namedb_get_account_def order_desc_def)
  show ?thesis
    using preorder_live [OF h(1) example_preorder_parsed check h(2-6)] check b
    by (fastforce simp: example_parsed_preorder_def preorder_op_def TOKEN_TYPE_STACKS_def example_with_def)
qed


text \<open>Committing the example preorder leaves the registered name of the example alone.\<close>

lemma example_preorder_committed:
  obtains r st1 cs st2 where "db_commit example_vc 590001 [NAME_PREORDER] r ''ee'' 1 st1 = Inr (Some [cs], st2)"
    and "name_rows st1 = [example_name_row ''76ff'' 500000]" and "map_of r ''name'' = None" and "map_of r ''namespace_id'' = None"
    and "map_of r ''opcode'' = Some (VStr ''NAME_PREORDER'')"
proof -
  let ?d = "dset example_parsed_preorder ''__original_op_data__'' (VDict example_parsed_preorder)"
  obtain r st1 where check: "db_check example_vc 590001 [NAME_PREORDER] ?d 1 [] funded_example = Inr (Some r, st1, [])"
    using example_preorder_checked by blast
  have "check_keeps funded_example st1"
    using check by (rule db_check_op_check)
  then have st1: "account_rows st1 = account_rows funded_example" "preorder_rows st1 = []" "name_rows st1 = [example_name_row ''76ff'' 500000]"
    by (simp_all add: check_keeps_def tables_def example_with_def)
  have offer: "offers (VInt 100) (VStr ''STACKS'') 100" "EPOCH_FEATURE_NAMEOPS_COST_TOKENS \<in> set (features (epoch_of 590001))"
    by (simp_all add: offers_def epoch_of_def epoch_tables)
  obtain info t u where r: "map_of r = map_of (accepted_preorder ?d info t u)" and
    info: "info = payment_info VNone VNone VNone \<and> (100::int) = 0 \<or>
     info = payment_info (VStr ''1me'') (VStr TOKEN_TYPE_STACKS) (VInt 100) \<and>
     has_account (account_rows funded_example) (''1me'', TOKEN_TYPE_STACKS) \<and>
     100 \<le> balance_of (account_rows funded_example) (''1me'', TOKEN_TYPE_STACKS)"
    using preorder_accepted [OF check [unfolded example_parsed_preorder_def] offer(1)] offer(2) unfolding example_parsed_preorder_def by blast
  have "sanitizes example_vc" "int64 5500" "int64 590001" "int64 1"
    "fresh_at (account_rows funded_example) (''1me'', TOKEN_TYPE_STACKS) (590001, 1, ''ee'')"
    by (simp_all add: sanitizes_def int64_def example_with_def example_funds_def fresh_at_def)
  then obtain cs st2 where "db_commit example_vc 590001 [NAME_PREORDER] r ''ee'' 1 st1 = Inr (Some [cs], st2)"
    using preorder_commits [OF _ r [unfolded example_parsed_preorder_def], of example_vc st1 100] info by (auto simp: st1)
  moreover have "map_of r ''name'' = None" "map_of r ''namespace_id'' = None" "map_of r ''opcode'' = Some (VStr ''NAME_PREORDER'')"
    by (simp_all add: r accepted_preorder_def example_parsed_preorder_def preorder_op_def)
  ultimately show ?thesis
    using st1(3) that by blast
qed

theorem commit_isolated_witness:
  "\<exists>r st1 cs st2. db_commit example_vc 590001 [NAME_PREORDER] r ''ee'' 1 st1 = Inr (Some [cs], st2) \<and>
     rows_of ''name'' (VStr ''ab.id'') (name_rows st2) = [example_name_row ''76ff'' 500000]"
proof -
  obtain r st1 cs st2 where c: "db_commit example_vc 590001 [NAME_PREORDER] r ''ee'' 1 st1 = Inr (Some [cs], st2)"
    and rows: "name_rows st1 = [example_name_row ''76ff'' 500000]" and r: "map_of r ''name'' = None" "map_of r ''namespace_id'' = None"
      "map_of r ''opcode'' = Some (VStr ''NAME_PREORDER'')"
    by (rule example_preorder_committed)
  have "rows_of ''name'' (VStr ''ab.id'') (name_rows st2) = rows_of ''name'' (VStr ''ab.id'') (name_rows st1)"
    using commit_isolated [OF _ c] r by (simp add: sanitizes_def opcode_lists)
  with c rows show ?thesis
    by (auto simp: rows_of_def example_name_row_def dget_def)
qed

end
