(* ===== verification/Effects.thy ===== *)
theory Effects
  imports Lifecycle
begin

text \<open>
  What committed operations do to the registry, as a specification that the statements implement:
  a transition of a name gives the fields its operation may change the values of the operation and
  keeps the others, in the one row of the name; a creation uses its preorder up.
\<close>

section \<open>Transitions of names\<close>

lemma filter_one:
  assumes "length (filter P xs) = 1"
  shows "\<exists>before x after. xs = before @ x # after \<and> P x \<and> (\<forall>y \<in> set before \<union> set after. \<not> P y)"
proof -
  obtain x where "filter P xs = [x]"
    using assms by (auto simp: length_Suc_conv)
  then obtain before after where "xs = before @ x # after" "\<forall>y \<in> set before. \<not> P y" "P x" "[] = filter P after"
    unfolding filter_eq_Cons_iff by blast
  then show ?thesis
    by (metis Un_iff filter_empty_conv)
qed

lemma foldl_remove1:
  "set (foldl (\<lambda>m i. remove1 i m) xs is) \<subseteq> set xs"
  "c \<in> set xs \<Longrightarrow> c \<notin> set is \<Longrightarrow> c \<in> set (foldl (\<lambda>m i. remove1 i m) xs is)"
proof -
  show "set (foldl (\<lambda>m i. remove1 i m) xs is) \<subseteq> set xs"
  proof (induction "is" arbitrary: xs)
    case (Cons i "is")
    show ?case
      using Cons [of "remove1 i xs"] set_remove1_subset [of i xs] by auto
  qed simp
  show "c \<in> set xs \<Longrightarrow> c \<notin> set is \<Longrightarrow> c \<in> set (foldl (\<lambda>m i. remove1 i m) xs is)"
    by (induction "is" arbitrary: xs) auto
qed

text \<open>The specification of a change of a name's row by an operation \<open>op\<close>.\<close>

definition name_change :: "string list \<Rightarrow> string list \<Rightarrow> pydict \<Rightarrow> pydict \<Rightarrow> pydict \<Rightarrow> bool" where
  "name_change mutate_fields always_set op r r' \<longleftrightarrow>
     (\<forall>c. c \<notin> set mutate_fields \<union> set always_set \<longrightarrow> map_of r' c = map_of r c) \<and>
     (\<forall>c \<in> set mutate_fields - {''name'', ''block_number''}. c \<in> set (column_names ''name_records'') \<longrightarrow>
        stored_column (column_of ''name_records'' c) (sql_value (dget op c VNone)) = Inr (c, dget r' c VNone))"

lemma kept_fields_bounds:
  assumes "mutate_fields \<noteq> []"
  shows "c \<in> set (dkeys d) \<Longrightarrow> c \<notin> set mutate_fields \<union> set ignored \<Longrightarrow> c \<in> set (kept_fields d mutate_fields key ignored)"
    and "c \<in> set mutate_fields - set key \<Longrightarrow> c \<notin> set (kept_fields d mutate_fields key ignored)"
proof -
  show "c \<in> set (dkeys d) \<Longrightarrow> c \<notin> set mutate_fields \<union> set ignored \<Longrightarrow> c \<in> set (kept_fields d mutate_fields key ignored)"
    unfolding kept_fields_def using assms by (intro foldl_remove1(2)) (auto simp: namedb_update_must_equal_def)
  show "c \<in> set mutate_fields - set key \<Longrightarrow> c \<notin> set (kept_fields d mutate_fields key ignored)"
    unfolding kept_fields_def using foldl_remove1(1) [of "namedb_update_must_equal d mutate_fields @ key" ignored]
    by (auto simp: namedb_update_must_equal_def split: if_splits)
qed

lemma dupdate_unique:
  "c \<in> set (map fst cells) \<Longrightarrow> \<forall>w'. (c, w') \<in> set cells \<longrightarrow> w' = w \<Longrightarrow> map_of (dupdate r cells) c = Some w"
proof (induction cells arbitrary: r)
  case (Cons kv cells)
  obtain k v where kv: "kv = (k, v)" by (cases kv)
  show ?case
  proof (cases "c \<in> set (map fst cells)")
    case False
    then show ?thesis
      using Cons.prems by (simp add: kv dupdate_other)
  qed (use Cons kv in simp)
qed simp

lemma name_fields_check_distinct:
  "namedb_name_fields_check vc r = Inr r' \<Longrightarrow> distinct (map fst r) \<Longrightarrow> distinct (map fst r')"
  by (auto simp: namedb_name_fields_check_def res_simps Let_def dset_distinct split: if_splits)

lemma name_fields_check_keeps:
  "namedb_name_fields_check vc r = Inr r' \<Longrightarrow> map_of r c = Some v \<Longrightarrow> map_of r' c = Some v"
  by (auto simp: namedb_name_fields_check_def res_simps Let_def has_key_def split: if_splits)

lemma name_update_change:
  assumes upd: "namedb_name_update vc st opcode op [] always_set = Inr st'"
    and fs: "op_get_mutate_fields opcode = Inr mutate_fields" "mutate_fields \<noteq> []"
    and op: "distinct (map fst op)" "map_of op ''name'' = Some (VStr name)"
      "\<forall>c \<in> set mutate_fields. c \<in> set (column_names ''name_records'') \<longrightarrow> map_of op c \<noteq> None"
  shows "\<exists>before r r' after. name_rows st = before @ r # after \<and> st' = st\<lparr>name_rows := before @ r' # after\<rparr> \<and>
    dget r ''name'' VNone = VStr name \<and> name_change mutate_fields always_set op r r'"
proof -
  define key where "key = [''name'', ''block_number'']"
  obtain d where d: "namedb_name_fields_check vc op = Inr d"
    and one: "update_one st ''name_records'' key d (kept_fields d mutate_fields key always_set) [] = Inr st'"
    using upd fs(1) by (auto simp: namedb_name_update_def rbind_eq_Inr assert_that_eq_Inr key_def)
  define kept where "kept = kept_fields d mutate_fields key always_set"
  obtain ws cells where st': "st' = put_rows st ''name_records'' (map (row_update ws cells) (table_rows st ''name_records''))"
    and len: "length (filter (where_holds ws) (table_rows st ''name_records'')) = 1"
    and ws: "\<forall>c \<in> set kept. \<exists>v. map_of d c = Some v \<and> (c, sql_value v) \<in> set ws"
    and cells: "set (map fst cells) = set (map fst d) - set kept"
      "\<forall>(c, w) \<in> set cells. \<exists>v. (c, v) \<in> set d \<and> stored_column (column_of ''name_records'' c) (sql_value v) = Inr (c, w)"
    and key: "set key \<subseteq> set kept"
    using update_one_effect [OF one] unfolding kept_def by blast
  obtain before r after where rows: "name_rows st = before @ r # after" and r: "where_holds ws r"
    and others: "\<forall>y \<in> set before \<union> set after. \<not> where_holds ws y"
    using filter_one [OF len] by (auto simp: table_rows_def)
  define r' where "r' = dupdate r cells"
  have "map (row_update ws cells) before = before" "map (row_update ws cells) after = after"
    using others by (auto simp: row_update_def intro!: map_idI)
  then have "st' = st\<lparr>name_rows := before @ r' # after\<rparr>"
    using st' rows r by (simp add: put_rows_def table_rows_def row_update_def r'_def)
  moreover have "dget r ''name'' VNone = VStr name"
    using ws key name_fields_check_keeps [OF d op(2)] r by (fastforce simp: key_def dest: where_holds_str)
  moreover have "map_of r' c = map_of r c" if "c \<notin> set mutate_fields \<union> set always_set" for c
  proof -
    have "c \<notin> set (map fst cells)"
      using kept_fields_bounds(1) [OF fs(2) _ that, of d key] cells(1) unfolding kept_def dkeys_def by blast
    then show ?thesis
      unfolding r'_def by (rule dupdate_other)
  qed
  moreover have "stored_column (column_of ''name_records'' c) (sql_value (dget op c VNone)) = Inr (c, dget r' c VNone)"
    if c: "c \<in> set mutate_fields - set key" "c \<in> set (column_names ''name_records'')" for c
  proof -
    obtain v where v: "map_of op c = Some v" "map_of d c = Some v"
      using op(3) c name_fields_check_keeps [OF d] by fastforce
    have "(c, v') \<in> set d \<longrightarrow> v' = v" for v'
      using v(2) name_fields_check_distinct [OF d op(1)] map_of_is_SomeI by fastforce
    then have w: "stored_column (column_of ''name_records'' c) (sql_value v) = Inr (c, w)" if "(c, w) \<in> set cells" for w
      using cells(2) that by fast
    have "c \<in> set (map fst cells)"
      using kept_fields_bounds(2) [OF fs(2) c(1)] cells(1) map_of_SomeD [OF v(2)] unfolding kept_def by force
    moreover then obtain w0 where w0: "(c, w0) \<in> set cells"
      by auto
    moreover have "\<forall>w'. (c, w') \<in> set cells \<longrightarrow> w' = w0"
      using w w [OF w0] by simp
    ultimately have "map_of r' c = Some w0"
      unfolding r'_def by (intro dupdate_unique)
    then show ?thesis
      using w [OF w0] v(1) by (simp add: dget_def)
  qed
  ultimately show ?thesis
    using rows unfolding name_change_def key_def by (intro exI [of _ before] exI [of _ r] exI [of _ r'] exI [of _ after]) simp
qed

text \<open>The operation may follow the one that last wrote the record.\<close>

definition follows :: "pydict \<Rightarrow> string \<Rightarrow> bool" where
  "follows cur_record opcode \<longleftrightarrow> (\<exists>op cur_opcode successors. map_of cur_record ''op'' = Some (VStr op) \<and>
     op_get_opcode_name op = Inr cur_opcode \<and> map_of OPCODE_SEQUENCE_GRAPH cur_opcode = Some successors \<and> opcode \<in> set successors)"

lemma op_sanity_check_follows:
  "namedb_op_sanity_check opcode op_data record = Inr x \<Longrightarrow> follows record opcode"
  by (auto simp: namedb_op_sanity_check_def follows_def res_simps split: option.splits)

lemma foldl_discard_distinct: "distinct (map fst d) \<Longrightarrow> distinct (map fst (foldl discard d ks))"
  by (induction ks arbitrary: d) (simp_all add: discard_def distinct_delete)

lemma name_transition_mutates:
  assumes "opcode \<in> set OPCODE_NAME_STATE_TRANSITIONS" and "op_get_mutate_fields opcode = Inr mutate_fields"
  shows "mutate_fields \<noteq> []"
proof -
  have "list_all (\<lambda>n. case op_get_mutate_fields n of Inr fs \<Rightarrow> fs \<noteq> [] | _ \<Rightarrow> False) OPCODE_NAME_STATE_TRANSITIONS"
    by code_simp
  then show ?thesis
    using assms by (fastforce simp: list_all_iff)
qed

lemma mutation_sanity_check_keys:
  "namedb_state_mutation_sanity_check opcode d = Inr x \<Longrightarrow> op_get_mutate_fields opcode = Inr fs \<Longrightarrow> c \<in> set fs \<Longrightarrow> map_of d c \<noteq> None"
  by (auto simp: namedb_state_mutation_sanity_check_def res_simps has_keys_def list_all_iff has_key_def)

text \<open>The parts of a transition of a name that was made.\<close>

lemma name_transition_steps:
  assumes "namedb_state_transition vc st opcode op b v txid name cur ''name_records'' always_set = Inr (d, st')"
    and "opcode \<in> set OPCODE_NAME_STATE_TRANSITIONS"
  obtains blk op1 x y cr rd st1 where "op1 = dset (dset op ''name'' (VStr name)) ''block_number'' blk"
    "namedb_state_transition_sanity_check opcode op1 name cur ''name_records'' = Inr x"
    "namedb_state_mutation_sanity_check opcode op1 = Inr y"
    "namedb_history_save vc st opcode name VNone cr (VInt b) v txid rd = Inr (d, st1)"
    "namedb_name_update vc st1 opcode
      (foldl discard op1 (filter (\<lambda>k. k \<notin> set (column_names ''name_records'')) (dkeys op1))) [] always_set = Inr st'"
  using assms unfolding namedb_state_transition_def Let_def namedb_find_missing_and_extra_def
  apply (simp add: rbind_eq_Inr or_abort_eq_Inr assert_that_eq_Inr getitem_eq_Inr split: if_splits)
  apply (elim exE conjE)
  apply (simp split: if_split_asm option.split_asm prod.split_asm)
  apply blast
  done

lemma name_transition_change:
  assumes "namedb_state_transition vc st opcode op b v txid name cur ''name_records'' always_set = Inr (d, st')"
    and opcode: "opcode \<in> set OPCODE_NAME_STATE_TRANSITIONS"
    and fs: "op_get_mutate_fields opcode = Inr mutate_fields" and "distinct (map fst op)"
  shows "\<exists>before r r' after h. name_rows st = before @ r # after \<and>
    st' = st\<lparr>history_rows := history_rows st @ [h], name_rows := before @ r' # after\<rparr> \<and>
    dget r ''name'' VNone = VStr name \<and> name_change mutate_fields always_set op r r' \<and>
    h_history_id h = name \<and> h_block_id h = b \<and> h_opcode h = opcode \<and> follows cur opcode"
  using assms(1,2)
proof (rule name_transition_steps)
  fix blk op1 x y cr rd st1
  assume op1: "op1 = dset (dset op ''name'' (VStr name)) ''block_number'' blk"
    and check: "namedb_state_transition_sanity_check opcode op1 name cur ''name_records'' = Inr x"
    and mutation: "namedb_state_mutation_sanity_check opcode op1 = Inr y"
    and hist: "namedb_history_save vc st opcode name VNone cr (VInt b) v txid rd = Inr (d, st1)"
    and upd: "namedb_name_update vc st1 opcode
      (foldl discard op1 (filter (\<lambda>k. k \<notin> set (column_names ''name_records'')) (dkeys op1))) [] always_set = Inr st'"
  define op2 where "op2 = foldl discard op1 (filter (\<lambda>k. k \<notin> set (column_names ''name_records'')) (dkeys op1))"
  have column: "map_of op2 c = map_of op1 c" if "c \<in> set (column_names ''name_records'')" for c
    using that by (simp add: op2_def foldl_discard)
  have dist: "distinct (map fst op2)"
    unfolding op2_def op1 by (intro foldl_discard_distinct dset_distinct assms)
  have name: "map_of op2 ''name'' = Some (VStr name)"
    using column [of "''name''"] name_columns(1) op1 by (simp add: column_names_def) force
  have fields: "\<forall>c \<in> set mutate_fields. c \<in> set (column_names ''name_records'') \<longrightarrow> map_of op2 c \<noteq> None"
    using mutation_sanity_check_keys [OF mutation fs] column by simp
  obtain h where st1: "st1 = st\<lparr>history_rows := history_rows st @ [h]\<rparr>"
    and h: "h_history_id h = name" "h_block_id h = b" "h_opcode h = opcode"
    using namedb_history_save_Inr [OF hist] by auto
  obtain before r r' after where u: "name_rows st1 = before @ r # after" "st' = st1\<lparr>name_rows := before @ r' # after\<rparr>"
    "dget r ''name'' VNone = VStr name" "name_change mutate_fields always_set op2 r r'"
    using name_update_change [OF upd [folded op2_def] fs name_transition_mutates [OF opcode fs] dist name fields] by blast
  have "name_change mutate_fields always_set op r r'"
    using u(4) column op1 unfolding name_change_def by (auto simp: dget_def)
  moreover have "follows cur opcode"
    using check op_sanity_check_follows by (auto simp: namedb_state_transition_sanity_check_def rbind_eq_Inr)
  ultimately show ?thesis
    using u h st1 by (intro exI [of _ before] exI [of _ r] exI [of _ r'] exI [of _ after] exI [of _ h]) simp
qed

lemma name_transition_table:
  assumes "namedb_state_transition vc st opcode op b v txid name cur table always_set = Inr (d, st')"
    and "opcode \<in> set OPCODE_NAME_STATE_TRANSITIONS"
  shows "table = ''name_records''"
proof -
  obtain op1 x where "namedb_state_transition_sanity_check opcode op1 name cur table = Inr x"
    using assms unfolding namedb_state_transition_def Let_def
    by (auto simp: rbind_eq_Inr or_abort_eq_Inr assert_that_eq_Inr split: if_splits)
  then show ?thesis
    using assms(2) by (auto simp: namedb_state_transition_sanity_check_def rbind_eq_Inr assert_that_eq_Inr)
qed

lemma commit_state_transition_steps:
  assumes "commit_state_transition vc st op b = Inr (d, st')"
    and "map_of op ''opcode'' = Some (VStr opcode)" and "map_of op ''__history_id_key__'' = Some (VStr ''name'')"
    and "map_of op ''name'' = Some (VStr name)" and "sanitize_op vc op = Inr transition"
    and "state_transition_get_always_set op = Inr always_set"
  obtains cur v txid table st1 where "namedb_get_name st name b True True = Inr (Some cur)"
    "namedb_state_transition vc st opcode transition b v txid name cur table always_set = Inr (d, st1)"
    "st' = st1\<lparr>account_rows := account_rows st'\<rparr>"
proof -
  have opcode: "get_str op ''opcode'' = Inr opcode" and name: "get_str op ''name'' = Inr name"
    and key: "state_transition_get_history_id_key op = Inr ''name''"
    using assms(2-4) by (simp_all add: get_str_def getitem_def as_str_def state_transition_get_history_id_key_def)
  obtain cur v txid table st1 info p where steps: "namedb_get_name st name b True True = Inr (Some cur)"
    "namedb_state_transition vc st opcode transition b v txid name cur table always_set = Inr (d, st1)"
    "commit_account_debit st1 info b (fst p) (snd p) = Inr st'"
    using assms(1,5,6) opcode name key
    by (auto simp: commit_state_transition_def rbind_eq_Inr or_abort_eq_Inr split: if_split_asm option.split_asm)
  from steps(3) have "st' = st1\<lparr>account_rows := account_rows st'\<rparr>"
    by (rule commit_account_debit_cases) simp_all
  with steps(1,2) show thesis
    by (rule that)
qed

text \<open>
  C9: A committed transition of a name (an update, transfer, renewal, revocation or re-import) refines
  the specification of a change of one record. The operation may follow the last operation on
  the name; exactly one row changes, the row of the name; in it the fields that the operation may change
  take the values of the operation, as the columns store them, and all other fields keep theirs; one
  entry for the operation is appended to the history; preorders, namespaces and all other names stay as
  they were. The hypotheses say that the operation is a dictionary with these decorations, one value for each key.
\<close>

theorem name_transition_refines:
  assumes "commit_state_transition vc st op b = Inr (d, st')"
    and "map_of op ''opcode'' = Some (VStr opcode)" and "opcode \<in> set OPCODE_NAME_STATE_TRANSITIONS"
    and "map_of op ''__history_id_key__'' = Some (VStr ''name'')" and "map_of op ''name'' = Some (VStr name)"
    and "sanitize_op vc op = Inr transition" and "distinct (map fst transition)"
    and "op_get_mutate_fields opcode = Inr mutate_fields" and "state_transition_get_always_set op = Inr always_set"
  shows "\<exists>cur before r r' after h. namedb_get_name st name b True True = Inr (Some cur) \<and> follows cur opcode \<and>
    name_rows st = before @ r # after \<and> dget r ''name'' VNone = VStr name \<and>
    name_change mutate_fields always_set transition r r' \<and>
    st' = st\<lparr>history_rows := history_rows st @ [h], name_rows := before @ r' # after, account_rows := account_rows st'\<rparr> \<and>
    h_history_id h = name \<and> h_block_id h = b \<and> h_opcode h = opcode"
  using assms(1,2,4-6,9)
proof (rule commit_state_transition_steps)
  fix cur v txid table st1
  assume cur: "namedb_get_name st name b True True = Inr (Some cur)"
    and step: "namedb_state_transition vc st opcode transition b v txid name cur table always_set = Inr (d, st1)"
    and st': "st' = st1\<lparr>account_rows := account_rows st'\<rparr>"
  from name_transition_change [OF step [unfolded name_transition_table [OF step assms(3)]] assms(3,8,7)]
  obtain before r r' after h where change: "name_rows st = before @ r # after" "dget r ''name'' VNone = VStr name"
    "st1 = st\<lparr>history_rows := history_rows st @ [h], name_rows := before @ r' # after\<rparr>"
    "name_change mutate_fields always_set transition r r'" "h_history_id h = name" "h_block_id h = b" "h_opcode h = opcode"
    "follows cur opcode"
    by blast
  have "st' = st\<lparr>history_rows := history_rows st @ [h], name_rows := before @ r' # after, account_rows := account_rows st'\<rparr>"
    by (subst st', subst change(3)) simp
  with cur change show ?thesis
    by blast
qed

definition revocable_row :: pydict where
  "revocable_row = [(''name'', VStr ''ab.id''), (''preorder_hash'', VStr ''bb''), (''name_hash128'', VStr ''61622e6964''),
     (''namespace_id'', VStr ''id''), (''namespace_block_number'', VInt 5), (''value_hash'', VStr ''00ff''),
     (''sender'', VStr ''76a9''), (''sender_pubkey'', VNone), (''address'', VStr ''1owner''), (''block_number'', VInt 7),
     (''preorder_block_number'', VInt 7), (''first_registered'', VInt 8), (''last_renewed'', VInt 8), (''revoked'', VInt 0),
     (''op'', VStr '':''), (''txid'', VStr ''cc''), (''vtxindex'', VInt 3), (''op_fee'', VInt 5), (''importer'', VNone),
     (''importer_address'', VNone), (''consensus_hash'', VNone), (''token_fee'', VStr ''0''), (''last_creation_op'', VStr '':'')]"

definition revocable :: state_engine where
  "revocable = (new_node True [] [])\<lparr>name_rows := [revocable_row], lastblock := 20\<rparr>"

definition revocation :: pydict where
  "revocation = [(''name'', VStr ''ab.id''), (''sender'', VStr ''76a9''), (''address'', VStr ''1owner''), (''vtxindex'', VInt 2),
     (''txid'', VStr ''dd''), (''op'', VStr [NAME_REVOKE]), (''opcode'', VStr ''NAME_REVOKE''), (''revoked'', VBool True),
     (''value_hash'', VNone), (''__table__'', VStr ''name_records''), (''__history_id_key__'', VStr ''name''),
     (''__always_set__'', VList []), (''__account_payment_info__'', payment_info VNone VNone VNone),
     (''__state_transition__'', VBool True)]"

lemma revocation_sanitized:
  "sanitize_op example_vc revocation = Inr (filter (\<lambda>(k, _). k \<notin> set (''opcode'' # get_state_invariant_tags)) revocation)"
  by code_simp

lemma revocation_commits:
  "case commit_state_transition example_vc revocable revocation 21 of
     Inr (_, st') \<Rightarrow> dget (hd (name_rows st')) ''revoked'' VNone = VInt 1 | Inl _ \<Rightarrow> False"
  by code_simp

theorem name_transition_refines_witness:
  "\<exists>d st' r'. commit_state_transition example_vc revocable revocation 21 = Inr (d, st') \<and> name_rows st' = [r'] \<and>
     dget r' ''revoked'' VNone = VInt 1 \<and> map_of r' ''sender'' = Some (VStr ''76a9'') \<and> length (history_rows st') = 1"
proof -
  obtain d st' where c: "commit_state_transition example_vc revocable revocation 21 = Inr (d, st')"
    and revoked: "dget (hd (name_rows st')) ''revoked'' VNone = VInt 1"
    using revocation_commits by (cases "commit_state_transition example_vc revocable revocation 21") auto
  have fs: "op_get_mutate_fields ''NAME_REVOKE'' = Inr [''txid'', ''vtxindex'', ''op'', ''revoked'', ''value_hash'']"
    by code_simp
  have "map_of revocation ''opcode'' = Some (VStr ''NAME_REVOKE'')" "''NAME_REVOKE'' \<in> set OPCODE_NAME_STATE_TRANSITIONS"
    "map_of revocation ''__history_id_key__'' = Some (VStr ''name'')" "map_of revocation ''name'' = Some (VStr ''ab.id'')"
    "distinct (map fst (filter (\<lambda>(k, _). k \<notin> set (''opcode'' # get_state_invariant_tags)) revocation))"
    "state_transition_get_always_set revocation = Inr []"
    by code_simp+
  from name_transition_refines [OF c this(1-4) revocation_sanitized this(5) fs this(6)]
  obtain before r r' after h where rows: "name_rows revocable = before @ r # after" "name_change
      [''txid'', ''vtxindex'', ''op'', ''revoked'', ''value_hash''] [] (filter (\<lambda>(k, _). k \<notin> set (''opcode'' # get_state_invariant_tags)) revocation) r r'"
    "st' = revocable\<lparr>history_rows := history_rows revocable @ [h], name_rows := before @ r' # after, account_rows := account_rows st'\<rparr>"
    by blast
  have r: "before = []" "r = revocable_row" "after = []"
    using rows(1) by (auto simp: revocable_def append_eq_Cons_conv Cons_eq_append_conv)
  have "name_rows st' = [r']" "history_rows st' = [h]"
    using r by (subst rows(3), simp add: revocable_def new_node_def)+
  moreover have "map_of r' ''sender'' = Some (VStr ''76a9'')"
    using rows(2) r by (simp add: name_change_def revocable_row_def)
  ultimately show ?thesis
    using c revoked by simp
qed

section \<open>Creations use their preorder\<close>

lemma other_table_kept:
  "insert_into st t d = Inr st' \<Longrightarrow> t \<noteq> ''preorders'' \<Longrightarrow> preorder_rows st' = preorder_rows st"
  "update_one st t pk d me oi = Inr st' \<Longrightarrow> t \<noteq> ''preorders'' \<Longrightarrow> preorder_rows st' = preorder_rows st"
  by (auto simp: insert_into_def update_one_def update_rows_def put_rows_def Let_def res_simps split: if_splits)

text \<open>Writing a name or a namespace leaves the preorders, the history and the accounts alone.\<close>

definition same_past :: "state_engine \<Rightarrow> state_engine \<Rightarrow> bool" where
  "same_past st st' \<longleftrightarrow> preorder_rows st' = preorder_rows st \<and> history_rows st' = history_rows st \<and>
     account_rows st' = account_rows st"

lemma same_past_tables:
  "insert_into st t d = Inr st' \<Longrightarrow> t \<noteq> ''preorders'' \<Longrightarrow> same_past st st'"
  "update_one st t pk d me oi = Inr st' \<Longrightarrow> t \<noteq> ''preorders'' \<Longrightarrow> same_past st st'"
  by (frule other_table_kept(1), assumption, drule insert_into_past, simp add: same_past_def)
    (frule other_table_kept(2), assumption, drule update_one_past, simp add: same_past_def)

lemma same_past_statements:
  "namedb_name_insert vc st r = Inr st' \<Longrightarrow> same_past st st'"
  "namedb_name_update vc st opcode r only_if ignored = Inr st' \<Longrightarrow> same_past st st'"
  "namedb_namespace_insert st r = Inr st' \<Longrightarrow> same_past st st'"
  "namedb_namespace_update st opcode r ignored = Inr st' \<Longrightarrow> same_past st st'"
  by (auto simp: namedb_name_insert_def namedb_name_update_def namedb_namespace_insert_def namedb_namespace_update_def
      rbind_eq_Inr assert_that_eq_Inr dest!: same_past_tables)

lemma split_ifs_past:
  assumes "(if c then if e then namedb_name_update vc st opcode r [] ignored else namedb_name_insert vc st r
    else if e then namedb_namespace_update st opcode r ignored else namedb_namespace_insert st r) = Inr st'"
  shows "same_past st st'"
  using assms same_past_statements by (cases c; cases e) (simp_all only: if_True if_False)

lemma state_create_steps:
  assumes "namedb_state_create vc st opcode r b v txid hid p table ignored = Inr (d, st')"
  shows "\<exists>pop pb pv pt ph rd1 d1 st1 cr vh rd2 st2 st3.
    map_of p ''opcode'' = Some (VStr pop) \<and> map_of p ''block_number'' = Some pb \<and> map_of p ''vtxindex'' = Some pv \<and>
    map_of p ''txid'' = Some pt \<and> map_of p ''preorder_hash'' = Some ph \<and>
    namedb_history_save vc st pop hid VNone VNone pb pv pt rd1 = Inr (d1, st1) \<and>
    namedb_history_save vc st1 opcode hid cr vh (VInt b) v txid rd2 = Inr (d, st2) \<and>
    same_past st2 st3 \<and> st' = namedb_preorder_remove st3 ph" (is "?P d st'")
proof -
  have "post (\<lambda>(d, st'). ?P d st') (namedb_state_create vc st opcode r b v txid hid p table ignored)"
    unfolding namedb_state_create_def Let_def
  proof (intro post_intros, goal_cases)
    case (1 prev ph vb pop pb pv pt vg d1 st1 vh vi vj d2 st2 st3 hash)
    have "same_past st2 st3"
      using 1(15) by (rule split_ifs_past)
    with 1(5-8,16) 1(9) [unfolded 1(10)] 1(13) [unfolded 1(14)] show ?case
      unfolding post_Inr prod.case get_str_eq_Inr getitem_eq_Inr by blast
  qed
  with assms show ?thesis by (auto dest: postD)
qed

lemma history_save_entry:
  assumes "namedb_history_save vc st opcode hid creator value_hash block_id vtxindex txid rec = Inr (d, st')"
  obtains h where "st' = st\<lparr>history_rows := history_rows st @ [h]\<rparr>" "h_history_id h = hid" "h_opcode h = opcode"
    "py_int block_id = Some (h_block_id h)" "txid = VStr (h_txid h)"
  using namedb_history_save_Inr [OF assms] by (elim exE conjE) (rule that, assumption, simp_all)

lemma preorder_remove_str:
  "namedb_preorder_remove st (VStr h) = st\<lparr>preorder_rows := filter (\<lambda>r. dget r ''preorder_hash'' VNone \<noteq> VStr h) (preorder_rows st)\<rparr>"
proof -
  have "(dget r ''preorder_hash'' VNone = VNone \<or> \<not> py_eq (dget r ''preorder_hash'' VNone) (VStr h)) \<longleftrightarrow>
      dget r ''preorder_hash'' VNone \<noteq> VStr h" for r
    by (cases "dget r ''preorder_hash'' VNone") auto
  then show ?thesis
    by (simp add: namedb_preorder_remove_def delete_from_def put_rows_def table_rows_def)
qed

lemma removed_preorder_not_found:
  assumes "preorder_rows st = filter (\<lambda>r. dget r ''preorder_hash'' VNone \<noteq> VStr h) rows"
  shows "namedb_get_name_preorder st h b = Inr None" and "namedb_get_namespace_preorder st h b = Inr None"
proof -
  have none: "\<not> text_col r ''preorder_hash'' h" if "r \<in> set (preorder_rows st)" for r
    using that assms by (auto simp: text_col_def dget_def)
  have "filter (\<lambda>r. text_col r ''preorder_hash'' h \<and> P r) (preorder_rows st) = []" for P
    by (simp add: filter_empty_conv none)
  then show "namedb_get_name_preorder st h b = Inr None" "namedb_get_namespace_preorder st h b = Inr None"
    by (simp_all add: namedb_get_name_preorder_def namedb_get_namespace_preorder_def fetchone_def obind_def)
qed

text \<open>
  C10: A committed registration or reveal uses its preorder up. The preorders are the ones from before
  without those of the preorder's hash, so that neither a name nor a namespace finds a preorder with this hash
  any more, at any block; two entries are appended to the history, one for the preorder at its own point of the chain and one for
  the creation at the current block, both under the name or namespace created; the accounts do not change.
\<close>

theorem creation_uses_preorder:
  assumes "commit_state_create vc st op b = Inr (d, st')" and "\<not> nameop_is_collided op"
    and "map_of op ''__preorder__'' = Some (VDict p)" and "map_of p ''preorder_hash'' = Some (VStr h)"
  shows "preorder_rows st' = filter (\<lambda>r. dget r ''preorder_hash'' VNone \<noteq> VStr h) (preorder_rows st) \<and>
    (\<forall>b'. namedb_get_name_preorder st' h b' = Inr None \<and> namedb_get_namespace_preorder st' h b' = Inr None) \<and>
    (\<exists>h1 h2. history_rows st' = history_rows st @ [h1, h2] \<and> map_of p ''opcode'' = Some (VStr (h_opcode h1)) \<and>
       map_of p ''txid'' = Some (VStr (h_txid h1)) \<and> map_of op ''opcode'' = Some (VStr (h_opcode h2)) \<and> h_block_id h2 = b \<and>
       h_history_id h1 = h_history_id h2) \<and>
    account_rows st' = account_rows st"
proof -
  obtain opcode r v txid hid table ignored where opcode: "map_of op ''opcode'' = Some (VStr opcode)"
    and create: "namedb_state_create vc st opcode r b v txid hid p table ignored = Inr (d, st')"
    using assms(1-3) by (auto simp: commit_state_create_def state_create_get_preorder_def rbind_eq_Inr or_abort_eq_Inr
        get_str_eq_Inr getitem_eq_Inr split: if_split_asm)
  obtain pop pb pv pt rd1 d1 st1 cr vh rd2 st2 st3 where p: "map_of p ''opcode'' = Some (VStr pop)" "map_of p ''txid'' = Some pt"
    and hist: "namedb_history_save vc st pop hid VNone VNone pb pv pt rd1 = Inr (d1, st1)"
      "namedb_history_save vc st1 opcode hid cr vh (VInt b) v txid rd2 = Inr (d, st2)"
    and st3: "same_past st2 st3" "st' = namedb_preorder_remove st3 (VStr h)"
    using state_create_steps [OF create] assms(4) by auto
  obtain h1 where h1: "st1 = st\<lparr>history_rows := history_rows st @ [h1]\<rparr>" "h_history_id h1 = hid" "h_opcode h1 = pop" "pt = VStr (h_txid h1)"
    using history_save_entry [OF hist(1)] by metis
  obtain h2 where h2: "st2 = st1\<lparr>history_rows := history_rows st1 @ [h2]\<rparr>" "h_history_id h2 = hid" "h_opcode h2 = opcode" "h_block_id h2 = b"
    using history_save_entry [OF hist(2)] by (metis option.inject py_int.simps(1))
  from h1 h2 have preorders: "preorder_rows st' = filter (\<lambda>r. dget r ''preorder_hash'' VNone \<noteq> VStr h) (preorder_rows st)"
    using st3 by (simp add: preorder_remove_str same_past_def)
  have rows: "history_rows st' = history_rows st @ [h1, h2]" "account_rows st' = account_rows st"
    using h1 h2 st3 by (simp_all add: preorder_remove_str same_past_def)
  show ?thesis
    using removed_preorder_not_found [OF preorders] preorders rows opcode p h1 h2
    by (intro conjI exI [of _ h1] exI [of _ h2]) simp_all
qed

definition preorder_entry :: pydict where
  "preorder_entry = [(''preorder_hash'', VStr ''bb''), (''consensus_hash'', VStr ''ch''), (''sender'', VStr ''76a9''), (''sender_pubkey'', VNone),
     (''address'', VStr ''1owner''), (''block_number'', VInt 7), (''op'', VStr [NAME_PREORDER]), (''opcode'', VStr ''NAME_PREORDER''), (''op_fee'', VInt 5),
     (''txid'', VStr ''aa''), (''vtxindex'', VInt 1), (''burn_address'', VStr ''1burn''), (''token_fee'', VInt 0), (''token_units'', VStr ''BTC'')]"

definition registration_op :: pydict where
  "registration_op = [(''name'', VStr ''ab.id''), (''preorder_hash'', VStr ''bb''), 
     (''namespace_block_number'', VInt 5), (''value_hash'', VNone),
     (''sender'', VStr ''76a9''), (''sender_pubkey'', VNone), (''address'', VStr ''1owner''), (''block_number'', VInt 7),
     (''preorder_block_number'', VInt 7), (''first_registered'', VInt 8), (''last_renewed'', VInt 8), (''revoked'', VBool False),
     (''op'', VStr [NAME_REGISTRATION]), (''txid'', VStr ''cc''), (''vtxindex'', VInt 3), (''op_fee'', VInt 5), (''importer'', VNone),
     (''importer_address'', VNone), (''consensus_hash'', VNone), (''token_fee'', VStr ''0''), (''last_creation_op'', VStr '':''),
     (''opcode'', VStr ''NAME_REGISTRATION''), (''__preorder__'', VDict preorder_entry),
     (''__table__'', VStr ''name_records''), (''__history_id_key__'', VStr ''name''), (''__state_create__'', VBool True),
     (''__always_set__'', VList [])]"

definition preordered_node :: state_engine where
  "preordered_node = (new_node True [] [])\<lparr>preorder_rows := [discard preorder_entry ''opcode''], lastblock := 20\<rparr>"

lemma registration_commits:
  "case commit_state_create example_vc preordered_node registration_op 21 of Inr (_, st') \<Rightarrow> length (name_rows st') = 1 | Inl _ \<Rightarrow> False"
  by code_simp

theorem creation_uses_preorder_witness:
  "\<exists>d st'. commit_state_create example_vc preordered_node registration_op 21 = Inr (d, st') \<and> length (name_rows st') = 1 \<and>
     length (preorder_rows preordered_node) = 1 \<and> preorder_rows st' = [] \<and> length (history_rows st') = 2"
proof -
  obtain d st' where c: "commit_state_create example_vc preordered_node registration_op 21 = Inr (d, st')"
    and one: "length (name_rows st') = 1"
    using registration_commits by (cases "commit_state_create example_vc preordered_node registration_op 21") auto
  have "\<not> nameop_is_collided registration_op" "map_of registration_op ''__preorder__'' = Some (VDict preorder_entry)"
    "map_of preorder_entry ''preorder_hash'' = Some (VStr ''bb'')"
    by code_simp+
  from creation_uses_preorder [OF c this] c one show ?thesis
    by (auto simp: preordered_node_def new_node_def preorder_entry_def dget_def discard_def)
qed
section \<open>Revealing a namespace again\<close>

lemma state_create_namespace_update:
  assumes "namedb_state_create vc st ''NAMESPACE_REVEAL'' r b v txid hid p table ignored = Inr (d, st')"
    and "namedb_get_namespace st hid (Some b) True True = Inr (Some prev)"
  shows "\<exists>st1 st2. namespace_rows st1 = namespace_rows st \<and> namedb_namespace_update st1 ''NAMESPACE_REVEAL'' r ignored = Inr st2"
proof -
  have op: "''NAMESPACE_REVEAL'' \<notin> set OPCODE_NAME_STATE_CREATIONS"
    by code_simp
  have rows: "namespace_rows st2 = namespace_rows st1" if "namedb_history_save vc st1 n h c w bl v t rd = Inr (x, st2)" for st1 st2 n h c w bl v t rd x
    using that by (rule history_save_entry) simp
  have "post (\<lambda>_. \<exists>st1 st2. namespace_rows st1 = namespace_rows st \<and> namedb_namespace_update st1 ''NAMESPACE_REVEAL'' r ignored = Inr st2)
    (namedb_state_create vc st ''NAMESPACE_REVEAL'' r b v txid hid p table ignored)"
    unfolding namedb_state_create_def Let_def if_not_P [OF op] assms(2)
  proof (intro post_intros, goal_cases)
    case (1 prev' ph vb pop pb pv pt vg d1 st1 vh vi vj d2 st2 st3 hash)
    then have "namespace_rows st2 = namespace_rows st" "namedb_namespace_update st2 ''NAMESPACE_REVEAL'' r ignored = Inr st3"
      by (auto dest!: rows)
    then show ?case
      unfolding post_def by blast
  qed
  with assms(1) show ?thesis
    by (rule postD [rotated])
qed

lemma reveal_mutate_fields:
  "case op_get_mutate_fields ''NAMESPACE_REVEAL'' of Inr fs \<Rightarrow> fs \<noteq> [] \<and> ''op_fee'' \<notin> set fs | Inl _ \<Rightarrow> False"
  by code_simp


definition revealed_row :: pydict where
  "revealed_row = [(''namespace_id'', VStr ''id''), (''preorder_hash'', VStr ''bb''), (''version'', VInt 1), (''sender'', VStr ''76a9''),
     (''sender_pubkey'', VNone), (''address'', VStr ''1creator''), (''recipient'', VStr ''76aa''), (''recipient_address'', VStr ''1reveal''),
     (''block_number'', VInt 5), (''reveal_block'', VInt 6), (''op'', VStr [NAMESPACE_REVEAL]), (''op_fee'', VInt 40), (''txid'', VStr ''aa''),
     (''vtxindex'', VInt 1), (''lifetime'', VInt 9), (''coeff'', VInt 4), (''base'', VInt 4), (''buckets'', VStr ''[1]''),
     (''nonalpha_discount'', VInt 2), (''no_vowel_discount'', VInt 2), (''ready_block'', VInt 0), (''token_fee'', VStr ''0'')]"

definition namespace_preorder_entry :: "int \<Rightarrow> pydict" where
  "namespace_preorder_entry fee = [(''preorder_hash'', VStr ''cc''), (''consensus_hash'', VStr ''ch''), (''sender'', VStr ''76a9''),
     (''sender_pubkey'', VNone), (''address'', VStr ''1creator''), (''block_number'', VInt 30), (''op'', VStr [NAMESPACE_PREORDER]),
     (''opcode'', VStr ''NAMESPACE_PREORDER''), (''op_fee'', VInt fee), (''txid'', VStr ''dd''), (''vtxindex'', VInt 1),
     (''burn_address'', VStr ''1burn''), (''token_fee'', VInt 0), (''token_units'', VStr ''BTC'')]"

definition second_reveal :: "int \<Rightarrow> pydict" where
  "second_reveal fee = [(''namespace_id'', VStr ''id''), (''preorder_hash'', VStr ''cc''), (''version'', VInt 1), (''sender'', VStr ''76a9''),
     (''sender_pubkey'', VNone), (''address'', VStr ''1creator''), (''recipient'', VStr ''76aa''), (''recipient_address'', VStr ''1reveal''),
     (''block_number'', VInt 5), (''reveal_block'', VInt 31), (''op'', VStr [NAMESPACE_REVEAL]), (''op_fee'', VInt fee), (''txid'', VStr ''ee''),
     (''vtxindex'', VInt 2), (''lifetime'', VInt 9), (''coeff'', VInt 4), (''base'', VInt 4), (''buckets'', VStr ''[1]''),
     (''nonalpha_discount'', VInt 2), (''no_vowel_discount'', VInt 2), (''ready_block'', VInt 0), (''token_fee'', VStr ''0''),
     (''opcode'', VStr ''NAMESPACE_REVEAL''), (''__preorder__'', VDict (namespace_preorder_entry fee)),
     (''__table__'', VStr ''namespaces''), (''__history_id_key__'', VStr ''namespace_id''), (''__state_create__'', VBool True),
     (''__always_set__'', VList [])]"

definition revealed_node :: state_engine where
  "revealed_node = (new_node True [] [])\<lparr>namespace_rows := [revealed_row], lastblock := 30\<rparr>"

lemma revealed_found:
  "case namedb_get_namespace revealed_node ''id'' (Some 31) True True of Inr (Some prev) \<Rightarrow> True | _ \<Rightarrow> False"
  by code_simp

lemma second_reveal_same_fee:
  "case commit_state_create example_vc revealed_node (second_reveal 40) 31 of Inr (_, st') \<Rightarrow> length (namespace_rows st') = 1 | Inl _ \<Rightarrow> False"
  by code_simp


end
