(* ===== verification/Vesting.thy ===== *)
theory Vesting
  imports GenesisPatch "HOL-Library.Multiset"
begin

text \<open>
  The total that a vesting schedule has unlocked at a block (\<open>namedb_cumulative_vesting_at\<close> in
  \<open>lib/nameset/db.py\<close>). The code sorts the block heights as text and stops at the first one past the
  block; here it is compared with the plain sum over the schedule. The two agree as long as all
  heights have the same number of digits, which is what makes the order of the texts the order of
  the heights.
\<close>

lemma str_lt_horner:
  assumes "length s = length t" and "list_all (\<lambda>c. decval c \<noteq> None) s" and "list_all (\<lambda>c. decval c \<noteq> None) t"
  shows "str_lt s t \<longleftrightarrow> horner 10 (map (the \<circ> decval) s) < horner 10 (map (the \<circ> decval) t)"
  using assms
proof (induction s t rule: list_induct2)
  case (Cons a s b t)
  define x y where "x = the (decval a)" and "y = the (decval b)"
  have xy: "of_char a = x + 48" "of_char b = y + 48" "x < 10" "y < 10"
    using Cons.prems by (auto simp: x_def y_def decval_def Let_def split: if_splits)
  have digits: "\<forall>d \<in> set (map (the \<circ> decval) r). d < 10" if "list_all (\<lambda>c. decval c \<noteq> None) r" for r
    using that by (fastforce simp: list_all_iff decval_def Let_def split: if_splits)
  define p q k where "p = horner 10 (map (the \<circ> decval) s)" and "q = horner 10 (map (the \<circ> decval) t)"
    and "k = (10::nat) ^ length t"
  have pq: "p < k" "q < k"
    using horner_less [OF digits, of s] horner_less [OF digits, of t] Cons by (simp_all add: p_def q_def k_def)
  have less: "u * k + p' < v * k + q'" if "u < v" "p' < k" for u v p' q' :: nat
  proof -
    have "Suc u * k \<le> v * k"
      using that(1) by (intro mult_le_mono1) simp
    then show ?thesis
      using that(2) by simp
  qed
  have same: "a = b \<longleftrightarrow> x = y"
    using xy by (metis add_right_cancel of_char_eq_iff)
  have "(if a = b then p < q else x < y) \<longleftrightarrow> x * k + p < y * k + q"
    using same less [of x y p q] less [of y x q p] pq by (cases x y rule: linorder_cases) auto
  moreover have "str_lt (a # s) (b # t) \<longleftrightarrow> (if a = b then p < q else x < y)"
    using Cons xy(1,2) by (simp add: p_def q_def comp_def)
  moreover have "horner 10 (map (the \<circ> decval) (a # s)) = x * k + p" "horner 10 (map (the \<circ> decval) (b # t)) = y * k + q"
    using Cons.hyps by (simp_all add: horner_Cons p_def q_def k_def x_def y_def)
  ultimately show ?case
    by (simp only:)
qed simp

text \<open>Two numbers with the same number of digits are ordered as their texts are.\<close>

lemma str_le_of_int:
  assumes "0 \<le> a" and "0 \<le> b" and "length (str_of_int a) = length (str_of_int b)"
  shows "str_le (str_of_int a) (str_of_int b) \<longleftrightarrow> a \<le> b"
proof -
  have n: "nat_of_str (str_of_int i) = Some (nat i)" if "0 \<le> i" for i
    using that by (simp add: str_of_int_def)
  have "str_lt (str_of_int a) (str_of_int b) \<longleftrightarrow> nat a < nat b"
    using n [OF assms(1)] n [OF assms(2)] str_lt_horner [OF assms(3)] by (auto simp: nat_of_str_def split: if_splits)
  moreover have "str_of_int a = str_of_int b \<longleftrightarrow> a = b"
    by (metis int_of_str_of_int Inr_inject)
  ultimately show ?thesis
    using assms(1,2) by (auto simp: str_le_def)
qed

definition heights :: "nat \<Rightarrow> (int \<times> int) list \<Rightarrow> bool" where
  "heights n vs = (\<forall>(b, v) \<in> set vs. 0 \<le> b \<and> length (str_of_int b) = n)"

lemma insert_str_text:
  assumes "heights n (x # vs)"
  shows "insert_str (str_of_int (fst x), snd x) (vesting_text vs) = vesting_text (insort_key fst x vs)"
  using assms by (induction vs) (auto simp: vesting_text_def heights_def str_le_of_int)

lemma sort_str_text: "heights n vs \<Longrightarrow> sort_str (vesting_text vs) = vesting_text (sort_key fst vs)"
proof (induction vs)
  case (Cons x vs)
  then have "heights n (x # sort_key fst vs)"
    by (simp add: heights_def)
  with Cons insert_str_text [of n x "sort_key fst vs"] show ?case
    by (auto simp: heights_def sort_str_def vesting_text_def split_beta)
qed (simp add: sort_str_def vesting_text_def)

lemma vesting_total_loop_sorted:
  assumes "sorted (map fst vs)"
  shows "vesting_total_loop (vesting_text vs) h acc = Inr (acc + sum_list (map snd (filter (\<lambda>(b, v). b \<le> h) vs)))"
  using assms
proof (induction vs arbitrary: acc)
  case (Cons x vs)
  have "filter (\<lambda>a. fst a \<le> h) vs = []" if "h < fst x"
    using that Cons.prems by (auto simp: filter_empty_conv)
  with Cons show ?case
    by (auto simp: vesting_text_def split_beta add.assoc)
qed (simp add: vesting_text_def)



text \<open>
  With heights of different lengths the scan can stop early: the text 100 comes before the text 99, so
  at block 99 nothing counts as unlocked although five units are.
\<close>

lemma cumulative_vesting_mixed_digits:
  "namedb_cumulative_vesting_at (vesting_text [(99, 5), (100, 7)]) 99 = Inr 0"
  by code_simp

end
