(* ===== verification/Base64.thy ===== *)
theory Base64
  imports Prelude PyString
begin

text \<open>
  \<open>base64.b64encode\<close> and \<open>base64.b64decode\<close> of Python 2. Decoding skips characters outside the alphabet
  and pads in the wrong places, ends at a pad in a right place, and raises \<open>TypeError\<close> when bits are left over.
\<close>

definition B64 :: string where
  "B64 = ''ABCDEFGHIJKLMNOPQRSTUVWXYZabcdefghijklmnopqrstuvwxyz0123456789+/''"

definition b64_char :: "nat \<Rightarrow> char" where
  "b64_char v = B64 ! v"

fun b64encode :: "string \<Rightarrow> string" where
  "b64encode (a # b # c # s) =
    (let x = of_char a; y = of_char b; z = of_char c in
     [b64_char (x div 4), b64_char (x mod 4 * 16 + y div 16), b64_char (y mod 16 * 4 + z div 64), b64_char (z mod 64)]
       @ b64encode s)"
| "b64encode [a, b] =
    (let x = of_char a; y = of_char b in
     [b64_char (x div 4), b64_char (x mod 4 * 16 + y div 16), b64_char (y mod 16 * 4), CHR ''=''])"
| "b64encode [a] = (let x = of_char a in [b64_char (x div 4), b64_char (x mod 4 * 16), CHR ''='', CHR ''=''])"
| "b64encode [] = []"

definition b64_valid :: "char \<Rightarrow> bool" where
  "b64_valid c = (c \<in> set B64 \<or> c = CHR ''='')"

definition pad_follows :: "string \<Rightarrow> bool" where
  "pad_follows s = (case filter b64_valid s of c # _ \<Rightarrow> c = CHR ''='' | [] \<Rightarrow> False)"

text \<open>The loop of \<open>binascii.a2b_base64\<close>, with the position in the group of four and the bits read but not yet written.\<close>

fun a2b_loop :: "string \<Rightarrow> nat \<Rightarrow> nat \<Rightarrow> nat \<Rightarrow> string res" where
  "a2b_loop [] quad_pos leftchar leftbits = (if leftbits \<noteq> 0 then Inl TypeError else Inr [])"
| "a2b_loop (c # s) quad_pos leftchar leftbits =
    (if c = CHR ''='' \<and> (quad_pos < 2 \<or> quad_pos = 2 \<and> \<not> pad_follows s) then a2b_loop s quad_pos leftchar leftbits
     else if c = CHR ''='' then Inr []
     else case find_char c B64 of
       None \<Rightarrow> a2b_loop s quad_pos leftchar leftbits
     | Some v \<Rightarrow>
         let quad_pos = (quad_pos + 1) mod 4; leftchar = leftchar * 64 + v; leftbits = leftbits + 6 in
         if leftbits \<ge> 8 then
           rbind (a2b_loop s quad_pos (leftchar mod 2 ^ (leftbits - 8)) (leftbits - 8)) (\<lambda>out.
             Inr (char_of (leftchar div 2 ^ (leftbits - 8) mod 256) # out))
         else a2b_loop s quad_pos leftchar leftbits)"

definition b64decode :: "string \<Rightarrow> string res" where
  "b64decode s = a2b_loop s 0 0 0"

section \<open>Round trip\<close>

lemma b64_char_props:
  assumes "v < 64"
  shows "find_char (b64_char v) B64 = Some v" "b64_char v \<noteq> CHR ''=''" "b64_char v \<in> set B64"
proof -
  have "\<forall>v \<in> set [0..<64]. find_char (b64_char v) B64 = Some v \<and> b64_char v \<noteq> CHR ''='' \<and> b64_char v \<in> set B64"
    by code_simp
  then show "find_char (b64_char v) B64 = Some v" "b64_char v \<noteq> CHR ''=''" "b64_char v \<in> set B64"
    using assms by auto
qed

declare a2b_loop.simps(2) [simp del]

lemma a2b_digit:
  assumes "v < 64"
  shows "a2b_loop (b64_char v # s) quad_pos leftchar leftbits =
    (if leftbits \<ge> 2 then
       rbind (a2b_loop s ((quad_pos + 1) mod 4) ((leftchar * 64 + v) mod 2 ^ (leftbits - 2)) (leftbits - 2)) (\<lambda>out.
         Inr (char_of ((leftchar * 64 + v) div 2 ^ (leftbits - 2) mod 256) # out))
     else a2b_loop s ((quad_pos + 1) mod 4) (leftchar * 64 + v) (leftbits + 6))"
  using b64_char_props [OF assms] by (simp add: a2b_loop.simps(2) Let_def)

lemma a2b_pad:
  "a2b_loop (CHR ''='' # s) quad_pos leftchar leftbits =
    (if quad_pos < 2 \<or> quad_pos = 2 \<and> \<not> pad_follows s then a2b_loop s quad_pos leftchar leftbits else Inr [])"
  by (simp add: a2b_loop.simps(2))

text \<open>A group of four digits gives three bytes; an incomplete group one or two.\<close>

lemma a2b_group:
  assumes "v1 < 64" "v2 < 64" "v3 < 64" "v4 < 64"
  shows "a2b_loop (b64_char v1 # b64_char v2 # b64_char v3 # b64_char v4 # s) 0 0 0 =
    rbind (a2b_loop s 0 0 0) (\<lambda>out. Inr (char_of ((v1 * 64 + v2) div 16 mod 256) #
      char_of (((v1 * 64 + v2) mod 16 * 64 + v3) div 4 mod 256) # char_of ((((v1 * 64 + v2) mod 16 * 64 + v3) mod 4 * 64 + v4) mod 256) # out))"
  using assms by (simp add: a2b_digit rbind_assoc mod_Suc)

lemma a2b_partial:
  assumes "v1 < 64" "v2 < 64" "v3 < 64"
  shows "a2b_loop [b64_char v1, b64_char v2, b64_char v3, CHR ''=''] 0 0 0 =
      Inr [char_of ((v1 * 64 + v2) div 16 mod 256), char_of (((v1 * 64 + v2) mod 16 * 64 + v3) div 4 mod 256)]"
    "a2b_loop [b64_char v1, b64_char v2, CHR ''='', CHR ''=''] 0 0 0 = Inr [char_of ((v1 * 64 + v2) div 16 mod 256)]"
  using assms by (simp_all add: a2b_digit a2b_pad pad_follows_def b64_valid_def)

lemma split_byte:
  fixes x p q r k :: nat
  assumes "r < k" and "x = p * q + s" and "k * q = 64"
  shows "(p * 64 + (s * k + r)) div k = x" "(p * 64 + (s * k + r)) mod k = r"
proof -
  have e: "p * 64 + (s * k + r) = x * k + r"
    using assms(2) arg_cong [OF assms(3), of "\<lambda>n. p * n"] by (simp add: algebra_simps)
  show "(p * 64 + (s * k + r)) div k = x" "(p * 64 + (s * k + r)) mod k = r"
    unfolding e using assms(1) by simp_all
qed

lemma split_bytes:
  fixes x y z :: nat
  assumes "x < 256" and "y < 256" and "z < 256"
  shows "(x div 4 * 64 + (x mod 4 * 16 + y div 16)) div 16 = x" "(x div 4 * 64 + (x mod 4 * 16 + y div 16)) mod 16 = y div 16"
    "(y div 16 * 64 + (y mod 16 * 4 + z div 64)) div 4 = y" "(y div 16 * 64 + (y mod 16 * 4 + z div 64)) mod 4 = z div 64"
    "z div 64 * 64 + z mod 64 = z" "x div 4 < 64" "x mod 4 * 16 + y div 16 < 64" "y mod 16 * 4 + z div 64 < 64" "z mod 64 < 64"
proof -
  have y: "y div 16 < 16" and z: "z div 64 < 4"
    using assms(2,3) by auto
  have x4: "x = x div 4 * 4 + x mod 4" and y16: "y = y div 16 * 16 + y mod 16"
    by simp_all
  show "(x div 4 * 64 + (x mod 4 * 16 + y div 16)) div 16 = x" "(x div 4 * 64 + (x mod 4 * 16 + y div 16)) mod 16 = y div 16"
    using split_byte [OF y x4] by simp_all
  show "(y div 16 * 64 + (y mod 16 * 4 + z div 64)) div 4 = y" "(y div 16 * 64 + (y mod 16 * 4 + z div 64)) mod 4 = z div 64"
    using split_byte [OF z y16] by simp_all
  have "x mod 4 < 4" "y mod 16 < 16"
    by simp_all
  then show "x mod 4 * 16 + y div 16 < 64" "y mod 16 * 4 + z div 64 < 64"
    using y z by linarith+
qed (use assms in auto)

lemma b64_roundtrip [simp]: "b64decode (b64encode s) = Inr s"
proof -
  have "a2b_loop (b64encode s) 0 0 0 = Inr s"
  proof (induction s rule: b64encode.induct)
    case (1 a b c s)
    note s = split_bytes [of "of_char a" "of_char b" "of_char c", OF of_char_less of_char_less of_char_less]
    show ?case
      using 1 [OF refl refl refl] a2b_group [OF s(6-9)] s(1-5) by (simp add: Let_def)
  next
    case (2 a b)
    note s = split_bytes [of "of_char a" "of_char b" 0, OF of_char_less of_char_less]
    show ?case
      using a2b_partial(1) [of "of_char a div 4" "of_char a mod 4 * 16 + of_char b div 16" "of_char b mod 16 * 4"] s
      by (simp add: Let_def)
  next
    case (3 a)
    note s = split_bytes [of "of_char a" 0 0, OF of_char_less]
    show ?case
      using a2b_partial(2) [of "of_char a div 4" "of_char a mod 4 * 16" 0] s by (simp add: Let_def)
  qed simp
  then show ?thesis
    by (simp add: b64decode_def)
qed

lemma b64encode_chars: "set (b64encode s) \<subseteq> insert (CHR ''='') (set B64)"
proof (induction s rule: b64encode.induct)
  case (1 a b c s)
  then show ?case
    using split_bytes(6-9) [of "of_char a" "of_char b" "of_char c"] b64_char_props(3) by (simp add: Let_def)
next
  case (2 a b)
  then show ?case
    using split_bytes(6-8) [of "of_char a" "of_char b" 0] b64_char_props(3) by (simp add: Let_def)
next
  case (3 a)
  then show ?case
    using split_bytes(6,7) [of "of_char a" 0 0] b64_char_props(3) by (simp add: Let_def)
qed simp

end
