(* ===== verification/Subdomains.thy ===== *)
theory Subdomains
  imports Scripts Sha256 Base64 "HOL-Library.Sublist"
begin

text \<open>
  Records of subdomains (\<open>lib/subdomains.py\<close>): their text form in a zone file, how they are parsed, whose
  signature they carry, and when one record may follow another. Parsing zone files (package
  \<open>blockstack_zones\<close>, with the validation by \<open>jsonschema\<close>) and signatures (packages \<open>virtualchain\<close> and
  \<open>keylib\<close>) are parameters.
\<close>

section \<open>Parameters\<close>

text \<open>
  The functions of \<open>virtualchain\<close> and \<open>keylib\<close> that checking a signature calls: \<open>btc_script_deserialize\<close>,
  \<open>b58check_version_byte\<close> and \<open>parse_multisig_redeemscript\<close>, which raise on malformed input, the address of a public
  key or of a redeem script, and the verification of a digest given as digest, public key and signature.
\<close>

record signature_lib =
  script_parts :: "string \<Rightarrow> string list option"
  b58check_version_byte :: "string \<Rightarrow> int option"
  multisig_version_byte :: int
  public_key_to_address :: "string \<Rightarrow> string"
  btc_make_p2sh_address :: "string \<Rightarrow> string"
  parse_multisig_redeemscript :: "string \<Rightarrow> (int \<times> string list) option"
  verify_digest :: "string \<Rightarrow> string \<Rightarrow> string \<Rightarrow> bool"

definition or_value_error :: "'a option \<Rightarrow> 'a res" where
  "or_value_error r = (case r of Some x \<Rightarrow> Inr x | None \<Rightarrow> Inl ValueError)"

definition reencode :: "virtualchain \<Rightarrow> string \<Rightarrow> string res" where
  "reencode vc address = or_value_error (address_reencode vc address)"

section \<open>Strings\<close>

text \<open>\<open>s.endswith(t)\<close>, \<open>s.startswith(t)\<close>, \<open>s.split(c, 1)\<close> and the two replacements of equals signs.\<close>

definition endswith :: "string \<Rightarrow> string \<Rightarrow> bool" where
  "endswith s t = (length t \<le> length s \<and> drop (length s - length t) s = t)"

definition startswith :: "string \<Rightarrow> string \<Rightarrow> bool" where
  "startswith s t = (take (length t) s = t)"

definition split_first :: "char \<Rightarrow> string \<Rightarrow> (string \<times> string) option" where
  "split_first c s = (case dropWhile (\<lambda>x. x \<noteq> c) s of [] \<Rightarrow> None | _ # t \<Rightarrow> Some (takeWhile (\<lambda>x. x \<noteq> c) s, t))"

definition BACKSLASH :: char where
  "BACKSLASH = CHR 0x5C"

definition escape_equals :: "string \<Rightarrow> string" where
  "escape_equals s = concat (map (\<lambda>c. if c = CHR ''='' then [BACKSLASH, CHR ''=''] else [c]) s)"

fun unescape_equals :: "string \<Rightarrow> string" where
  "unescape_equals (c # d # s) =
    (if c = BACKSLASH \<and> d = CHR ''='' then CHR ''='' # unescape_equals s else c # unescape_equals (d # s))"
| "unescape_equals s = s"

section \<open>Subdomain records\<close>

text \<open>
  \<open>class Subdomain\<close>. The attribute \<open>independent\<close> is a function of two others; the leaf name is what
  \<open>is_address_subdomain\<close> gives.
\<close>

record subdomain =
  sd_fqn :: string
  sd_domain :: string
  sd_address :: string
  sd_n :: int
  sd_zonefile_str :: string
  sd_sig :: "string option"
  sd_block_height :: int
  sd_parent_zonefile_hash :: string
  sd_parent_zonefile_index :: int
  sd_zonefile_offset :: int
  sd_txid :: string
  sd_zonefiles_missing :: "int list"
  sd_accepted :: bool
  sd_resolver :: "string option"

definition init_subdomain :: "subdomain \<Rightarrow> subdomain res" where
  "init_subdomain s = assert_that (is_subdomain (sd_fqn s)) (Inr s)"

definition independent :: "subdomain \<Rightarrow> bool" where
  "independent s = (\<not> endswith (sd_fqn s) (CHR ''.'' # sd_domain s))"

definition txt_encode_key_value :: "string \<Rightarrow> string \<Rightarrow> string" where
  "txt_encode_key_value key value = key @ ''='' @ escape_equals value"

definition zf_pieces :: "string \<Rightarrow> string list res" where
  "zf_pieces encoded_zf =
    (let n_pieces = length encoded_zf div 250 + 1 - (if length encoded_zf mod 250 = 0 then 1 else 0) in
     rmap (\<lambda>i. let piece = take 250 (drop (i * 250) encoded_zf) in assert_that (length piece \<noteq> 0) (Inr piece))
       [0..<n_pieces])"

definition pack_subdomain :: "subdomain \<Rightarrow> string list res" where
  "pack_subdomain s =
    rbind (if independent s then Inr (sd_fqn s)
           else case snd (is_address_subdomain (sd_fqn s)) of Some (subdomain_name, _) \<Rightarrow> Inr subdomain_name | None \<Rightarrow> Inl TypeError)
      (\<lambda>name.
    rbind (zf_pieces (b64encode (sd_zonefile_str s))) (\<lambda>pieces.
      Inr ([name, txt_encode_key_value ''owner'' (sd_address s), txt_encode_key_value ''seqn'' (str_of_int (sd_n s)),
            txt_encode_key_value ''parts'' (str_of_int (int (length pieces)))] @
           map (\<lambda>(i, piece). txt_encode_key_value (''zf'' @ str_of_int (int i)) piece) (enumerate 0 pieces) @
           (case sd_sig s of None \<Rightarrow> [] | Some sig \<Rightarrow> [txt_encode_key_value ''sig'' sig]))))"

definition get_plaintext_to_sign :: "subdomain \<Rightarrow> string res" where
  "get_plaintext_to_sign s =
    rbind (pack_subdomain s) (\<lambda>as_strings. Inr (join_with '','' (if sd_sig s \<noteq> None then butlast as_strings else as_strings)))"

section \<open>Signatures\<close>

definition verify_singlesig :: "virtualchain \<Rightarrow> signature_lib \<Rightarrow> string \<Rightarrow> string \<Rightarrow> string \<Rightarrow> bool res" where
  "verify_singlesig vc lib address hash_hex scriptSig = (case script_parts lib scriptSig of
     Some [sighex, pubkey_hex] \<Rightarrow>
       rbind (reencode vc (public_key_to_address lib pubkey_hex)) (\<lambda>signer.
       rbind (reencode vc address) (\<lambda>owner.
         if signer \<noteq> owner then Inr False
         else rbind (unhexlify sighex) (\<lambda>sig. Inr (verify_digest lib hash_hex pubkey_hex (b64encode sig)))))
   | _ \<Rightarrow> Inr False)"

text \<open>Each signature is tried against the keys that are left, in order; the keys it fails on are passed over.\<close>

fun multisig_loop :: "(string \<Rightarrow> string \<Rightarrow> bool) \<Rightarrow> string list \<Rightarrow> string list \<Rightarrow> bool res" where
  "multisig_loop passed [] pubk_hexes = Inr True"
| "multisig_loop passed (cur_sig # script_sigs) pubk_hexes =
    rbind (unhexlify cur_sig) (\<lambda>sig.
      case dropWhile (\<lambda>pubk. \<not> passed pubk (b64encode sig)) pubk_hexes of
        [] \<Rightarrow> Inr False
      | _ # pubk_hexes \<Rightarrow> multisig_loop passed script_sigs pubk_hexes)"

definition verify_multisig :: "virtualchain \<Rightarrow> signature_lib \<Rightarrow> string \<Rightarrow> string \<Rightarrow> string \<Rightarrow> bool res" where
  "verify_multisig vc lib address hash_hex scriptSig =
    rbind (or_value_error (script_parts lib scriptSig)) (\<lambda>parts.
      if length parts < 2 then Inr False
      else
        let redeem_script = last parts; script_sigs = butlast (tl parts) in
        rbind (reencode vc (btc_make_p2sh_address lib redeem_script)) (\<lambda>signer.
        rbind (reencode vc address) (\<lambda>owner.
          if signer \<noteq> owner then Inr False
          else rbind (or_value_error (parse_multisig_redeemscript lib redeem_script)) (\<lambda>(m, pubk_hexes).
            if int (length script_sigs) \<noteq> m then Inr False
            else multisig_loop (verify_digest lib hash_hex) script_sigs pubk_hexes))))"

definition verify :: "virtualchain \<Rightarrow> signature_lib \<Rightarrow> string \<Rightarrow> string \<Rightarrow> string option \<Rightarrow> bool res" where
  "verify vc lib address plaintext scriptSigb64 = (case scriptSigb64 of
     None \<Rightarrow> Inl AssertionError
   | Some scriptSigb64 \<Rightarrow>
       rbind (b64decode scriptSigb64) (\<lambda>scriptSig.
         let hash_hex = hexlify (sha256 plaintext) in
         rbind (or_value_error (b58check_version_byte lib address)) (\<lambda>vb.
           if vb = version_byte vc then verify_singlesig vc lib address hash_hex scriptSig
           else if vb = multisig_version_byte lib then verify_multisig vc lib address hash_hex scriptSig
           else Inl (Exception ''NotImplementedError''))))"

definition verify_signature :: "virtualchain \<Rightarrow> signature_lib \<Rightarrow> subdomain \<Rightarrow> string \<Rightarrow> bool res" where
  "verify_signature vc lib s addr =
    rbind (reencode vc addr) (\<lambda>address. rbind (get_plaintext_to_sign s) (\<lambda>plaintext. verify vc lib address plaintext (sd_sig s)))"

section \<open>Parsing\<close>

text \<open>
  A TXT record of a parsed zone file: its name, and one string or a list of strings. The zone file has an
  origin and possibly URI records (name and target) and TXT records.
\<close>

record txt_rr =
  rr_name :: string
  rr_txt :: "string + string list"

record zonefile =
  zf_origin :: string
  zf_uri :: "(string \<times> string) list option"
  zf_txt :: "txt_rr list option"

definition SUBDOMAIN_TXT_RR_RESERVED :: "string list" where
  "SUBDOMAIN_TXT_RR_RESERVED = [''_missing'', ''_resolver'', ''_registrar'']"

abbreviation ParseError :: pyerr where
  "ParseError \<equiv> Exception ''ParseError''"

definition or_parse_error :: "'a res \<Rightarrow> 'a res" where
  "or_parse_error r = (case r of Inl _ \<Rightarrow> Inl ParseError | Inr x \<Rightarrow> Inr x)"

definition int_list :: "string \<Rightarrow> int list res" where
  "int_list s = rmap int_of_str (split_on CHR '','' s)"

definition parse_subdomain_missing_zonefiles_record :: "txt_rr \<Rightarrow> int list res" where
  "parse_subdomain_missing_zonefiles_record rec = (case rr_txt rec of
     Inr _ \<Rightarrow> Inl ParseError
   | Inl txt_entry \<Rightarrow> if txt_entry = [] then Inr [] else or_parse_error (int_list txt_entry))"

definition is_subdomain_missing_zonefiles_record :: "txt_rr \<Rightarrow> bool" where
  "is_subdomain_missing_zonefiles_record rec = (rr_name rec = ''_missing'' \<and> (case rr_txt rec of
     Inr _ \<Rightarrow> False
   | Inl txt_entry \<Rightarrow> (case int_list txt_entry of Inl _ \<Rightarrow> False | Inr _ \<Rightarrow> True)))"

definition is_subdomain_record :: "txt_rr \<Rightarrow> bool" where
  "is_subdomain_record rec = (case rr_txt rec of
     Inl _ \<Rightarrow> False
   | Inr txt_entry \<Rightarrow> list_ex (\<lambda>e. startswith e ''parts='') txt_entry \<and> list_ex (\<lambda>e. startswith e ''owner='') txt_entry \<and>
       list_ex (\<lambda>e. startswith e ''seqn='') txt_entry)"

fun txt_entries :: "string list \<Rightarrow> (string \<times> string) list \<Rightarrow> (string \<times> string) list res" where
  "txt_entries [] entries = Inr entries"
| "txt_entries (item # items) entries = (case split_first CHR ''='' item of
     None \<Rightarrow> Inl ValueError
   | Some (key, val) \<Rightarrow>
       if map_of entries key \<noteq> None then Inl ParseError
       else txt_entries items (entries @ [(key, unescape_equals val)]))"

definition entry :: "(string \<times> string) list \<Rightarrow> string \<Rightarrow> string res" where
  "entry entries key = (case map_of entries key of Some v \<Rightarrow> Inr v | None \<Rightarrow> Inl (KeyError key))"

text \<open>A record without a signature gets the text \<open>None\<close> as its signature (\<open>str(None)\<close>).\<close>

definition parse_subdomain_record ::
    "string \<Rightarrow> txt_rr \<Rightarrow> int \<Rightarrow> string \<Rightarrow> int \<Rightarrow> int \<Rightarrow> string \<Rightarrow> int list \<Rightarrow> string option \<Rightarrow> subdomain res" where
  "parse_subdomain_record domain_name rec block_height parent_zonefile_hash parent_zonefile_index zonefile_offset txid
      domain_zonefiles_missing resolver = (case rr_txt rec of
     Inl _ \<Rightarrow> Inl ParseError
   | Inr txt_entry \<Rightarrow>
       rbind (txt_entries txt_entry []) (\<lambda>entries.
       rbind (entry entries ''owner'') (\<lambda>pubkey.
       rbind (entry entries ''seqn'') (\<lambda>n.
       rbind (rbind (entry entries ''parts'') (\<lambda>v. or_parse_error (int_of_str v))) (\<lambda>zonefile_parts.
       rbind (or_parse_error (int_of_str n)) (\<lambda>n.
       rbind (rmap (\<lambda>zf_index. entry entries (''zf'' @ str_of_int (int zf_index))) [0..<nat zonefile_parts]) (\<lambda>pieces.
       rbind (if is_subdomain (rr_name rec) then Inr (rr_name rec)
              else
                let subd_name = rr_name rec @ ''.'' @ domain_name in
                if is_name_valid (VStr domain_name) \<and> is_subdomain subd_name then Inr subd_name else Inl ParseError) (\<lambda>subd_name.
       rbind (b64decode (concat pieces)) (\<lambda>zonefile_str.
         init_subdomain \<lparr>sd_fqn = subd_name, sd_domain = domain_name, sd_address = pubkey, sd_n = n,
           sd_zonefile_str = zonefile_str, sd_sig = Some (case map_of entries ''sig'' of Some sig \<Rightarrow> sig | None \<Rightarrow> ''None''),
           sd_block_height = block_height, sd_parent_zonefile_hash = parent_zonefile_hash,
           sd_parent_zonefile_index = parent_zonefile_index, sd_zonefile_offset = zonefile_offset, sd_txid = txid,
           sd_zonefiles_missing = domain_zonefiles_missing, sd_accepted = False, sd_resolver = resolver\<rparr>)))))))))"

text \<open>
  One round of the loop over the TXT records: the number of records parsed so far, and for each name the record
  with the lowest sequence number, with its position.
\<close>

definition decode_step ::
    "string \<Rightarrow> int \<Rightarrow> string \<Rightarrow> int \<Rightarrow> string \<Rightarrow> int list \<Rightarrow> string option \<Rightarrow>
     int \<times> (string \<times> nat \<times> subdomain) list \<Rightarrow> nat \<times> txt_rr \<Rightarrow> (int \<times> (string \<times> nat \<times> subdomain) list) res" where
  "decode_step domain block_height zonefile_hash zonefile_index txid missing resolver_url state itxt =
    (case (state, itxt) of ((zonefile_offset, subdomains), (i, txt)) \<Rightarrow>
       let txt_lower = txt\<lparr>rr_name := str_lower (rr_name txt)\<rparr> in
       if \<not> is_subdomain_record txt \<or> rr_name txt_lower \<in> set SUBDOMAIN_TXT_RR_RESERVED then Inr (zonefile_offset, subdomains)
       else case parse_subdomain_record domain txt_lower block_height zonefile_hash zonefile_index zonefile_offset txid missing
                   resolver_url of
         Inl e \<Rightarrow> if e = ParseError then Inr (zonefile_offset, subdomains) else Inl e
       | Inr subrec \<Rightarrow> Inr (zonefile_offset + 1,
           case map_of subdomains (sd_fqn subrec) of
             None \<Rightarrow> AList.update (sd_fqn subrec) (i, subrec) subdomains
           | Some (_, old) \<Rightarrow> if sd_n subrec < sd_n old then AList.update (sd_fqn subrec) (i, subrec) subdomains else subdomains))"

definition missing_zonefiles :: "txt_rr list \<Rightarrow> int list res" where
  "missing_zonefiles txts =
    rbind (rfold (\<lambda>missing txt.
      if \<not> is_subdomain_missing_zonefiles_record txt then Inr missing
      else if missing \<noteq> None then Inl ValueError
      else case parse_subdomain_missing_zonefiles_record txt of Inr l \<Rightarrow> Inr (Some l) | Inl _ \<Rightarrow> Inr missing) None txts) (\<lambda>missing.
    Inr (case missing of None \<Rightarrow> [] | Some l \<Rightarrow> l))"

text \<open>\<open>zonefile_hash\<close> is the hash of the text; \<open>parse_zone_file\<close> parses and validates it.\<close>

definition decode_zonefile_subdomains ::
    "(string \<Rightarrow> string) \<Rightarrow> (string \<Rightarrow> zonefile option) \<Rightarrow> string \<Rightarrow> string \<Rightarrow> int \<Rightarrow> int \<Rightarrow> string \<Rightarrow> subdomain list option" where
  "decode_zonefile_subdomains data_hash parse_zone_file domain zonefile_txt block_height zonefile_index txid =
    (case rbind (or_value_error (parse_zone_file zonefile_txt)) (\<lambda>zf.
       assert_that (zf_origin zf = domain)
        (let resolver_url = (case zf_uri zf of None \<Rightarrow> None
               | Some uris \<Rightarrow> map_option snd (List.find (\<lambda>(name, _). name = ''_resolver'') uris));
             txts = (case zf_txt zf of None \<Rightarrow> [] | Some txts \<Rightarrow> txts)
         in rbind (missing_zonefiles txts) (\<lambda>missing.
            rbind (rfold (decode_step domain block_height (data_hash zonefile_txt) zonefile_index txid missing resolver_url)
                (0, []) (enumerate 0 txts)) (\<lambda>(_, subdomains).
              Inr (map snd (sort_key fst (map snd subdomains))))))) of
       Inl _ \<Rightarrow> None
     | Inr subdomain_list \<Rightarrow> Some subdomain_list)"

section \<open>Transitions\<close>

definition check_subdomain_transition :: "virtualchain \<Rightarrow> signature_lib \<Rightarrow> subdomain \<Rightarrow> subdomain \<Rightarrow> bool res" where
  "check_subdomain_transition vc lib existing_subrec new_subrec =
    (if sd_fqn existing_subrec \<noteq> sd_fqn new_subrec \<or> sd_n existing_subrec + 1 \<noteq> sd_n new_subrec then Inr False
     else rbind (verify_signature vc lib new_subrec (sd_address existing_subrec)) (\<lambda>ok.
       if \<not> ok then Inr False
       else rbind (reencode vc (sd_address existing_subrec)) (\<lambda>old_owner.
            rbind (reencode vc (sd_address new_subrec)) (\<lambda>new_owner.
              Inr (old_owner = new_owner \<or> \<not> independent new_subrec)))))"

definition check_initial_subdomain :: "subdomain \<Rightarrow> bool" where
  "check_initial_subdomain subdomain_rec = (sd_n subdomain_rec = 0 \<and> \<not> independent subdomain_rec)"

section \<open>Round trip\<close>

text \<open>The TXT record that \<open>serialize_to_txt\<close> makes of a subdomain record and hands to \<open>blockstack_zones\<close> for printing.\<close>

definition serialize_to_txt :: "subdomain \<Rightarrow> txt_rr res" where
  "serialize_to_txt s = rbind (pack_subdomain s) (\<lambda>strings. Inr \<lparr>rr_name = hd strings, rr_txt = Inr (tl strings)\<rparr>)"

lemma unescape_escape [simp]: "unescape_equals (escape_equals s) = s"
proof (induction s)
  case (Cons c s)
  have "unescape_equals (c # escape_equals s) = c # unescape_equals (escape_equals s)" if "c \<noteq> CHR ''=''"
  proof (cases s)
    case (Cons d t)
    then show ?thesis
      using that by (cases "d = CHR ''=''") (simp_all add: escape_equals_def BACKSLASH_def)
  qed (simp add: escape_equals_def)
  with Cons show ?case
    by (cases "c = CHR ''=''") (simp_all add: escape_equals_def)
qed (simp add: escape_equals_def)

lemma split_first_key: "CHR ''='' \<notin> set k \<Longrightarrow> split_first CHR ''='' (txt_encode_key_value k v) = Some (k, escape_equals v)"
  by (auto simp: split_first_def txt_encode_key_value_def dropWhile_append takeWhile_append split: list.split)

lemma txt_entries_encoded:
  assumes "distinct (map fst (acc @ kvs))" and "\<forall>(k, v) \<in> set kvs. CHR ''='' \<notin> set k"
  shows "txt_entries (map (\<lambda>(k, v). txt_encode_key_value k v) kvs) acc = Inr (acc @ kvs)"
  using assms
proof (induction kvs arbitrary: acc)
  case (Cons kv kvs)
  obtain k v where kv: "kv = (k, v)" by (cases kv)
  have "\<forall>y. (k, y) \<notin> set acc"
    using Cons.prems(1) by (force simp: kv)
  then show ?case
    using Cons.prems Cons.IH [of "acc @ [(k, v)]"] by (simp add: kv split_first_key)
qed simp

lemma zf_pieces_concat: "\<exists>pieces. zf_pieces e = Inr pieces \<and> concat pieces = e"
proof -
  define n where "n = length e div 250 + 1 - (if length e mod 250 = 0 then 1 else 0)"
  define piece where "piece i = take 250 (drop (i * 250) e)" for i
  have le: "length e \<le> n * 250" and lt: "i < n \<Longrightarrow> i * 250 < length e" for i
  proof -
    have len: "length e = length e div 250 * 250 + length e mod 250" and m: "length e mod 250 < 250"
      by simp_all
    show "length e \<le> n * 250"
    proof (cases "length e mod 250 = 0")
      case True
      then show ?thesis
        using len by (simp add: n_def)
    next
      case False
      then have "n = Suc (length e div 250)"
        by (simp add: n_def)
      then show ?thesis
        using len m by simp
    qed
    show "i * 250 < length e" if "i < n"
    proof (cases "length e mod 250 = 0")
      case True
      then show ?thesis
        using that len by (simp add: n_def)
    next
      case False
      then have "i * 250 \<le> length e div 250 * 250"
        using that by (simp add: n_def)
      then show ?thesis
        using False len by linarith
    qed
  qed
  have "piece i \<noteq> []" if "i < n" for i
    using lt [OF that] by (simp add: piece_def)
  then have "rmap (\<lambda>i. let piece = take 250 (drop (i * 250) e) in assert_that (length piece \<noteq> 0) (Inr piece)) [0..<n] = Inr (map piece [0..<n])"
    by (intro rmap_Inr_map) (auto simp: piece_def [symmetric] Let_def)
  moreover have "concat (map piece [0..<k]) = take (k * 250) e" for k
  proof (induction k)
    case (Suc k)
    then show ?case
      using take_add [of "k * 250" 250 e] by (simp add: piece_def add.commute)
  qed simp
  moreover have "zf_pieces e = rmap (\<lambda>i. let piece = take 250 (drop (i * 250) e) in assert_that (length piece \<noteq> 0) (Inr piece)) [0..<n]"
    by (simp only: zf_pieces_def n_def Let_def)
  ultimately show ?thesis
    using le by simp
qed

text \<open>The leaf name and the domain of a subdomain name, and its first component.\<close>

lemma strip_newline_append: "t \<noteq> [] \<Longrightarrow> strip_newline (s @ t) = s @ strip_newline t"
  by (simp add: strip_newline_def butlast_append)

lemma fqn_split:
  assumes "is_subdomain fqn" and "is_name_valid (VStr domain)" and "endswith fqn (CHR ''.'' # domain)"
  shows "\<exists>sub dom. is_address_subdomain fqn = (True, Some (sub, dom)) \<and> CHR ''.'' \<notin> set sub \<and> fqn = sub @ ''.'' @ domain"
proof -
  obtain sub dom where sub: "match_subdomain fqn = Some (sub, dom)" "is_address_subdomain fqn = (True, Some (sub, dom))"
    and two: "count_char CHR ''.'' fqn = 2"
    using assms(1) by (auto simp: is_subdomain_def is_address_subdomain_def split: if_splits option.splits)
  define pre where "pre = take (length fqn - length (CHR ''.'' # domain)) fqn"
  have fqn: "fqn = pre @ CHR ''.'' # domain"
    using assms(3) by (simp add: endswith_def pre_def) (metis append_take_drop_id)
  have one: "length (filter ((=) CHR ''.'') domain) = 1"
    using assms(2) by (simp add: is_name_valid_def count_char_def split: if_split_asm)
  have "length (filter ((=) CHR ''.'') (pre @ CHR ''.'' # domain)) = 2"
    using two unfolding count_char_def by (subst (asm) fqn)
  then have "length (filter ((=) CHR ''.'') pre) = 0"
    using one by simp
  then have pre: "CHR ''.'' \<notin> set pre"
    by (auto simp: filter_empty_conv)
  have "domain \<noteq> []"
    using one by (cases domain) simp_all
  then have "strip_newline (pre @ CHR ''.'' # domain) = pre @ CHR ''.'' # strip_newline domain"
    using strip_newline_append [of "CHR ''.'' # domain" pre] strip_newline_append [of domain "''.''"] by simp
  then have "split_on CHR ''.'' (strip_newline fqn) = pre # split_on CHR ''.'' (strip_newline domain)"
    using split_on_join [OF pre] by (subst fqn) (simp only:)
  then have "sub = pre"
    using sub(1) by (auto simp: match_subdomain_def split: list.splits if_splits)
  then show ?thesis
    using sub(2) pre fqn by auto
qed

definition zf_entries :: "string list \<Rightarrow> (string \<times> string) list" where
  "zf_entries pieces = map (\<lambda>(i, piece). (''zf'' @ str_of_int (int i), piece)) (enumerate 0 pieces)"

definition record_entries :: "subdomain \<Rightarrow> string \<Rightarrow> string list \<Rightarrow> (string \<times> string) list" where
  "record_entries s sig pieces = [(''owner'', sd_address s), (''seqn'', str_of_int (sd_n s)), (''parts'', str_of_int (int (length pieces)))] @
     zf_entries pieces @ [(''sig'', sig)]"

lemma str_of_int_inject: "str_of_int i = str_of_int j \<longleftrightarrow> i = j"
  by (metis int_of_str_of_int sum.inject(2))

lemma str_of_int_no_equals: "0 \<le> i \<Longrightarrow> CHR ''='' \<notin> set (str_of_int i)"
proof -
  assume "0 \<le> i"
  then have "nat_of_str (str_of_int i) = Some (nat i)"
    by (simp add: str_of_int_def)
  then have "list_all (\<lambda>c. decval c \<noteq> None) (str_of_int i)"
    by (auto simp: nat_of_str_def split: if_splits)
  then have "\<forall>c \<in> set (str_of_int i). decval c \<noteq> None"
    unfolding list_all_iff .
  moreover have "decval CHR ''='' = None"
    by code_simp
  ultimately show ?thesis
    by blast
qed

lemma zf_entries_keys: "map fst (zf_entries pieces) = map (\<lambda>i. ''zf'' @ str_of_int (int i)) [0..<length pieces]"
  by (rule nth_equalityI) (simp_all add: zf_entries_def enumerate_eq_zip split_beta)

lemma record_entries_ok:
  shows "distinct (map fst (record_entries s sig pieces))" and "\<forall>(k, v) \<in> set (record_entries s sig pieces). CHR ''='' \<notin> set k"
proof -
  have "distinct (map fst (zf_entries pieces))"
    by (simp add: zf_entries_keys distinct_map inj_on_def str_of_int_inject)
  moreover have "k \<in> fst ` set (zf_entries pieces) \<Longrightarrow> \<exists>i. k = ''zf'' @ str_of_int (int i)" for k
    using arg_cong [OF zf_entries_keys, of set pieces] by auto
  ultimately show "distinct (map fst (record_entries s sig pieces))"
    by (fastforce simp: record_entries_def)
  show "\<forall>(k, v) \<in> set (record_entries s sig pieces). CHR ''='' \<notin> set k"
    using str_of_int_no_equals by (auto simp: record_entries_def zf_entries_def)
qed

lemma serialized:
  assumes "is_subdomain (sd_fqn s)" and "is_name_valid (VStr (sd_domain s))" and "sd_sig s = Some sig"
  shows "\<exists>name pieces. serialize_to_txt s = Inr \<lparr>rr_name = name, rr_txt = Inr (map (\<lambda>(k, v). txt_encode_key_value k v) (record_entries s sig pieces))\<rparr> \<and>
    concat pieces = b64encode (sd_zonefile_str s) \<and>
    (name = sd_fqn s \<or> CHR ''.'' \<notin> set name \<and> name @ ''.'' @ sd_domain s = sd_fqn s)"
proof -
  obtain pieces where pieces: "zf_pieces (b64encode (sd_zonefile_str s)) = Inr pieces" "concat pieces = b64encode (sd_zonefile_str s)"
    using zf_pieces_concat by blast
  obtain name where name: "(if independent s then Inr (sd_fqn s)
      else case snd (is_address_subdomain (sd_fqn s)) of Some (subdomain_name, _) \<Rightarrow> Inr subdomain_name | None \<Rightarrow> Inl TypeError) = Inr name"
    "name = sd_fqn s \<or> CHR ''.'' \<notin> set name \<and> name @ ''.'' @ sd_domain s = sd_fqn s"
  proof (cases "independent s")
    case False
    then obtain sub dom where "is_address_subdomain (sd_fqn s) = (True, Some (sub, dom))" "CHR ''.'' \<notin> set sub" "sd_fqn s = sub @ ''.'' @ sd_domain s"
      using fqn_split [OF assms(1,2)] by (auto simp: independent_def)
    with False show ?thesis
      by (intro that [of sub]) simp_all
  qed (use that in simp)
  have "map (\<lambda>(i, piece). txt_encode_key_value (''zf'' @ str_of_int (int i)) piece) (enumerate 0 pieces) =
      map (\<lambda>(k, v). txt_encode_key_value k v) (zf_entries pieces)"
    by (simp add: zf_entries_def comp_def split_beta)
  then have "serialize_to_txt s = Inr \<lparr>rr_name = name, rr_txt = Inr (map (\<lambda>(k, v). txt_encode_key_value k v) (record_entries s sig pieces))\<rparr>"
    unfolding serialize_to_txt_def pack_subdomain_def name(1) pieces(1) assms(3) by (simp add: record_entries_def)
  with pieces(2) name(2) show ?thesis
    by blast
qed

lemma record_entries_lookup:
  shows "map_of (record_entries s sig pieces) ''owner'' = Some (sd_address s)"
    "map_of (record_entries s sig pieces) ''seqn'' = Some (str_of_int (sd_n s))"
    "map_of (record_entries s sig pieces) ''parts'' = Some (str_of_int (int (length pieces)))"
    "map_of (record_entries s sig pieces) ''sig'' = Some sig"
    "i < length pieces \<Longrightarrow> map_of (record_entries s sig pieces) (''zf'' @ str_of_int (int i)) = Some (pieces ! i)"
proof -
  note found = map_of_is_SomeI [OF record_entries_ok(1)]
  show "map_of (record_entries s sig pieces) ''owner'' = Some (sd_address s)"
    "map_of (record_entries s sig pieces) ''seqn'' = Some (str_of_int (sd_n s))"
    "map_of (record_entries s sig pieces) ''parts'' = Some (str_of_int (int (length pieces)))"
    "map_of (record_entries s sig pieces) ''sig'' = Some sig"
    by (rule found, simp add: record_entries_def)+
  show "map_of (record_entries s sig pieces) (''zf'' @ str_of_int (int i)) = Some (pieces ! i)" if "i < length pieces"
  proof (rule found)
    have "(i, pieces ! i) \<in> set (enumerate 0 pieces)"
      using that by (auto simp: in_set_enumerate_eq)
    then have "(''zf'' @ str_of_int (int i), pieces ! i) \<in> set (zf_entries pieces)"
      unfolding zf_entries_def by force
    then show "(''zf'' @ str_of_int (int i), pieces ! i) \<in> set (record_entries s sig pieces)"
      by (simp add: record_entries_def)
  qed
qed

text \<open>
  C38: A signed subdomain record that is written as a TXT record of its domain's zone file is recognised and
  parsed back to the same record: name, owner, sequence number, zone file and signature come back, however long the zone
  file, and whatever equals signs the fields hold.
\<close>

theorem subdomain_record_roundtrip:
  assumes "is_subdomain (sd_fqn s)" and "is_name_valid (VStr (sd_domain s))" and "sd_sig s = Some sig" and "\<not> sd_accepted s"
  shows "\<exists>rr. serialize_to_txt s = Inr rr \<and> is_subdomain_record rr \<and>
    parse_subdomain_record (sd_domain s) rr (sd_block_height s) (sd_parent_zonefile_hash s) (sd_parent_zonefile_index s)
      (sd_zonefile_offset s) (sd_txid s) (sd_zonefiles_missing s) (sd_resolver s) = Inr s"
proof -
  obtain name pieces where rr: "serialize_to_txt s = Inr \<lparr>rr_name = name, rr_txt = Inr (map (\<lambda>(k, v). txt_encode_key_value k v) (record_entries s sig pieces))\<rparr>"
    and pieces: "concat pieces = b64encode (sd_zonefile_str s)"
    and name: "name = sd_fqn s \<or> CHR ''.'' \<notin> set name \<and> name @ ''.'' @ sd_domain s = sd_fqn s"
    using serialized [OF assms(1-3)] by blast
  define E where "E = record_entries s sig pieces"
  note look = record_entries_lookup [where s = s and sig = sig and pieces = pieces, folded E_def]
  have entries: "txt_entries (map (\<lambda>(k, v). txt_encode_key_value k v) E) [] = Inr E"
    using txt_entries_encoded [of "[]" E] record_entries_ok [of s sig pieces] by (simp add: E_def)
  have "rmap (\<lambda>i. entry E (''zf'' @ str_of_int (int i))) [0..<length pieces] = Inr (map ((!) pieces) [0..<length pieces])"
    by (rule rmap_Inr_map) (use look(5) in \<open>auto simp: entry_def\<close>)
  then have zf: "rmap (\<lambda>i. entry E (''zf'' @ str_of_int (int i))) [0..<nat (int (length pieces))] = Inr pieces"
    by (simp add: map_nth)
  have name': "(if is_subdomain name then Inr name else let subd_name = name @ ''.'' @ sd_domain s in
      if is_name_valid (VStr (sd_domain s)) \<and> is_subdomain subd_name then Inr subd_name else Inl ParseError) = Inr (sd_fqn s)"
  proof (cases "name = sd_fqn s")
    case False
    then have "CHR ''.'' \<notin> set name" "name @ ''.'' @ sd_domain s = sd_fqn s"
      using name by simp_all
    moreover from this(1) have zero: "count_char CHR ''.'' name = 0"
      by simp
    have "\<not> is_subdomain name"
      unfolding is_subdomain_def is_address_subdomain_def zero by simp
    ultimately show ?thesis
      using assms(1,2) by (simp only: Let_def if_False if_True simp_thms)
  qed (use assms(1) in simp)
  have "parse_subdomain_record (sd_domain s) \<lparr>rr_name = name, rr_txt = Inr (map (\<lambda>(k, v). txt_encode_key_value k v) E)\<rparr> (sd_block_height s)
      (sd_parent_zonefile_hash s) (sd_parent_zonefile_index s) (sd_zonefile_offset s) (sd_txid s) (sd_zonefiles_missing s) (sd_resolver s) = Inr s"
    unfolding parse_subdomain_record_def txt_rr.simps sum.case entries rbind_Inr entry_def [of E "''owner''"] entry_def [of E "''seqn''"]
      entry_def [of E "''parts''"] look(1-4) option.case or_parse_error_def int_of_str_of_int zf name' pieces b64_roundtrip init_subdomain_def
    using assms(1,3,4) by simp
  moreover have "is_subdomain_record \<lparr>rr_name = name, rr_txt = Inr (map (\<lambda>(k, v). txt_encode_key_value k v) E)\<rparr>"
    by (simp add: is_subdomain_record_def E_def record_entries_def txt_encode_key_value_def startswith_def)
  ultimately show ?thesis
    using rr unfolding E_def by blast
qed

definition example_subdomain :: subdomain where
  "example_subdomain = \<lparr>sd_fqn = ''bar.foo.id'', sd_domain = ''foo.id'', sd_address = ''1a'', sd_n = 3, sd_zonefile_str = ''x=1'',
     sd_sig = Some ''c2ln'', sd_block_height = 7, sd_parent_zonefile_hash = ''ab'', sd_parent_zonefile_index = 2, sd_zonefile_offset = 0,
     sd_txid = ''cd'', sd_zonefiles_missing = [1], sd_accepted = False, sd_resolver = None\<rparr>"

theorem subdomain_record_roundtrip_witness:
  "\<exists>rr. serialize_to_txt example_subdomain = Inr rr \<and> rr_name rr = ''bar'' \<and>
     parse_subdomain_record ''foo.id'' rr 7 ''ab'' 2 0 ''cd'' [1] None = Inr example_subdomain"
proof -
  have "is_subdomain (sd_fqn example_subdomain)" "is_name_valid (VStr (sd_domain example_subdomain))"
    by code_simp+
  moreover have "sd_sig example_subdomain = Some ''c2ln''" "\<not> sd_accepted example_subdomain"
    by (simp_all add: example_subdomain_def)
  ultimately obtain rr where rr: "serialize_to_txt example_subdomain = Inr rr"
    "parse_subdomain_record ''foo.id'' rr 7 ''ab'' 2 0 ''cd'' [1] None = Inr example_subdomain"
    using subdomain_record_roundtrip [of example_subdomain "''c2ln''"] by (auto simp: example_subdomain_def)
  moreover have "case serialize_to_txt example_subdomain of Inr rr \<Rightarrow> rr_name rr = ''bar'' | Inl _ \<Rightarrow> False"
    by code_simp
  ultimately show ?thesis
    by auto
qed

section \<open>Signatures by several keys\<close>

lemma multisig_loop_True:
  "multisig_loop passed sigs keys = Inr True \<Longrightarrow>
    \<exists>signers. subseq signers keys \<and> list_all2 (\<lambda>sig key. \<exists>s. unhexlify sig = Inr s \<and> passed key (b64encode s)) sigs signers"
proof (induction passed sigs keys rule: multisig_loop.induct)
  case (2 passed cur_sig sigs keys)
  obtain s where "unhexlify cur_sig = Inr s" and
    tried: "(case dropWhile (\<lambda>pubk. \<not> passed pubk (b64encode s)) keys of [] \<Rightarrow> Inr False | _ # keys \<Rightarrow> multisig_loop passed sigs keys) = Inr True"
    using "2.prems" by (auto simp: rbind_eq_Inr)
  moreover then obtain key rest where "dropWhile (\<lambda>pubk. \<not> passed pubk (b64encode s)) keys = key # rest" "multisig_loop passed sigs rest = Inr True"
    by (cases "dropWhile (\<lambda>pubk. \<not> passed pubk (b64encode s)) keys") auto
  ultimately have s: "unhexlify cur_sig = Inr s" "dropWhile (\<lambda>pubk. \<not> passed pubk (b64encode s)) keys = key # rest"
    "multisig_loop passed sigs rest = Inr True"
    by blast+
  then obtain signers where signers: "subseq signers rest"
    "list_all2 (\<lambda>sig key. \<exists>s. unhexlify sig = Inr s \<and> passed key (b64encode s)) sigs signers"
    using "2.IH" by blast
  have "suffix (key # rest) keys"
    using suffix_dropWhile [of "\<lambda>pubk. \<not> passed pubk (b64encode s)" keys] s(2) by simp
  then have "subseq (key # rest) keys"
    by (rule suffix_imp_subseq)
  then have "subseq (key # signers) keys"
    using subseq_Cons2 [OF signers(1)] subseq_order.trans by blast
  moreover have "passed key (b64encode s)"
    using hd_dropWhile [of "\<lambda>pubk. \<not> passed pubk (b64encode s)" keys] s(2) by simp
  ultimately show ?case
    using signers(2) s(1) by (intro exI [of _ "key # signers"]) auto
qed auto

text \<open>
  C39: A signature script that is accepted for an address of several keys holds a redeem script of that
  address, which asks for \<open>m\<close> signatures, and exactly \<open>m\<close> signatures; each of them is a signature of the digest by another key of
  the redeem script, in the order of the keys. With different keys in the script, \<open>m\<close> different keys have signed.
\<close>

theorem multisig_sound:
  assumes "verify_multisig vc lib address hash_hex scriptSig = Inr True"
  shows "\<exists>parts m keys signers. script_parts lib scriptSig = Some parts \<and>
    reencode vc (btc_make_p2sh_address lib (last parts)) = reencode vc address \<and>
    parse_multisig_redeemscript lib (last parts) = Some (m, keys) \<and> int (length signers) = m \<and> subseq signers keys \<and>
    list_all2 (\<lambda>sig key. \<exists>s. unhexlify sig = Inr s \<and> verify_digest lib hash_hex key (b64encode s)) (butlast (tl parts)) signers"
proof -
  obtain parts signer m keys where parts: "script_parts lib scriptSig = Some parts" "reencode vc (btc_make_p2sh_address lib (last parts)) = Inr signer"
    "reencode vc address = Inr signer" "parse_multisig_redeemscript lib (last parts) = Some (m, keys)" "int (length (butlast (tl parts))) = m"
    "multisig_loop (verify_digest lib hash_hex) (butlast (tl parts)) keys = Inr True"
    using assms by (auto simp: verify_multisig_def Let_def rbind_eq_Inr or_value_error_def split: option.split_asm if_split_asm)
  then obtain signers where "subseq signers keys"
    "list_all2 (\<lambda>sig key. \<exists>s. unhexlify sig = Inr s \<and> verify_digest lib hash_hex key (b64encode s)) (butlast (tl parts)) signers"
    using multisig_loop_True by blast
  moreover from this(2) parts(5) have "int (length signers) = m"
    by (simp add: list_all2_lengthD [symmetric])
  moreover have "reencode vc (btc_make_p2sh_address lib (last parts)) = reencode vc address"
    using parts(2,3) by simp
  ultimately show ?thesis
    using parts(1,4) by blast
qed

definition example_signatures :: signature_lib where
  "example_signatures = \<lparr>script_parts = (\<lambda>_. Some [''00'', ''6162'', ''6364'', ''redeem'']), b58check_version_byte = (\<lambda>_. Some 5),
     multisig_version_byte = 5, public_key_to_address = (\<lambda>k. k), btc_make_p2sh_address = (\<lambda>s. s),
     parse_multisig_redeemscript = (\<lambda>_. Some (2, [''k0'', ''k1'', ''k2''])),
     verify_digest = (\<lambda>_ key sig. key = ''k0'' \<and> sig = b64encode ''ab'' \<or> key = ''k2'' \<and> sig = b64encode ''cd'')\<rparr>"

theorem multisig_sound_witness:
  "verify_multisig (example_vc\<lparr>address_reencode := Some\<rparr>) example_signatures ''redeem'' ''00'' [] = Inr True \<and>
    (\<exists>signers. length signers = 2 \<and> subseq signers [''k0'', ''k1'', ''k2''])"
proof -
  have v: "verify_multisig (example_vc\<lparr>address_reencode := Some\<rparr>) example_signatures ''redeem'' ''00'' [] = Inr True"
    by code_simp
  from multisig_sound [OF v] have "\<exists>signers. length signers = 2 \<and> subseq signers [''k0'', ''k1'', ''k2'']"
    by (auto simp: example_signatures_def)
  with v show ?thesis by blast
qed

end
