(* ===== verification/Storage.thy ===== *)
theory Storage
  imports VirtualchainApi PyString
begin

text \<open>
  The zone file store (\<open>lib/storage/auth.py\<close> and \<open>lib/storage/crawl.py\<close>): zone files are kept on disk
  under their hash. The disk is a map from paths to contents. Writing is taken to succeed, and
  directories are not modelled.
\<close>

type_synonym disk = "string \<rightharpoonup> string"

section \<open>Hashes and paths\<close>

definition get_zonefile_data_hash :: "virtualchain \<Rightarrow> string \<Rightarrow> string" where
  "get_zonefile_data_hash vc data_txt = hex_hash160 vc data_txt"

definition verify_zonefile :: "virtualchain \<Rightarrow> string \<Rightarrow> string \<Rightarrow> bool" where
  "verify_zonefile vc zonefile_str value_hash = (get_zonefile_data_hash vc zonefile_str = value_hash)"

text \<open>\<open>os.path.join(a, b)\<close> and \<open>[s[i:i+2] for i in xrange(0, len(s), 2)]\<close>.\<close>

definition path_join :: "string \<Rightarrow> string \<Rightarrow> string" where
  "path_join a b = (if take 1 b = ''/'' then b else if a = [] \<or> last a = CHR ''/'' then a @ b else a @ ''/'' @ b)"

fun pairs :: "string \<Rightarrow> string list" where
  "pairs (c # d # s) = [c, d] # pairs s"
| "pairs [c] = [[c]]"
| "pairs [] = []"

text \<open>At most four characters of the hash name directories: those at 0, 2 below the minimum of 4 and the length.\<close>

definition atlas_zonefile_path :: "string \<Rightarrow> string \<Rightarrow> string" where
  "atlas_zonefile_path zonefile_dir zonefile_hash =
    path_join (path_join zonefile_dir (join_with ''/'' (take 2 (pairs zonefile_hash)))) (zonefile_hash @ ''.txt'')"

definition atlas_zonefile_path_legacy :: "string \<Rightarrow> string \<Rightarrow> string" where
  "atlas_zonefile_path_legacy zonefile_dir zonefile_hash =
    path_join (path_join zonefile_dir (join_with ''/'' (pairs zonefile_hash))) ''zonefile.txt''"

section \<open>Reading and writing\<close>

definition read_atlas_zonefile :: "virtualchain \<Rightarrow> disk \<Rightarrow> string \<Rightarrow> string option \<Rightarrow> string option" where
  "read_atlas_zonefile vc fs zonefile_path zonefile_hash = (case fs zonefile_path of
     None \<Rightarrow> None
   | Some data \<Rightarrow> (case zonefile_hash of
       Some h \<Rightarrow> if verify_zonefile vc data h then Some data else None
     | None \<Rightarrow> Some data))"

text \<open>A file that is missing, corrupt or empty is passed over.\<close>

definition get_atlas_zonefile_data :: "virtualchain \<Rightarrow> disk \<Rightarrow> string \<Rightarrow> string \<Rightarrow> bool \<Rightarrow> string option" where
  "get_atlas_zonefile_data vc fs zonefile_hash zonefile_dir check =
    (case List.find (\<lambda>res. res \<noteq> None \<and> res \<noteq> Some [])
            (map (\<lambda>zfp. read_atlas_zonefile vc fs zfp (if check then Some zonefile_hash else None))
              [atlas_zonefile_path zonefile_dir zonefile_hash, atlas_zonefile_path_legacy zonefile_dir zonefile_hash]) of
       Some res \<Rightarrow> res
     | None \<Rightarrow> None)"

definition is_zonefile_cached :: "virtualchain \<Rightarrow> disk \<Rightarrow> string \<Rightarrow> string \<Rightarrow> bool \<Rightarrow> bool" where
  "is_zonefile_cached vc fs zonefile_hash zonefile_dir validate =
    list_ex (\<lambda>zfp. fs zfp \<noteq> None \<and> (validate \<longrightarrow>
        (case read_atlas_zonefile vc fs zfp (Some zonefile_hash) of None \<Rightarrow> False | Some data \<Rightarrow> data \<noteq> [])))
      [atlas_zonefile_path zonefile_dir zonefile_hash, atlas_zonefile_path_legacy zonefile_dir zonefile_hash]"

definition store_atlas_zonefile_data :: "virtualchain \<Rightarrow> disk \<Rightarrow> string \<Rightarrow> string \<Rightarrow> disk" where
  "store_atlas_zonefile_data vc fs zonefile_data zonefile_dir =
    (let zonefile_path = atlas_zonefile_path zonefile_dir (get_zonefile_data_hash vc zonefile_data) in
     if fs zonefile_path \<noteq> None then fs else fs(zonefile_path \<mapsto> zonefile_data))"

text \<open>Both rounds of the loop test and remove the path of the current format; a file of the legacy format stays.\<close>

definition remove_atlas_zonefile_data :: "disk \<Rightarrow> string \<Rightarrow> string \<Rightarrow> disk" where
  "remove_atlas_zonefile_data fs zonefile_hash zonefile_dir =
    foldl (\<lambda>fs zfp. if fs (atlas_zonefile_path zonefile_dir zonefile_hash) = None then fs
                    else fs(atlas_zonefile_path zonefile_dir zonefile_hash := None)) fs
      [atlas_zonefile_path zonefile_dir zonefile_hash, atlas_zonefile_path_legacy zonefile_dir zonefile_hash]"

section \<open>The store as a map from hashes to zone files\<close>

text \<open>
  What a client relies on: under a hash only data of that hash are found, storing makes the data
  available under their hash, and what was available stays so. The invariant of the disk says that a file of
  the current format holds data of its hash (storing does not repair a corrupt file) and that
  hashes hold no slash. Empty data cannot be fetched.
\<close>

definition disk_ok :: "virtualchain \<Rightarrow> string \<Rightarrow> disk \<Rightarrow> bool" where
  "disk_ok vc dir fs \<longleftrightarrow> (\<forall>d. CHR ''/'' \<notin> set (get_zonefile_data_hash vc d)) \<and>
     (\<forall>d x. fs (atlas_zonefile_path dir (get_zonefile_data_hash vc d)) = Some x \<longrightarrow>
        get_zonefile_data_hash vc x = get_zonefile_data_hash vc d)"

locale zonefile_store =
  fixes hash :: "string \<Rightarrow> string" and ok :: "'s \<Rightarrow> bool"
    and get :: "'s \<Rightarrow> string \<Rightarrow> string option" and put :: "'s \<Rightarrow> string \<Rightarrow> 's"
  assumes get_hash: "get s h = Some d \<Longrightarrow> hash d = h"
    and get_put: "ok s \<Longrightarrow> hash d \<noteq> hash [] \<Longrightarrow> get (put s d) (hash d) \<noteq> None"
    and get_mono: "get s h \<noteq> None \<Longrightarrow> get (put s d) h \<noteq> None"
    and put_ok: "ok s \<Longrightarrow> ok (put s d)"
begin

lemma get_mono_all: "get s h \<noteq> None \<Longrightarrow> get (foldl put s ds) h \<noteq> None"
  by (induction ds arbitrary: s) (use get_mono in auto)

lemma put_all_ok: "ok s \<Longrightarrow> ok (foldl put s ds)"
  by (induction ds arbitrary: s) (simp_all add: put_ok)

lemma get_put_all_found:
  assumes "ok s" and "d \<in> set ds" and "hash d \<noteq> hash []"
  shows "get (foldl put s ds) (hash d) \<noteq> None"
proof -
  obtain before after where ds: "ds = before @ d # after"
    using assms(2) by (meson split_list)
  have "get (put (foldl put s before) d) (hash d) \<noteq> None"
    by (rule get_put [OF put_all_ok [OF assms(1)] assms(3)])
  then show ?thesis
    by (simp add: ds get_mono_all)
qed

text \<open>Unless two zone files have one hash, the data fetched are the data stored.\<close>

lemma get_put_all:
  assumes "ok s" and "d \<in> set ds" and "d \<noteq> []" and "\<And>d'. hash d' = hash d \<Longrightarrow> d' = d"
  shows "get (foldl put s ds) (hash d) = Some d"
proof -
  have "hash d \<noteq> hash []"
    using assms(3,4) by metis
  then show ?thesis
    using get_put_all_found [OF assms(1,2)] assms(4) get_hash by fastforce
qed

end

lemma last_component:
  assumes "CHR ''/'' \<notin> set b"
  shows "rev (takeWhile (\<lambda>c. c \<noteq> CHR ''/'') (rev (path_join a b))) = b"
proof -
  have "takeWhile (\<lambda>c. c \<noteq> CHR ''/'') (rev b @ r) = rev b @ takeWhile (\<lambda>c. c \<noteq> CHR ''/'') r" for r
    using assms by (intro takeWhile_append2) auto
  moreover have "a = [] \<or> last a = CHR ''/'' \<Longrightarrow> takeWhile (\<lambda>c. c \<noteq> CHR ''/'') (rev a) = []"
    by (cases a rule: rev_cases) auto
  moreover have "take 1 b \<noteq> ''/''"
    using assms by (cases b) auto
  ultimately show ?thesis
    by (simp add: path_join_def)
qed

lemma zonefile_path_inject:
  assumes "atlas_zonefile_path dir h = atlas_zonefile_path dir h'" and "CHR ''/'' \<notin> set h" and "CHR ''/'' \<notin> set h'"
  shows "h = h'"
proof -
  have last: "rev (takeWhile (\<lambda>c. c \<noteq> CHR ''/'') (rev (atlas_zonefile_path dir g))) = g @ ''.txt''" if "CHR ''/'' \<notin> set g" for g
    unfolding atlas_zonefile_path_def by (rule last_component) (use that in simp)
  have "h @ ''.txt'' = h' @ ''.txt''"
    using last [OF assms(2)] last [OF assms(3)] assms(1) by (simp only:)
  then show ?thesis
    by simp
qed

lemma zonefile_found:
  "get_atlas_zonefile_data vc fs h dir True \<noteq> None \<longleftrightarrow>
     (\<exists>p \<in> {atlas_zonefile_path dir h, atlas_zonefile_path_legacy dir h}. \<exists>x. fs p = Some x \<and> x \<noteq> [] \<and>
        get_zonefile_data_hash vc x = h)"
  by (auto simp: get_atlas_zonefile_data_def read_atlas_zonefile_def verify_zonefile_def split: option.split if_split_asm)

lemma store_cases:
  "store_atlas_zonefile_data vc fs d dir p = fs p \<and> (p = atlas_zonefile_path dir (get_zonefile_data_hash vc d) \<longrightarrow> fs p \<noteq> None) \<or>
   fs p = None \<and> p = atlas_zonefile_path dir (get_zonefile_data_hash vc d) \<and> store_atlas_zonefile_data vc fs d dir p = Some d"
  by (auto simp: store_atlas_zonefile_data_def Let_def)

interpretation zonefiles: zonefile_store "get_zonefile_data_hash vc" "disk_ok vc dir"
  "\<lambda>fs h. get_atlas_zonefile_data vc fs h dir True" "\<lambda>fs d. store_atlas_zonefile_data vc fs d dir" for vc dir
proof
  show "get_zonefile_data_hash vc d = h" if "get_atlas_zonefile_data vc s h dir True = Some d" for s h d
    using that by (auto simp: get_atlas_zonefile_data_def read_atlas_zonefile_def verify_zonefile_def
        split: option.split_asm if_split_asm)
  show "get_atlas_zonefile_data vc (store_atlas_zonefile_data vc s d dir) (get_zonefile_data_hash vc d) dir True \<noteq> None"
    if "disk_ok vc dir s" "get_zonefile_data_hash vc d \<noteq> get_zonefile_data_hash vc []" for s d
    using that store_cases [of vc s d dir "atlas_zonefile_path dir (get_zonefile_data_hash vc d)"]
    unfolding zonefile_found disk_ok_def by (cases "s (atlas_zonefile_path dir (get_zonefile_data_hash vc d))") fastforce+
  show "get_atlas_zonefile_data vc (store_atlas_zonefile_data vc s d dir) h dir True \<noteq> None"
    if "get_atlas_zonefile_data vc s h dir True \<noteq> None" for s h d
    using that store_cases [of vc s d dir] unfolding zonefile_found by (metis option.distinct(1))
  show "disk_ok vc dir (store_atlas_zonefile_data vc s d dir)" if "disk_ok vc dir s" for s d
    using that store_cases [of vc s d dir] zonefile_path_inject [of dir] unfolding disk_ok_def by (metis option.inject)
qed

end
