(* ===== verification/Queue.thy ===== *)
theory Queue
  imports Prelude PyString
begin

text \<open>
  The queues kept in a database table (\<open>lib/queue.py\<close>), which pass newly found zone files to the
  subdomain index. The rows are in the order of their row ids, which is the order of insertion. The
  names are hashes; that the type of the column turns a name that reads as a number into a number is
  not modelled.
\<close>

record queue_row =
  q_name :: string
  q_queue_id :: string
  q_data :: string

section \<open>Operations\<close>

text \<open>
  The condition on the name is appended to the statement after \<open>ORDER BY\<close>, and an offset without a
  limit after no limit; both are syntax errors, on which the query aborts the node. A negative limit
  is none, a negative offset is zero.
\<close>

definition queuedb_findall :: "queue_row list \<Rightarrow> string \<Rightarrow> string option \<Rightarrow> int \<Rightarrow> int \<Rightarrow> queue_row list res" where
  "queuedb_findall rows queue_id name offset limit =
    (if name \<noteq> None \<and> name \<noteq> Some [] \<or> offset \<noteq> 0 \<and> limit = 0 then Inl Abort
     else
       let found = drop (nat offset) (filter (\<lambda>r. q_queue_id r = queue_id) rows)
       in Inr (if limit > 0 then take (nat limit) found else found))"

definition queuedb_find :: "queue_row list \<Rightarrow> string \<Rightarrow> string \<Rightarrow> int \<Rightarrow> int \<Rightarrow> queue_row list res" where
  "queuedb_find rows queue_id name offset limit = queuedb_findall rows queue_id (Some name) offset limit"

definition queuedb_append :: "queue_row list \<Rightarrow> string \<Rightarrow> string \<Rightarrow> string \<Rightarrow> queue_row list" where
  "queuedb_append rows queue_id name data = rows @ [\<lparr>q_name = name, q_queue_id = queue_id, q_data = data\<rparr>]"

definition queuedb_remove :: "queue_row list \<Rightarrow> queue_row \<Rightarrow> queue_row list" where
  "queuedb_remove rows entry = filter (\<lambda>r. \<not> (q_queue_id r = q_queue_id entry \<and> q_name r = q_name entry)) rows"

definition queuedb_removeall :: "queue_row list \<Rightarrow> queue_row list \<Rightarrow> queue_row list" where
  "queuedb_removeall rows entries = foldl queuedb_remove rows entries"

definition queuedb_peek :: "queue_row list \<Rightarrow> string \<Rightarrow> string \<Rightarrow> queue_row list res" where
  "queuedb_peek rows queue_id name = queuedb_find rows queue_id name 0 1"

text \<open>The pages of 100 entries that the subdomain index reads, until a page is empty or it has 1000 entries.\<close>

function queued_zonefiles :: "queue_row list \<Rightarrow> int \<Rightarrow> queue_row list \<Rightarrow> queue_row list res" where
  "queued_zonefiles rows offset all_queued_zfinfos =
    rbind (queuedb_findall rows ''zonefiles'' None offset 100) (\<lambda>queued_zfinfos.
      if queued_zfinfos = [] then Inr all_queued_zfinfos
      else if length (all_queued_zfinfos @ queued_zfinfos) \<ge> 1000 then Inr (all_queued_zfinfos @ queued_zfinfos)
      else queued_zonefiles rows (offset + 100) (all_queued_zfinfos @ queued_zfinfos))"
  by pat_completeness auto
termination
  by (relation "measure (\<lambda>(_, _, all_queued_zfinfos). 1000 - length all_queued_zfinfos)")
    (auto simp flip: length_greater_0_conv)

declare queued_zonefiles.simps [simp del]

section \<open>Properties\<close>

lemma findall_page:
  "queuedb_findall rows q None (int i) 100 = Inr (take 100 (drop i (filter (\<lambda>r. q_queue_id r = q) rows)))"
  by (simp add: queuedb_findall_def)

lemma queued_zonefiles_pages:
  assumes "k \<le> 10" and "k = 10 \<Longrightarrow> length (filter (\<lambda>r. q_queue_id r = ''zonefiles'') rows) < 1000"
  shows "queued_zonefiles rows (int (100 * k)) (take (100 * k) (filter (\<lambda>r. q_queue_id r = ''zonefiles'') rows)) =
    Inr (take 1000 (filter (\<lambda>r. q_queue_id r = ''zonefiles'') rows))"
  using assms
proof (induction "10 - k" arbitrary: k)
  case (0 k)
  then show ?case
    by (subst queued_zonefiles.simps) (simp add: queuedb_findall_def)
next
  case (Suc j k)
  define entries where "entries = filter (\<lambda>r. q_queue_id r = ''zonefiles'') rows"
  define page where "page = take 100 (drop (100 * k) entries)"
  have all: "take (100 * k) entries @ page = take (100 * Suc k) entries"
    by (simp add: page_def take_add [symmetric] add.commute)
  have "queued_zonefiles rows (int (100 * k)) (take (100 * k) entries) =
    (if page = [] then Inr (take (100 * k) entries) else if length (take (100 * Suc k) entries) \<ge> 1000
     then Inr (take (100 * Suc k) entries) else queued_zonefiles rows (int (100 * Suc k)) (take (100 * Suc k) entries))"
    unfolding all [symmetric]
    by (subst queued_zonefiles.simps) (simp add: findall_page [of _ _ "100 * k", simplified] page_def entries_def add.commute)
  moreover have "queued_zonefiles rows (int (100 * Suc k)) (take (100 * Suc k) entries) = Inr (take 1000 entries)"
    if "length (take (100 * Suc k) entries) < 1000"
    using Suc.hyps that unfolding entries_def by (intro Suc.hyps(1)) auto
  moreover have "take (100 * k) entries = take 1000 entries" if "page = []"
    using that Suc.prems(1) by (simp add: page_def)
  moreover have "take (100 * Suc k) entries = take 1000 entries" if "length (take (100 * Suc k) entries) \<ge> 1000"
    using that Suc.hyps(2) Suc.prems(1) by (cases "k = 9") auto
  ultimately show ?case
    unfolding entries_def [symmetric] by (simp only: not_le) (cases "page = []"; auto simp: not_le)
qed

text \<open>What removing a list of entries leaves: everything that shares its name with none of them.\<close>

lemma removeall_left:
  "queuedb_removeall rows entries =
    filter (\<lambda>r. \<forall>e \<in> set entries. \<not> (q_queue_id r = q_queue_id e \<and> q_name r = q_name e)) rows"
  by (induction entries arbitrary: rows) (auto simp: queuedb_removeall_def queuedb_remove_def intro: filter_cong)

lemma drop_distinct:
  assumes "distinct (map f xs)"
  shows "filter (\<lambda>x. \<forall>e \<in> set (take n xs). f x \<noteq> f e) xs = drop n xs"
proof -
  have "distinct (map f (take n xs @ drop n xs))"
    using assms by simp
  then have apart: "f x \<noteq> f e" if "e \<in> set (take n xs)" "x \<in> set (drop n xs)" for e x
    using that by (auto simp: disjoint_iff simp del: append_take_drop_id)
  have "filter (\<lambda>x. \<forall>e \<in> set (take n xs). f x \<noteq> f e) (take n xs) = []"
    by (auto simp: filter_empty_conv)
  moreover have "filter (\<lambda>x. \<forall>e \<in> set (take n xs). f x \<noteq> f e) (drop n xs) = drop n xs"
    using apart by (auto simp: filter_id_conv)
  ultimately show ?thesis
    using filter_append [of "\<lambda>x. \<forall>e \<in> set (take n xs). f x \<noteq> f e" "take n xs" "drop n xs"] by simp
qed

text \<open>
  C40: Draining the queue of zone files ends and works in the order of arrival: the pages that are read give
  the first 1000 entries of the queue, and when the entries have different names, removing
  them leaves exactly the later entries, in order, and the other queues as they were.
\<close>

theorem queue_drained:
  assumes "distinct (map q_name (filter (\<lambda>r. q_queue_id r = ''zonefiles'') rows))"
  shows "\<exists>entries. queued_zonefiles rows 0 [] = Inr entries \<and>
    entries = take 1000 (filter (\<lambda>r. q_queue_id r = ''zonefiles'') rows) \<and>
    filter (\<lambda>r. q_queue_id r = ''zonefiles'') (queuedb_removeall rows entries) =
      drop 1000 (filter (\<lambda>r. q_queue_id r = ''zonefiles'') rows) \<and>
    filter (\<lambda>r. q_queue_id r \<noteq> ''zonefiles'') (queuedb_removeall rows entries) = filter (\<lambda>r. q_queue_id r \<noteq> ''zonefiles'') rows"
proof -
  define zonefiles where "zonefiles = filter (\<lambda>r. q_queue_id r = ''zonefiles'') rows"
  define entries where "entries = take 1000 zonefiles"
  have q: "q_queue_id e = ''zonefiles''" if "e \<in> set entries" for e
    using set_take_subset [of 1000 zonefiles] that by (auto simp: entries_def zonefiles_def)
  have "queued_zonefiles rows 0 [] = Inr entries"
    using queued_zonefiles_pages [of 0 rows] by (simp add: entries_def zonefiles_def)
  moreover have "filter (\<lambda>r. q_queue_id r = ''zonefiles'') (queuedb_removeall rows entries) =
      filter (\<lambda>r. \<forall>e \<in> set entries. q_name r \<noteq> q_name e) zonefiles"
    unfolding removeall_left zonefiles_def filter_filter by (rule filter_cong) (use q in auto)
  moreover have "\<dots> = drop 1000 zonefiles"
    unfolding entries_def by (rule drop_distinct) (use assms in \<open>simp add: zonefiles_def\<close>)
  moreover have "filter (\<lambda>r. q_queue_id r \<noteq> ''zonefiles'') (queuedb_removeall rows entries) = filter (\<lambda>r. q_queue_id r \<noteq> ''zonefiles'') rows"
    unfolding removeall_left filter_filter by (rule filter_cong) (auto dest: q)
  ultimately show ?thesis
    unfolding zonefiles_def [symmetric] entries_def by simp
qed

theorem queue_drained_witness:
  "\<exists>entries rows. rows = queuedb_append (queuedb_append (queuedb_append [] ''zonefiles'' ''aa'' ''1'') ''other'' ''aa'' ''2'') ''zonefiles'' ''bb'' ''3'' \<and>
     queued_zonefiles rows 0 [] = Inr entries \<and> map q_data entries = [''1'', ''3''] \<and> map q_data (queuedb_removeall rows entries) = [''2'']"
proof -
  define rows where "rows = queuedb_append (queuedb_append (queuedb_append [] ''zonefiles'' ''aa'' ''1'') ''other'' ''aa'' ''2'') ''zonefiles'' ''bb'' ''3''"
  have "distinct (map q_name (filter (\<lambda>r. q_queue_id r = ''zonefiles'') rows))"
    by (simp add: rows_def queuedb_append_def)
  from queue_drained [OF this] have "queued_zonefiles rows 0 [] = Inr (take 1000 (filter (\<lambda>r. q_queue_id r = ''zonefiles'') rows))"
    by auto
  then show ?thesis
    by (intro exI [of _ "take 1000 (filter (\<lambda>r. q_queue_id r = ''zonefiles'') rows)"] exI [of _ rows] conjI)
      (simp_all add: rows_def queuedb_append_def queuedb_removeall_def queuedb_remove_def)
qed

text \<open>Looking an entry up by its name aborts the node, whatever the queue holds.\<close>

lemma queue_lookup_aborts:
  "name \<noteq> [] \<Longrightarrow> queuedb_find rows queue_id name offset limit = Inl Abort \<and> queuedb_peek rows queue_id name = Inl Abort"
  by (simp add: queuedb_find_def queuedb_peek_def queuedb_findall_def)

end
