(* ===== verification/Spec2Isabelle.thy ===== *)
theory Spec2Isabelle
  imports Effects Vesting Subdomains Storage Queue
begin

text \<open>
  A verification development of the Blockstack name system node, \<open>src/legacy/blockstack/\<close> (Python 2).
  Paths below are relative to \<open>src/legacy/blockstack/lib/\<close>.

  \<^bold>\<open>The program.\<close> Names, namespaces and token accounts are kept in a database that every node derives from a
  blockchain. The package \<open>virtualchain\<close> reads blocks and calls the hooks of the node
  (\<open>nameset/virtualchain_hooks.py\<close>): a transaction is parsed into an operation, the operations of a block are
  scanned for collisions, and each is checked and, if it is accepted, committed; then the block is saved. The
  operations (\<open>operations/\<close>) check themselves against the state engine (class \<open>BlockstackDB\<close>,
  \<open>nameset/namedb.py\<close>), whose queries and statements are in \<open>nameset/db.py\<close>. Rules depend on the block: the
  epochs of \<open>config.py\<close> fix prices, currencies, lifetimes and features. Names and addresses have their own codecs
  (\<open>b40.py\<close>, \<open>c32.py\<close>, \<open>hashing.py\<close>). A name carries the hash of a zone file; zone files are kept on disk
  (\<open>storage/\<close>) and can hold records of subdomains (\<open>subdomains.py\<close>), which are indexed off the chain as zone
  files are discovered (\<open>queue.py\<close>).

  \<^bold>\<open>Representation.\<close> A Python string is a \<open>string\<close> of bytes, an unbounded integer an \<open>int\<close>, a dictionary
  an association list (\<open>pydict\<close>) of dynamically typed values (\<open>pyval\<close>). A function that can raise returns
  \<open>pyerr + 'a\<close>; \<open>os.abort()\<close> is the error \<open>Abort\<close>. A database table is the list of its rows in the order of
  insertion. The state engine is a record that the methods take and return. What belongs to other packages
  is a record of functions: \<open>virtualchain\<close> (theory VirtualchainApi; hashes, address and script
  conversions, key derivation) and \<open>signature_lib\<close> (theory Subdomains); a theorem that relies on one of these functions
  says so in a hypothesis.

  \<^bold>\<open>Theories.\<close>

    \<^item> Prelude, PyString: values, dictionaries, results, strings and positional numerals, with the simplifier
      collections \<open>res_simps\<close> and \<open>dict_simps\<close> and the rules \<open>post_intros\<close> for postconditions of
      results. Locale \<open>kv_store\<close>: dictionaries obey the laws of a store.
    \<^item> Sha256, Base64, Floats: \<open>hashlib.sha256\<close>, \<open>base64\<close> and IEEE double rounding, as the sources
      use them. Locale \<open>digest32\<close>.
    \<^item> B40 (\<open>b40.py\<close>, \<open>hashing.py\<close>) and C32 (\<open>c32.py\<close>): the codecs and their round trips, over the locale
      \<open>charset\<close> for both character sets of base 40 and base 16; \<open>hash_name\<close> ignores leading zeros.
    \<^item> Config (\<open>config.py\<close>): constants, epochs and their getters, opcodes and the graph of operation sequences.
      Locale \<open>epoch_table\<close>: every height has exactly one epoch and epochs never go back.
    \<^item> Scripts (\<open>scripts.py\<close>, patterns of \<open>schemas.py\<close>): validity of names and namespaces, and prices, in
      floating point before the integer-division epoch and in integers after it.
    \<^item> Accounts (\<open>nameset/db.py\<close>, token accounts): debits, credits, vesting and genesis; locale \<open>ledger\<close>: a
      transfer conserves the sum of balances and overdraws nothing. GenesisPatch and Vesting: patches of the
      genesis allocation and the cumulative vesting sum.
    \<^item> NameDB, Nameset (\<open>nameset/db.py\<close>, \<open>nameset/namedb.py\<close>, \<open>nameset/__init__.py\<close>): the queries on names,
      namespaces, preorders and histories with expiry and grace periods, the decorators of \<open>check\<close> methods, and the
      detection of collisions (locale \<open>seen_table\<close>).
    \<^item> OpPreorder, OpRegister, OpOwner, OpNamespace, OpToken, OpImport, Operations (\<open>operations/*.py\<close>): extraction,
      parsing, checking and canonicalization of the operations, and their dispatch. The lemmas say what an
      accepted operation has met and which fields it sets; locale \<open>owner_operation\<close> covers what
      transfers, updates, revocations and renewals have in common: strangers are rejected.
    \<^item> Statements, Commit (\<open>nameset/db.py\<close>, \<open>nameset/namedb.py\<close>): INSERT, UPDATE and DELETE with the schema's
      constraints, and the \<open>commit_\<close> methods over them. Hooks (\<open>virtualchain_hooks.py\<close>): the five hooks.
    \<^item> Frames, Blocks, Invariants, Registry, Lifecycle, Effects: properties across components. The locale
      \<open>commit_kept\<close> reduces a property of all hooks to the statements; it is interpreted for the identifiers
      of a block (an identifier is taken at most once), for the database invariant (columns, NOT NULL, keys, no
      overdraft), for the immutability of the past and for the isolation of commits. Runs of hooks are sequences of
      steps of any order, so the invariants do not depend on how \<open>virtualchain\<close> schedules the hooks.
      Lifecycle follows operations from the transaction to the database; Effects states the refinement of the
      registry, a map from names to records, by the statements.
    \<^item> Storage (\<open>storage/auth.py\<close>, \<open>storage/crawl.py\<close>): zone files on disk by hash; locale \<open>zonefile_store\<close>.
      Queue (\<open>queue.py\<close>): the queue of discovered zone files. Subdomains (\<open>subdomains.py\<close>): records of
      subdomains, their text form, their signatures and transitions, and the decoding of zone files.

  \<^bold>\<open>Termination.\<close> No definition uses fuel. Loops are structural recursions over lists or have a measure; the one
  loop of the sources that does not end for some arguments (\<open>int_to_charset\<close> with a set of one
  character) returns the error \<open>Diverges\<close> there.

  \<^bold>\<open>Not modelled.\<close> Input and output: the RPC servers and clients (\<open>blockstackd.py\<close>, \<open>rpc.py\<close>,
  \<open>client.py\<close>), the peer-to-peer network and its database (\<open>atlas.py\<close>), verification through untrusted peers (\<open>snv.py\<close>),
  snapshots and audits (\<open>fast_sync.py\<close>, \<open>audit.py\<close>), configuration files, locks and retries of busy
  database connections. Listings with paging that only the RPC interface uses.
  \<open>namedb_patch_verify\<close>, a self-check after a genesis patch. Foreign keys of the schema: the pragma that turns them
  on runs only in the connection that creates the database. The synchronization of the zone file network at the end
  of \<open>db_save\<close>. The JSON schemas of the RPC protocol and the table of genesis accounts are data. The Rust
  sources of the repository implement another protocol and share no code with the node.
\<close>

end
